(* ===== verification/Prelude.thy ===== *)
theory Prelude
  imports Main "HOL-Library.Word" "HOL-Library.Sublist"
begin

text \<open>
  Shared vocabulary of the development: Go's unsigned integers as words, big-endian byte
  strings (what \<open>encoding/binary\<close> with \<open>binary.BigEndian\<close> produces and consumes), and the
  collections of facts that the component theories feed to the simplifier and the classical
  reasoner.
\<close>

unbundle bit_operations_syntax

section \<open>Machine integers\<close>

type_synonym u8 = "8 word"
type_synonym u16 = "16 word"
type_synonym u32 = "32 word"
type_synonym u64 = "64 word"
type_synonym bytes = "8 word list"

named_theorems go_simps \<open>equations that run a Go operation on a concrete shape of state\<close>
named_theorems writes_intro \<open>rules that compute the bytes an encoder emits\<close>
named_theorems reads_intro \<open>rules that compute what a decoder consumes and returns\<close>
named_theorems enc_defs \<open>the wire formats\<close>

section \<open>Big-endian encoding\<close>

text \<open>
  \<open>be_encode n w\<close> lists the \<open>n\<close> low bytes of \<open>w\<close>, most significant first
  (\<open>b[0] = byte(v >> 56)\<close> and so on); \<open>be_decode\<close> is the \<open>or\<close> of the shifted bytes.
\<close>

primrec be_encode :: "nat \<Rightarrow> 'a::len word \<Rightarrow> bytes" where
  "be_encode 0 w = []"
| "be_encode (Suc n) w = ucast (drop_bit (8 * n) w) # be_encode n w"

definition be_shift :: "'a::len word \<Rightarrow> u8 \<Rightarrow> 'a word" where
  "be_shift acc b = push_bit 8 acc OR ucast b"

definition be_decode :: "bytes \<Rightarrow> 'a::len word" where
  "be_decode bs = foldl be_shift 0 bs"

definition be_bytes :: "'a::len word \<Rightarrow> bytes" where
  "be_bytes w = be_encode (LENGTH('a) div 8) w"

lemma length_be_encode [simp]: "length (be_encode n w) = n"
  by (induction n) simp_all

lemma length_be_bytes [simp]: "length (be_bytes (w :: 'a::len word)) = LENGTH('a) div 8"
  by (simp add: be_bytes_def)

lemma be_encode_0_word [simp]: "be_encode n 0 = replicate n 0"
  by (induction n) simp_all

lemma be_bytes_8 [simp]: "be_bytes (w :: u8) = [w]"
proof -
  have "LENGTH(8) div 8 = Suc 0" by simp
  then show ?thesis by (simp only: be_bytes_def be_encode.simps) simp
qed

lemma bit_u8_bound: "bit (b :: u8) k \<Longrightarrow> k < 8"
  by (drule bit_imp_le_length) simp

lemma bit_be_shift:
  "bit (be_shift acc b :: 'a::len word) k \<longleftrightarrow>
     k < LENGTH('a) \<and> (if k < 8 then bit b k else bit acc (k - 8))"
  by (auto simp: be_shift_def bit_simps dest: bit_u8_bound)

lemma bit_foldl_be_shift:
  "bit (foldl be_shift acc bs :: 'a::len word) k \<longleftrightarrow>
     k < LENGTH('a) \<and>
     (if k < 8 * length bs then bit (rev bs ! (k div 8)) (k mod 8)
      else bit acc (k - 8 * length bs))"
proof (induction bs arbitrary: k rule: rev_induct)
  case Nil
  then show ?case by (auto dest: bit_imp_le_length)
next
  case (snoc b bs)
  show ?case
  proof (cases "k < 8")
    case True
    then show ?thesis by (simp add: bit_be_shift)
  next
    case False
    then obtain j where k: "k = j + 8" by (metis add.commute le_add_diff_inverse not_less)
    have "(j + 8) div 8 = Suc (j div 8)" "(j + 8) mod 8 = j mod 8" by simp_all
    with k snoc.IH [of j] show ?thesis by (auto simp: bit_be_shift)
  qed
qed

lemma be_encode_nth:
  "i < n \<Longrightarrow> rev (be_encode n w) ! i = ucast (drop_bit (8 * i) w)"
  by (induction n) (auto simp: nth_append less_Suc_eq)

lemma be_decode_encode:
  fixes w :: "'a::len word"
  assumes "8 * n = LENGTH('a)"
  shows "be_decode (be_encode n w) = w"
proof (rule bit_word_eqI)
  fix k assume k: "k < LENGTH('a)"
  then have "k div 8 < n" using assms by (simp add: less_mult_imp_div_less mult.commute)
  then have "bit (rev (be_encode n w) ! (k div 8)) (k mod 8) = bit w k"
    by (simp add: be_encode_nth bit_simps)
  with k assms show "bit (be_decode (be_encode n w) :: 'a word) k = bit w k"
    by (simp add: be_decode_def bit_foldl_be_shift)
qed

lemma be_decode_bytes:
  fixes w :: "'a::len word"
  assumes "LENGTH('a) mod 8 = 0"
  shows "be_decode (be_bytes w) = w"
  unfolding be_bytes_def by (rule be_decode_encode) (use assms in auto)

lemma be_decode_bytes_16 [simp]: "be_decode (be_bytes (w :: u16)) = w"
  and be_decode_bytes_32 [simp]: "be_decode (be_bytes (x :: u32)) = x"
  and be_decode_bytes_64 [simp]: "be_decode (be_bytes (y :: u64)) = y"
  and be_decode_bytes_128 [simp]: "be_decode (be_bytes (z :: 128 word)) = z"
  by (rule be_decode_bytes, simp)+

lemma be_decode_1 [simp]: "be_decode [b] = (b :: u8)"
  using be_decode_bytes [of b] by simp

lemma be_encode_decode:
  assumes "8 * length bs = LENGTH('a::len)"
  shows "be_encode (length bs) (be_decode bs :: 'a word) = bs"
proof -
  have "rev (be_encode (length bs) (be_decode bs :: 'a word)) ! i = rev bs ! i"
    if "i < length bs" for i
  proof (rule bit_word_eqI)
    fix k assume "k < LENGTH(8)"
    then have "k < 8" by simp
    moreover have "8 * i + k < 8 * length bs" using that \<open>k < 8\<close> by linarith
    moreover have "(8 * i + k) div 8 = i" "(8 * i + k) mod 8 = k" using \<open>k < 8\<close> by auto
    ultimately show "bit (rev (be_encode (length bs) (be_decode bs :: 'a word)) ! i) k
        = bit (rev bs ! i) k"
      using that assms
      by (simp add: be_encode_nth bit_simps be_decode_def bit_foldl_be_shift)
  qed
  then have "rev (be_encode (length bs) (be_decode bs :: 'a word)) = rev bs"
    by (intro nth_equalityI) simp_all
  then show ?thesis by (simp only: rev_is_rev_conv)
qed

lemma be_bytes_decode:
  "8 * length bs = LENGTH('a::len) \<Longrightarrow> be_bytes (be_decode bs :: 'a word) = bs"
proof -
  assume len: "8 * length bs = LENGTH('a)"
  then have "LENGTH('a) div 8 = length bs" by (metis nonzero_mult_div_cancel_left zero_neq_numeral)
  with be_encode_decode [OF len] show ?thesis by (simp only: be_bytes_def)
qed

lemma be_bytes_inject [simp]:
  "be_bytes (v :: u64) = be_bytes w \<longleftrightarrow> v = w"
  by (metis be_decode_bytes_64)

lemma be_encode_snoc:
  "be_encode (Suc n) w = be_encode n (drop_bit 8 w) @ [ucast w]"
proof (induction n)
  case 0
  then show ?case by simp
next
  case (Suc n)
  have "be_encode (Suc (Suc n)) w = ucast (drop_bit (8 * Suc n) w) # be_encode (Suc n) w"
    by simp
  then show ?case using Suc by (simp add: add.commute)
qed

lemma bit_foldl_be_encode:
  fixes x :: "'b::len word"
  assumes "8 * n \<le> LENGTH('b)"
  shows "bit (foldl be_shift acc (be_encode n x) :: 'a::len word) k \<longleftrightarrow>
    k < LENGTH('a) \<and> (if k < 8 * n then bit x k else bit acc (k - 8 * n))"
proof -
  have "bit (rev (be_encode n x) ! (k div 8)) (k mod 8) = bit x k" if "k < 8 * n"
  proof -
    from that have "k div 8 < n" by (simp add: less_mult_imp_div_less mult.commute)
    with that assms show ?thesis by (simp add: be_encode_nth bit_simps)
  qed
  then show ?thesis by (auto simp: bit_foldl_be_shift)
qed

text \<open>The low bytes of a word survive a cast that keeps them.\<close>

lemma be_encode_ucast:
  fixes x :: "'a::len word"
  shows "8 * n \<le> LENGTH('b::len) \<Longrightarrow> be_encode n (ucast x :: 'b word) = be_encode n x"
proof (induction n)
  case 0
  then show ?case by simp
next
  case (Suc n)
  have "ucast (drop_bit (8 * n) (ucast x :: 'b word)) = (ucast (drop_bit (8 * n) x) :: u8)"
    by (rule bit_word_eqI) (use Suc.prems in \<open>auto simp: bit_simps\<close>)
  with Suc show ?case by simp
qed

text \<open>The leading bytes of a word are its high bits.\<close>

lemma be_encode_append:
  "be_encode (k + m) w = be_encode k (drop_bit (8 * m) w) @ be_encode m w"
proof (induction k)
  case 0
  then show ?case by simp
next
  case (Suc k)
  then show ?case by (simp add: algebra_simps)
qed

lemma be_decode_take:
  fixes w :: "'a::len word"
  assumes n: "8 * (k + m) = LENGTH('a)" and k: "8 * k = LENGTH('b::len)"
  shows "be_decode (take k (be_bytes w)) = (ucast (drop_bit (8 * m) w) :: 'b word)"
proof -
  from n have "LENGTH('a) div 8 = k + m" by (metis nonzero_mult_div_cancel_left zero_neq_numeral)
  then have "take k (be_bytes w) = be_encode k (drop_bit (8 * m) w)"
    by (simp add: be_bytes_def be_encode_append)
  moreover have "be_decode (be_encode k (drop_bit (8 * m) w)) = (ucast (drop_bit (8 * m) w) :: 'b word)"
  proof (rule bit_word_eqI)
    fix j assume "j < LENGTH('b)"
    moreover have "8 * k \<le> LENGTH('a)" using n by simp
    ultimately show "bit (be_decode (be_encode k (drop_bit (8 * m) w)) :: 'b word) j
        = bit (ucast (drop_bit (8 * m) w) :: 'b word) j"
      using k n by (auto simp: be_decode_def bit_foldl_be_encode bit_simps)
  qed
  ultimately show ?thesis by simp
qed

lemma be_decode_take2_128: "be_decode (take 2 (be_bytes (w :: 128 word))) = (ucast (drop_bit 112 w) :: u16)"
  and be_decode_take4_128: "be_decode (take 4 (be_bytes (w :: 128 word))) = (ucast (drop_bit 96 w) :: u32)"
  using be_decode_take [where 'a = 128 and 'b = 16, of 2 14 w]
    be_decode_take [where 'a = 128 and 'b = 32, of 4 12 w]
  by simp_all

section \<open>Lists\<close>

lemma take_drop_exact [simp]:
  "length xs = n \<Longrightarrow> take n (xs @ ys) = xs" "length xs = n \<Longrightarrow> drop n (xs @ ys) = ys"
  by auto

lemma prefix_take_append: "prefix (xs @ take k ys) (xs @ ys @ zs)"
  by (metis append_take_drop_id prefixI append.assoc)

end
