(* ===== verification/Netip.thy ===== *)
theory Netip
  imports Prelude "HOL-Library.List_Lexorder" "HOL-Library.Product_Lexorder"
begin

text \<open>
  The part of Go's \<open>net/netip\<close> (Go 1.22, the version \<open>go.mod\<close> declares) and \<open>net.IP\<close> that
  the sources under \<open>src/tunnel\<close> use: addresses, address/port pairs, their comparison (made the
  \<open>linorder\<close> of the types), and the conversions between addresses and byte slices.
  This is standard library code, so nothing here is mapped to a file of the repository.
\<close>

section \<open>Addresses\<close>

text \<open>
  \<open>netip.Addr\<close> is the invalid zero value, an IPv4 address, or an IPv6 address with a zone
  (the empty zone is "no zone"). An IPv4-mapped IPv6 address is a \<open>V6\<close>, as in Go, and differs
  from the \<open>V4\<close> address it maps.
\<close>

datatype addr = ZeroAddr | V4 u32 | V6 "128 word" bytes

definition mapped4 :: "u32 \<Rightarrow> 128 word" where
  "mapped4 w = push_bit 32 0xffff OR ucast w"

fun Addr_BitLen :: "addr \<Rightarrow> nat" where
  "Addr_BitLen ZeroAddr = 0"
| "Addr_BitLen (V4 w) = 32"
| "Addr_BitLen (V6 w z) = 128"

text \<open>The 128 bits Go stores: an IPv4 address is kept in its IPv4-mapped form.\<close>

fun Addr_bits :: "addr \<Rightarrow> 128 word" where
  "Addr_bits ZeroAddr = 0"
| "Addr_bits (V4 w) = mapped4 w"
| "Addr_bits (V6 w z) = w"

fun Addr_Zone :: "addr \<Rightarrow> bytes" where
  "Addr_Zone (V6 w z) = z"
| "Addr_Zone _ = []"

fun Addr_Is4 :: "addr \<Rightarrow> bool" where
  "Addr_Is4 (V4 w) = True"
| "Addr_Is4 _ = False"

fun Addr_Is6 :: "addr \<Rightarrow> bool" where
  "Addr_Is6 (V6 w z) = True"
| "Addr_Is6 _ = False"

fun Addr_Is4In6 :: "addr \<Rightarrow> bool" where
  "Addr_Is4In6 (V6 w z) = (drop_bit 32 w = 0xffff)"
| "Addr_Is4In6 _ = False"

definition Addr_IsValid :: "addr \<Rightarrow> bool" where
  "Addr_IsValid a \<longleftrightarrow> a \<noteq> ZeroAddr"

text \<open>
  \<open>IsLoopback\<close> as in Go 1.22.2: \<open>127.0.0.0/8\<close> for IPv4, \<open>::1\<close> (any zone) for IPv6, and
  no unmapping of IPv4-mapped addresses.
\<close>

fun Addr_IsLoopback :: "addr \<Rightarrow> bool" where
  "Addr_IsLoopback ZeroAddr = False"
| "Addr_IsLoopback (V4 w) = (drop_bit 24 w = 127)"
| "Addr_IsLoopback (V6 w z) = (w = 1)"

fun Addr_AsSlice :: "addr \<Rightarrow> bytes" where
  "Addr_AsSlice ZeroAddr = []"
| "Addr_AsSlice (V4 w) = be_bytes w"
| "Addr_AsSlice (V6 w z) = be_bytes w"

fun Addr_MarshalBinary :: "addr \<Rightarrow> bytes" where
  "Addr_MarshalBinary ZeroAddr = []"
| "Addr_MarshalBinary (V4 w) = be_bytes w"
| "Addr_MarshalBinary (V6 w z) = be_bytes w @ z"

definition AddrFrom4 :: "bytes \<Rightarrow> addr" where
  "AddrFrom4 bs = V4 (be_decode bs)"

definition AddrFrom16 :: "bytes \<Rightarrow> addr" where
  "AddrFrom16 bs = V6 (be_decode bs) []"

text \<open>\<open>AddrFromSlice\<close> also returns a flag, which every caller in the sources drops.\<close>

definition AddrFromSlice :: "bytes \<Rightarrow> addr" where
  "AddrFromSlice bs =
     (if length bs = 4 then AddrFrom4 bs
      else if length bs = 16 then AddrFrom16 bs else ZeroAddr)"

lemma AddrFrom4_bytes [simp]: "AddrFrom4 (be_bytes w) = V4 w"
  by (simp add: AddrFrom4_def)

lemma AddrFrom16_bytes [simp]: "AddrFrom16 (be_bytes w) = V6 w []"
  by (simp add: AddrFrom16_def)

lemma AddrFromSlice_AsSlice:
  "Addr_Zone a = [] \<Longrightarrow> AddrFromSlice (Addr_AsSlice a) = a"
  by (cases a) (simp_all add: AddrFromSlice_def)

section \<open>Comparison\<close>

text \<open>\<open>netip.Addr.Compare\<close>: bit length first, then the bits, then, for IPv6, the zone.\<close>

definition Addr_Compare :: "addr \<Rightarrow> addr \<Rightarrow> int" where
  "Addr_Compare a b =
     (if Addr_BitLen a < Addr_BitLen b then -1
      else if Addr_BitLen b < Addr_BitLen a then 1
      else if Addr_bits a < Addr_bits b then -1
      else if Addr_bits b < Addr_bits a then 1
      else if Addr_Is6 a \<and> Addr_Zone a < Addr_Zone b then -1
      else if Addr_Is6 a \<and> Addr_Zone b < Addr_Zone a then 1
      else 0)"

definition addr_key :: "addr \<Rightarrow> nat \<times> 128 word \<times> bytes" where
  "addr_key a = (Addr_BitLen a, Addr_bits a, Addr_Zone a)"

lemma ucast_mapped4 [simp]: "ucast (mapped4 u) = u"
proof -
  have "ucast (push_bit 32 (x :: 128 word) OR ucast u) = u" for x
    by (rule bit_word_eqI) (simp add: bit_simps)
  then show ?thesis by (simp only: mapped4_def)
qed

lemma drop_bit_mapped4 [simp]: "drop_bit 32 (mapped4 u) = 0xffff"
proof -
  have "drop_bit 32 (push_bit 32 x OR ucast u) = take_bit 96 x" for x :: "128 word"
    by (rule bit_word_eqI) (auto simp: bit_simps dest: bit_imp_le_length)
  from this [of "0xffff"] show ?thesis by (simp only: mapped4_def) simp
qed

lemma mapped4_inject [simp]: "mapped4 v = mapped4 w \<longleftrightarrow> v = w"
  by (metis ucast_mapped4)

lemma addr_key_inject [simp]: "addr_key a = addr_key b \<longleftrightarrow> a = b"
  by (cases a; cases b) (auto simp: addr_key_def)

lemma Addr_Compare_key:
  "Addr_Compare a b =
     (if addr_key a < addr_key b then -1 else if addr_key b < addr_key a then 1 else 0)"
  by (cases a; cases b) (auto simp: Addr_Compare_def addr_key_def)

instantiation addr :: linorder
begin

definition less_eq_addr :: "addr \<Rightarrow> addr \<Rightarrow> bool" where
  "less_eq_addr a b \<longleftrightarrow> Addr_Compare a b \<le> 0"

definition less_addr :: "addr \<Rightarrow> addr \<Rightarrow> bool" where
  "less_addr a b \<longleftrightarrow> Addr_Compare a b < 0"

instance
proof
  fix a b c :: addr
  show "(a < b) = (a \<le> b \<and> \<not> b \<le> a)"
    by (auto simp: less_eq_addr_def less_addr_def Addr_Compare_key split: if_splits)
  show "a \<le> a" by (simp add: less_eq_addr_def Addr_Compare_key)
  show "a \<le> c" if "a \<le> b" "b \<le> c"
    using that by (auto simp: less_eq_addr_def Addr_Compare_key split: if_splits)
  show "a = b" if "a \<le> b" "b \<le> a"
    using that by (auto simp: less_eq_addr_def Addr_Compare_key split: if_splits)
  show "a \<le> b \<or> b \<le> a"
    by (auto simp: less_eq_addr_def Addr_Compare_key split: if_splits)
qed

end

lemma Addr_Compare_eq_0 [simp]: "Addr_Compare a b = 0 \<longleftrightarrow> a = b"
  by (auto simp: Addr_Compare_key split: if_splits dest: antisym_conv3)

section \<open>Address and port\<close>

datatype addrport = AddrPort (ap_Addr: addr) (ap_Port: u16)

definition AddrPort_IsValid :: "addrport \<Rightarrow> bool" where
  "AddrPort_IsValid p \<longleftrightarrow> Addr_IsValid (ap_Addr p)"

definition AddrPort_Compare :: "addrport \<Rightarrow> addrport \<Rightarrow> int" where
  "AddrPort_Compare p q =
     (if Addr_Compare (ap_Addr p) (ap_Addr q) \<noteq> 0 then Addr_Compare (ap_Addr p) (ap_Addr q)
      else if ap_Port p < ap_Port q then -1
      else if ap_Port q < ap_Port p then 1 else 0)"

lemma Addr_Compare_order:
  "Addr_Compare a b = (if a < b then -1 else if b < a then 1 else 0)"
  by (auto simp: less_addr_def Addr_Compare_key split: if_splits)

lemma AddrPort_Compare_order:
  "AddrPort_Compare p q =
     (if (ap_Addr p, ap_Port p) < (ap_Addr q, ap_Port q) then -1
      else if (ap_Addr q, ap_Port q) < (ap_Addr p, ap_Port p) then 1 else 0)"
  by (auto simp: AddrPort_Compare_def Addr_Compare_order)

instantiation addrport :: linorder
begin

definition less_eq_addrport :: "addrport \<Rightarrow> addrport \<Rightarrow> bool" where
  "less_eq_addrport p q \<longleftrightarrow> AddrPort_Compare p q \<le> 0"

definition less_addrport :: "addrport \<Rightarrow> addrport \<Rightarrow> bool" where
  "less_addrport p q \<longleftrightarrow> AddrPort_Compare p q < 0"

instance
proof
  fix p q r :: addrport
  show "(p < q) = (p \<le> q \<and> \<not> q \<le> p)"
    by (auto simp: less_eq_addrport_def less_addrport_def AddrPort_Compare_order
        simp del: less_prod_simp split: if_splits)
  show "p \<le> p" by (simp add: less_eq_addrport_def AddrPort_Compare_order)
  show "p \<le> r" if "p \<le> q" "q \<le> r"
    using that by (auto simp: less_eq_addrport_def AddrPort_Compare_order
        simp del: less_prod_simp split: if_splits)
  show "p = q" if "p \<le> q" "q \<le> p"
    using that by (cases p; cases q)
      (auto simp: less_eq_addrport_def AddrPort_Compare_order split: if_splits)
  show "p \<le> q \<or> q \<le> p"
    by (auto simp: less_eq_addrport_def AddrPort_Compare_order
        simp del: less_prod_simp split: if_splits)
qed

end

lemma AddrPort_Compare_eq_0 [simp]: "AddrPort_Compare p q = 0 \<longleftrightarrow> p = q"
  by (cases p; cases q) (auto simp: AddrPort_Compare_def)

section \<open>IP slices (package net)\<close>

definition v4InV6Prefix :: bytes where
  "v4InV6Prefix = replicate 10 0 @ [0xff, 0xff]"

text \<open>\<open>net.IP\<close> is a byte slice; \<open>None\<close> is the nil result of \<open>To4\<close> and \<open>To16\<close>.\<close>

definition IP_To4 :: "bytes \<Rightarrow> bytes option" where
  "IP_To4 ip =
     (if length ip = 4 then Some ip
      else if length ip = 16 \<and> take 12 ip = v4InV6Prefix then Some (drop 12 ip)
      else None)"

definition net_IPv4 :: "u8 \<Rightarrow> u8 \<Rightarrow> u8 \<Rightarrow> u8 \<Rightarrow> bytes" where
  "net_IPv4 a b c d = v4InV6Prefix @ [a, b, c, d]"

definition IP_To16 :: "bytes \<Rightarrow> bytes option" where
  "IP_To16 ip =
     (if length ip = 4 then Some (net_IPv4 (ip ! 0) (ip ! 1) (ip ! 2) (ip ! 3))
      else if length ip = 16 then Some ip
      else None)"

lemma length_v4InV6Prefix [simp]: "length v4InV6Prefix = 12"
  by (simp add: v4InV6Prefix_def)

lemma be_bytes_mapped4: "be_bytes (mapped4 w) = v4InV6Prefix @ be_bytes w"
proof -
  have "be_encode 12 (0xffff :: 128 word) = v4InV6Prefix"
  proof -
    have "be_encode (Suc (Suc 0)) (0xffff :: 128 word) = [0xff, 0xff]" by simp
    moreover have "drop_bit 16 (0xffff :: 128 word) = 0" by simp
    ultimately show ?thesis
      using be_encode_append [of 10 "Suc (Suc 0)" "0xffff :: 128 word"]
      by (simp add: v4InV6Prefix_def)
  qed
  moreover have "be_encode 4 (mapped4 w) = be_encode 4 w"
    using be_encode_ucast [of 4 "mapped4 w", where 'b = 32] by simp
  moreover have "LENGTH(128) div 8 = 12 + 4" by simp
  ultimately show ?thesis
    using be_encode_append [of 12 4 "mapped4 w"] by (simp add: be_bytes_def)
qed

lemma AddrFrom16_mapped4 [simp]: "AddrFrom16 (v4InV6Prefix @ be_bytes w) = V6 (mapped4 w) []"
  using AddrFrom16_bytes [of "mapped4 w"] by (simp only: be_bytes_mapped4)

lemma IP_To4_bytes [simp]: "IP_To4 (be_bytes (w :: u32)) = Some (be_bytes w)"
  by (simp add: IP_To4_def)

lemma IP_To4_mapped [simp]: "IP_To4 (v4InV6Prefix @ be_bytes (w :: u32)) = Some (be_bytes w)"
  by (simp add: IP_To4_def)

lemma IP_To4_net_IPv4 [simp]: "IP_To4 (net_IPv4 a b c d) = Some [a, b, c, d]"
  by (simp add: IP_To4_def net_IPv4_def)

lemma length_net_IPv4 [simp]: "length (net_IPv4 a b c d) = 16"
  by (simp add: net_IPv4_def)

end
