(* ===== verification/Go_IO.thy ===== *)
theory Go_IO
  imports Netip
begin

text \<open>
  Go's control flow and its byte streams. An operation takes a state and ends in \<open>Ok\<close> with a
  result, in \<open>Err\<close> with a returned \<open>error\<close> (the state as it is at the return), or in a run-time
  \<open>Panic\<close>; \<open>Blocked\<close> stands for a lock that is never granted. Readers are the unread bytes of a \<open>bytes.Buffer\<close> or \<open>bytes.Reader\<close>; writers are an
  arbitrary \<open>io.Writer\<close>, given by what it has received and by the outcomes of its next \<open>Write\<close>
  calls, of which \<open>bytes.Buffer\<close> (never fails) is the one without planned faults.
\<close>

section \<open>Results and control flow\<close>

datatype error =
    EOF
  | ErrUnexpectedEOF
  | ErrWrite
  | ErrTimeout
  | ErrNet string
  | ErrApi string
  | ErrHex
  | ErrJson
  | Errorf string
  | ErrText string
  | InvalidRemote addrport addrport

datatype panic = NilDeref | MakeSliceLen | SliceBounds | IndexRange | Blocked | LogPanic string

datatype ('a, 's) outcome = Ok 'a 's | Err error 's | Panic panic

type_synonym ('a, 's) go = "'s \<Rightarrow> ('a, 's) outcome"

definition ret :: "'a \<Rightarrow> ('a, 's) go" where
  "ret x = (\<lambda>s. Ok x s)"

definition throw :: "error \<Rightarrow> ('a, 's) go" where
  "throw e = (\<lambda>s. Err e s)"

definition crash :: "panic \<Rightarrow> ('a, 's) go" where
  "crash p = (\<lambda>s. Panic p)"

text \<open>\<open>x, err := m; if err != nil { return err }; k x\<close>\<close>

definition go_bind :: "('a, 's) go \<Rightarrow> ('a \<Rightarrow> ('b, 's) go) \<Rightarrow> ('b, 's) go" where
  "go_bind m k = (\<lambda>s. case m s of Ok x s' \<Rightarrow> k x s' | Err e s' \<Rightarrow> Err e s' | Panic p \<Rightarrow> Panic p)"

text \<open>
  \<open>if err := m1; err != nil { return err } else if err := m2; err != nil { return err } ...;
  return nil\<close>
\<close>

primrec go_seq :: "(unit, 's) go list \<Rightarrow> (unit, 's) go" where
  "go_seq [] = ret ()"
| "go_seq (m # ms) = go_bind m (\<lambda>_. go_seq ms)"

text \<open>A call whose error result is dropped: its effects stay, control goes on.\<close>

definition go_drop_err :: "(unit, 's) go \<Rightarrow> (unit, 's) go" where
  "go_drop_err m = (\<lambda>s. case m s of Ok x s' \<Rightarrow> Ok () s' | Err e s' \<Rightarrow> Ok () s' | Panic p \<Rightarrow> Panic p)"

text \<open>\<open>x, err := m\<close> with the error kept as a value, for callers that go on after it.\<close>

definition go_try :: "('a, 's) go \<Rightarrow> (error + 'a, 's) go" where
  "go_try m = (\<lambda>s. case m s of
     Ok x s' \<Rightarrow> Ok (Inr x) s' | Err e s' \<Rightarrow> Ok (Inl e) s' | Panic p \<Rightarrow> Panic p)"

text \<open>Run an operation on a part of the state.\<close>

definition zoom :: "('s \<Rightarrow> 't) \<Rightarrow> ('t \<Rightarrow> 's \<Rightarrow> 's) \<Rightarrow> ('a, 't) go \<Rightarrow> ('a, 's) go" where
  "zoom get put m = (\<lambda>s. case m (get s) of
     Ok x t \<Rightarrow> Ok x (put t s) | Err e t \<Rightarrow> Err e (put t s) | Panic p \<Rightarrow> Panic p)"

definition get_state :: "('s, 's) go" where
  "get_state = (\<lambda>s. Ok s s)"

definition modify :: "('s \<Rightarrow> 's) \<Rightarrow> (unit, 's) go" where
  "modify f = (\<lambda>s. Ok () (f s))"

lemma get_state_apply [simp, go_simps]: "get_state s = Ok s s"
  and modify_apply [simp, go_simps]: "modify f s = Ok () (f s)"
  by (simp_all add: get_state_def modify_def)

lemma ret_apply [simp, go_simps]: "ret x s = Ok x s"
  and throw_apply [simp, go_simps]: "throw e s = Err e s"
  and crash_apply [simp, go_simps]: "crash p s = Panic p"
  by (simp_all add: ret_def throw_def crash_def)

lemma go_bind_Ok [go_simps]: "m s = Ok x s' \<Longrightarrow> go_bind m k s = k x s'"
  and go_bind_Err [go_simps]: "m s = Err e s' \<Longrightarrow> go_bind m k s = Err e s'"
  and go_bind_Panic [go_simps]: "m s = Panic p \<Longrightarrow> go_bind m k s = Panic p"
  by (simp_all add: go_bind_def)

lemma go_bind_ret [simp]: "go_bind (ret x) k = k x"
  and go_bind_throw [simp]: "go_bind (throw e) k = throw e"
  and go_bind_crash [simp]: "go_bind (crash p) k = crash p"
  by (simp_all add: go_bind_def fun_eq_iff)

lemma go_bind_Ok_fun [simp]: "go_bind (Ok x) k = k x"
  and go_bind_Err_fun [simp]: "go_bind (Err e) k = Err e"
  and go_bind_Panic_fun [simp]: "go_bind (\<lambda>s. Panic p) k = (\<lambda>s. Panic p)"
  by (simp_all add: go_bind_def fun_eq_iff)

lemma go_bind_assoc: "go_bind (go_bind m f) g = go_bind m (\<lambda>x. go_bind (f x) g)"
  by (simp add: go_bind_def fun_eq_iff split: outcome.split)

lemma go_seq_append: "go_seq (ms @ ns) = go_bind (go_seq ms) (\<lambda>_. go_seq ns)"
  by (induction ms) (simp_all add: go_bind_assoc)

lemma go_bind_cases:
  "go_bind m k s = r \<longleftrightarrow>
     (case m s of Ok x s' \<Rightarrow> k x s' = r | Err e s' \<Rightarrow> r = Err e s' | Panic p \<Rightarrow> r = Panic p)"
  by (auto simp: go_bind_def split: outcome.split)

text \<open>
  \<open>preserves P m\<close>: where \<open>m\<close> returns, with a result or with an error, it keeps \<open>P\<close>.
\<close>

named_theorems preserves_intro \<open>operations that preserve a predicate on the state\<close>

fun outcome_all :: "('s \<Rightarrow> bool) \<Rightarrow> ('a, 's) outcome \<Rightarrow> bool" where
  "outcome_all P (Ok x s) \<longleftrightarrow> P s"
| "outcome_all P (Err e s) \<longleftrightarrow> P s"
| "outcome_all P (Panic p) \<longleftrightarrow> True"

definition preserves :: "('s \<Rightarrow> bool) \<Rightarrow> ('a, 's) go \<Rightarrow> bool" where
  "preserves P m \<longleftrightarrow> (\<forall>s. P s \<longrightarrow> outcome_all P (m s))"

lemma preservesI: "(\<And>s. P s \<Longrightarrow> outcome_all P (m s)) \<Longrightarrow> preserves P m"
  unfolding preserves_def by blast

lemma preservesD: "preserves P m \<Longrightarrow> P s \<Longrightarrow> outcome_all P (m s)"
  unfolding preserves_def by blast

lemma preserves_ret [preserves_intro]: "preserves P (ret x)"
  and preserves_throw [preserves_intro]: "preserves P (throw e)"
  and preserves_crash [preserves_intro]: "preserves P (crash p)"
  and preserves_get_state [preserves_intro]: "preserves P get_state"
  by (rule preservesI, simp)+

lemma preserves_modify [preserves_intro]:
  "(\<And>s. P s \<Longrightarrow> P (f s)) \<Longrightarrow> preserves P (modify f)"
  by (rule preservesI) simp

lemma preserves_bind [preserves_intro]:
  assumes m: "preserves P m" and k: "\<And>x. preserves P (k x)"
  shows "preserves P (go_bind m k)"
proof (rule preservesI)
  fix s assume s: "P s"
  show "outcome_all P (go_bind m k s)"
  proof (cases "m s")
    case (Ok x t)
    with preservesD [OF m s] have "P t" by simp
    with Ok preservesD [OF k] show ?thesis by (simp add: go_bind_def)
  qed (use preservesD [OF m s] in \<open>simp_all add: go_bind_def\<close>)
qed

lemma preserves_try [preserves_intro]:
  assumes "preserves P m"
  shows "preserves P (go_try m)"
proof (rule preservesI)
  fix s assume "P s"
  then show "outcome_all P (go_try m s)"
    using preservesD [OF assms] by (cases "m s") (fastforce simp: go_try_def)+
qed

lemma preserves_drop_err [preserves_intro]: "preserves P m \<Longrightarrow> preserves P (go_drop_err m)"
  by (rule preservesI) (auto simp: go_drop_err_def dest: preservesD split: outcome.split)

lemma preserves_if [preserves_intro]:
  "preserves P m \<Longrightarrow> preserves P n \<Longrightarrow> preserves P (if b then m else n)"
  by simp

lemma preserves_prod [preserves_intro]:
  "(\<And>x y. preserves P (f x y)) \<Longrightarrow> preserves P (case p of (x, y) \<Rightarrow> f x y)"
  by (cases p) simp

lemma preserves_option [preserves_intro]:
  "preserves P m \<Longrightarrow> (\<And>x. preserves P (f x)) \<Longrightarrow>
   preserves P (case v of None \<Rightarrow> m | Some x \<Rightarrow> f x)"
  by (cases v) simp_all

lemma preserves_sum [preserves_intro]:
  "(\<And>x. preserves P (f x)) \<Longrightarrow> (\<And>x. preserves P (g x)) \<Longrightarrow>
   preserves P (case v of Inl x \<Rightarrow> f x | Inr x \<Rightarrow> g x)"
  by (cases v) simp_all

lemma preserves_zoom:
  assumes "\<And>s t. P s \<Longrightarrow> P (put t s)"
  shows "preserves P (zoom get put m)"
  by (rule preservesI) (use assms in \<open>auto simp: zoom_def split: outcome.split\<close>)

lemma go_try_ret [simp]: "go_try (ret x) = ret (Inr x)"
  and go_try_throw [simp]: "go_try (throw e) = ret (Inl e)"
  and go_try_crash [simp]: "go_try (crash p) = crash p"
  by (simp_all add: go_try_def ret_def throw_def crash_def fun_eq_iff)

text \<open>
  \<open>yields I R m\<close>: from a state with \<open>I\<close>, a result of \<open>m\<close> satisfies \<open>R\<close> and every return keeps \<open>I\<close>.
\<close>

definition yields :: "('s \<Rightarrow> bool) \<Rightarrow> ('a \<Rightarrow> bool) \<Rightarrow> ('a, 's) go \<Rightarrow> bool" where
  "yields I R m \<longleftrightarrow> (\<forall>s. I s \<longrightarrow>
     (case m s of Ok x s' \<Rightarrow> R x \<and> I s' | Err e s' \<Rightarrow> I s' | Panic p \<Rightarrow> True))"

named_theorems yields_intro \<open>what operations yield\<close>

lemma yieldsI:
  "(\<And>s. I s \<Longrightarrow> case m s of Ok x s' \<Rightarrow> R x \<and> I s' | Err e s' \<Rightarrow> I s' | Panic p \<Rightarrow> True) \<Longrightarrow>
   yields I R m"
  unfolding yields_def by blast

lemma yieldsD: "yields I R m \<Longrightarrow> I s \<Longrightarrow> m s = Ok x s' \<Longrightarrow> R x \<and> I s'"
  unfolding yields_def by (elim allE [of _ s]) simp

lemma yields_Err: "yields I R m \<Longrightarrow> I s \<Longrightarrow> m s = Err e s' \<Longrightarrow> I s'"
  unfolding yields_def by (elim allE [of _ s]) simp

lemma yields_mono: "yields I R m \<Longrightarrow> (\<And>x. R x \<Longrightarrow> Q x) \<Longrightarrow> yields I Q m"
  by (rule yieldsI) (auto dest: yieldsD yields_Err split: outcome.split)

lemma yields_ret [yields_intro]: "R x \<Longrightarrow> yields I R (ret x)"
  and yields_throw [yields_intro]: "yields I R (throw e)"
  and yields_crash [yields_intro]: "yields I R (crash p)"
  by (rule yieldsI, simp)+

lemma yields_bind:
  assumes m: "yields I Q m" and k: "\<And>x. Q x \<Longrightarrow> yields I R (k x)"
  shows "yields I R (go_bind m k)"
proof (rule yieldsI)
  fix s assume s: "I s"
  show "case go_bind m k s of Ok x s' \<Rightarrow> R x \<and> I s' | Err e s' \<Rightarrow> I s' | Panic p \<Rightarrow> True"
  proof (cases "m s")
    case (Ok x t)
    with yieldsD [OF m s] k [of x] have "I t" "yields I R (k x)" by auto
    with Ok show ?thesis by (auto simp: go_bind_def yields_def)
  qed (use yields_Err [OF m s] in \<open>simp_all add: go_bind_def\<close>)
qed

lemma preserves_yields: "preserves I m \<Longrightarrow> yields I (\<lambda>_. True) m"
  by (rule yieldsI) (auto dest: preservesD split: outcome.split)

lemma yields_bind_preserves: "preserves I m \<Longrightarrow> (\<And>x. yields I R (k x)) \<Longrightarrow> yields I R (go_bind m k)"
  by (rule yields_bind [OF preserves_yields])

lemma yields_if [yields_intro]:
  "(b \<Longrightarrow> yields I R m) \<Longrightarrow> (\<not> b \<Longrightarrow> yields I R n) \<Longrightarrow> yields I R (if b then m else n)"
  by simp

lemma yields_sum [yields_intro]:
  "(\<And>x. v = Inl x \<Longrightarrow> yields I R (f x)) \<Longrightarrow> (\<And>x. v = Inr x \<Longrightarrow> yields I R (g x)) \<Longrightarrow>
   yields I R (case v of Inl x \<Rightarrow> f x | Inr x \<Rightarrow> g x)"
  by (cases v) simp_all

lemma yields_option [yields_intro]:
  "(v = None \<Longrightarrow> yields I R m) \<Longrightarrow> (\<And>x. v = Some x \<Longrightarrow> yields I R (f x)) \<Longrightarrow>
   yields I R (case v of None \<Rightarrow> m | Some x \<Rightarrow> f x)"
  by (cases v) simp_all

lemma yields_prod [yields_intro]:
  "(\<And>x y. p = (x, y) \<Longrightarrow> yields I R (f x y)) \<Longrightarrow> yields I R (case p of (x, y) \<Rightarrow> f x y)"
  by (cases p) simp

lemma yields_try: "yields I Q m \<Longrightarrow> yields I (\<lambda>v. case v of Inl e \<Rightarrow> True | Inr x \<Rightarrow> Q x) (go_try m)"
  by (rule yieldsI) (auto simp: go_try_def dest: yieldsD yields_Err split: outcome.split)

text \<open>\<open>no_error m\<close>: \<open>m\<close> ends with a result or a panic, never with a returned error.\<close>

named_theorems no_error_intro \<open>operations that return no error\<close>

definition no_error :: "('a, 's) go \<Rightarrow> bool" where
  "no_error m \<longleftrightarrow> (\<forall>s e s'. m s \<noteq> Err e s')"

lemma no_errorI: "(\<And>s e s'. m s \<noteq> Err e s') \<Longrightarrow> no_error m"
  by (simp add: no_error_def)

lemma no_error_ops [no_error_intro]:
  "no_error (ret x)" "no_error (crash p)" "no_error get_state" "no_error (modify f)"
  "no_error (go_try m)"
  "no_error (go_drop_err m')"
  by (auto simp: no_error_def go_try_def go_drop_err_def split: outcome.splits)

lemma no_error_bind [no_error_intro]:
  "no_error m \<Longrightarrow> (\<And>x. no_error (k x)) \<Longrightarrow> no_error (go_bind m k)"
  by (rule no_errorI) (auto simp: no_error_def go_bind_def split: outcome.splits)

lemma no_error_zoom: "no_error m \<Longrightarrow> no_error (zoom get put m)"
  by (auto simp: no_error_def zoom_def split: outcome.splits)

lemma no_error_if [no_error_intro]:
  "no_error m \<Longrightarrow> no_error n \<Longrightarrow> no_error (if b then m else n)"
  by simp

lemma no_error_option [no_error_intro]:
  "no_error m \<Longrightarrow> (\<And>x. no_error (f x)) \<Longrightarrow> no_error (case v of None \<Rightarrow> m | Some x \<Rightarrow> f x)"
  by (cases v) simp_all

lemma no_error_sum [no_error_intro]:
  "(\<And>x. no_error (f x)) \<Longrightarrow> (\<And>x. no_error (g x)) \<Longrightarrow>
   no_error (case v of Inl x \<Rightarrow> f x | Inr x \<Rightarrow> g x)"
  by (cases v) simp_all

lemma no_error_prod [no_error_intro]:
  "(\<And>x y. no_error (f x y)) \<Longrightarrow> no_error (case p of (x, y) \<Rightarrow> f x y)"
  by (cases p) simp

lemma yields_preserves:
  assumes "yields I R m"
  shows "preserves I m"
proof (rule preservesI)
  fix s assume s: "I s"
  show "outcome_all I (m s)"
  proof (cases "m s")
    case (Ok x t)
    with yieldsD [OF assms s] show ?thesis by simp
  next
    case (Err e t)
    with yields_Err [OF assms s] show ?thesis by simp
  qed simp
qed

lemma preserves_option_eq:
  "(v = None \<Longrightarrow> preserves P m) \<Longrightarrow> (\<And>x. v = Some x \<Longrightarrow> preserves P (f x)) \<Longrightarrow>
   preserves P (case v of None \<Rightarrow> m | Some x \<Rightarrow> f x)"
  by (cases v) simp_all

lemma yields_strengthen: "yields (\<lambda>_. True) R m \<Longrightarrow> preserves I m \<Longrightarrow> yields I R m"
  by (auto simp: yields_def preserves_def split: outcome.splits)

section \<open>Allocation\<close>

text \<open>
  \<open>make([]byte, n)\<close> panics when \<open>n\<close> exceeds the largest allocation of the run-time (\<open>maxAlloc\<close>,
  \<open>2^48\<close> on the 64-bit targets); a request below it is taken to be served.
\<close>

definition maxAlloc :: nat where
  "maxAlloc = 2 ^ 48"

definition make_bytes :: "u64 \<Rightarrow> (bytes, 's) go" where
  "make_bytes n =
     (if unat n \<le> maxAlloc then ret (replicate (unat n) 0) else crash MakeSliceLen)"

section \<open>Readers\<close>

type_synonym reader = bytes

text \<open>
  \<open>binary.Read\<close> of one unsigned integer: \<open>io.ReadFull\<close> of its bytes. A short stream is consumed
  whole and reported as \<open>io.EOF\<close> when nothing was left, \<open>io.ErrUnexpectedEOF\<close> otherwise.
\<close>

definition binary_Read :: "reader \<Rightarrow> (error + 'a::len word) \<times> reader" where
  "binary_Read r =
     (let n = LENGTH('a) div 8 in
      if n \<le> length r then (Inr (be_decode (take n r)), drop n r)
      else (Inl (if r = [] then EOF else ErrUnexpectedEOF), []))"

definition reads :: "('a, reader) go \<Rightarrow> bytes \<Rightarrow> 'a \<Rightarrow> bool" where
  "reads m bs x \<longleftrightarrow> (\<forall>rest. m (bs @ rest) = Ok x rest)"

lemma readsI: "(\<And>rest. m (bs @ rest) = Ok x rest) \<Longrightarrow> reads m bs x"
  by (simp add: reads_def)

lemma readsD: "reads m bs x \<Longrightarrow> m (bs @ rest) = Ok x rest"
  by (simp add: reads_def)

lemma readsD_all: "reads m bs x \<Longrightarrow> m bs = Ok x []"
  using readsD [of m bs x "[]"] by simp

lemma reads_ret [reads_intro]: "reads (ret x) [] x"
  by (simp add: reads_def)

lemma reads_bind [reads_intro]:
  "reads m xs a \<Longrightarrow> reads (k a) ys b \<Longrightarrow> reads (go_bind m k) (xs @ ys) b"
  by (simp add: reads_def go_bind_def)

lemma reads_bind_last:
  "reads m xs a \<Longrightarrow> k a = ret b \<Longrightarrow> reads (go_bind m k) xs b"
  by (simp add: reads_def go_bind_def)

section \<open>Writers\<close>

text \<open>
  \<open>wr_script\<close> lists the outcomes of the coming \<open>Write\<close> calls: \<open>None\<close> accepts the whole slice,
  \<open>Some k\<close> accepts its first \<open>k\<close> bytes and returns an error. An exhausted script accepts all.
\<close>

record writer =
  wr_out :: bytes
  wr_script :: "nat option list"

definition bytes_Buffer :: "bytes \<Rightarrow> writer" where
  "bytes_Buffer xs = \<lparr>wr_out = xs, wr_script = []\<rparr>"

lemma wr_out_bytes_Buffer [simp]: "wr_out (bytes_Buffer xs) = xs"
  by (simp add: bytes_Buffer_def)

definition Write :: "bytes \<Rightarrow> (unit, writer) go" where
  "Write bs w =
     (case wr_script w of
        [] \<Rightarrow> Ok () (w\<lparr>wr_out := wr_out w @ bs\<rparr>)
      | None # s \<Rightarrow> Ok () (w\<lparr>wr_out := wr_out w @ bs, wr_script := s\<rparr>)
      | Some k # s \<Rightarrow> Err ErrWrite (w\<lparr>wr_out := wr_out w @ take k bs, wr_script := s\<rparr>))"

definition binary_Write :: "'a::len word \<Rightarrow> (unit, writer) go" where
  "binary_Write v = Write (be_bytes v)"

text \<open>
  \<open>emits m bs\<close>: into a \<open>bytes.Buffer\<close>, \<open>m\<close> succeeds and appends exactly \<open>bs\<close>.
  \<open>writes m bs\<close>: moreover, on every writer, \<open>m\<close> reports success only after the whole of \<open>bs\<close>
  has been written, and an error (always the writer's own) leaves a part of \<open>bs\<close> cut at one end.
\<close>

definition emits :: "(unit, writer) go \<Rightarrow> bytes \<Rightarrow> bool" where
  "emits m bs \<longleftrightarrow> (\<forall>xs. m (bytes_Buffer xs) = Ok () (bytes_Buffer (xs @ bs)))"

definition writes :: "(unit, writer) go \<Rightarrow> bytes \<Rightarrow> bool" where
  "writes m bs \<longleftrightarrow> emits m bs \<and>
     (\<forall>w. case m w of
        Ok _ w' \<Rightarrow> wr_out w' = wr_out w @ bs
      | Err e w' \<Rightarrow> e = ErrWrite \<and> (\<exists>k. wr_out w' = wr_out w @ take k bs)
      | Panic p \<Rightarrow> False)"

lemma emitsD: "emits m bs \<Longrightarrow> m (bytes_Buffer xs) = Ok () (bytes_Buffer (xs @ bs))"
  by (simp add: emits_def)

lemma emits_Buffer_empty: "emits m bs \<Longrightarrow> m (bytes_Buffer []) = Ok () (bytes_Buffer bs)"
  by (simp add: emits_def)

lemma emits_fun: "emits m bs \<Longrightarrow> emits m cs \<Longrightarrow> bs = cs"
  using emits_Buffer_empty [of m bs] emits_Buffer_empty [of m cs]
  by (simp add: bytes_Buffer_def)

lemma writes_emits: "writes m bs \<Longrightarrow> emits m bs"
  by (simp add: writes_def)

lemma writes_Ok: "writes m bs \<Longrightarrow> m w = Ok () w' \<Longrightarrow> wr_out w' = wr_out w @ bs"
  by (auto simp: writes_def split: outcome.splits elim!: allE [of _ w])

lemma writes_Err:
  "writes m bs \<Longrightarrow> m w = Err e w' \<Longrightarrow> e = ErrWrite \<and> (\<exists>k. wr_out w' = wr_out w @ take k bs)"
  by (auto simp: writes_def split: outcome.splits elim!: allE [of _ w])

lemma writes_no_panic: "writes m bs \<Longrightarrow> m w \<noteq> Panic p"
  by (auto simp: writes_def split: outcome.splits elim!: allE [of _ w])

lemma writes_Write [writes_intro]: "writes (Write bs) bs"
  by (auto simp: writes_def emits_def Write_def bytes_Buffer_def split: list.split option.split
      outcome.split)

lemma writes_binary_Write [writes_intro]: "writes (binary_Write v) (be_bytes v)"
  by (simp add: binary_Write_def writes_Write)

lemma writes_ret [writes_intro]: "writes (ret ()) []"
  by (simp add: writes_def emits_def)

lemma emits_bind:
  assumes "emits m xs" and "emits (k ()) ys"
  shows "emits (go_bind m k) (xs @ ys)"
  using assms by (simp add: emits_def go_bind_def)

lemma writes_bind [writes_intro]:
  assumes m: "writes m xs" and k: "writes (k ()) ys"
  shows "writes (go_bind m k) (xs @ ys)"
proof -
  have "case go_bind m k w of
        Ok _ w' \<Rightarrow> wr_out w' = wr_out w @ xs @ ys
      | Err e w' \<Rightarrow> e = ErrWrite \<and> (\<exists>j. wr_out w' = wr_out w @ take j (xs @ ys))
      | Panic p \<Rightarrow> False" for w
  proof (cases "m w")
    case (Ok u w1)
    then have out1: "wr_out w1 = wr_out w @ xs" using m writes_Ok by fastforce
    show ?thesis
    proof (cases "k () w1")
      case (Ok v w2)
      with \<open>m w = Ok u w1\<close> out1 k show ?thesis by (simp add: go_bind_def writes_Ok [of _ ys])
    next
      case (Err e w2)
      with k obtain j where "e = ErrWrite" "wr_out w2 = wr_out w1 @ take j ys"
        using writes_Err by blast
      then have "wr_out w2 = wr_out w @ take (length xs + j) (xs @ ys)" by (simp add: out1)
      then have "\<exists>i. wr_out w2 = wr_out w @ take i (xs @ ys)" ..
      with \<open>m w = Ok u w1\<close> Err \<open>e = ErrWrite\<close> show ?thesis
        by (simp add: go_bind_def del: take_append)
    next
      case (Panic p)
      with k show ?thesis by (simp add: writes_no_panic)
    qed
  next
    case (Err e w1)
    with m obtain j where j: "e = ErrWrite" "wr_out w1 = wr_out w @ take j xs"
      using writes_Err by blast
    then have "wr_out w1 = wr_out w @ take (min j (length xs)) (xs @ ys)"
      by (simp add: min_def)
    then have "\<exists>i. wr_out w1 = wr_out w @ take i (xs @ ys)" ..
    with Err j(1) show ?thesis by (simp add: go_bind_def del: take_append)
  next
    case (Panic p)
    with m show ?thesis by (simp add: writes_no_panic)
  qed
  moreover have "emits (go_bind m k) (xs @ ys)"
    using m k by (intro emits_bind writes_emits)
  ultimately show ?thesis by (simp add: writes_def)
qed

lemma writes_go_seq_Cons [writes_intro]:
  "writes m xs \<Longrightarrow> writes (go_seq ms) ys \<Longrightarrow> writes (go_seq (m # ms)) (xs @ ys)"
  by (simp add: writes_bind)

lemma writes_go_seq_Nil [writes_intro]: "writes (go_seq []) []"
  by (simp add: writes_ret)

lemma writes_cong: "writes m xs \<Longrightarrow> xs = ys \<Longrightarrow> writes m ys"
  by simp

lemma no_errorD: "no_error m \<Longrightarrow> m s \<noteq> Err e s'"
  by (simp add: no_error_def)

end
