(* ===== verification/Bigint.thy ===== *)
theory Bigint
  imports Go_IO
begin

text \<open>
  \<open>src/tunnel/bigint.go\<close>: fixed-width integers, byte buffers, options and socket addresses on
  the wire, and \<open>RawSlice\<close>. For each encoder the format it writes is given as a function
  \<open>enc_...\<close>; the lemmas show that the encoder emits it on every writer and that the decoder
  inverts it.
\<close>

section \<open>Raw slices\<close>

record RawSlice =
  Buff :: bytes

definition RawSlice_WriteTo :: "RawSlice \<Rightarrow> (unit, writer) go" where
  "RawSlice_WriteTo w = Write (Buff w)"

text \<open>
  One \<open>Read\<close> call of at most \<open>n\<close> bytes. The two readers of package \<open>bytes\<close> differ only when
  nothing is left and nothing is asked for.
\<close>

definition bytes_Buffer_Read :: "nat \<Rightarrow> reader \<Rightarrow> (error + bytes) \<times> reader" where
  "bytes_Buffer_Read n r =
     (if r = [] \<and> n \<noteq> 0 then (Inl EOF, []) else (Inr (take n r), drop n r))"

definition bytes_Reader_Read :: "nat \<Rightarrow> reader \<Rightarrow> (error + bytes) \<times> reader" where
  "bytes_Reader_Read n r =
     (if r = [] then (Inl EOF, []) else (Inr (take n r), drop n r))"

definition RawSlice_ReadFrom ::
    "(nat \<Rightarrow> reader \<Rightarrow> (error + bytes) \<times> reader) \<Rightarrow> RawSlice \<Rightarrow> (RawSlice, reader) go" where
  "RawSlice_ReadFrom rd w r =
     (case rd (length (Buff w)) r of
        (Inl e, r') \<Rightarrow> Err e r'
      | (Inr got, r') \<Rightarrow> Ok (w\<lparr>Buff := got @ drop (length got) (Buff w)\<rparr>) r')"

section \<open>Integers\<close>

text \<open>
  \<open>var value T; binary.Read(w, binary.BigEndian, &value); return value\<close>: the error is dropped,
  so a short stream reads as zero.
\<close>

definition read_or_zero :: "('a::len word, reader) go" where
  "read_or_zero r = (case binary_Read r of (Inr v, r') \<Rightarrow> Ok v r' | (Inl e, r') \<Rightarrow> Ok 0 r')"

definition ReadU8 :: "(u8, reader) go" where
  "ReadU8 = read_or_zero"

definition WriteU8 :: "u8 \<Rightarrow> (unit, writer) go" where
  "WriteU8 value = binary_Write value"

definition ReadU16 :: "(u16, reader) go" where
  "ReadU16 = read_or_zero"

definition WriteU16 :: "u16 \<Rightarrow> (unit, writer) go" where
  "WriteU16 value = binary_Write value"

definition ReadU32 :: "(u32, reader) go" where
  "ReadU32 = read_or_zero"

definition WriteU32 :: "u32 \<Rightarrow> (unit, writer) go" where
  "WriteU32 value = binary_Write value"

definition ReadU64 :: "(u64, reader) go" where
  "ReadU64 = read_or_zero"

definition WriteU64 :: "u64 \<Rightarrow> (unit, writer) go" where
  "WriteU64 value = binary_Write value"

text \<open>\<open>WriteData\<close> is called with byte slices only.\<close>

definition WriteData :: "bytes \<Rightarrow> (unit, writer) go" where
  "WriteData val = Write val"

section \<open>Buffers\<close>

text \<open>
  The loop \<open>for index := range buff\<close> reads one element at a time and returns at the first
  error, with the elements read so far stored and the others as they were.
\<close>

fun read_elems :: "'a::len word list \<Rightarrow> reader \<Rightarrow> ('a word list \<times> error option) \<times> reader" where
  "read_elems [] r = (([], None), r)"
| "read_elems (x # xs) r =
     (case binary_Read r of
        (Inl e, r') \<Rightarrow> ((x # xs, Some e), r')
      | (Inr v, r') \<Rightarrow> (case read_elems xs r' of ((vs, e), r'') \<Rightarrow> ((v # vs, e), r'')))"

definition ReadBuff :: "bytes \<Rightarrow> reader \<Rightarrow> (bytes \<times> error option) \<times> reader" where
  "ReadBuff buff r = read_elems buff r"

definition ReadBuffN :: "nat \<Rightarrow> reader \<Rightarrow> (bytes \<times> error option) \<times> reader" where
  "ReadBuffN n r = ReadBuff (replicate n 0) r"

definition ReadU8Buff :: "u8 list \<Rightarrow> reader \<Rightarrow> (u8 list \<times> error option) \<times> reader" where
  "ReadU8Buff buff r = read_elems buff r"

definition ReadU16Buff :: "u16 list \<Rightarrow> reader \<Rightarrow> (u16 list \<times> error option) \<times> reader" where
  "ReadU16Buff buff r = read_elems buff r"

definition ReadU32Buff :: "u32 list \<Rightarrow> reader \<Rightarrow> (u32 list \<times> error option) \<times> reader" where
  "ReadU32Buff buff r = read_elems buff r"

definition ReadU64Buff :: "u64 list \<Rightarrow> reader \<Rightarrow> (u64 list \<times> error option) \<times> reader" where
  "ReadU64Buff buff r = read_elems buff r"

text \<open>\<open>if err := ReadBuff(...); err != nil { return err }\<close>\<close>

definition err_check :: "(reader \<Rightarrow> ('b \<times> error option) \<times> reader) \<Rightarrow> ('b, reader) go" where
  "err_check m r = (case m r of ((b, None), r') \<Rightarrow> Ok b r' | ((b, Some e), r') \<Rightarrow> Err e r')"

section \<open>Options\<close>

definition ReadOption :: "('a, reader) go \<Rightarrow> ('a option, reader) go" where
  "ReadOption callback =
     go_bind ReadU8 (\<lambda>code.
       if code = 1 then go_bind callback (\<lambda>x. ret (Some x)) else ret None)"

definition WriteOption :: "(unit, writer) go option \<Rightarrow> (unit, writer) go" where
  "WriteOption value =
     (case value of
        Some value_WriteTo \<Rightarrow> go_seq [binary_Write (1 :: u8), value_WriteTo]
      | None \<Rightarrow> binary_Write (0 :: u8))"

definition WriteOptionU8 :: "u8 option \<Rightarrow> (unit, writer) go" where
  "WriteOptionU8 value =
     (case value of None \<Rightarrow> binary_Write (0 :: u8)
      | Some v \<Rightarrow> go_seq [binary_Write (1 :: u8), WriteU8 v])"

definition WriteOptionU16 :: "u16 option \<Rightarrow> (unit, writer) go" where
  "WriteOptionU16 value =
     (case value of None \<Rightarrow> binary_Write (0 :: u8)
      | Some v \<Rightarrow> go_seq [binary_Write (1 :: u8), WriteU16 v])"

definition WriteOptionU32 :: "u32 option \<Rightarrow> (unit, writer) go" where
  "WriteOptionU32 value =
     (case value of None \<Rightarrow> binary_Write (0 :: u8)
      | Some v \<Rightarrow> go_seq [binary_Write (1 :: u8), WriteU32 v])"

definition WriteOptionU64 :: "u64 option \<Rightarrow> (unit, writer) go" where
  "WriteOptionU64 value =
     (case value of None \<Rightarrow> binary_Write (0 :: u8)
      | Some v \<Rightarrow> go_seq [binary_Write (1 :: u8), WriteU64 v])"

section \<open>Socket addresses\<close>

type_synonym AddressPort = addrport

definition AddressPort_WriteTo :: "AddressPort \<Rightarrow> (unit, writer) go" where
  "AddressPort_WriteTo sock =
     (let addr = ap_Addr sock; ip = Addr_MarshalBinary addr in
      go_seq
        [if Addr_Is6 addr then go_seq [WriteU8 6, Write ip] else go_seq [WriteU8 4, Write ip],
         WriteU16 (ap_Port sock)])"

definition AddressPort_ReadFrom :: "(AddressPort, reader) go" where
  "AddressPort_ReadFrom =
     go_bind ReadU8 (\<lambda>tag.
       if tag = 4 then
         go_bind (err_check (ReadBuffN 4)) (\<lambda>buff.
         go_bind ReadU16 (\<lambda>port. ret (AddrPort (AddrFrom4 buff) port)))
       else if tag = 6 then
         go_bind (err_check (ReadBuffN 16)) (\<lambda>buff.
         go_bind ReadU16 (\<lambda>port. ret (AddrPort (AddrFrom16 buff) port)))
       else throw (Errorf ''cannot get IP type''))"

text \<open>The wire formats, as functions of the value.\<close>

definition enc_AddressPort :: "AddressPort \<Rightarrow> bytes" where
  "enc_AddressPort p =
     (if Addr_Is6 (ap_Addr p) then 6 else 4) # Addr_MarshalBinary (ap_Addr p) @ be_bytes (ap_Port p)"

definition enc_option :: "('a \<Rightarrow> bytes) \<Rightarrow> 'a option \<Rightarrow> bytes" where
  "enc_option f v = (case v of None \<Rightarrow> [0] | Some x \<Rightarrow> 1 # f x)"

text \<open>The addresses that fit the format: valid and without a zone.\<close>

definition wire_addr :: "AddressPort \<Rightarrow> bool" where
  "wire_addr p \<longleftrightarrow> AddrPort_IsValid p \<and> Addr_Zone (ap_Addr p) = []"

section \<open>What the encoders write\<close>

lemma writes_WriteU8 [writes_intro]: "writes (WriteU8 a) [a]"
  and writes_WriteU16 [writes_intro]: "writes (WriteU16 b) (be_bytes b)"
  and writes_WriteU32 [writes_intro]: "writes (WriteU32 c) (be_bytes c)"
  and writes_WriteU64 [writes_intro]: "writes (WriteU64 d) (be_bytes d)"
  and writes_WriteData [writes_intro]: "writes (WriteData bs) bs"
  and writes_RawSlice [writes_intro]: "writes (RawSlice_WriteTo w) (Buff w)"
  using writes_binary_Write [of a]
  by (simp_all add: WriteU8_def WriteU16_def WriteU32_def WriteU64_def WriteData_def
      RawSlice_WriteTo_def writes_binary_Write writes_Write)

lemma writes_flag [writes_intro]: "writes (binary_Write (b :: u8)) [b]"
  using writes_binary_Write [of b] by simp

lemma writes_WriteOptionU64 [writes_intro]:
  "writes (WriteOptionU64 v) (enc_option be_bytes v)"
proof (cases v)
  case None
  then show ?thesis by (simp add: WriteOptionU64_def enc_option_def writes_flag)
next
  case (Some x)
  have "writes (go_seq [binary_Write (1 :: u8), WriteU64 x]) ([1] @ be_bytes x @ [])"
    by (intro writes_intro)
  with Some show ?thesis by (simp add: WriteOptionU64_def enc_option_def)
qed

lemma writes_WriteOptionU32 [writes_intro]:
  "writes (WriteOptionU32 v) (enc_option be_bytes v)"
proof (cases v)
  case None
  then show ?thesis by (simp add: WriteOptionU32_def enc_option_def writes_flag)
next
  case (Some x)
  have "writes (go_seq [binary_Write (1 :: u8), WriteU32 x]) ([1] @ be_bytes x @ [])"
    by (intro writes_intro)
  with Some show ?thesis by (simp add: WriteOptionU32_def enc_option_def)
qed

lemma writes_AddressPort [writes_intro]:
  "writes (AddressPort_WriteTo p) (enc_AddressPort p)"
proof -
  have tagged: "writes (go_seq [WriteU8 t, Write ip]) ([t] @ ip @ [])" for t ip
    by (intro writes_intro)
  have "writes (go_seq [go_seq [WriteU8 t, Write ip], WriteU16 q])
      (([t] @ ip @ []) @ be_bytes q @ [])" for t ip q
    by (intro writes_go_seq_Cons writes_go_seq_Nil tagged writes_WriteU16)
  then show ?thesis
    by (simp add: AddressPort_WriteTo_def enc_AddressPort_def Let_def)
qed

section \<open>What the decoders read\<close>

lemma binary_Read_bytes:
  "LENGTH('a::len) mod 8 = 0 \<Longrightarrow> binary_Read (be_bytes (v :: 'a word) @ rest) = (Inr v, rest)"
  by (simp add: binary_Read_def Let_def be_decode_bytes)

lemma reads_ReadU8 [reads_intro]: "reads ReadU8 [a] a"
  and reads_ReadU16 [reads_intro]: "reads ReadU16 (be_bytes b) b"
  and reads_ReadU32 [reads_intro]: "reads ReadU32 (be_bytes c) c"
  and reads_ReadU64 [reads_intro]: "reads ReadU64 (be_bytes d) d"
  using binary_Read_bytes [of a]
  by (simp_all add: reads_def ReadU8_def ReadU16_def ReadU32_def ReadU64_def read_or_zero_def
      binary_Read_bytes)

lemma ReadU8_Cons [simp, go_simps]: "ReadU8 (a # r) = Ok a r"
  using readsD [OF reads_ReadU8, of a r] by simp

lemma ReadU8_Nil [simp, go_simps]: "ReadU8 [] = Ok 0 []"
  by (simp add: ReadU8_def read_or_zero_def binary_Read_def Let_def)

lemma read_or_zero_short:
  "length r < LENGTH('a::len) div 8 \<Longrightarrow> read_or_zero r = Ok (0 :: 'a word) []"
  by (simp add: read_or_zero_def binary_Read_def Let_def)

lemma read_or_zero_full:
  "LENGTH('a::len) div 8 \<le> length r \<Longrightarrow>
   read_or_zero r = Ok (be_decode (take (LENGTH('a) div 8) r) :: 'a word) (drop (LENGTH('a) div 8) r)"
  by (simp add: read_or_zero_def binary_Read_def Let_def)

lemma ReadU16_short [go_simps]: "length r < 2 \<Longrightarrow> ReadU16 r = Ok 0 []"
  and ReadU32_short [go_simps]: "length r < 4 \<Longrightarrow> ReadU32 r = Ok 0 []"
  and ReadU64_short [go_simps]: "length r < 8 \<Longrightarrow> ReadU64 r = Ok 0 []"
  by (simp_all add: ReadU16_def ReadU32_def ReadU64_def read_or_zero_short)

lemma ReadU16_full [go_simps]: "2 \<le> length r \<Longrightarrow> ReadU16 r = Ok (be_decode (take 2 r)) (drop 2 r)"
  and ReadU32_full [go_simps]: "4 \<le> length r \<Longrightarrow> ReadU32 r = Ok (be_decode (take 4 r)) (drop 4 r)"
  and ReadU64_full [go_simps]: "8 \<le> length r \<Longrightarrow> ReadU64 r = Ok (be_decode (take 8 r)) (drop 8 r)"
  by (simp_all add: ReadU16_def ReadU32_def ReadU64_def read_or_zero_full)

lemma ReadU16_total: "\<exists>v r'. ReadU16 r = Ok v r'"
  by (cases "length r < 2") (simp_all add: ReadU16_short ReadU16_full)

lemma ReadU32_total: "\<exists>v r'. ReadU32 r = Ok v r'"
  by (cases "length r < 4") (simp_all add: ReadU32_short ReadU32_full)

lemma ReadU64_total: "\<exists>v r'. ReadU64 r = Ok v r'"
  by (cases "length r < 8") (simp_all add: ReadU64_short ReadU64_full)

text \<open>A buffer is filled whole, or the stream ends and the error is \<open>io.EOF\<close>.\<close>

lemma read_elems_bytes:
  "read_elems (buff :: bytes) r =
     (if length buff \<le> length r then ((take (length buff) r, None), drop (length buff) r)
      else ((r @ drop (length r) buff, Some EOF), []))"
proof (induction buff arbitrary: r)
  case Nil
  then show ?case by simp
next
  case (Cons x xs)
  show ?case
  proof (cases r)
    case Nil
    then show ?thesis by (simp add: binary_Read_def Let_def)
  next
    case (Cons b r')
    then have "binary_Read r = (Inr b, r')" by (simp add: binary_Read_def Let_def)
    with Cons Cons.IH [of r'] show ?thesis by simp
  qed
qed

lemma err_check_ReadBuff:
  "err_check (ReadBuff buff) r =
     (if length buff \<le> length r then Ok (take (length buff) r) (drop (length buff) r)
      else Err EOF [])"
  by (simp add: err_check_def ReadBuff_def read_elems_bytes)

lemma err_check_ReadBuffN [go_simps]:
  "err_check (ReadBuffN n) r = (if n \<le> length r then Ok (take n r) (drop n r) else Err EOF [])"
  by (simp add: err_check_def ReadBuffN_def ReadBuff_def read_elems_bytes)

lemma reads_ReadBuffN [reads_intro]: "length bs = n \<Longrightarrow> reads (err_check (ReadBuffN n)) bs bs"
  by (rule readsI) (simp add: err_check_ReadBuffN)

lemma reads_ReadBuff [reads_intro]:
  "length bs = length buff \<Longrightarrow> reads (err_check (ReadBuff buff)) bs bs"
  by (rule readsI) (simp add: err_check_ReadBuff)

lemma reads_ReadOption_None: "reads (ReadOption m) [0] None"
  by (rule readsI) (simp add: ReadOption_def go_bind_def)

lemma reads_ReadOption_Some:
  "reads m bs x \<Longrightarrow> reads (ReadOption m) (1 # bs) (Some x)"
  by (rule readsI) (simp add: ReadOption_def go_bind_def readsD)

lemma reads_ReadOption [reads_intro]:
  assumes "\<And>x. v = Some x \<Longrightarrow> reads m (f x) x"
  shows "reads (ReadOption m) (enc_option f v) v"
  using assms by (cases v) (simp_all add: enc_option_def reads_ReadOption_None reads_ReadOption_Some)

lemma reads_AddressPort [reads_intro]:
  assumes "wire_addr p"
  shows "reads AddressPort_ReadFrom (enc_AddressPort p) p"
proof (cases p)
  case (AddrPort a q)
  show ?thesis
  proof (cases a)
    case ZeroAddr
    with AddrPort assms show ?thesis
      by (simp add: wire_addr_def AddrPort_IsValid_def Addr_IsValid_def)
  next
    case (V4 w)
    with AddrPort show ?thesis
      by (intro readsI) (simp add: AddressPort_ReadFrom_def enc_AddressPort_def go_bind_def
          err_check_ReadBuffN readsD [OF reads_ReadU16])
  next
    case (V6 w z)
    with AddrPort assms have "z = []" by (simp add: wire_addr_def)
    with V6 AddrPort show ?thesis
      by (intro readsI) (simp add: AddressPort_ReadFrom_def enc_AddressPort_def go_bind_def
          err_check_ReadBuffN readsD [OF reads_ReadU16])
  qed
qed

lemma length_enc_AddressPort: "wire_addr a \<Longrightarrow> length (enc_AddressPort a) \<le> 19"
  by (cases a; cases "ap_Addr a")
     (auto simp: enc_AddressPort_def wire_addr_def AddrPort_IsValid_def Addr_IsValid_def)

end
