(* ===== verification/Lib.thy ===== *)
theory Lib
  imports Bigint
begin

text \<open>
  \<open>src/tunnel/lib.go\<close>: port protocols, agent session identifiers and port ranges, with their
  encoders and decoders.
\<close>

section \<open>Data\<close>

record PortProto =
  Value :: string

record AgentSessionId =
  SessionID :: u64
  AccountID :: u64
  AgentID :: u64

record PortRange =
  pr_IP :: bytes
  pr_PortStart :: u16
  pr_PortEnd :: u16
  pr_PortProto :: PortProto

section \<open>Operations\<close>

definition PortProto_WriteTo :: "PortProto \<Rightarrow> (unit, writer) go" where
  "PortProto_WriteTo w =
     (if Value w = ''tcp'' then WriteU8 1
      else if Value w = ''udp'' then WriteU8 2
      else if Value w = ''both'' then WriteU8 3
      else throw (Errorf ''set valid proto''))"

definition PortProto_ReadFrom :: "PortProto \<Rightarrow> (PortProto, reader) go" where
  "PortProto_ReadFrom w =
     go_bind ReadU8 (\<lambda>b.
       if b = 1 then ret (w\<lparr>Value := ''tcp''\<rparr>)
       else if b = 2 then ret (w\<lparr>Value := ''udp''\<rparr>)
       else if b = 3 then ret (w\<lparr>Value := ''both''\<rparr>)
       else throw (Errorf ''invalid proto''))"

definition AgentSessionId_WriteTo :: "AgentSessionId \<Rightarrow> (unit, writer) go" where
  "AgentSessionId_WriteTo w =
     go_seq [WriteU64 (SessionID w), WriteU64 (AccountID w), WriteU64 (AgentID w)]"

definition AgentSessionId_ReadFrom :: "(AgentSessionId, reader) go" where
  "AgentSessionId_ReadFrom =
     go_bind ReadU64 (\<lambda>s. go_bind ReadU64 (\<lambda>a. go_bind ReadU64 (\<lambda>g.
       ret \<lparr>SessionID = s, AccountID = a, AgentID = g\<rparr>)))"

definition PortRange_WriteTo :: "PortRange \<Rightarrow> (unit, writer) go" where
  "PortRange_WriteTo w =
     go_seq [Write (pr_IP w), WriteU16 (pr_PortStart w), WriteU16 (pr_PortEnd w),
       PortProto_WriteTo (pr_PortProto w)]"

text \<open>The source reads nothing here and returns \<open>nil\<close>.\<close>

definition PortRange_ReadFrom :: "PortRange \<Rightarrow> (PortRange, reader) go" where
  "PortRange_ReadFrom w = ret w"

section \<open>Wire formats\<close>

definition valid_proto :: "PortProto \<Rightarrow> bool" where
  "valid_proto w \<longleftrightarrow> Value w \<in> {''tcp'', ''udp'', ''both''}"

definition enc_PortProto :: "PortProto \<Rightarrow> bytes" where
  "enc_PortProto w = [if Value w = ''tcp'' then 1 else if Value w = ''udp'' then 2 else 3]"

definition enc_AgentSessionId :: "AgentSessionId \<Rightarrow> bytes" where
  "enc_AgentSessionId w = be_bytes (SessionID w) @ be_bytes (AccountID w) @ be_bytes (AgentID w)"

definition enc_PortRange :: "PortRange \<Rightarrow> bytes" where
  "enc_PortRange w =
     pr_IP w @ be_bytes (pr_PortStart w) @ be_bytes (pr_PortEnd w) @ enc_PortProto (pr_PortProto w)"

lemma length_enc_AgentSessionId [simp]: "length (enc_AgentSessionId w) = 24"
  by (simp add: enc_AgentSessionId_def)

lemma writes_PortProto [writes_intro]:
  "valid_proto w \<Longrightarrow> writes (PortProto_WriteTo w) (enc_PortProto w)"
  by (auto simp: valid_proto_def PortProto_WriteTo_def enc_PortProto_def intro: writes_intro)

lemma PortProto_invalid: "\<not> valid_proto w \<Longrightarrow> PortProto_WriteTo w = throw (Errorf ''set valid proto'')"
  by (auto simp: valid_proto_def PortProto_WriteTo_def)

lemma reads_PortProto [reads_intro]:
  assumes "valid_proto w"
  shows "reads (PortProto_ReadFrom v) (enc_PortProto w) w"
  using assms
  by (intro readsI; cases v; cases w)
     (auto simp: valid_proto_def PortProto_ReadFrom_def enc_PortProto_def go_bind_def)

lemma writes_AgentSessionId [writes_intro]:
  "writes (AgentSessionId_WriteTo w) (enc_AgentSessionId w)"
proof -
  have "writes (go_seq [WriteU64 a, WriteU64 b, WriteU64 c])
      (be_bytes a @ be_bytes b @ be_bytes c @ [])" for a b c
    by (intro writes_intro)
  then show ?thesis by (simp add: AgentSessionId_WriteTo_def enc_AgentSessionId_def)
qed

lemma reads_AgentSessionId [reads_intro]: "reads AgentSessionId_ReadFrom (enc_AgentSessionId w) w"
proof -
  have "reads AgentSessionId_ReadFrom (be_bytes a @ be_bytes b @ be_bytes c @ [])
      \<lparr>SessionID = a, AccountID = b, AgentID = c\<rparr>" for a b c
    unfolding AgentSessionId_ReadFrom_def by (rule reads_intro)+
  then show ?thesis by (cases w) (simp add: enc_AgentSessionId_def)
qed

lemma writes_PortRange [writes_intro]:
  assumes "valid_proto (pr_PortProto w)"
  shows "writes (PortRange_WriteTo w) (enc_PortRange w)"
proof -
  have "writes (PortRange_WriteTo w)
      (pr_IP w @ be_bytes (pr_PortStart w) @ be_bytes (pr_PortEnd w) @ enc_PortProto (pr_PortProto w) @ [])"
    unfolding PortRange_WriteTo_def by (intro writes_intro assms)
  then show ?thesis by (simp add: enc_PortRange_def)
qed

text \<open>Reading a session identifier never fails: missing bytes read as zero.\<close>

lemma AgentSessionId_ReadFrom_total: "\<exists>w r'. AgentSessionId_ReadFrom r = Ok w r'"
proof -
  obtain a r1 where "ReadU64 r = Ok a r1" using ReadU64_total by blast
  moreover obtain b r2 where "ReadU64 r1 = Ok b r2" using ReadU64_total by blast
  moreover obtain c r3 where "ReadU64 r2 = Ok c r3" using ReadU64_total by blast
  ultimately show ?thesis by (simp add: AgentSessionId_ReadFrom_def go_bind_def)
qed

end
