(* ===== verification/Control_Message.thy ===== *)
theory Control_Message
  imports Lib
begin

text \<open>
  \<open>src/tunnel/control_message.go\<close>: the requests and responses of the playit control protocol and
  their encoders and decoders. The structs hold one optional field per kind of message; the
  datatypes \<open>request\<close> and \<open>response\<close> are the protocol's view, one message at a time, that the
  encoders refine.
\<close>

text \<open>
  A \<open>time.Time\<close> is given by its \<open>UnixMilli\<close> value (an \<open>int64\<close>, here as its 64 bits), the only
  view of it that the messages take; \<open>time.UnixMilli(int64(x))\<close> is the identity on it.
\<close>

type_synonym time = u64

section \<open>Ping and pong\<close>

record Ping =
  ping_Now :: time
  ping_CurrentPing :: "u32 option"
  ping_SessionID :: "AgentSessionId option"

definition Ping_WriteTo :: "Ping \<Rightarrow> (unit, writer) go" where
  "Ping_WriteTo w =
     go_seq
       [WriteU64 (ping_Now w),
        (case ping_CurrentPing w of
           None \<Rightarrow> binary_Write (0 :: u8)
         | Some p \<Rightarrow> go_seq [binary_Write (1 :: u8), binary_Write p]),
        (case ping_SessionID w of
           None \<Rightarrow> binary_Write (0 :: u8)
         | Some s \<Rightarrow> go_seq [binary_Write (1 :: u8), AgentSessionId_WriteTo s])]"

definition Ping_ReadFrom :: "(Ping, reader) go" where
  "Ping_ReadFrom =
     go_bind ReadU64 (\<lambda>now.
     go_bind ReadU32 (\<lambda>current.
     go_bind AgentSessionId_ReadFrom (\<lambda>s.
       ret \<lparr>ping_Now = now, ping_CurrentPing = Some current, ping_SessionID = Some s\<rparr>)))"

record Pong =
  pong_RequestNow :: u64
  pong_ServerNow :: u64
  pong_ServerId :: u64
  pong_DataCenterId :: u32
  pong_ClientAddr :: AddressPort
  pong_TunnelAddr :: AddressPort
  pong_SessionExpireAt :: "u64 option"

definition Pong_WriteTo :: "Pong \<Rightarrow> (unit, writer) go" where
  "Pong_WriteTo w =
     go_seq
       [WriteU64 (pong_RequestNow w), WriteU64 (pong_ServerNow w), WriteU64 (pong_ServerId w),
        WriteU32 (pong_DataCenterId w), AddressPort_WriteTo (pong_ClientAddr w),
        AddressPort_WriteTo (pong_TunnelAddr w), WriteOptionU64 (pong_SessionExpireAt w)]"

definition Pong_ReadFrom :: "(Pong, reader) go" where
  "Pong_ReadFrom =
     go_bind ReadU64 (\<lambda>rn. go_bind ReadU64 (\<lambda>sn. go_bind ReadU64 (\<lambda>sid.
     go_bind ReadU32 (\<lambda>dc.
     go_bind AddressPort_ReadFrom (\<lambda>ca.
     go_bind AddressPort_ReadFrom (\<lambda>ta.
     go_bind ReadU64 (\<lambda>sess.
       ret \<lparr>pong_RequestNow = rn, pong_ServerNow = sn, pong_ServerId = sid,
         pong_DataCenterId = dc, pong_ClientAddr = ca, pong_TunnelAddr = ta,
         pong_SessionExpireAt = Some sess\<rparr>)))))))"

section \<open>Agent registration\<close>

record AgentRegister =
  ar_AccountID :: u64
  ar_AgentId :: u64
  ar_AgentVersion :: u64
  ar_Timestamp :: u64
  ar_ClientAddr :: AddressPort
  ar_TunnelAddr :: AddressPort
  ar_Signature :: bytes

definition AgentRegister_WritePlain :: "AgentRegister \<Rightarrow> (unit, writer) go" where
  "AgentRegister_WritePlain w =
     go_seq
       [WriteU64 (ar_AccountID w), WriteU64 (ar_AgentId w), WriteU64 (ar_AgentVersion w),
        WriteU64 (ar_Timestamp w), AddressPort_WriteTo (ar_ClientAddr w),
        AddressPort_WriteTo (ar_TunnelAddr w)]"

definition AgentRegister_WriteTo :: "AgentRegister \<Rightarrow> (unit, writer) go" where
  "AgentRegister_WriteTo w =
     go_seq
       [WriteU64 (ar_AccountID w), WriteU64 (ar_AgentId w), WriteU64 (ar_AgentVersion w),
        WriteU64 (ar_Timestamp w), AddressPort_WriteTo (ar_ClientAddr w),
        AddressPort_WriteTo (ar_TunnelAddr w), Write (ar_Signature w)]"

definition AgentRegister_ReadFrom :: "(AgentRegister, reader) go" where
  "AgentRegister_ReadFrom =
     go_bind ReadU64 (\<lambda>acc. go_bind ReadU64 (\<lambda>ag. go_bind ReadU64 (\<lambda>ver. go_bind ReadU64 (\<lambda>ts.
     go_bind AddressPort_ReadFrom (\<lambda>ca.
     go_bind AddressPort_ReadFrom (\<lambda>ta.
     go_bind (err_check (ReadBuff (replicate 32 0))) (\<lambda>sig.
       ret \<lparr>ar_AccountID = acc, ar_AgentId = ag, ar_AgentVersion = ver, ar_Timestamp = ts,
         ar_ClientAddr = ca, ar_TunnelAddr = ta, ar_Signature = sig\<rparr>)))))))"

record AgentRegistered =
  reg_ID :: AgentSessionId
  reg_ExpiresAt :: time

definition AgentRegistered_WriteTo :: "AgentRegistered \<Rightarrow> (unit, writer) go" where
  "AgentRegistered_WriteTo w =
     go_seq [AgentSessionId_WriteTo (reg_ID w), WriteU64 (reg_ExpiresAt w)]"

definition AgentRegistered_ReadFrom :: "(AgentRegistered, reader) go" where
  "AgentRegistered_ReadFrom =
     go_bind AgentSessionId_ReadFrom (\<lambda>i. go_bind ReadU64 (\<lambda>t.
       ret \<lparr>reg_ID = i, reg_ExpiresAt = t\<rparr>))"

section \<open>Port mappings\<close>

record AgentCheckPortMapping =
  acpm_AgentSessionId :: AgentSessionId
  acpm_PortRange :: PortRange

definition zero_PortRange :: PortRange where
  "zero_PortRange =
     \<lparr>pr_IP = [], pr_PortStart = 0, pr_PortEnd = 0, pr_PortProto = \<lparr>Value = ''''\<rparr>\<rparr>"

definition AgentCheckPortMapping_WriteTo :: "AgentCheckPortMapping \<Rightarrow> (unit, writer) go" where
  "AgentCheckPortMapping_WriteTo w =
     go_seq [AgentSessionId_WriteTo (acpm_AgentSessionId w), PortRange_WriteTo (acpm_PortRange w)]"

definition AgentCheckPortMapping_ReadFrom :: "(AgentCheckPortMapping, reader) go" where
  "AgentCheckPortMapping_ReadFrom =
     go_bind AgentSessionId_ReadFrom (\<lambda>i. go_bind (PortRange_ReadFrom zero_PortRange) (\<lambda>p.
       ret \<lparr>acpm_AgentSessionId = i, acpm_PortRange = p\<rparr>))"

record AgentPortMappingFound =
  ToAgent :: "AgentSessionId option"

definition AgentPortMappingFound_WriteTo :: "AgentPortMappingFound \<Rightarrow> (unit, writer) go" where
  "AgentPortMappingFound_WriteTo agentPort =
     (case ToAgent agentPort of
        Some a \<Rightarrow> go_seq [WriteU32 1, AgentSessionId_WriteTo a]
      | None \<Rightarrow> ret ())"

text \<open>
  The receiver is a pointer that its only caller leaves nil; storing into a nil receiver is a
  run-time panic, and it happens only when the tag is 1.
\<close>

definition AgentPortMappingFound_ReadFrom ::
    "AgentPortMappingFound option \<Rightarrow> (AgentPortMappingFound, reader) go" where
  "AgentPortMappingFound_ReadFrom agentPort =
     go_bind ReadU32 (\<lambda>code.
       if code = 1 then
         (case agentPort of
            None \<Rightarrow> crash NilDeref
          | Some f \<Rightarrow> go_bind AgentSessionId_ReadFrom (\<lambda>a. ret (f\<lparr>ToAgent := Some a\<rparr>)))
       else throw (Errorf ''unknown AgentPortMappingFound id''))"

record AgentPortMapping =
  apm_Range :: PortRange
  apm_Found :: "AgentPortMappingFound option"

definition AgentPortMapping_WriteTo :: "AgentPortMapping \<Rightarrow> (unit, writer) go" where
  "AgentPortMapping_WriteTo w =
     go_seq
       [PortRange_WriteTo (apm_Range w),
        (case apm_Found w of
           None \<Rightarrow> crash NilDeref
         | Some f \<Rightarrow> AgentPortMappingFound_WriteTo f)]"

definition AgentPortMapping_ReadFrom :: "AgentPortMapping \<Rightarrow> (AgentPortMapping, reader) go" where
  "AgentPortMapping_ReadFrom w =
     go_bind (PortRange_ReadFrom (apm_Range w)) (\<lambda>r.
     go_bind (AgentPortMappingFound_ReadFrom (apm_Found w)) (\<lambda>f.
       ret \<lparr>apm_Range = r, apm_Found = Some f\<rparr>))"

section \<open>UDP channel details\<close>

record UdpChannelDetails =
  ucd_TunnelAddr :: AddressPort
  ucd_Token :: bytes

definition UdpChannelDetails_WriteTo :: "UdpChannelDetails \<Rightarrow> (unit, writer) go" where
  "UdpChannelDetails_WriteTo w =
     go_seq
       [AddressPort_WriteTo (ucd_TunnelAddr w), WriteU64 (of_nat (length (ucd_Token w))),
        Write (ucd_Token w)]"

definition UdpChannelDetails_ReadFrom :: "(UdpChannelDetails, reader) go" where
  "UdpChannelDetails_ReadFrom =
     go_bind AddressPort_ReadFrom (\<lambda>a.
     go_bind ReadU64 (\<lambda>n.
     go_bind (make_bytes n) (\<lambda>buff.
     go_bind (err_check (ReadBuff buff)) (\<lambda>token.
       ret \<lparr>ucd_TunnelAddr = a, ucd_Token = token\<rparr>))))"

section \<open>Requests\<close>

record ControlRequest =
  creq_Ping :: "Ping option"
  creq_AgentRegister :: "AgentRegister option"
  creq_AgentKeepAlive :: "AgentSessionId option"
  creq_SetupUdpChannel :: "AgentSessionId option"
  creq_AgentCheckPortMapping :: "AgentCheckPortMapping option"

definition zero_ControlRequest :: ControlRequest where
  "zero_ControlRequest =
     \<lparr>creq_Ping = None, creq_AgentRegister = None, creq_AgentKeepAlive = None,
      creq_SetupUdpChannel = None, creq_AgentCheckPortMapping = None\<rparr>"

definition ControlRequest_WriteTo :: "ControlRequest \<Rightarrow> (unit, writer) go" where
  "ControlRequest_WriteTo w =
     (case creq_Ping w of Some p \<Rightarrow> go_seq [WriteU32 6, Ping_WriteTo p]
      | None \<Rightarrow> (case creq_AgentRegister w of Some r \<Rightarrow> go_seq [WriteU32 2, AgentRegister_WriteTo r]
      | None \<Rightarrow> (case creq_AgentKeepAlive w of Some s \<Rightarrow> go_seq [WriteU32 3, AgentSessionId_WriteTo s]
      | None \<Rightarrow> (case creq_SetupUdpChannel w of Some s \<Rightarrow> go_seq [WriteU32 4, AgentSessionId_WriteTo s]
      | None \<Rightarrow> (case creq_AgentCheckPortMapping w of
            Some c \<Rightarrow> go_seq [WriteU32 5, AgentCheckPortMapping_WriteTo c]
          | None \<Rightarrow> throw (Errorf ''set ControlRequest''))))))"

definition ControlRequest_ReadFrom :: "ControlRequest \<Rightarrow> (ControlRequest, reader) go" where
  "ControlRequest_ReadFrom w =
     go_bind ReadU32 (\<lambda>code.
       if code = 1 then go_bind Ping_ReadFrom (\<lambda>p. ret (w\<lparr>creq_Ping := Some p\<rparr>))
       else if code = 2 then
         go_bind AgentRegister_ReadFrom (\<lambda>r. ret (w\<lparr>creq_AgentRegister := Some r\<rparr>))
       else if code = 3 then
         go_bind AgentSessionId_ReadFrom (\<lambda>s. ret (w\<lparr>creq_AgentKeepAlive := Some s\<rparr>))
       else if code = 4 then
         go_bind AgentSessionId_ReadFrom (\<lambda>s. ret (w\<lparr>creq_SetupUdpChannel := Some s\<rparr>))
       else if code = 5 then
         go_bind AgentCheckPortMapping_ReadFrom (\<lambda>c. ret (w\<lparr>creq_AgentCheckPortMapping := Some c\<rparr>))
       else throw (Errorf ''invalid ControlRequest id''))"

section \<open>Responses\<close>

record ControlResponse =
  cres_InvalidSignature :: bool
  cres_Unauthorized :: bool
  cres_RequestQueued :: bool
  cres_TryAgainLater :: bool
  cres_Pong :: "Pong option"
  cres_AgentRegistered :: "AgentRegistered option"
  cres_AgentPortMapping :: "AgentPortMapping option"
  cres_UdpChannelDetails :: "UdpChannelDetails option"

definition zero_ControlResponse :: ControlResponse where
  "zero_ControlResponse =
     \<lparr>cres_InvalidSignature = False, cres_Unauthorized = False, cres_RequestQueued = False,
      cres_TryAgainLater = False, cres_Pong = None, cres_AgentRegistered = None,
      cres_AgentPortMapping = None, cres_UdpChannelDetails = None\<rparr>"

definition ControlResponse_WriteTo :: "ControlResponse \<Rightarrow> (unit, writer) go" where
  "ControlResponse_WriteTo w =
     (case cres_Pong w of Some p \<Rightarrow> go_seq [WriteU32 1, Pong_WriteTo p]
      | None \<Rightarrow>
        if cres_InvalidSignature w then WriteU32 2
        else if cres_Unauthorized w then WriteU32 3
        else if cres_RequestQueued w then WriteU32 4
        else if cres_TryAgainLater w then WriteU32 5
        else (case cres_AgentRegistered w of
            Some r \<Rightarrow> go_seq [WriteU32 6, AgentRegistered_WriteTo r]
        | None \<Rightarrow> (case cres_AgentPortMapping w of
            Some m \<Rightarrow> go_seq [WriteU32 7, AgentPortMapping_WriteTo m]
        | None \<Rightarrow> (case cres_UdpChannelDetails w of
            Some d \<Rightarrow> go_seq [WriteU32 8, UdpChannelDetails_WriteTo d]
        | None \<Rightarrow> throw (Errorf ''set one option to write'')))))"

definition zero_AgentPortMapping :: AgentPortMapping where
  "zero_AgentPortMapping = \<lparr>apm_Range = zero_PortRange, apm_Found = None\<rparr>"

definition ControlResponse_ReadFrom :: "ControlResponse \<Rightarrow> (ControlResponse, reader) go" where
  "ControlResponse_ReadFrom w =
     go_bind ReadU32 (\<lambda>code.
       if code = 1 then go_bind Pong_ReadFrom (\<lambda>p. ret (w\<lparr>cres_Pong := Some p\<rparr>))
       else if code = 2 then ret (w\<lparr>cres_InvalidSignature := True\<rparr>)
       else if code = 3 then ret (w\<lparr>cres_Unauthorized := True\<rparr>)
       else if code = 4 then ret (w\<lparr>cres_RequestQueued := True\<rparr>)
       else if code = 5 then ret (w\<lparr>cres_TryAgainLater := True\<rparr>)
       else if code = 6 then
         go_bind AgentRegistered_ReadFrom (\<lambda>r. ret (w\<lparr>cres_AgentRegistered := Some r\<rparr>))
       else if code = 7 then
         go_bind (AgentPortMapping_ReadFrom zero_AgentPortMapping) (\<lambda>m.
           ret (w\<lparr>cres_AgentPortMapping := Some m\<rparr>))
       else if code = 8 then
         go_bind UdpChannelDetails_ReadFrom (\<lambda>d. ret (w\<lparr>cres_UdpChannelDetails := Some d\<rparr>))
       else throw (Errorf ''invalid ControlResponse id''))"

end
