(* ===== verification/Control_Codec.thy ===== *)
theory Control_Codec
  imports Control_Message
begin

text \<open>
  The wire format of the control protocol, one message at a time, and the lemmas that relate the
  encoders and decoders of \<open>control_message.go\<close> to it: what each encoder writes, which messages
  each decoder inverts, and what the decoders do with the messages they do not.
\<close>

section \<open>Wire formats of the message bodies\<close>

definition enc_Ping :: "Ping \<Rightarrow> bytes" where
  "enc_Ping w =
     be_bytes (ping_Now w) @ enc_option be_bytes (ping_CurrentPing w) @
     enc_option enc_AgentSessionId (ping_SessionID w)"

definition enc_Pong_head :: "Pong \<Rightarrow> bytes" where
  "enc_Pong_head w =
     be_bytes (pong_RequestNow w) @ be_bytes (pong_ServerNow w) @ be_bytes (pong_ServerId w) @
     be_bytes (pong_DataCenterId w) @ enc_AddressPort (pong_ClientAddr w) @
     enc_AddressPort (pong_TunnelAddr w)"

definition enc_Pong :: "Pong \<Rightarrow> bytes" where
  "enc_Pong w = enc_Pong_head w @ enc_option be_bytes (pong_SessionExpireAt w)"

definition enc_AgentRegister_plain :: "AgentRegister \<Rightarrow> bytes" where
  "enc_AgentRegister_plain w =
     be_bytes (ar_AccountID w) @ be_bytes (ar_AgentId w) @ be_bytes (ar_AgentVersion w) @
     be_bytes (ar_Timestamp w) @ enc_AddressPort (ar_ClientAddr w) @ enc_AddressPort (ar_TunnelAddr w)"

definition enc_AgentRegister :: "AgentRegister \<Rightarrow> bytes" where
  "enc_AgentRegister w = enc_AgentRegister_plain w @ ar_Signature w"

definition enc_AgentRegistered :: "AgentRegistered \<Rightarrow> bytes" where
  "enc_AgentRegistered w = enc_AgentSessionId (reg_ID w) @ be_bytes (reg_ExpiresAt w)"

definition enc_AgentCheckPortMapping :: "AgentCheckPortMapping \<Rightarrow> bytes" where
  "enc_AgentCheckPortMapping w =
     enc_AgentSessionId (acpm_AgentSessionId w) @ enc_PortRange (acpm_PortRange w)"

definition enc_PortMappingFound :: "AgentPortMappingFound \<Rightarrow> bytes" where
  "enc_PortMappingFound w =
     (case ToAgent w of None \<Rightarrow> [] | Some a \<Rightarrow> be_bytes (1 :: u32) @ enc_AgentSessionId a)"

definition enc_token :: "bytes \<Rightarrow> bytes" where
  "enc_token t = be_bytes (of_nat (length t) :: u64) @ t"

definition enc_UdpChannelDetails :: "UdpChannelDetails \<Rightarrow> bytes" where
  "enc_UdpChannelDetails w = enc_AddressPort (ucd_TunnelAddr w) @ enc_token (ucd_Token w)"

section \<open>The protocol, one message at a time\<close>

datatype request =
    RPing Ping
  | RAgentRegister AgentRegister
  | RAgentKeepAlive AgentSessionId
  | RSetupUdpChannel AgentSessionId
  | RAgentCheckPortMapping AgentCheckPortMapping

fun enc_request :: "request \<Rightarrow> bytes" where
  "enc_request (RPing p) = be_bytes (6 :: u32) @ enc_Ping p"
| "enc_request (RAgentRegister r) = be_bytes (2 :: u32) @ enc_AgentRegister r"
| "enc_request (RAgentKeepAlive s) = be_bytes (3 :: u32) @ enc_AgentSessionId s"
| "enc_request (RSetupUdpChannel s) = be_bytes (4 :: u32) @ enc_AgentSessionId s"
| "enc_request (RAgentCheckPortMapping c) = be_bytes (5 :: u32) @ enc_AgentCheckPortMapping c"

text \<open>The message a request struct stands for: its first field that is set, in the code's order.\<close>

definition abs_request :: "ControlRequest \<Rightarrow> request option" where
  "abs_request w =
     (if creq_Ping w \<noteq> None then map_option RPing (creq_Ping w)
      else if creq_AgentRegister w \<noteq> None then map_option RAgentRegister (creq_AgentRegister w)
      else if creq_AgentKeepAlive w \<noteq> None then map_option RAgentKeepAlive (creq_AgentKeepAlive w)
      else if creq_SetupUdpChannel w \<noteq> None
      then map_option RSetupUdpChannel (creq_SetupUdpChannel w)
      else map_option RAgentCheckPortMapping (creq_AgentCheckPortMapping w))"

fun rep_request :: "request \<Rightarrow> ControlRequest" where
  "rep_request (RPing p) = zero_ControlRequest\<lparr>creq_Ping := Some p\<rparr>"
| "rep_request (RAgentRegister r) = zero_ControlRequest\<lparr>creq_AgentRegister := Some r\<rparr>"
| "rep_request (RAgentKeepAlive s) = zero_ControlRequest\<lparr>creq_AgentKeepAlive := Some s\<rparr>"
| "rep_request (RSetupUdpChannel s) = zero_ControlRequest\<lparr>creq_SetupUdpChannel := Some s\<rparr>"
| "rep_request (RAgentCheckPortMapping c) =
     zero_ControlRequest\<lparr>creq_AgentCheckPortMapping := Some c\<rparr>"

lemma abs_rep_request [simp]: "abs_request (rep_request q) = Some q"
  by (cases q) (simp_all add: abs_request_def zero_ControlRequest_def)

text \<open>A port range is writable when its protocol is one of the three names.\<close>

fun writable_request :: "request \<Rightarrow> bool" where
  "writable_request (RAgentCheckPortMapping c) \<longleftrightarrow> valid_proto (pr_PortProto (acpm_PortRange c))"
| "writable_request _ \<longleftrightarrow> True"

datatype response =
    RPong Pong
  | RInvalidSignature
  | RUnauthorized
  | RRequestQueued
  | RTryAgainLater
  | RAgentRegistered AgentRegistered
  | RAgentPortMapping AgentPortMapping
  | RUdpChannelDetails UdpChannelDetails

fun enc_response :: "response \<Rightarrow> bytes" where
  "enc_response (RPong p) = be_bytes (1 :: u32) @ enc_Pong p"
| "enc_response RInvalidSignature = be_bytes (2 :: u32)"
| "enc_response RUnauthorized = be_bytes (3 :: u32)"
| "enc_response RRequestQueued = be_bytes (4 :: u32)"
| "enc_response RTryAgainLater = be_bytes (5 :: u32)"
| "enc_response (RAgentRegistered r) = be_bytes (6 :: u32) @ enc_AgentRegistered r"
| "enc_response (RAgentPortMapping m) =
     be_bytes (7 :: u32) @ enc_PortRange (apm_Range m) @
     (case apm_Found m of None \<Rightarrow> [] | Some f \<Rightarrow> enc_PortMappingFound f)"
| "enc_response (RUdpChannelDetails d) = be_bytes (8 :: u32) @ enc_UdpChannelDetails d"

definition abs_response :: "ControlResponse \<Rightarrow> response option" where
  "abs_response w =
     (if cres_Pong w \<noteq> None then map_option RPong (cres_Pong w)
      else if cres_InvalidSignature w then Some RInvalidSignature
      else if cres_Unauthorized w then Some RUnauthorized
      else if cres_RequestQueued w then Some RRequestQueued
      else if cres_TryAgainLater w then Some RTryAgainLater
      else if cres_AgentRegistered w \<noteq> None
      then map_option RAgentRegistered (cres_AgentRegistered w)
      else if cres_AgentPortMapping w \<noteq> None
      then map_option RAgentPortMapping (cres_AgentPortMapping w)
      else map_option RUdpChannelDetails (cres_UdpChannelDetails w))"

fun rep_response :: "response \<Rightarrow> ControlResponse" where
  "rep_response (RPong p) = zero_ControlResponse\<lparr>cres_Pong := Some p\<rparr>"
| "rep_response RInvalidSignature = zero_ControlResponse\<lparr>cres_InvalidSignature := True\<rparr>"
| "rep_response RUnauthorized = zero_ControlResponse\<lparr>cres_Unauthorized := True\<rparr>"
| "rep_response RRequestQueued = zero_ControlResponse\<lparr>cres_RequestQueued := True\<rparr>"
| "rep_response RTryAgainLater = zero_ControlResponse\<lparr>cres_TryAgainLater := True\<rparr>"
| "rep_response (RAgentRegistered r) = zero_ControlResponse\<lparr>cres_AgentRegistered := Some r\<rparr>"
| "rep_response (RAgentPortMapping m) = zero_ControlResponse\<lparr>cres_AgentPortMapping := Some m\<rparr>"
| "rep_response (RUdpChannelDetails d) = zero_ControlResponse\<lparr>cres_UdpChannelDetails := Some d\<rparr>"

lemma abs_rep_response [simp]: "abs_response (rep_response q) = Some q"
  by (cases q) (simp_all add: abs_response_def zero_ControlResponse_def)

fun writable_response :: "response \<Rightarrow> bool" where
  "writable_response (RAgentPortMapping m) \<longleftrightarrow>
     valid_proto (pr_PortProto (apm_Range m)) \<and> apm_Found m \<noteq> None"
| "writable_response _ \<longleftrightarrow> True"

section \<open>What the encoders write\<close>

lemma writes_Ping [writes_intro]: "writes (Ping_WriteTo w) (enc_Ping w)"
proof -
  have cur: "writes (case c of None \<Rightarrow> binary_Write (0 :: u8)
      | Some p \<Rightarrow> go_seq [binary_Write (1 :: u8), binary_Write p]) (enc_option be_bytes c)"
    for c :: "u32 option"
  proof (cases c)
    case None
    then show ?thesis by (simp add: enc_option_def writes_flag)
  next
    case (Some p)
    have "writes (go_seq [binary_Write (1 :: u8), binary_Write p]) ([1] @ be_bytes p @ [])"
      by (intro writes_go_seq_Cons writes_go_seq_Nil writes_flag writes_binary_Write)
    with Some show ?thesis by (simp add: enc_option_def)
  qed
  have ses: "writes (case c of None \<Rightarrow> binary_Write (0 :: u8)
      | Some s \<Rightarrow> go_seq [binary_Write (1 :: u8), AgentSessionId_WriteTo s])
      (enc_option enc_AgentSessionId c)" for c
  proof (cases c)
    case None
    then show ?thesis by (simp add: enc_option_def writes_flag)
  next
    case (Some s)
    have "writes (go_seq [binary_Write (1 :: u8), AgentSessionId_WriteTo s])
        ([1] @ enc_AgentSessionId s @ [])"
      by (intro writes_go_seq_Cons writes_go_seq_Nil writes_flag writes_AgentSessionId)
    with Some show ?thesis by (simp add: enc_option_def)
  qed
  have "writes (Ping_WriteTo w)
      (be_bytes (ping_Now w) @ enc_option be_bytes (ping_CurrentPing w) @
       enc_option enc_AgentSessionId (ping_SessionID w) @ [])"
    unfolding Ping_WriteTo_def
    by (intro writes_go_seq_Cons writes_go_seq_Nil writes_WriteU64 cur ses)
  then show ?thesis by (simp add: enc_Ping_def)
qed

lemma writes_Pong [writes_intro]: "writes (Pong_WriteTo w) (enc_Pong w)"
  unfolding Pong_WriteTo_def
  by (rule writes_cong, (rule writes_intro)+) (simp add: enc_Pong_def enc_Pong_head_def)

lemma writes_AgentRegister_plain [writes_intro]:
  "writes (AgentRegister_WritePlain w) (enc_AgentRegister_plain w)"
  unfolding AgentRegister_WritePlain_def
  by (rule writes_cong, (rule writes_intro)+) (simp add: enc_AgentRegister_plain_def)

lemma writes_AgentRegister [writes_intro]: "writes (AgentRegister_WriteTo w) (enc_AgentRegister w)"
  unfolding AgentRegister_WriteTo_def
  by (rule writes_cong, (rule writes_intro)+)
     (simp add: enc_AgentRegister_def enc_AgentRegister_plain_def)

lemma writes_AgentRegistered [writes_intro]:
  "writes (AgentRegistered_WriteTo w) (enc_AgentRegistered w)"
  unfolding AgentRegistered_WriteTo_def
  by (rule writes_cong, (rule writes_intro)+) (simp add: enc_AgentRegistered_def)

lemma writes_AgentCheckPortMapping [writes_intro]:
  "valid_proto (pr_PortProto (acpm_PortRange w)) \<Longrightarrow>
   writes (AgentCheckPortMapping_WriteTo w) (enc_AgentCheckPortMapping w)"
  unfolding AgentCheckPortMapping_WriteTo_def
  by (rule writes_cong, (rule writes_intro | assumption)+) (simp add: enc_AgentCheckPortMapping_def)

lemma writes_PortMappingFound [writes_intro]:
  "writes (AgentPortMappingFound_WriteTo w) (enc_PortMappingFound w)"
proof (cases "ToAgent w")
  case None
  then show ?thesis
    by (simp add: AgentPortMappingFound_WriteTo_def enc_PortMappingFound_def writes_ret)
next
  case (Some a)
  have "writes (go_seq [WriteU32 1, AgentSessionId_WriteTo a])
      (be_bytes (1 :: u32) @ enc_AgentSessionId a @ [])"
    by (intro writes_intro)
  with Some show ?thesis by (simp add: AgentPortMappingFound_WriteTo_def enc_PortMappingFound_def)
qed

lemma writes_UdpChannelDetails [writes_intro]:
  "writes (UdpChannelDetails_WriteTo w) (enc_UdpChannelDetails w)"
  unfolding UdpChannelDetails_WriteTo_def
  by (rule writes_cong, (rule writes_intro)+) (simp add: enc_UdpChannelDetails_def enc_token_def)

lemma writes_two:
  assumes "writes m xs" and "writes n ys"
  shows "writes (go_seq [m, n]) (xs @ ys)"
  using writes_go_seq_Cons [OF assms(1) writes_go_seq_Cons [OF assms(2) writes_go_seq_Nil]] by simp

lemma writes_tagged: "writes m xs \<Longrightarrow> writes (go_seq [WriteU32 t, m]) (be_bytes t @ xs)"
  by (rule writes_two [OF writes_WriteU32])

lemma writes_ControlRequest:
  assumes "abs_request w = Some q" and "writable_request q"
  shows "writes (ControlRequest_WriteTo w) (enc_request q)"
  using assms
  by (auto simp: abs_request_def ControlRequest_WriteTo_def simp del: go_seq.simps
      split: if_splits option.splits
      intro!: writes_tagged writes_Ping writes_AgentRegister writes_AgentSessionId
        writes_AgentCheckPortMapping)

lemma ControlRequest_WriteTo_unset:
  "abs_request w = None \<Longrightarrow> ControlRequest_WriteTo w = throw (Errorf ''set ControlRequest'')"
  by (auto simp: abs_request_def ControlRequest_WriteTo_def split: if_splits option.splits)

lemma writes_AgentPortMapping:
  assumes "valid_proto (pr_PortProto (apm_Range m))" and "apm_Found m = Some f"
  shows "writes (AgentPortMapping_WriteTo m) (enc_PortRange (apm_Range m) @ enc_PortMappingFound f)"
  using assms writes_two [OF writes_PortRange [OF assms(1)] writes_PortMappingFound [of f]]
  by (simp add: AgentPortMapping_WriteTo_def)

lemma writes_ControlResponse:
  assumes "abs_response w = Some q" and "writable_response q"
  shows "writes (ControlResponse_WriteTo w) (enc_response q)"
  using assms
  by (auto simp: abs_response_def ControlResponse_WriteTo_def simp del: go_seq.simps
      split: if_splits option.splits
      intro!: writes_tagged writes_Pong writes_WriteU32 writes_AgentRegistered
        writes_AgentPortMapping writes_UdpChannelDetails)

lemma ControlResponse_WriteTo_unset:
  "abs_response w = None \<Longrightarrow>
   ControlResponse_WriteTo w = throw (Errorf ''set one option to write'')"
  by (auto simp: abs_response_def ControlResponse_WriteTo_def split: if_splits option.splits)

section \<open>What the decoders invert\<close>

lemma reads_cong: "reads m xs a \<Longrightarrow> xs = ys \<Longrightarrow> a = b \<Longrightarrow> reads m ys b"
  by simp

lemma reads_make_bytes [reads_intro]:
  "unat n \<le> maxAlloc \<Longrightarrow> reads (make_bytes n) [] (replicate (unat n) 0)"
  by (simp add: reads_def make_bytes_def)

lemma unat_length_token:
  "length t \<le> maxAlloc \<Longrightarrow> unat (of_nat (length t) :: u64) = length t"
  by (simp add: unat_of_nat maxAlloc_def)

lemma reads_AgentRegister [reads_intro]:
  assumes "wire_addr (ar_ClientAddr w)" "wire_addr (ar_TunnelAddr w)"
    and "length (ar_Signature w) = 32"
  shows "reads AgentRegister_ReadFrom (enc_AgentRegister w) w"
proof -
  have "reads AgentRegister_ReadFrom
      (be_bytes (ar_AccountID w) @ be_bytes (ar_AgentId w) @ be_bytes (ar_AgentVersion w) @
       be_bytes (ar_Timestamp w) @ enc_AddressPort (ar_ClientAddr w) @
       enc_AddressPort (ar_TunnelAddr w) @ ar_Signature w @ []) w"
    unfolding AgentRegister_ReadFrom_def
    by (rule reads_bind, rule reads_intro assms, (simp add: assms; fail)?)+ (simp add: reads_def)
  then show ?thesis by (simp add: enc_AgentRegister_def enc_AgentRegister_plain_def)
qed

lemma reads_AgentRegistered [reads_intro]:
  "reads AgentRegistered_ReadFrom (enc_AgentRegistered w) w"
proof -
  have "reads AgentRegistered_ReadFrom
      (enc_AgentSessionId (reg_ID w) @ be_bytes (reg_ExpiresAt w) @ []) w"
    unfolding AgentRegistered_ReadFrom_def
    by (rule reads_bind, rule reads_intro)+ (simp add: reads_def)
  then show ?thesis by (simp add: enc_AgentRegistered_def)
qed

lemma reads_token:
  assumes "length t \<le> maxAlloc"
  shows "reads (go_bind ReadU64 (\<lambda>n. go_bind (make_bytes n) (\<lambda>buff.
      go_bind (err_check (ReadBuff buff)) k))) (enc_token t @ ys) x \<longleftrightarrow> reads (k t) ys x"
proof -
  have "go_bind ReadU64 (\<lambda>n. go_bind (make_bytes n) (\<lambda>buff.
      go_bind (err_check (ReadBuff buff)) k)) (enc_token t @ zs) = k t zs" for zs
    using assms
    by (simp add: enc_token_def go_bind_def make_bytes_def unat_length_token err_check_ReadBuff
        readsD [OF reads_ReadU64])
  then show ?thesis by (simp add: reads_def)
qed

lemma reads_UdpChannelDetails [reads_intro]:
  assumes "wire_addr (ucd_TunnelAddr w)" and "length (ucd_Token w) \<le> maxAlloc"
  shows "reads UdpChannelDetails_ReadFrom (enc_UdpChannelDetails w) w"
proof -
  have "reads UdpChannelDetails_ReadFrom
      (enc_AddressPort (ucd_TunnelAddr w) @ enc_token (ucd_Token w) @ []) w"
    unfolding UdpChannelDetails_ReadFrom_def
    by (rule reads_bind, rule reads_AddressPort [OF assms(1)])
       (simp only: reads_token [OF assms(2)], simp add: reads_def)
  then show ?thesis by (simp add: enc_UdpChannelDetails_def)
qed

text \<open>Requests that the decoder inverts; a port range is left at its zero value.\<close>

fun readable_request :: "request \<Rightarrow> bool" where
  "readable_request (RAgentRegister r) \<longleftrightarrow>
     wire_addr (ar_ClientAddr r) \<and> wire_addr (ar_TunnelAddr r) \<and> length (ar_Signature r) = 32"
| "readable_request (RAgentKeepAlive s) \<longleftrightarrow> True"
| "readable_request (RSetupUdpChannel s) \<longleftrightarrow> True"
| "readable_request _ \<longleftrightarrow> False"

lemma reads_tagged:
  assumes "reads (k tag) ys x"
  shows "reads (go_bind ReadU32 k) (be_bytes tag @ ys) x"
  using reads_ReadU32 assms by (rule reads_bind)

lemma reads_ControlRequest:
  assumes "readable_request q"
  shows "reads (ControlRequest_ReadFrom zero_ControlRequest) (enc_request q) (rep_request q)"
  using assms
  by (cases q)
     (auto simp: ControlRequest_ReadFrom_def
       intro!: reads_tagged reads_bind_last reads_AgentRegister reads_AgentSessionId)

fun readable_response :: "response \<Rightarrow> bool" where
  "readable_response (RPong p) \<longleftrightarrow> False"
| "readable_response (RAgentPortMapping m) \<longleftrightarrow> False"
| "readable_response (RUdpChannelDetails d) \<longleftrightarrow>
     wire_addr (ucd_TunnelAddr d) \<and> length (ucd_Token d) \<le> maxAlloc"
| "readable_response _ \<longleftrightarrow> True"

lemma reads_flag_response:
  "reads (k tag) [] x \<Longrightarrow> reads (go_bind ReadU32 k) (be_bytes (tag :: u32)) x"
  using reads_tagged [of k tag "[]" x] by simp

lemma reads_ControlResponse:
  assumes "readable_response q"
  shows "reads (ControlResponse_ReadFrom zero_ControlResponse) (enc_response q) (rep_response q)"
  using assms
  by (cases q)
     (auto simp: ControlResponse_ReadFrom_def
       intro!: reads_tagged reads_flag_response reads_bind_last reads_ret reads_AgentRegistered
         reads_UdpChannelDetails)

section \<open>What the decoders do with the other messages\<close>

text \<open>
  A request with a ping is written with the tag 6, which the decoder does not know.
\<close>

lemma ControlRequest_ReadFrom_Ping:
  "ControlRequest_ReadFrom w (enc_request (RPing p) @ rest) =
     Err (Errorf ''invalid ControlRequest id'') (enc_Ping p @ rest)"
  by (simp add: ControlRequest_ReadFrom_def go_bind_def readsD [OF reads_ReadU32])

text \<open>The port range of a check request stays unread.\<close>

lemma ControlRequest_ReadFrom_Check:
  "ControlRequest_ReadFrom zero_ControlRequest (enc_request (RAgentCheckPortMapping c) @ rest) =
     Ok (rep_request (RAgentCheckPortMapping (c\<lparr>acpm_PortRange := zero_PortRange\<rparr>)))
       (enc_PortRange (acpm_PortRange c) @ rest)"
  by (simp add: ControlRequest_ReadFrom_def AgentCheckPortMapping_ReadFrom_def go_bind_def
      readsD [OF reads_ReadU32] readsD [OF reads_AgentSessionId] PortRange_ReadFrom_def
      enc_AgentCheckPortMapping_def zero_ControlRequest_def)

text \<open>
  The expiry of a pong is written with a presence byte and read without one: the value that comes
  back is shifted by that byte, and its last byte stays in the stream.
\<close>

definition shifted_expiry :: "u64 \<Rightarrow> u64" where
  "shifted_expiry v = push_bit 56 1 OR drop_bit 8 v"

lemma bit_shifted_expiry: "bit (shifted_expiry v) k \<longleftrightarrow> k = 56 \<or> bit v (8 + k)"
proof -
  have "bit (push_bit 56 1 :: u64) k \<longleftrightarrow> k = 56"
    by (simp only: bit_push_bit_iff bit_1_iff) auto
  then show ?thesis by (simp only: shifted_expiry_def bit_or_iff bit_drop_bit_eq comp_def)
qed

lemma be_bytes_64_snoc: "be_bytes (v :: u64) = be_encode 7 (drop_bit 8 v) @ [ucast v]"
proof -
  have "LENGTH(64) div 8 = Suc 7" by simp
  then show ?thesis by (simp only: be_bytes_def be_encode_snoc)
qed

lemma be_decode_flagged: "be_decode (1 # be_encode 7 (drop_bit 8 v)) = shifted_expiry v"
proof (rule bit_word_eqI)
  fix k assume "k < LENGTH(64)"
  then have k: "k < 64" by simp
  have "bit (be_decode (1 # be_encode 7 (drop_bit 8 v)) :: u64) k \<longleftrightarrow>
      (if k < 56 then bit v (8 + k) else k = 56)"
    using k by (auto simp: be_decode_def bit_foldl_be_encode bit_be_shift bit_drop_bit_eq bit_1_iff
        dest: bit_imp_le_length)
  also have "\<dots> \<longleftrightarrow> bit (shifted_expiry v) k"
    using k by (auto simp: bit_shifted_expiry dest: bit_imp_le_length)
  finally show "bit (be_decode (1 # be_encode 7 (drop_bit 8 v)) :: u64) k = bit (shifted_expiry v) k" .
qed

lemma Pong_ReadFrom_head:
  assumes "wire_addr (pong_ClientAddr w)" and "wire_addr (pong_TunnelAddr w)"
  shows "Pong_ReadFrom (enc_Pong_head w @ rest) =
    go_bind ReadU64 (\<lambda>sess. ret (w\<lparr>pong_SessionExpireAt := Some sess\<rparr>)) rest"
  using assms
  by (cases w) (simp add: Pong_ReadFrom_def enc_Pong_head_def go_bind_def readsD [OF reads_ReadU64]
      readsD [OF reads_ReadU32] readsD [OF reads_AddressPort])

lemma Pong_ReadFrom_expiry:
  assumes "wire_addr (pong_ClientAddr w)" and "wire_addr (pong_TunnelAddr w)"
    and "pong_SessionExpireAt w = Some v"
  shows "Pong_ReadFrom (enc_Pong w @ rest) =
    Ok (w\<lparr>pong_SessionExpireAt := Some (shifted_expiry v)\<rparr>) (ucast v # rest)"
  using assms
  by (simp add: enc_Pong_def Pong_ReadFrom_head enc_option_def be_bytes_64_snoc go_bind_def
      ReadU64_full be_decode_flagged)

lemma Pong_ReadFrom_no_expiry:
  assumes "wire_addr (pong_ClientAddr w)" and "wire_addr (pong_TunnelAddr w)"
    and "pong_SessionExpireAt w = None"
  shows "Pong_ReadFrom (enc_Pong w) = Ok (w\<lparr>pong_SessionExpireAt := Some 0\<rparr>) []"
  using assms
  by (simp add: enc_Pong_def Pong_ReadFrom_head enc_option_def go_bind_def ReadU64_short)

lemma Pong_ReadFrom_sets_expiry:
  "Pong_ReadFrom r = Ok p r' \<Longrightarrow> pong_SessionExpireAt p \<noteq> None"
  by (auto simp: Pong_ReadFrom_def go_bind_def split: outcome.splits)

text \<open>
  A port-mapping response with an agent (tag 7, found tag 1) dereferences a nil pointer; with any
  other found tag it is an error.
\<close>

lemma AgentPortMapping_ReadFrom_zero:
  "AgentPortMapping_ReadFrom zero_AgentPortMapping (be_bytes (code :: u32) @ rest) =
     (if code = 1 then Panic NilDeref
      else Err (Errorf ''unknown AgentPortMappingFound id'') rest)"
  by (simp add: AgentPortMapping_ReadFrom_def AgentPortMappingFound_ReadFrom_def go_bind_def
      PortRange_ReadFrom_def zero_AgentPortMapping_def readsD [OF reads_ReadU32])

lemma ControlResponse_ReadFrom_PortMapping:
  "ControlResponse_ReadFrom w (be_bytes (7 :: u32) @ be_bytes (code :: u32) @ rest) =
     (if code = 1 then Panic NilDeref
      else Err (Errorf ''unknown AgentPortMappingFound id'') rest)"
  by (simp add: ControlResponse_ReadFrom_def go_bind_def readsD [OF reads_ReadU32]
      AgentPortMapping_ReadFrom_zero)

definition decoded_pong :: "Pong \<Rightarrow> Pong" where
  "decoded_pong p = p\<lparr>pong_SessionExpireAt := Some (case pong_SessionExpireAt p of
     None \<Rightarrow> 0 | Some v \<Rightarrow> shifted_expiry v)\<rparr>"

lemma Pong_ReadFrom_enc_Pong:
  assumes "wire_addr (pong_ClientAddr w)" and "wire_addr (pong_TunnelAddr w)"
  shows "\<exists>rest. Pong_ReadFrom (enc_Pong w) = Ok (decoded_pong w) rest"
  using Pong_ReadFrom_no_expiry [OF assms] Pong_ReadFrom_expiry [OF assms, of _ "[]"]
  by (cases "pong_SessionExpireAt w") (simp_all add: decoded_pong_def)

lemma ControlResponse_ReadFrom_Pong:
  "ControlResponse_ReadFrom w (be_bytes (1 :: u32) @ bs) =
    go_bind Pong_ReadFrom (\<lambda>p. ret (w\<lparr>cres_Pong := Some p\<rparr>)) bs"
  by (simp add: ControlResponse_ReadFrom_def go_bind_def readsD [OF reads_ReadU32])

lemma length_enc_Pong:
  assumes "wire_addr (pong_ClientAddr p)" and "wire_addr (pong_TunnelAddr p)"
  shows "length (enc_Pong p) \<le> 75"
  using length_enc_AddressPort [OF assms(1)] length_enc_AddressPort [OF assms(2)]
  by (simp add: enc_Pong_def enc_Pong_head_def enc_option_def split: option.split)

end
