(* ===== verification/Rpc.thy ===== *)
theory Rpc
  imports Control_Codec
begin

text \<open>
  \<open>src/tunnel/rpc.go\<close>: the interface \<open>MessageEncoding\<close>, as locales, and the generic envelope
  \<open>ControlRpcMessage[T]\<close>, whose operations take the methods of \<open>T\<close> as arguments. The envelope's
  laws are proved once, from the interface, and hold for the request, the response and the raw
  slice that the program sends through it.
\<close>

section \<open>The envelope\<close>

record 'm ControlRpcMessage =
  rpc_RequestID :: u64
  rpc_Content :: 'm

definition ControlRpcMessage_WriteTo ::
    "('m \<Rightarrow> (unit, writer) go) \<Rightarrow> 'm ControlRpcMessage \<Rightarrow> (unit, writer) go" where
  "ControlRpcMessage_WriteTo content_WriteTo w =
     go_seq [WriteU64 (rpc_RequestID w), content_WriteTo (rpc_Content w)]"

definition ControlRpcMessage_ReadFrom ::
    "('m \<Rightarrow> ('m, reader) go) \<Rightarrow> 'm ControlRpcMessage \<Rightarrow> ('m ControlRpcMessage, reader) go" where
  "ControlRpcMessage_ReadFrom content_ReadFrom w =
     go_bind ReadU64 (\<lambda>i.
     go_bind (content_ReadFrom (rpc_Content w)) (\<lambda>c.
       ret \<lparr>rpc_RequestID = i, rpc_Content = c\<rparr>))"

definition enc_rpc :: "('m \<Rightarrow> bytes) \<Rightarrow> 'm ControlRpcMessage \<Rightarrow> bytes" where
  "enc_rpc enc w = be_bytes (rpc_RequestID w) @ enc (rpc_Content w)"

section \<open>The interface\<close>

text \<open>
  What a client of \<open>MessageEncoding\<close> relies on. \<open>enc\<close> is the wire format, \<open>writable\<close> the values it
  covers; an invertible encoding also reads back, from a receiver in its initial state, the part
  \<open>canon m\<close> of a \<open>readable\<close> message that the format keeps.
\<close>

locale message_encoding =
  fixes WriteTo :: "'m \<Rightarrow> (unit, writer) go"
    and enc :: "'m \<Rightarrow> bytes"
    and writable :: "'m \<Rightarrow> bool"
  assumes WriteTo_writes: "writable m \<Longrightarrow> writes (WriteTo m) (enc m)"
begin

lemma rpc_writes:
  assumes "writable (rpc_Content w)"
  shows "writes (ControlRpcMessage_WriteTo WriteTo w) (enc_rpc enc w)"
  using writes_two [OF writes_WriteU64 WriteTo_writes [OF assms]]
  by (simp add: ControlRpcMessage_WriteTo_def enc_rpc_def)

lemma rpc_emits:
  assumes "writable (rpc_Content w)"
  shows "ControlRpcMessage_WriteTo WriteTo w (bytes_Buffer []) = Ok () (bytes_Buffer (enc_rpc enc w))"
  by (rule emits_Buffer_empty [OF writes_emits [OF rpc_writes [OF assms]]])

lemma rpc_length:
  assumes "writable (rpc_Content w)"
    and "ControlRpcMessage_WriteTo WriteTo w (bytes_Buffer []) = Ok () b"
  shows "length (wr_out b) = 8 + length (enc (rpc_Content w))"
  using assms rpc_emits [OF assms(1)] by (auto simp: enc_rpc_def bytes_Buffer_def)

end

locale invertible_encoding = message_encoding WriteTo enc writable
  for WriteTo :: "'m \<Rightarrow> (unit, writer) go" and enc :: "'m \<Rightarrow> bytes" and writable :: "'m \<Rightarrow> bool" +
  fixes ReadFrom :: "'m \<Rightarrow> ('m, reader) go"
    and zero :: 'm
    and readable :: "'m \<Rightarrow> bool"
    and canon :: "'m \<Rightarrow> 'm"
  assumes readable_writable: "readable m \<Longrightarrow> writable m"
    and ReadFrom_reads: "readable m \<Longrightarrow> reads (ReadFrom zero) (enc m) (canon m)"
begin

lemma rpc_reads:
  assumes "readable (rpc_Content w)"
  shows "reads (ControlRpcMessage_ReadFrom ReadFrom \<lparr>rpc_RequestID = i, rpc_Content = zero\<rparr>)
    (enc_rpc enc w) \<lparr>rpc_RequestID = rpc_RequestID w, rpc_Content = canon (rpc_Content w)\<rparr>"
proof -
  have "reads (ControlRpcMessage_ReadFrom ReadFrom \<lparr>rpc_RequestID = i, rpc_Content = zero\<rparr>)
    (be_bytes (rpc_RequestID w) @ enc (rpc_Content w) @ [])
    \<lparr>rpc_RequestID = rpc_RequestID w, rpc_Content = canon (rpc_Content w)\<rparr>"
    unfolding ControlRpcMessage_ReadFrom_def
    by (rule reads_bind, rule reads_ReadU64, rule reads_bind)
       (simp, rule ReadFrom_reads [OF assms], rule reads_ret)
  then show ?thesis by (simp add: enc_rpc_def)
qed

lemma rpc_roundtrip:
  assumes "readable (rpc_Content w)"
  shows "\<exists>b. ControlRpcMessage_WriteTo WriteTo w (bytes_Buffer []) = Ok () b \<and>
    ControlRpcMessage_ReadFrom ReadFrom \<lparr>rpc_RequestID = i, rpc_Content = zero\<rparr> (wr_out b) =
      Ok \<lparr>rpc_RequestID = rpc_RequestID w, rpc_Content = canon (rpc_Content w)\<rparr> []"
  using rpc_emits [OF readable_writable [OF assms]] readsD_all [OF rpc_reads [OF assms]]
  by (simp add: bytes_Buffer_def)

end

section \<open>The messages that go through the envelope\<close>

definition req_enc :: "ControlRequest \<Rightarrow> bytes" where
  "req_enc m = (case abs_request m of None \<Rightarrow> [] | Some q \<Rightarrow> enc_request q)"

definition req_ok :: "(request \<Rightarrow> bool) \<Rightarrow> ControlRequest \<Rightarrow> bool" where
  "req_ok P m = (case abs_request m of None \<Rightarrow> False | Some q \<Rightarrow> P q)"

definition req_canon :: "ControlRequest \<Rightarrow> ControlRequest" where
  "req_canon m = (case abs_request m of None \<Rightarrow> m | Some q \<Rightarrow> rep_request q)"

lemma readable_writable_request: "readable_request q \<Longrightarrow> writable_request q"
  by (cases q) simp_all

interpretation req: invertible_encoding ControlRequest_WriteTo req_enc "req_ok writable_request"
    ControlRequest_ReadFrom zero_ControlRequest "req_ok readable_request" req_canon
  by unfold_locales
     (auto simp: req_ok_def req_enc_def req_canon_def writes_ControlRequest reads_ControlRequest
       readable_writable_request split: option.splits)

text \<open>
  A response travels behind a pointer. Writing through a nil pointer panics at the first field
  access; reading into one panics when the tag is known, since every such branch stores a field.
\<close>

definition ControlResponse_ptr_WriteTo :: "ControlResponse option \<Rightarrow> (unit, writer) go" where
  "ControlResponse_ptr_WriteTo p =
     (case p of None \<Rightarrow> crash NilDeref | Some w \<Rightarrow> ControlResponse_WriteTo w)"

definition ControlResponse_ptr_ReadFrom ::
    "ControlResponse option \<Rightarrow> (ControlResponse option, reader) go" where
  "ControlResponse_ptr_ReadFrom p =
     (case p of
        None \<Rightarrow> go_bind ReadU32 (\<lambda>code.
          if 1 \<le> code \<and> code \<le> 8 then crash NilDeref
          else throw (Errorf ''invalid ControlResponse id''))
      | Some w \<Rightarrow> go_bind (ControlResponse_ReadFrom w) (\<lambda>w'. ret (Some w')))"

definition res_enc :: "ControlResponse option \<Rightarrow> bytes" where
  "res_enc p = (case p of None \<Rightarrow> [] | Some m \<Rightarrow>
     (case abs_response m of None \<Rightarrow> [] | Some q \<Rightarrow> enc_response q))"

definition res_ok :: "(response \<Rightarrow> bool) \<Rightarrow> ControlResponse option \<Rightarrow> bool" where
  "res_ok P p = (case p of None \<Rightarrow> False | Some m \<Rightarrow>
     (case abs_response m of None \<Rightarrow> False | Some q \<Rightarrow> P q))"

definition res_canon :: "ControlResponse option \<Rightarrow> ControlResponse option" where
  "res_canon p = (case p of None \<Rightarrow> None | Some m \<Rightarrow>
     (case abs_response m of None \<Rightarrow> p | Some q \<Rightarrow> Some (rep_response q)))"

lemma readable_writable_response: "readable_response q \<Longrightarrow> writable_response q"
  by (cases q) simp_all

lemma reads_ControlResponse_ptr:
  "readable_response q \<Longrightarrow>
   reads (ControlResponse_ptr_ReadFrom (Some zero_ControlResponse)) (enc_response q)
     (Some (rep_response q))"
  unfolding ControlResponse_ptr_ReadFrom_def
  by (auto intro!: reads_bind_last reads_ControlResponse)

interpretation res: invertible_encoding ControlResponse_ptr_WriteTo res_enc "res_ok writable_response"
    ControlResponse_ptr_ReadFrom "Some zero_ControlResponse" "res_ok readable_response" res_canon
  by unfold_locales
     (auto simp: res_ok_def res_enc_def res_canon_def ControlResponse_ptr_WriteTo_def
       writes_ControlResponse reads_ControlResponse_ptr readable_writable_response
       split: option.splits)

interpretation raw: message_encoding RawSlice_WriteTo Buff "\<lambda>_. True"
  by unfold_locales (rule writes_RawSlice)

end
