(* ===== verification/World.thy ===== *)
theory World
  imports Rpc
begin

text \<open>
  The environment of the agent: the clock, the UDP sockets of the operating system and the playit
  HTTP API. Its answers are scripts in the state, read one at a time, so that every property holds for
  whatever the network, the clock and the API do; what the agent sends is recorded. The two calls of
  the API are code of the repository too; theory Api_World shows that these scripts cover it.
\<close>

datatype recv = Datagram bytes addrport | RecvErr error

record world =
  w_clock :: "nat \<Rightarrow> u64"
  w_ticks :: nat
  w_listen :: "error option list"
  w_socks :: nat
  w_closed :: "nat list"
  w_recv :: "recv list"
  w_send :: "error option list"
  w_sent :: "(nat \<times> bytes \<times> addrport) list"
  w_register :: "(error + string) list"
  w_routing :: "(error + addr list \<times> addr list) list"

text \<open>\<open>time.Now().UnixMilli()\<close>: the clock at its next reading.\<close>

definition time_Now :: "(u64, world) go" where
  "time_Now w = Ok (w_clock w (w_ticks w)) (w\<lparr>w_ticks := Suc (w_ticks w)\<rparr>)"

text \<open>
  \<open>net.ListenUDP\<close>: a new socket, numbered in the order of creation, or an error. An exhausted
  script succeeds.
\<close>

definition ListenUDP :: "string \<Rightarrow> (nat, world) go" where
  "ListenUDP network w =
     (let w' = w\<lparr>w_listen := tl (w_listen w)\<rparr> in
      case w_listen w of
        Some e # _ \<Rightarrow> Err e w'
      | _ \<Rightarrow> Ok (w_socks w) (w'\<lparr>w_socks := Suc (w_socks w)\<rparr>))"

definition Close :: "nat \<Rightarrow> (unit, world) go" where
  "Close c w = Ok () (w\<lparr>w_closed := c # w_closed w\<rparr>)"

text \<open>
  Sending a datagram reports the number of bytes. A nil connection is the error \<open>EINVAL\<close>. An
  exhausted script succeeds.
\<close>

definition UDP_Write :: "nat option \<Rightarrow> bytes \<Rightarrow> addrport \<Rightarrow> (nat, world) go" where
  "UDP_Write conn data dst w =
     (case conn of
        None \<Rightarrow> Err (ErrNet ''invalid argument'') w
      | Some c \<Rightarrow>
        (let w' = w\<lparr>w_send := tl (w_send w)\<rparr> in
         case w_send w of
           Some e # _ \<Rightarrow> Err e w'
         | _ \<Rightarrow> Ok (length data) (w'\<lparr>w_sent := w_sent w @ [(c, data, dst)]\<rparr>)))"

text \<open>
  Receiving into a buffer of \<open>n\<close> bytes: a longer datagram is cut. When the script is exhausted the
  read deadline passes.
\<close>

definition UDP_Read :: "nat option \<Rightarrow> nat \<Rightarrow> (bytes \<times> addrport, world) go" where
  "UDP_Read conn n w =
     (case conn of
        None \<Rightarrow> Err (ErrNet ''invalid argument'') w
      | Some c \<Rightarrow>
        (case w_recv w of
           [] \<Rightarrow> Err ErrTimeout w
         | RecvErr e # r \<Rightarrow> Err e (w\<lparr>w_recv := r\<rparr>)
         | Datagram data src # r \<Rightarrow> Ok (take n data, src) (w\<lparr>w_recv := r\<rparr>)))"

text \<open>A buffer after a read: the datagram, then what was there before.\<close>

definition overwrite :: "bytes \<Rightarrow> bytes \<Rightarrow> bytes" where
  "overwrite data buff = data @ drop (length data) buff"

lemma length_overwrite: "length data \<le> length buff \<Longrightarrow> length (overwrite data buff) = length buff"
  by (simp add: overwrite_def)

lemma take_overwrite [simp]: "take (length data) (overwrite data buff) = data"
  and drop_overwrite [simp]: "drop (length data) (overwrite data buff) = drop (length data) buff"
  by (simp_all add: overwrite_def)

text \<open>Two calls of the API, as the tunnel uses them; an exhausted script is an error.\<close>

definition ProtoRegisterRegister :: "addrport \<Rightarrow> addrport \<Rightarrow> (string, world) go" where
  "ProtoRegisterRegister Client Tunnel w =
     (let w' = w\<lparr>w_register := tl (w_register w)\<rparr> in
      case w_register w of
        Inr key # _ \<Rightarrow> Ok key w'
      | Inl e # _ \<Rightarrow> Err e w'
      | [] \<Rightarrow> Err (ErrApi ''/proto/register'') w')"

definition AgentRoutings :: "(addr list \<times> addr list, world) go" where
  "AgentRoutings w =
     (let w' = w\<lparr>w_routing := tl (w_routing w)\<rparr> in
      case w_routing w of
        Inr targets # _ \<Rightarrow> Ok targets w'
      | Inl e # _ \<Rightarrow> Err e w'
      | [] \<Rightarrow> Err (ErrApi ''/agents/routing/get'') w')"

text \<open>Encode into a fresh \<open>bytes.Buffer\<close> and take its bytes.\<close>

definition to_Buffer :: "(unit, writer) go \<Rightarrow> (bytes, 's) go" where
  "to_Buffer m =
     (case m (bytes_Buffer []) of
        Ok _ b \<Rightarrow> ret (wr_out b) | Err e _ \<Rightarrow> throw e | Panic p \<Rightarrow> crash p)"

text \<open>Decode from a fresh reader.\<close>

definition from_Reader :: "('a, reader) go \<Rightarrow> bytes \<Rightarrow> ('a, 's) go" where
  "from_Reader m bs =
     (case m bs of Ok x _ \<Rightarrow> ret x | Err e _ \<Rightarrow> throw e | Panic p \<Rightarrow> crash p)"

lemma to_Buffer_emits: "emits m bs \<Longrightarrow> to_Buffer m = ret bs"
  by (simp add: to_Buffer_def emits_Buffer_empty)

lemma to_Buffer_throw [simp]: "to_Buffer (throw e) = throw e"
  and to_Buffer_crash [simp]: "to_Buffer (crash p) = crash p"
  by (simp_all add: to_Buffer_def)

lemma from_Reader_reads: "reads m bs x \<Longrightarrow> from_Reader m (bs @ rest) = ret x"
  by (simp add: from_Reader_def readsD)

text \<open>An operation on the world, for a component that keeps a state of its own beside it.\<close>

definition on_world :: "('a, world) go \<Rightarrow> ('a, 't \<times> world) go" where
  "on_world = zoom snd (\<lambda>w (u, _). (u, w))"

section \<open>What an operation sends\<close>

text \<open>
  \<open>sends P n m\<close>: however \<open>m\<close> returns, it has sent at most \<open>n\<close> datagrams, all of which satisfy \<open>P\<close>.
\<close>

named_theorems sends_intro \<open>bounds on what operations send\<close>

definition sent_more :: "(nat \<times> bytes \<times> addrport \<Rightarrow> bool) \<Rightarrow> nat \<Rightarrow> world \<Rightarrow> world \<Rightarrow> bool" where
  "sent_more P n w w' \<longleftrightarrow>
     (\<exists>xs. w_sent w' = w_sent w @ xs \<and> length xs \<le> n \<and> list_all P xs)"

definition sends :: "(nat \<times> bytes \<times> addrport \<Rightarrow> bool) \<Rightarrow> nat \<Rightarrow> ('a, world) go \<Rightarrow> bool" where
  "sends P n m \<longleftrightarrow> (\<forall>w. outcome_all (sent_more P n w) (m w))"

lemma sent_more_refl [simp]: "sent_more P n w w"
  by (auto simp: sent_more_def intro: exI [of _ "[]"])

lemma sent_more_same: "w_sent w' = w_sent w \<Longrightarrow> sent_more P n w w'"
  by (auto simp: sent_more_def intro: exI [of _ "[]"])

lemma sent_more_trans: "sent_more P n w w1 \<Longrightarrow> sent_more P k w1 w2 \<Longrightarrow> sent_more P (n + k) w w2"
  by (fastforce simp: sent_more_def)

lemma sent_more_mono:
  "sent_more P n w w' \<Longrightarrow> n \<le> k \<Longrightarrow> (\<And>x. P x \<Longrightarrow> Q x) \<Longrightarrow> sent_more Q k w w'"
  by (force simp: sent_more_def list_all_iff)

lemma sendsI: "(\<And>w. outcome_all (sent_more P n w) (m w)) \<Longrightarrow> sends P n m"
  by (simp add: sends_def)

lemma sendsD: "sends P n m \<Longrightarrow> outcome_all (sent_more P n w) (m w)"
  by (simp add: sends_def)

lemma outcome_all_mono: "outcome_all P r \<Longrightarrow> (\<And>s. P s \<Longrightarrow> Q s) \<Longrightarrow> outcome_all Q r"
  by (cases r) auto

lemma sends_mono: "sends P n m \<Longrightarrow> n \<le> k \<Longrightarrow> (\<And>x. P x \<Longrightarrow> Q x) \<Longrightarrow> sends Q k m"
  by (rule sendsI, erule outcome_all_mono [OF sendsD]) (rule sent_more_mono)

lemma sends_ret [sends_intro]: "sends P 0 (ret x)"
  and sends_throw [sends_intro]: "sends P 0 (throw e)"
  and sends_crash [sends_intro]: "sends P 0 (crash p)"
  by (rule sendsI, simp)+

lemma sends_bind [sends_intro]:
  assumes m: "sends P n m" and k: "\<And>x. sends P j (k x)"
  shows "sends P (n + j) (go_bind m k)"
proof (rule sendsI)
  fix w
  show "outcome_all (sent_more P (n + j) w) (go_bind m k w)"
  proof (cases "m w")
    case (Ok x w1)
    with sendsD [OF m, of w] have 1: "sent_more P n w w1" by simp
    have "outcome_all (sent_more P (n + j) w) (k x w1)"
      by (rule outcome_all_mono [OF sendsD [OF k]]) (rule sent_more_trans [OF 1])
    with Ok show ?thesis by (simp add: go_bind_def)
  next
    case (Err e w1)
    with sendsD [OF m, of w] have "sent_more P n w w1" by simp
    then have "sent_more P (n + j) w w1" by (rule sent_more_mono) auto
    with Err show ?thesis by (simp add: go_bind_def)
  qed (simp add: go_bind_def)
qed

text \<open>A step that sends nothing costs nothing.\<close>

lemma sends_bind0: "sends P 0 m \<Longrightarrow> (\<And>x. sends P n (k x)) \<Longrightarrow> sends P n (go_bind m k)"
  using sends_bind [of P 0 m n k] by simp

lemma sends_weaken0: "sends P 0 m \<Longrightarrow> sends P n m"
  by (erule sends_mono) simp_all

lemma sends_try [sends_intro]: "sends P n m \<Longrightarrow> sends P n (go_try m)"
  by (rule sendsI, drule_tac w = w in sendsD) (auto simp: go_try_def split: outcome.splits)

lemma sends_quiet:
  assumes "\<And>w. outcome_all (\<lambda>w'. w_sent w' = w_sent w) (m w)"
  shows "sends P 0 m"
  by (rule sendsI, rule outcome_all_mono [OF assms]) (rule sent_more_same)

lemma sends_time_Now [sends_intro]: "sends P 0 time_Now"
  and sends_ListenUDP [sends_intro]: "sends P 0 (ListenUDP network)"
  and sends_Close [sends_intro]: "sends P 0 (Close c)"
  and sends_UDP_Read [sends_intro]: "sends P 0 (UDP_Read conn n)"
  and sends_ProtoRegisterRegister [sends_intro]: "sends P 0 (ProtoRegisterRegister a b)"
  and sends_AgentRoutings [sends_intro]: "sends P 0 AgentRoutings"
  by (rule sends_quiet,
      auto simp: time_Now_def ListenUDP_def Close_def UDP_Read_def ProtoRegisterRegister_def
        AgentRoutings_def Let_def split: option.split list.split recv.split sum.split)+

lemma sends_UDP_Write [sends_intro]:
  assumes "\<And>c. conn = Some c \<Longrightarrow> P (c, data, dst)"
  shows "sends P 1 (UDP_Write conn data dst)"
  by (rule sendsI)
     (use assms in \<open>auto simp: UDP_Write_def Let_def sent_more_def split: option.split list.split\<close>)

lemma sends_to_Buffer [sends_intro]: "sends P 0 (to_Buffer m)"
  and sends_from_Reader [sends_intro]: "sends P 0 (from_Reader r bs)"
  by (auto simp: to_Buffer_def from_Reader_def intro: sends_intro split: outcome.split)

lemma sends_prod [sends_intro]:
  "(\<And>x y. sends P n (f x y)) \<Longrightarrow> sends P n (case p of (x, y) \<Rightarrow> f x y)"
  by (cases p) simp

lemma sends_sum [sends_intro]:
  "(\<And>x. sends P n (f x)) \<Longrightarrow> (\<And>x. sends P n (g x)) \<Longrightarrow>
   sends P n (case v of Inl x \<Rightarrow> f x | Inr x \<Rightarrow> g x)"
  by (cases v) simp_all

lemma sends_option [sends_intro]:
  "sends P n m \<Longrightarrow> (\<And>x. sends P n (f x)) \<Longrightarrow> sends P n (case v of None \<Rightarrow> m | Some x \<Rightarrow> f x)"
  by (cases v) simp_all

lemma sends_if [sends_intro]:
  "sends P n m \<Longrightarrow> sends P n k \<Longrightarrow> sends P n (if b then m else k)"
  by simp

lemma sends_bind_last: "sends P n m \<Longrightarrow> (\<And>x. sends P 0 (k x)) \<Longrightarrow> sends P n (go_bind m k)"
  using sends_bind [of P n m 0 k] by simp

section \<open>What is left to receive\<close>

text \<open>Receiving only takes datagrams away.\<close>

definition recv_in :: "recv set \<Rightarrow> world \<Rightarrow> bool" where
  "recv_in S w \<longleftrightarrow> set (w_recv w) \<subseteq> S"

lemma recv_in_ops [preserves_intro]:
  "preserves (recv_in S) time_Now"
  "preserves (recv_in S) (ListenUDP network)"
  "preserves (recv_in S) (Close c)"
  "preserves (recv_in S) (UDP_Write conn data dst)"
  "preserves (recv_in S) (UDP_Read conn n)"
  "preserves (recv_in S) (ProtoRegisterRegister a b)"
  by (rule preservesI;
      auto simp: recv_in_def time_Now_def ListenUDP_def Close_def UDP_Write_def UDP_Read_def
        ProtoRegisterRegister_def Let_def split: option.split list.split recv.split sum.split)+

lemma preserves_to_Buffer [preserves_intro]: "preserves P (to_Buffer m)"
  and preserves_from_Reader [preserves_intro]: "preserves P (from_Reader r bs)"
  by (auto simp: to_Buffer_def from_Reader_def intro: preserves_intro split: outcome.split)

lemma yields_UDP_Read:
  "yields (recv_in S) (\<lambda>(data, src). \<exists>d. Datagram d src \<in> S \<and> data = take n d) (UDP_Read conn n)"
  by (rule yieldsI) (auto simp: UDP_Read_def recv_in_def split: option.split list.split recv.split)

lemma yields_from_Reader:
  "yields I (\<lambda>x. \<exists>rest. m bs = Ok x rest) (from_Reader m bs)"
  by (rule yieldsI) (auto simp: from_Reader_def split: outcome.split)

lemma UDP_Write_accepted:
  "w_send w = [] \<Longrightarrow> UDP_Write (Some c) data dst w =
     Ok (length data) (w\<lparr>w_sent := w_sent w @ [(c, data, dst)]\<rparr>)"
  by (cases w) (simp add: UDP_Write_def)

lemma ListenUDP_accepted:
  "w_listen w = [] \<Longrightarrow> ListenUDP network w = Ok (w_socks w) (w\<lparr>w_socks := Suc (w_socks w)\<rparr>)"
  by (cases w) (simp add: ListenUDP_def)

lemma preserves_on_world: "preserves P m \<Longrightarrow> preserves (\<lambda>s. P (snd s)) (on_world m)"
  by (rule preservesI) (auto simp: on_world_def zoom_def dest: preservesD split: outcome.split)

text \<open>The clock itself is never changed, only read.\<close>

definition clock_is :: "(nat \<Rightarrow> u64) \<Rightarrow> world \<Rightarrow> bool" where
  "clock_is c w \<longleftrightarrow> w_clock w = c"

lemma clock_ops [preserves_intro]:
  "preserves (clock_is c) time_Now"
  "preserves (clock_is c) (ListenUDP network)"
  "preserves (clock_is c) (Close k)"
  "preserves (clock_is c) (UDP_Write conn data dst)"
  "preserves (clock_is c) (UDP_Read conn n)"
  "preserves (clock_is c) (ProtoRegisterRegister a b)"
  "preserves (clock_is c) AgentRoutings"
  by (rule preservesI;
      auto simp: clock_is_def time_Now_def ListenUDP_def Close_def UDP_Write_def UDP_Read_def
        ProtoRegisterRegister_def AgentRoutings_def Let_def
        split: option.split list.split recv.split sum.split)+

lemma preserves_fst_on_world: "preserves (\<lambda>s. Q (fst s)) (on_world m)"
  unfolding on_world_def by (rule preserves_zoom) auto

lemma yields_fst_on_world:
  fixes Q :: "'s \<Rightarrow> bool"
  assumes "yields (recv_in UNIV) R m"
  shows "yields (\<lambda>s. Q (fst s)) R (on_world m)"
proof (rule yieldsI)
  fix s :: "'s \<times> world" assume "Q (fst s)"
  moreover have "recv_in UNIV (snd s)" by (simp add: recv_in_def)
  ultimately show "case on_world m s of Ok x s' \<Rightarrow> R x \<and> Q (fst s') | Err e s' \<Rightarrow> Q (fst s') | Panic p \<Rightarrow> True"
    using yieldsD [OF assms] by (cases s; cases "m (snd s)") (auto simp: on_world_def zoom_def)
qed

section \<open>Properties that every operation keeps\<close>

text \<open>
  What the environment promises to a property of the world: every operation on it keeps the
  property. Each component then keeps it too.
\<close>

locale world_invariant =
  fixes P :: "world \<Rightarrow> bool"
  assumes P_clock: "preserves P time_Now"
    and P_listen: "preserves P (ListenUDP network)"
    and P_close: "preserves P (Close c)"
    and P_write: "preserves P (UDP_Write conn data dst)"
    and P_read: "preserves P (UDP_Read conn n)"
    and P_register: "preserves P (ProtoRegisterRegister client tunnel)"
    and P_routing: "preserves P AgentRoutings"

text \<open>The log of what was sent only grows.\<close>

definition sent_since :: "(nat \<times> bytes \<times> addrport) list \<Rightarrow> world \<Rightarrow> bool" where
  "sent_since xs w \<longleftrightarrow> (\<exists>ys. w_sent w = xs @ ys)"

interpretation clk: world_invariant "clock_is c"
  by unfold_locales (rule clock_ops)+

interpretation rcv: world_invariant "recv_in S"
  by unfold_locales
     (rule recv_in_ops preservesI;
      auto simp: recv_in_def AgentRoutings_def Let_def split: list.split sum.split)+

interpretation snt: world_invariant "sent_since xs"
  by unfold_locales
     (rule preservesI;
      auto simp: sent_since_def time_Now_def ListenUDP_def Close_def UDP_Write_def UDP_Read_def
        ProtoRegisterRegister_def AgentRoutings_def Let_def
        split: option.split list.split recv.split sum.split)+

end
