(* ===== verification/Control_Feed.thy ===== *)
theory Control_Feed
  imports Rpc
begin

text \<open>
  \<open>src/tunnel/control_feed.go\<close>: what the control server sends, a response in its envelope or a
  new client with the instructions to claim it. The debug logging of the two \<open>ControlFeed\<close> methods
  is left out.
\<close>

section \<open>Data and operations\<close>

record ClaimInstructions =
  ci_Address :: AddressPort
  ci_Token :: bytes

definition ClaimInstructions_WriteTo :: "ClaimInstructions \<Rightarrow> (unit, writer) go" where
  "ClaimInstructions_WriteTo w =
     go_seq
       [AddressPort_WriteTo (ci_Address w), WriteU64 (of_nat (length (ci_Token w))),
        Write (ci_Token w)]"

definition ClaimInstructions_ReadFrom :: "(ClaimInstructions, reader) go" where
  "ClaimInstructions_ReadFrom =
     go_bind AddressPort_ReadFrom (\<lambda>a.
     go_bind ReadU64 (\<lambda>n.
     go_bind (make_bytes n) (\<lambda>buff.
     go_bind (err_check (ReadBuff buff)) (\<lambda>token.
       ret \<lparr>ci_Address = a, ci_Token = token\<rparr>))))"

record NewClient =
  nc_ConnectAddr :: AddressPort
  nc_PeerAddr :: AddressPort
  nc_ClaimInstructions :: ClaimInstructions
  nc_TunnelServerId :: u64
  nc_DataCenterId :: u32

text \<open>
  In \<open>else if w.PeerAddr.WriteTo(I); err != nil\<close> the call's result is dropped and the \<open>err\<close> that is
  tested is the earlier, nil one; likewise for the claim instructions.
\<close>

definition NewClient_WriteTo :: "NewClient \<Rightarrow> (unit, writer) go" where
  "NewClient_WriteTo w =
     go_seq
       [AddressPort_WriteTo (nc_ConnectAddr w),
        go_drop_err (AddressPort_WriteTo (nc_PeerAddr w)),
        go_drop_err (ClaimInstructions_WriteTo (nc_ClaimInstructions w)),
        WriteU64 (nc_TunnelServerId w), WriteU32 (nc_DataCenterId w)]"

definition NewClient_ReadFrom :: "(NewClient, reader) go" where
  "NewClient_ReadFrom =
     go_bind AddressPort_ReadFrom (\<lambda>ca.
     go_bind AddressPort_ReadFrom (\<lambda>pa.
     go_bind ClaimInstructions_ReadFrom (\<lambda>ci.
     go_bind ReadU64 (\<lambda>ts. go_bind ReadU32 (\<lambda>dc.
       ret \<lparr>nc_ConnectAddr = ca, nc_PeerAddr = pa, nc_ClaimInstructions = ci,
         nc_TunnelServerId = ts, nc_DataCenterId = dc\<rparr>)))))"

record ControlFeed =
  cf_Response :: "ControlResponse option ControlRpcMessage option"
  cf_NewClient :: "NewClient option"

definition zero_ControlFeed :: ControlFeed where
  "zero_ControlFeed = \<lparr>cf_Response = None, cf_NewClient = None\<rparr>"

definition ControlFeed_WriteTo :: "ControlFeed \<Rightarrow> (unit, writer) go" where
  "ControlFeed_WriteTo w =
     (case cf_Response w of
        Some r \<Rightarrow> go_seq [WriteU32 1, ControlRpcMessage_WriteTo ControlResponse_ptr_WriteTo r]
      | None \<Rightarrow>
        (case cf_NewClient w of
           Some c \<Rightarrow> go_seq [WriteU32 2, NewClient_WriteTo c]
         | None \<Rightarrow> throw (Errorf ''set ResponseControl or NewClient'')))"

definition ControlFeed_ReadFrom :: "ControlFeed \<Rightarrow> (ControlFeed, reader) go" where
  "ControlFeed_ReadFrom w =
     go_bind ReadU32 (\<lambda>code.
       if code = 1 then
         go_bind (ControlRpcMessage_ReadFrom ControlResponse_ptr_ReadFrom
             \<lparr>rpc_RequestID = 0, rpc_Content = Some zero_ControlResponse\<rparr>) (\<lambda>r.
           ret (w\<lparr>cf_Response := Some r\<rparr>))
       else if code = 2 then
         go_bind NewClient_ReadFrom (\<lambda>c. ret (w\<lparr>cf_NewClient := Some c\<rparr>))
       else throw (Errorf ''invalid ControlFeed id''))"

section \<open>Wire format\<close>

definition enc_ClaimInstructions :: "ClaimInstructions \<Rightarrow> bytes" where
  "enc_ClaimInstructions w = enc_AddressPort (ci_Address w) @ enc_token (ci_Token w)"

definition enc_NewClient :: "NewClient \<Rightarrow> bytes" where
  "enc_NewClient w =
     enc_AddressPort (nc_ConnectAddr w) @ enc_AddressPort (nc_PeerAddr w) @
     enc_ClaimInstructions (nc_ClaimInstructions w) @ be_bytes (nc_TunnelServerId w) @
     be_bytes (nc_DataCenterId w)"

definition wire_ClaimInstructions :: "ClaimInstructions \<Rightarrow> bool" where
  "wire_ClaimInstructions w \<longleftrightarrow> wire_addr (ci_Address w) \<and> length (ci_Token w) \<le> maxAlloc"

definition wire_NewClient :: "NewClient \<Rightarrow> bool" where
  "wire_NewClient w \<longleftrightarrow>
     wire_addr (nc_ConnectAddr w) \<and> wire_addr (nc_PeerAddr w) \<and>
     wire_ClaimInstructions (nc_ClaimInstructions w)"

lemma writes_ClaimInstructions [writes_intro]:
  "writes (ClaimInstructions_WriteTo w) (enc_ClaimInstructions w)"
  unfolding ClaimInstructions_WriteTo_def
  by (rule writes_cong, (rule writes_intro)+) (simp add: enc_ClaimInstructions_def enc_token_def)

lemma reads_ClaimInstructions [reads_intro]:
  assumes "wire_ClaimInstructions w"
  shows "reads ClaimInstructions_ReadFrom (enc_ClaimInstructions w) w"
proof -
  from assms have a: "wire_addr (ci_Address w)" and t: "length (ci_Token w) \<le> maxAlloc"
    by (simp_all add: wire_ClaimInstructions_def)
  have "reads ClaimInstructions_ReadFrom
      (enc_AddressPort (ci_Address w) @ enc_token (ci_Token w) @ []) w"
    unfolding ClaimInstructions_ReadFrom_def
    by (rule reads_bind, rule reads_AddressPort [OF a])
       (simp only: reads_token [OF t], simp add: reads_def)
  then show ?thesis by (simp add: enc_ClaimInstructions_def)
qed

lemma emits_drop_err: "emits m bs \<Longrightarrow> emits (go_drop_err m) bs"
  by (simp add: emits_def go_drop_err_def)

lemma emits_go_seq_Cons: "emits m xs \<Longrightarrow> emits (go_seq ms) ys \<Longrightarrow> emits (go_seq (m # ms)) (xs @ ys)"
  by (simp add: emits_bind)

lemma emits_two: "emits m xs \<Longrightarrow> emits n ys \<Longrightarrow> emits (go_seq [m, n]) (xs @ ys)"
  using emits_go_seq_Cons [of m xs "[n]" "ys @ []"] emits_go_seq_Cons [of n ys "[]" "[]"]
  by (simp add: emits_def)

lemma emits_NewClient: "emits (NewClient_WriteTo w) (enc_NewClient w)"
proof -
  have "emits (NewClient_WriteTo w)
     (enc_AddressPort (nc_ConnectAddr w) @ enc_AddressPort (nc_PeerAddr w) @
      enc_ClaimInstructions (nc_ClaimInstructions w) @ be_bytes (nc_TunnelServerId w) @
      be_bytes (nc_DataCenterId w) @ [])"
    unfolding NewClient_WriteTo_def
    by (intro emits_go_seq_Cons emits_drop_err writes_emits writes_intro)
  then show ?thesis by (simp add: enc_NewClient_def)
qed

lemma reads_NewClient [reads_intro]:
  assumes "wire_NewClient w"
  shows "reads NewClient_ReadFrom (enc_NewClient w) w"
proof -
  from assms have w: "wire_addr (nc_ConnectAddr w)" "wire_addr (nc_PeerAddr w)"
      "wire_ClaimInstructions (nc_ClaimInstructions w)"
    by (simp_all add: wire_NewClient_def)
  have "reads NewClient_ReadFrom
     (enc_AddressPort (nc_ConnectAddr w) @ enc_AddressPort (nc_PeerAddr w) @
      enc_ClaimInstructions (nc_ClaimInstructions w) @ be_bytes (nc_TunnelServerId w) @
      be_bytes (nc_DataCenterId w) @ []) w"
    unfolding NewClient_ReadFrom_def
    by (rule reads_bind, rule reads_intro w, (rule w)?)+ (simp add: reads_def)
  then show ?thesis by (simp add: enc_NewClient_def)
qed

section \<open>The feed, one message at a time\<close>

datatype feed = FResponse u64 response | FNewClient NewClient

fun enc_feed :: "feed \<Rightarrow> bytes" where
  "enc_feed (FResponse i q) = be_bytes (1 :: u32) @ be_bytes i @ enc_response q"
| "enc_feed (FNewClient c) = be_bytes (2 :: u32) @ enc_NewClient c"

fun rep_feed :: "feed \<Rightarrow> ControlFeed" where
  "rep_feed (FResponse i q) =
     zero_ControlFeed\<lparr>cf_Response :=
       Some \<lparr>rpc_RequestID = i, rpc_Content = Some (rep_response q)\<rparr>\<rparr>"
| "rep_feed (FNewClient c) = zero_ControlFeed\<lparr>cf_NewClient := Some c\<rparr>"

definition abs_feed :: "ControlFeed \<Rightarrow> feed option" where
  "abs_feed w =
     (case cf_Response w of
        Some r \<Rightarrow> (case rpc_Content r of
            None \<Rightarrow> None
          | Some m \<Rightarrow> map_option (FResponse (rpc_RequestID r)) (abs_response m))
      | None \<Rightarrow> map_option FNewClient (cf_NewClient w))"

fun writable_feed :: "feed \<Rightarrow> bool" where
  "writable_feed (FResponse i q) \<longleftrightarrow> writable_response q"
| "writable_feed (FNewClient c) \<longleftrightarrow> True"

fun readable_feed :: "feed \<Rightarrow> bool" where
  "readable_feed (FResponse i q) \<longleftrightarrow> readable_response q"
| "readable_feed (FNewClient c) \<longleftrightarrow> wire_NewClient c"

lemma readable_writable_feed: "readable_feed f \<Longrightarrow> writable_feed f"
  by (cases f) (simp_all add: readable_writable_response)

lemma emits_ControlFeed:
  assumes "abs_feed w = Some f" and "writable_feed f"
  shows "emits (ControlFeed_WriteTo w) (enc_feed f)"
proof (cases "cf_Response w")
  case None
  with assms(1) obtain c where "cf_NewClient w = Some c" "f = FNewClient c"
    by (auto simp: abs_feed_def)
  then show ?thesis
    using None emits_two [OF writes_emits [OF writes_WriteU32] emits_NewClient, of 2 c]
    by (simp add: ControlFeed_WriteTo_def)
next
  case (Some r)
  with assms(1) obtain m q where m: "rpc_Content r = Some m" "abs_response m = Some q"
      and f: "f = FResponse (rpc_RequestID r) q"
    by (auto simp: abs_feed_def split: option.splits)
  have "writes (ControlRpcMessage_WriteTo ControlResponse_ptr_WriteTo r) (enc_rpc res_enc r)"
    by (rule res.rpc_writes) (use m f assms(2) in \<open>simp add: res_ok_def\<close>)
  from writes_two [OF writes_WriteU32 this, of 1] Some show ?thesis
    by (simp add: ControlFeed_WriteTo_def f m enc_rpc_def res_enc_def writes_emits)
qed

lemma reads_ControlFeed:
  assumes "readable_feed f"
  shows "reads (ControlFeed_ReadFrom zero_ControlFeed) (enc_feed f) (rep_feed f)"
proof (cases f)
  case (FResponse i q)
  let ?w = "\<lparr>rpc_RequestID = i, rpc_Content = Some (rep_response q)\<rparr>"
  have "res_ok readable_response (rpc_Content ?w)"
    using assms FResponse by (simp add: res_ok_def)
  then have "reads (ControlRpcMessage_ReadFrom ControlResponse_ptr_ReadFrom
      \<lparr>rpc_RequestID = 0, rpc_Content = Some zero_ControlResponse\<rparr>) (enc_rpc res_enc ?w)
      \<lparr>rpc_RequestID = rpc_RequestID ?w, rpc_Content = res_canon (rpc_Content ?w)\<rparr>"
    by (rule res.rpc_reads)
  then have "reads (ControlRpcMessage_ReadFrom ControlResponse_ptr_ReadFrom
      \<lparr>rpc_RequestID = 0, rpc_Content = Some zero_ControlResponse\<rparr>) (be_bytes i @ enc_response q) ?w"
    by (simp add: enc_rpc_def res_enc_def res_canon_def)
  with FResponse show ?thesis
    by (auto simp: ControlFeed_ReadFrom_def intro!: reads_tagged reads_bind_last)
next
  case (FNewClient c)
  with assms show ?thesis
    by (auto simp: ControlFeed_ReadFrom_def intro!: reads_tagged reads_bind_last reads_NewClient)
qed

lemma ControlFeed_ReadFrom_Pong:
  assumes "wire_addr (pong_ClientAddr p)" and "wire_addr (pong_TunnelAddr p)"
  shows "\<exists>rest. ControlFeed_ReadFrom zero_ControlFeed (enc_feed (FResponse i (RPong p))) =
    Ok (rep_feed (FResponse i (RPong (decoded_pong p)))) rest"
  using Pong_ReadFrom_enc_Pong [OF assms]
  by (auto simp add: ControlFeed_ReadFrom_def ControlRpcMessage_ReadFrom_def go_bind_def
      readsD [OF reads_ReadU32] readsD [OF reads_ReadU64] ControlResponse_ptr_ReadFrom_def
      ControlResponse_ReadFrom_Pong)

section \<open>What every decoded feed is like\<close>

lemma ControlFeed_ReadFrom_pong_expiry:
  assumes "ControlFeed_ReadFrom zero_ControlFeed bs = Ok feed rest"
    and "cf_Response feed = Some msg" and "rpc_Content msg = Some content"
    and "cres_Pong content = Some pong"
  shows "pong_SessionExpireAt pong \<noteq> None"
  using assms
  by (auto simp: ControlFeed_ReadFrom_def ControlRpcMessage_ReadFrom_def zero_ControlFeed_def
      ControlResponse_ptr_ReadFrom_def ControlResponse_ReadFrom_def zero_ControlResponse_def go_bind_def
      split: outcome.splits if_splits)
     (auto dest!: Pong_ReadFrom_sets_expiry)

lemma ControlFeed_ReadFrom_id:
  "ControlFeed_ReadFrom w (be_bytes (code :: u32) @ rest) =
     Err (Errorf ''invalid ControlFeed id'') rest" if "code \<noteq> 1" "code \<noteq> 2"
  using that by (simp add: ControlFeed_ReadFrom_def go_bind_def readsD [OF reads_ReadU32])

lemma be_bytes_0_32: "be_bytes (0 :: u32) = [0, 0, 0, 0]"
  by code_simp

end
