(* ===== verification/Go_Text.thy ===== *)
theory Go_Text
  imports Go_IO
begin

text \<open>
  What the code uses of Go's text packages: \<open>encoding/hex\<close>, \<open>url.PathEscape\<close> and \<open>fmt.Errorf\<close> of a
  text without operands. A Go string is a list of bytes, here of characters.
\<close>

section \<open>Hexadecimal digits\<close>

text \<open>\<open>hex.DecodeString\<close>: an odd length or a character that is no digit is an error.\<close>

definition hex_digit :: "char \<Rightarrow> u8 option" where
  "hex_digit c =
     (let n = of_char c :: nat in
      if 48 \<le> n \<and> n \<le> 57 then Some (of_nat (n - 48))
      else if 97 \<le> n \<and> n \<le> 102 then Some (of_nat (n - 87))
      else if 65 \<le> n \<and> n \<le> 70 then Some (of_nat (n - 55))
      else None)"

fun hex_decode :: "string \<Rightarrow> bytes option" where
  "hex_decode [] = Some []"
| "hex_decode [c] = None"
| "hex_decode (c # d # cs) =
     (case (hex_digit c, hex_digit d, hex_decode cs) of
        (Some x, Some y, Some bs) \<Rightarrow> Some ((push_bit 4 x OR y) # bs)
      | _ \<Rightarrow> None)"

text \<open>\<open>hex.EncodeToString\<close>: two lower-case digits for each byte.\<close>

definition hex_char :: "u8 \<Rightarrow> char" where
  "hex_char w = (if w < 10 then char_of (unat w + 48) else char_of (unat w + 87))"

definition hex_encode :: "bytes \<Rightarrow> string" where
  "hex_encode bs = concat (map (\<lambda>b. [hex_char (drop_bit 4 b), hex_char (b AND 15)]) bs)"

lemma length_hex_encode: "length (hex_encode bs) = 2 * length bs"
  by (induction bs) (simp_all add: hex_encode_def)

lemma hex_digit_char: "w < 16 \<Longrightarrow> hex_digit (hex_char w) = Some w"
  by (auto simp: hex_digit_def hex_char_def Let_def word_less_nat_alt of_char_of take_bit_nat_eq_self)

lemma low_nibble: "b AND 15 = take_bit 4 (b :: u8)"
  by (simp add: take_bit_eq_mask mask_eq_exp_minus_1)

lemma nibbles_bounds: "drop_bit 4 b < (16 :: u8)" "b AND 15 < (16 :: u8)"
proof -
  have "unat b < 256" using unsigned_less [of b] by simp
  then have "drop_bit 4 (unat b) < 16" by (simp add: drop_bit_eq_div less_mult_imp_div_less)
  then have "unat (drop_bit 4 b) < 16" by (simp only: unat_drop_bit_eq)
  then show "drop_bit 4 b < (16 :: u8)" by (simp only: word_less_nat_alt unat_numeral) simp
  have "take_bit 4 (unat b) < 16" using take_bit_nat_less_exp [of 4 "unat b"] by simp
  then show "b AND 15 < (16 :: u8)"
    by (simp add: low_nibble word_less_nat_alt unsigned_take_bit_eq)
qed

lemma nibbles_join: "push_bit 4 (drop_bit 4 b) OR (b AND 15) = (b :: u8)"
  unfolding low_nibble by (rule bit_word_eqI) (auto simp: bit_simps)

lemma hex_decode_encode: "hex_decode (hex_encode bs) = Some bs"
  by (induction bs) (simp_all add: hex_encode_def hex_digit_char nibbles_bounds nibbles_join)

section \<open>Escaping a path segment\<close>

text \<open>
  \<open>url.PathEscape\<close>: letters, digits and the marks that stand for themselves in a path segment are
  kept, any other byte becomes a percent sign and two upper-case digits.
\<close>

definition path_plain :: "char \<Rightarrow> bool" where
  "path_plain c \<longleftrightarrow>
     (let n = of_char c :: nat in 48 \<le> n \<and> n \<le> 57 \<or> 65 \<le> n \<and> n \<le> 90 \<or> 97 \<le> n \<and> n \<le> 122) \<or>
     c \<in> set ''-_.~$&+=:@''"

definition upper_hex_char :: "nat \<Rightarrow> char" where
  "upper_hex_char n = (if n < 10 then char_of (n + 48) else char_of (n + 55))"

definition url_PathEscape :: "string \<Rightarrow> string" where
  "url_PathEscape s = concat (map (\<lambda>c. if path_plain c then [c]
     else (let n = of_char c :: nat in [CHR ''%'', upper_hex_char (n div 16), upper_hex_char (n mod 16)])) s)"

lemma path_plain_hex_char: "w < 16 \<Longrightarrow> path_plain (hex_char w)"
  by (auto simp: path_plain_def hex_char_def Let_def word_less_nat_alt of_char_of take_bit_nat_eq_self)

lemma url_PathEscape_plain: "list_all path_plain s \<Longrightarrow> url_PathEscape s = s"
  by (induction s) (simp_all add: url_PathEscape_def)

lemma url_PathEscape_hex: "url_PathEscape (hex_encode bs) = hex_encode bs"
  by (rule url_PathEscape_plain)
     (auto simp: list_all_iff hex_encode_def path_plain_hex_char nibbles_bounds)

section \<open>A text used as a format\<close>

text \<open>
  \<open>fmt.Errorf(s)\<close> without operands: text is copied, \<open>%%\<close> is a percent sign, and any other directive
  (flags, index, width, precision, verb) has no operand, which the text then says.
\<close>

text \<open>Digits, with the number of them given up beyond a million; whether there were any, and the rest.\<close>

fun parsenum :: "nat \<Rightarrow> bool \<Rightarrow> string \<Rightarrow> bool \<times> string" where
  "parsenum num isnum [] = (isnum, [])"
| "parsenum num isnum (c # s) =
     (let n = of_char c :: nat in
      if 48 \<le> n \<and> n \<le> 57
      then (if num > 1000000 then (False, []) else parsenum (num * 10 + (n - 48)) True s)
      else (isnum, c # s))"

text \<open>An index \<open>[n]\<close>, never one of an operand: whether there is a bracket, if so a number in it, the rest.\<close>

definition argNumber :: "string \<Rightarrow> bool \<times> bool \<times> string" where
  "argNumber s =
     (case s of
        [] \<Rightarrow> (False, False, s)
      | c # t \<Rightarrow>
          if c \<noteq> CHR ''['' then (False, False, s)
          else if length s < 3 \<or> CHR '']'' \<notin> set t then (True, False, t)
          else (let (isnum, rest) = parsenum 0 False (takeWhile (\<lambda>c. c \<noteq> CHR '']'') t) in
                (True, isnum \<and> rest = [], tl (dropWhile (\<lambda>c. c \<noteq> CHR '']'') t))))"

definition starts_with :: "char \<Rightarrow> string \<Rightarrow> bool" where
  "starts_with c s \<longleftrightarrow> s \<noteq> [] \<and> hd s = c"

text \<open>The bytes of the first character of a text in UTF-8.\<close>

definition rune_len :: "char \<Rightarrow> nat" where
  "rune_len c = (let n = of_char c :: nat in if n < 192 then 1 else if n < 224 then 2 else if n < 240 then 3 else 4)"

text \<open>A directive, after its percent sign: what is written for it, and the rest.\<close>

definition directive_verb :: "bool \<Rightarrow> string \<Rightarrow> string \<times> string" where
  "directive_verb bad s =
     (case s of
        [] \<Rightarrow> (''%!(NOVERB)'', [])
      | c # _ \<Rightarrow>
          if c = CHR ''%'' then (''%'', tl s)
          else (''%!'' @ take (rune_len c) s @ (if bad then ''(BADINDEX)'' else ''(MISSING)''),
                drop (rune_len c) s))"

text \<open>
  Width and precision: the text written so far, whether the index was wrong, whether an index stands
  just before, and the rest.
\<close>

type_synonym fmt_state = "string \<times> bool \<times> bool \<times> string"

fun directive_width :: "bool \<times> bool \<times> string \<Rightarrow> fmt_state" where
  "directive_width (bad, afterIndex, s) =
     (if starts_with (CHR ''*'') s then (''%!(BADWIDTH)'', bad, False, tl s)
      else (let (isnum, t) = parsenum 0 False s in ('''', bad \<or> afterIndex \<and> isnum, afterIndex, t)))"

fun directive_precision :: "fmt_state \<Rightarrow> fmt_state" where
  "directive_precision (out, bad, afterIndex, s) =
     (if starts_with (CHR ''.'') s
      then (let (bad', afterIndex', t) = argNumber (tl s); bad = (bad \<or> afterIndex \<or> bad') in
            if starts_with (CHR ''*'') t then (out @ ''%!(BADPREC)'', bad, False, tl t)
            else (out, bad, afterIndex', snd (parsenum 0 False t)))
      else (out, bad, afterIndex, s))"

fun directive_end :: "fmt_state \<Rightarrow> string \<times> string" where
  "directive_end (out, bad, afterIndex, s) =
     (let (bad', _, t) = (if afterIndex then (False, False, s) else argNumber s);
          (verb, rest) = directive_verb (bad \<or> bad') t in
      (out @ verb, rest))"

definition directive :: "string \<Rightarrow> string \<times> string" where
  "directive s =
     directive_end (directive_precision (directive_width (argNumber (dropWhile (\<lambda>c. c \<in> set ''#0+- '') s))))"

lemma parsenum_length: "length (snd (parsenum num isnum s)) \<le> length s"
  by (induction num isnum s rule: parsenum.induct) (auto simp: Let_def)

lemma argNumber_length: "length (snd (snd (argNumber s))) \<le> length s"
proof -
  have "length (tl (dropWhile P t)) \<le> Suc (length t)" for P and t :: string
    using length_dropWhile_le [of P t] by simp
  then show ?thesis by (auto simp: argNumber_def split: list.split prod.split)
qed

lemma directive_verb_length: "length (snd (directive_verb bad s)) \<le> length s"
  by (auto simp: directive_verb_def split: list.split)

lemma directive_width_length: "length (snd (snd (snd (directive_width x)))) \<le> length (snd (snd x))"
  using parsenum_length [of 0 False "snd (snd x)"]
  by (cases x rule: directive_width.cases) (auto split: prod.splits simp: Let_def)

lemma directive_precision_length: "length (snd (snd (snd (directive_precision x)))) \<le> length (snd (snd (snd x)))"
proof (cases x rule: directive_precision.cases)
  case (1 out bad afterIndex s)
  let ?t = "snd (snd (argNumber (tl s)))"
  have "length ?t \<le> length s" using argNumber_length [of "tl s"] by simp
  moreover have "length (snd (parsenum 0 False ?t)) \<le> length ?t" by (rule parsenum_length)
  ultimately show ?thesis by (auto simp: 1 Let_def split_beta)
qed

lemma directive_end_length: "length (snd (directive_end x)) \<le> length (snd (snd (snd x)))"
proof (cases x rule: directive_end.cases)
  case (1 out bad afterIndex s)
  then show ?thesis
    using directive_verb_length order_trans [OF directive_verb_length argNumber_length]
    by (simp add: Let_def split_beta)
qed

lemma directive_length: "length (snd (directive s)) \<le> length s"
proof -
  let ?s = "dropWhile (\<lambda>c. c \<in> set ''#0+- '') s"
  have "length (snd (directive s)) \<le> length (snd (snd (snd (directive_precision (directive_width (argNumber ?s))))))"
    unfolding directive_def by (rule directive_end_length)
  also have "\<dots> \<le> length (snd (snd (snd (directive_width (argNumber ?s)))))" by (rule directive_precision_length)
  also have "\<dots> \<le> length (snd (snd (argNumber ?s)))" by (rule directive_width_length)
  also have "\<dots> \<le> length ?s" by (rule argNumber_length)
  also have "\<dots> \<le> length s" by (rule length_dropWhile_le)
  finally show ?thesis .
qed

function Sprintf_text :: "string \<Rightarrow> string" where
  "Sprintf_text [] = []"
| "Sprintf_text (c # s) =
     (if c = CHR ''%'' then fst (directive s) @ Sprintf_text (snd (directive s)) else c # Sprintf_text s)"
  by pat_completeness auto
termination
  by (relation "measure length") (simp_all add: le_imp_less_Suc directive_length)

lemma Sprintf_text_plain: "CHR ''%'' \<notin> set s \<Longrightarrow> Sprintf_text s = s"
  by (induction s) auto

lemma Sprintf_text_examples:
  "Sprintf_text ''100%'' = ''100%!(NOVERB)''"
  "Sprintf_text ''100% sure'' = ''100%!s(MISSING)ure''"
  "Sprintf_text ''a%%b'' = ''a%b''"
  "Sprintf_text ''%[1]*.2x'' = ''%!(BADWIDTH)%!x(BADINDEX)''"
  by (simp_all add: directive_def argNumber_def starts_with_def directive_verb_def rune_len_def)

end
