(* ===== verification/Go_Float.thy ===== *)
theory Go_Float
  imports Complex_Main
begin

text \<open>
  Numbers of Go's type \<open>float64\<close>, as \<open>strconv\<close> parses and formats them. A finite number is a sign and
  its magnitude, a rational; parsing rounds a decimal to the nearest multiple of the finest power of
  two that leaves 53 bits (ties to even), and is a range error from the overflow threshold on;
  formatting takes the fewest digits that parse to the number again, the nearest of these, ties to
  an even last digit.
\<close>

section \<open>Rounding\<close>

definition round_even :: "rat \<Rightarrow> int" where
  "round_even x =
     (let f = \<lfloor>x\<rfloor>; d = x - of_int f in
      if d < 1 / 2 then f else if 1 / 2 < d then f + 1 else if even f then f else f + 1)"

definition grid :: "rat \<Rightarrow> int \<Rightarrow> int" where
  "grid x q = round_even (x / 2 powi q)"

text \<open>The exponents of the grids, and of the last digit of a decimal.\<close>

definition float_exponents :: "int list" where
  "float_exponents = [-1074..971]"

definition decimal_exponents :: "int list" where
  "decimal_exponents = rev [-1074..308]"

text \<open>The magnitude of the nearest number; \<open>None\<close> if it is too large.\<close>

definition to_float64 :: "rat \<Rightarrow> rat option" where
  "to_float64 x =
     (case find (\<lambda>q. grid x q \<le> 2 ^ 53) float_exponents of
        None \<Rightarrow> None
      | Some q \<Rightarrow> (let v = of_int (grid x q) * 2 powi q in if v < 2 powi 1024 then Some v else None))"

definition decimal :: "nat \<Rightarrow> int \<Rightarrow> rat" where
  "decimal m e = of_nat m * 10 powi e"

definition candidates :: "rat \<Rightarrow> int \<Rightarrow> nat list" where
  "candidates v e =
     (let lo = nat \<lfloor>v / 10 powi e\<rfloor> in
      filter (\<lambda>m. to_float64 (decimal m e) = Some v) [lo, lo + 1])"

definition nearest :: "rat \<Rightarrow> int \<Rightarrow> nat list \<Rightarrow> nat" where
  "nearest v e ms =
     (case ms of
        [a, b] \<Rightarrow>
          (let below = v - decimal a e; above = decimal b e - v in
           if below < above then a else if above < below then b else if even a then a else b)
      | _ \<Rightarrow> hd ms)"

text \<open>The shortest digits and their exponent.\<close>

definition shortest :: "rat \<Rightarrow> nat \<times> int" where
  "shortest v =
     (if v = 0 then (0, 0)
      else (case find (\<lambda>e. candidates v e \<noteq> []) decimal_exponents of
              Some e \<Rightarrow> (nearest v e (candidates v e), e)
            | None \<Rightarrow> (0, 0)))"

section \<open>Lemmas\<close>

lemma round_even_int [simp]: "round_even (of_int n) = n"
  by (simp add: round_even_def)

lemma round_even_floor: "\<lfloor>x\<rfloor> \<le> round_even x"
  by (simp add: round_even_def Let_def)

lemma round_even_le:
  assumes "x \<le> of_int n"
  shows "round_even x \<le> n"
proof (cases "\<lfloor>x\<rfloor> = n")
  case True
  then have "x = of_int n" using assms of_int_floor_le [of x] by simp
  then show ?thesis by simp
next
  case False
  moreover have "\<lfloor>x\<rfloor> \<le> n" using assms floor_mono [of x "of_int n"] by simp
  ultimately show ?thesis by (simp add: round_even_def Let_def)
qed

lemma find_upto:
  assumes "find P [a..b] = Some (q :: int)"
  shows "a \<le> q \<and> q \<le> b \<and> P q \<and> (\<forall>p. a \<le> p \<and> p < q \<longrightarrow> \<not> P p)"
proof -
  obtain i where i: "i < length [a..b]" "P ([a..b] ! i)" "q = [a..b] ! i" "\<forall>j < i. \<not> P ([a..b] ! j)"
    using assms by (auto simp: find_Some_iff)
  have nth: "[a..b] ! j = a + int j" if "j \<le> i" for j
    using i(1) that by (simp add: nth_upto)
  have "\<not> P p" if p: "a \<le> p" "p < q" for p
  proof -
    have "nat (p - a) < i" using p nth [of i] i(3) by simp
    with i(4) nth [of "nat (p - a)"] p show ?thesis by auto
  qed
  with i nth [of i] show ?thesis by auto
qed

lemma find_upto_rev:
  assumes "find P (rev [a..b]) = Some (q :: int)"
  shows "a \<le> q \<and> q \<le> b \<and> P q \<and> (\<forall>p. q < p \<and> p \<le> b \<longrightarrow> \<not> P p)"
proof -
  obtain i where i: "i < length [a..b]" "P (rev [a..b] ! i)" "q = rev [a..b] ! i" "\<forall>j < i. \<not> P (rev [a..b] ! j)"
    using assms by (auto simp: find_Some_iff)
  have nth: "rev [a..b] ! j = b - int j" if "j \<le> i" for j
    using i(1) that by (simp add: rev_nth nth_upto)
  have "\<not> P p" if p: "q < p" "p \<le> b" for p
  proof -
    have "nat (b - p) < i" using p nth [of i] i(3) by simp
    with i(4) nth [of "nat (b - p)"] p show ?thesis by auto
  qed
  with i nth [of i] show ?thesis by auto
qed

lemma find_exists: "P x \<Longrightarrow> x \<in> set xs \<Longrightarrow> \<exists>y. find P xs = Some y"
  by (cases "find P xs") (auto simp: find_None_iff)

lemma mem_upto:
  fixes a b q :: int
  shows "xs = [a..b] \<Longrightarrow> q \<in> set xs \<longleftrightarrow> a \<le> q \<and> q \<le> b"
    and "xs = rev [a..b] \<Longrightarrow> q \<in> set xs \<longleftrightarrow> a \<le> q \<and> q \<le> b"
  by simp_all

lemmas exponents_iff = mem_upto(1) [OF float_exponents_def] mem_upto(2) [OF decimal_exponents_def]

lemma divide_powi_nonpos:
  assumes "q \<le> 0"
  shows "of_int n / 2 powi q = (of_int (n * 2 ^ nat (- q)) :: rat)"
proof -
  obtain k where q: "q = - int k" using assms nonpos_int_cases by blast
  show ?thesis unfolding q power_int_minus power_int_of_nat by (simp add: divide_inverse)
qed

lemma grid_nonpos: "q \<le> 0 \<Longrightarrow> grid (of_int n) q = n * 2 ^ nat (- q)"
  unfolding grid_def by (simp only: divide_powi_nonpos round_even_int)

lemma grid_nonpos_value: "q \<le> 0 \<Longrightarrow> of_int (grid (of_int n) q) * 2 powi q = (of_int n :: rat)"
  by (simp add: grid_nonpos power_int_def flip: power_mult_distrib)

lemma grid_0: "grid (of_int n) 0 = n"
  using grid_nonpos [of 0 n] by simp

lemma to_float64_int:
  assumes "0 \<le> n" and "n \<le> 2 ^ 53"
  shows "to_float64 (of_int n) = Some (of_int n)"
proof -
  have P0: "grid (of_int n) 0 \<le> 2 ^ 53" unfolding grid_0 by (rule assms(2))
  then obtain q where q: "find (\<lambda>q. grid (of_int n) q \<le> 2 ^ 53) float_exponents = Some q"
    using find_exists [of "\<lambda>q. grid (of_int n) q \<le> 2 ^ 53" 0 float_exponents] exponents_iff(1) [of 0] by auto
  have "\<forall>p. -1074 \<le> p \<and> p < q \<longrightarrow> \<not> grid (of_int n) p \<le> 2 ^ 53"
    using find_upto [OF q [unfolded float_exponents_def]] by (elim conjE)
  from this [THEN spec, of 0] P0 have "q \<le> 0" by linarith
  moreover have "(of_int n :: rat) < 2 powi 1024"
  proof -
    have "(of_int n :: rat) \<le> of_int (2 ^ 53)" using assms(2) by (simp only: of_int_le_iff)
    also have "\<dots> < 2 powi 1024" by (simp add: power_int_def)
    finally show ?thesis .
  qed
  ultimately show ?thesis unfolding to_float64_def q option.case Let_def
    by (simp only: grid_nonpos_value if_True)
qed

lemma to_float64_grid:
  assumes "to_float64 x = Some v"
  shows "\<exists>q. q \<in> set float_exponents \<and> grid x q \<le> 2 ^ 53 \<and> v = of_int (grid x q) * 2 powi q \<and>
    v < 2 powi 1024 \<and> (\<forall>p. -1074 \<le> p \<longrightarrow> p < q \<longrightarrow> 2 ^ 53 < grid x p)"
proof -
  obtain q where q: "find (\<lambda>q. grid x q \<le> 2 ^ 53) float_exponents = Some q"
    and v: "v = of_int (grid x q) * 2 powi q" "v < 2 powi 1024"
    using assms unfolding to_float64_def Let_def by (auto split: option.splits if_splits)
  note first = find_upto [OF q [unfolded float_exponents_def]]
  have min: "\<forall>p. -1074 \<le> p \<and> p < q \<longrightarrow> \<not> grid x p \<le> 2 ^ 53" using first by (elim conjE)
  have "2 ^ 53 < grid x p" if "-1074 \<le> p" "p < q" for p using min [THEN spec, of p] that by linarith
  moreover have "q \<in> set float_exponents" "grid x q \<le> 2 ^ 53" using first exponents_iff(1) [of q] by simp_all
  ultimately show ?thesis using v by blast
qed

lemma to_float64_SomeE:
  assumes "to_float64 x = Some v"
  obtains q where "q \<in> set float_exponents" and "grid x q \<le> 2 ^ 53" and "v = of_int (grid x q) * 2 powi q"
    and "v < 2 powi 1024"
  using to_float64_grid [OF assms] by blast

lemma to_float64_large:
  assumes "to_float64 (of_int k) = Some v" and "2 ^ 53 \<le> k"
  shows "2 ^ 53 \<le> v"
proof -
  obtain q where q: "q \<in> set float_exponents" "v = of_int (grid (of_int k) q) * 2 powi q"
      "\<And>p. -1074 \<le> p \<Longrightarrow> p < q \<Longrightarrow> 2 ^ 53 < grid (of_int k) p"
    using to_float64_grid [OF assms(1)] by blast
  show ?thesis
  proof (cases "q \<le> 0")
    case True
    then have "v = of_int k" using q(2) by (simp add: grid_nonpos_value)
    then show ?thesis using assms(2) by (metis of_int_le_iff of_int_numeral of_int_power)
  next
    case False
    define y :: rat where "y = of_int k / 2 powi (q - 1)"
    have "2 ^ 53 < round_even y" using q(3) [of "q - 1"] False by (simp add: grid_def y_def)
    then have "of_int (2 ^ 53) < y" using round_even_le [of y "2 ^ 53"] by linarith
    moreover have "(2 :: rat) powi q = 2 * 2 powi (q - 1)"
      using power_int_add [of "2 :: rat" 1 "q - 1"] by simp
    then have "of_int k / 2 powi q = y / 2" by (simp only: y_def) simp
    ultimately have "of_int (2 ^ 52) \<le> (of_int k / 2 powi q :: rat)" by (simp only:) simp
    then have "2 ^ 52 \<le> \<lfloor>of_int k / 2 powi q :: rat\<rfloor>" by (simp only: le_floor_iff)
    then have g: "2 ^ 52 \<le> grid (of_int k) q" unfolding grid_def using round_even_floor by (rule order_trans)
    have "(2 :: rat) ^ 1 \<le> 2 ^ nat q" using False by (intro power_increasing) auto
    then have "2 \<le> (2 :: rat) powi q" using False by (simp add: power_int_def)
    moreover have "of_int (2 ^ 52) \<le> (of_int (grid (of_int k) q) :: rat)" using g by (simp only: of_int_le_iff)
    ultimately have "of_int (2 ^ 52) * 2 \<le> v"
      unfolding q(2) by (intro mult_mono) simp_all
    then show ?thesis by simp
  qed
qed

text \<open>An integer below \<open>2 ^ 53\<close> is formatted as itself.\<close>

lemma nearest_in: "ms \<noteq> [] \<Longrightarrow> nearest v e ms \<in> set ms"
  unfolding nearest_def Let_def by (auto split: list.split)

lemma shortest_candidate:
  assumes "v \<noteq> 0" and "candidates v e \<noteq> []" and "-1074 \<le> e" and "e \<le> 308"
  shows "\<exists>m e'. shortest v = (m, e') \<and> e \<le> e' \<and> to_float64 (decimal m e') = Some v"
proof -
  obtain e' where e': "find (\<lambda>e. candidates v e \<noteq> []) decimal_exponents = Some e'"
    using find_exists [of "\<lambda>e. candidates v e \<noteq> []" e decimal_exponents] assms(2-4) exponents_iff by blast
  note found = find_upto_rev [OF e' [unfolded decimal_exponents_def]]
  have "e \<le> e'" using found assms(2,4) by force
  moreover have "to_float64 (decimal (nearest v e' (candidates v e')) e') = Some v"
    using nearest_in [of "candidates v e'" v e'] found by (auto simp: candidates_def Let_def split: if_splits)
  ultimately show ?thesis using assms(1) e' by (simp add: shortest_def)
qed

lemma shortest_int:
  assumes "0 < n" and "n < 2 ^ 53"
  shows "\<exists>m e. shortest (of_int n) = (m, e) \<and> 0 \<le> e \<and> int (m * 10 ^ nat e) = n"
proof -
  have "to_float64 (of_int n) = Some (of_int n)" using assms by (intro to_float64_int) simp_all
  then have "candidates (of_int n) 0 \<noteq> []"
    using assms(1) by (simp add: candidates_def decimal_def Let_def)
  moreover have "(of_int n :: rat) \<noteq> 0" using assms(1) by simp
  ultimately obtain m e where s: "shortest (of_int n) = (m, e)" "0 \<le> e"
      "to_float64 (decimal m e) = Some (of_int n)"
    using shortest_candidate [of "of_int n" 0] by auto
  define k where "k = int (m * 10 ^ nat e)"
  have dec: "decimal m e = of_int k" using s(2) by (simp add: decimal_def k_def power_int_def)
  have "k = n"
  proof (cases "k \<le> 2 ^ 53")
    case True
    then have "to_float64 (of_int k) = Some (of_int k)" by (intro to_float64_int) (simp_all add: k_def)
    with s(3) dec show ?thesis by simp
  next
    case False
    then have "2 ^ 53 \<le> (of_int n :: rat)" using to_float64_large [of k "of_int n"] s(3) dec by simp
    moreover have "(of_int n :: rat) < of_int (2 ^ 53)" using assms(2) by (simp only: of_int_less_iff)
    ultimately show ?thesis by simp
  qed
  with s show ?thesis by (auto simp: k_def)
qed

text \<open>A number that was parsed is rounded to itself, and its shortest digits parse to it again.\<close>

lemma grid_exact:
  assumes "v = of_int g * 2 powi q" and "p \<le> q"
  shows "of_int (grid v p) * 2 powi p = v"
proof -
  have "(2 :: rat) powi q = 2 ^ nat (q - p) * 2 powi p"
    using power_int_add [of "2 :: rat" "q - p" p] assms(2) by (simp add: power_int_def)
  then have "v / 2 powi p = of_int (g * 2 ^ nat (q - p))" by (simp add: assms(1))
  then have "grid v p = g * 2 ^ nat (q - p)" unfolding grid_def by (simp only: round_even_int)
  then show ?thesis by (simp add: assms(1) \<open>2 powi q = _\<close>)
qed

lemma to_float64_idem:
  assumes "to_float64 x = Some v"
  shows "to_float64 v = Some v"
proof -
  obtain q where q: "q \<in> set float_exponents" "grid x q \<le> 2 ^ 53" "v = of_int (grid x q) * 2 powi q"
      "v < 2 powi 1024"
    using assms by (rule to_float64_SomeE)
  have "of_int (grid v q) * 2 powi q = v" using q(3) by (rule grid_exact) simp
  then have "of_int (grid v q) = (of_int (grid x q) :: rat)" using q(3) by simp
  then have P: "grid v q \<le> 2 ^ 53" using q(2) by simp
  obtain p where p: "find (\<lambda>q. grid v q \<le> 2 ^ 53) float_exponents = Some p"
    using find_exists [of "\<lambda>q. grid v q \<le> 2 ^ 53", OF P q(1)] by blast
  have "\<forall>p'. -1074 \<le> p' \<and> p' < p \<longrightarrow> \<not> grid v p' \<le> 2 ^ 53"
    using find_upto [OF p [unfolded float_exponents_def]] by (elim conjE)
  from this [THEN spec, of q] P q(1) exponents_iff(1) [of q] have "p \<le> q" by linarith
  then have "of_int (grid v p) * 2 powi p = v" by (rule grid_exact [OF q(3)])
  then show ?thesis unfolding to_float64_def p option.case Let_def using q(4) by (simp only: if_True)
qed

lemma to_float64_nonneg:
  assumes "to_float64 x = Some v" and "0 \<le> x"
  shows "0 \<le> v"
proof -
  obtain q where q: "v = of_int (grid x q) * 2 powi q" using assms(1) by (rule to_float64_SomeE)
  have "0 \<le> \<lfloor>x / 2 powi q\<rfloor>" using assms(2) by simp
  then have "0 \<le> grid x q" unfolding grid_def using round_even_floor by (rule order_trans)
  then show ?thesis by (simp add: q)
qed

lemma finest_decimal:
  assumes "v = of_int g * 2 powi q" and "0 \<le> v" and "c \<le> q" and "c \<le> 0"
  shows "v = decimal (nat \<lfloor>v / 10 powi c\<rfloor>) c"
proof -
  obtain k where c: "c = - int k" using assms(4) nonpos_int_cases by blast
  have "(10 :: rat) ^ k = 5 ^ k * 2 ^ k" by (simp flip: power_mult_distrib)
  then have "(10 :: rat) powi c = inverse (5 ^ k) * 2 powi c" by (simp add: c power_int_minus)
  then have "v / 10 powi c = of_int (grid v c) / inverse (5 ^ k)"
    using grid_exact [OF assms(1,3)]
    by (metis nonzero_mult_divide_mult_cancel_right power_int_eq_0_iff zero_neq_numeral)
  also have "\<dots> = of_int (grid v c * 5 ^ k)" by (simp add: divide_inverse)
  finally have n: "v / 10 powi c = of_int (grid v c * 5 ^ k)" .
  then have v: "v = of_int (grid v c * 5 ^ k) * 10 powi c" by (simp add: divide_eq_eq)
  have "0 \<le> v / 10 powi c" using assms(2) by simp
  then have "0 \<le> grid v c * 5 ^ k" unfolding n by (simp only: of_int_0_le_iff)
  then have "of_nat (nat (grid v c * 5 ^ k)) = (of_int (grid v c * 5 ^ k) :: rat)" by (simp only: of_nat_nat)
  then show ?thesis unfolding decimal_def n floor_of_int using v by (simp only:)
qed

lemma shortest_parses:
  assumes "to_float64 x = Some v" and "0 \<le> v"
  shows "to_float64 (decimal (fst (shortest v)) (snd (shortest v))) = Some v"
proof (cases "v = 0")
  case True
  then show ?thesis using to_float64_int [of 0] by (simp add: shortest_def decimal_def)
next
  case False
  obtain q where q: "q \<in> set float_exponents" "v = of_int (grid x q) * 2 powi q"
    using assms(1) by (rule to_float64_SomeE)
  have finest: "candidates v c \<noteq> []" if "c \<le> q" "c \<le> 0" for c
    using finest_decimal [OF q(2) assms(2) that] to_float64_idem [OF assms(1)]
    by (auto simp: candidates_def Let_def)
  have "candidates v (-1074) \<noteq> []" using q(1) exponents_iff(1) [of q] by (intro finest) simp_all
  from shortest_candidate [OF False this] show ?thesis by force
qed

section \<open>Numbers of the type\<close>

datatype float64 = Float64 (fl_neg: bool) (fl_abs: rat)

text \<open>
  \<open>strconv.ParseFloat\<close> of the literal with the sign, the digits \<open>m\<close> and the decimal exponent \<open>e\<close>, and the
  digits and exponent that \<open>strconv.FormatFloat\<close> with precision -1 writes.
\<close>

definition ParseFloat :: "bool \<Rightarrow> nat \<Rightarrow> int \<Rightarrow> float64 option" where
  "ParseFloat neg m e = map_option (Float64 neg) (to_float64 (decimal m e))"

definition FormatFloat :: "float64 \<Rightarrow> bool \<times> nat \<times> int" where
  "FormatFloat f = (fl_neg f, shortest (fl_abs f))"

lemma ParseFloat_FormatFloat:
  assumes "ParseFloat neg m e = Some f" and "FormatFloat f = (neg', m', e')"
  shows "ParseFloat neg' m' e' = Some f"
proof -
  obtain v where v: "to_float64 (decimal m e) = Some v" "f = Float64 neg v"
    using assms(1) by (auto simp: ParseFloat_def)
  then have "0 \<le> v" by (intro to_float64_nonneg [OF v(1)]) (simp add: decimal_def)
  with shortest_parses [OF v(1)] assms(2) v(2) show ?thesis
    by (auto simp: ParseFloat_def FormatFloat_def)
qed

lemma ParseFloat_int:
  assumes "m < 2 ^ 53"
  shows "ParseFloat neg m 0 = Some (Float64 neg (of_nat m))"
  using to_float64_int [of "int m"] assms by (simp add: ParseFloat_def decimal_def)

text \<open>Beyond \<open>2 ^ 53\<close> two integers can be the same number.\<close>

lemma round_even_mono: "x \<le> y \<Longrightarrow> round_even x \<le> round_even y"
  using floor_mono [of x y] of_int_floor_le [of x] of_int_floor_le [of y]
  by (cases "\<lfloor>x\<rfloor> = \<lfloor>y\<rfloor>") (auto simp: round_even_def Let_def)

lemma grid_antimono:
  assumes "0 \<le> x" and "p \<le> q"
  shows "grid x q \<le> grid x p"
  unfolding grid_def using assms by (intro round_even_mono divide_left_mono power_int_increasing) auto

lemma to_float64_eq:
  assumes "0 \<le> x" and "-1074 < q" and "q \<le> 971" and "grid x q \<le> 2 ^ 53" and "2 ^ 53 < grid x (q - 1)"
    and "of_int (grid x q) * 2 powi q < (2 :: rat) powi 1024"
  shows "to_float64 x = Some (of_int (grid x q) * 2 powi q)"
proof -
  have "q \<in> set float_exponents" using assms(2,3) exponents_iff(1) [of q] by simp
  then obtain p where p: "find (\<lambda>q. grid x q \<le> 2 ^ 53) float_exponents = Some p"
    using find_exists [of "\<lambda>q. grid x q \<le> 2 ^ 53", OF assms(4)] by blast
  note first = find_upto [OF p [unfolded float_exponents_def]]
  have "\<forall>p'. -1074 \<le> p' \<and> p' < p \<longrightarrow> \<not> grid x p' \<le> 2 ^ 53" using first by (elim conjE)
  from this [THEN spec, of q] assms(2,4) have "p \<le> q" by linarith
  moreover have "\<not> p \<le> q - 1" using first grid_antimono [OF assms(1), of p "q - 1"] assms(5) by linarith
  ultimately have "p = q" by simp
  with p assms(6) show ?thesis unfolding to_float64_def Let_def by (simp only: option.case if_True)
qed

lemma ParseFloat_rounds: "ParseFloat neg (2 ^ 53 + 1) 0 = Some (Float64 neg (2 ^ 53))"
proof -
  have x: "decimal (2 ^ 53 + 1) 0 = of_int (2 ^ 53 + 1)" by (simp add: decimal_def)
  have "\<lfloor>9007199254740993 / 2 :: rat\<rfloor> = 4503599627370496" by (rule floor_unique) simp_all
  then have g: "grid (of_int (2 ^ 53 + 1)) 1 = 2 ^ 52" by (simp add: grid_def round_even_def)
  have "to_float64 (of_int (2 ^ 53 + 1)) = Some (of_int (grid (of_int (2 ^ 53 + 1)) 1) * 2 powi 1)"
    by (rule to_float64_eq) (simp_all only: g grid_0 diff_self, simp_all add: power_int_def)
  then show ?thesis unfolding ParseFloat_def x g by simp
qed

text \<open>The largest number of 64 bits is rounded to \<open>2 ^ 64\<close>, whose digits are out of that range.\<close>

lemma to_float64_below:
  assumes "to_float64 x = Some v" and "grid x 11 < 2 ^ 53"
  shows "v < 2 ^ 64"
proof -
  obtain q where q: "grid x q \<le> 2 ^ 53" "v = of_int (grid x q) * 2 powi q"
      "\<And>p. -1074 \<le> p \<Longrightarrow> p < q \<Longrightarrow> 2 ^ 53 < grid x p"
    using to_float64_grid [OF assms(1)] by blast
  have "q \<le> 11" using q(3) [of 11] assms(2) by linarith
  show ?thesis
  proof (cases "q = 11")
    case True
    then have "v = of_int (grid x 11) * 2048" using q(2) by (simp add: power_int_def)
    also have "\<dots> < of_int (2 ^ 53) * 2048" using assms(2) by (simp only: mult_less_cancel_right of_int_less_iff) simp
    finally show ?thesis by simp
  next
    case False
    then have "(2 :: rat) powi q \<le> 2 powi 10" using \<open>q \<le> 11\<close> by (intro power_int_increasing) simp_all
    moreover have "(of_int (grid x q) :: rat) \<le> of_int (2 ^ 53)" using q(1) by (simp only: of_int_le_iff)
    ultimately have "v \<le> of_int (2 ^ 53) * 2 powi 10" unfolding q(2) by (intro mult_mono) simp_all
    also have "\<dots> < 2 ^ 64" by (simp add: power_int_def)
    finally show ?thesis .
  qed
qed

lemma round_even_near:
  assumes "x \<le> of_int n + 1 / 2" and "of_int n - 1 / 2 \<le> x" and "even n"
  shows "round_even x = n"
proof (cases "of_int n \<le> x")
  case True
  then have "\<lfloor>x\<rfloor> = n" using assms(1) by (intro floor_unique) linarith+
  then show ?thesis using assms(1,3) by (simp add: round_even_def Let_def)
next
  case False
  then have "\<lfloor>x\<rfloor> = n - 1" using assms(2) by (intro floor_unique) simp_all
  then show ?thesis using assms(2,3) by (simp add: round_even_def Let_def)
qed

lemma to_float64_near:
  assumes "2 ^ 64 - 1024 \<le> k" and "k \<le> 2 ^ 64 + 1024"
  shows "to_float64 (of_int k) = Some (2 ^ 64)"
proof -
  have k: "18446744073709550592 \<le> (of_int k :: rat)" "(of_int k :: rat) \<le> 18446744073709552640"
    using assms by simp_all
  have g: "grid (of_int k) 11 = 2 ^ 53"
    unfolding grid_def using k by (intro round_even_near) (simp_all add: power_int_def)
  have "2 ^ 54 - 1 \<le> \<lfloor>of_int k / 2 powi 10 :: rat\<rfloor>" using k by (simp add: le_floor_iff power_int_def)
  then have "2 ^ 54 - 1 \<le> grid (of_int k) 10" unfolding grid_def using round_even_floor by (rule order_trans)
  then have "2 ^ 53 < grid (of_int k) (11 - 1)" by simp
  then have "to_float64 (of_int k) = Some (of_int (grid (of_int k) 11) * 2 powi 11)"
    using k g by (intro to_float64_eq) (simp_all add: power_int_def)
  then show ?thesis by (simp add: g power_int_def)
qed

lemma round_even_below:
  assumes "x < of_int n - 1 / 2"
  shows "round_even x < n"
proof (cases "\<lfloor>x\<rfloor> = n - 1")
  case True
  then show ?thesis using assms by (simp add: round_even_def Let_def)
next
  case False
  have "\<lfloor>x\<rfloor> < n" using assms by (simp add: floor_less_iff)
  with False show ?thesis by (simp add: round_even_def Let_def)
qed

lemma to_float64_far:
  assumes "to_float64 (of_int k) = Some (2 ^ 64)"
  shows "2 ^ 64 - 1024 \<le> k"
proof (rule ccontr)
  assume "\<not> 2 ^ 64 - 1024 \<le> k"
  then have "(of_int k :: rat) < 18446744073709550592" by simp
  then have "grid (of_int k) 11 < 2 ^ 53"
    unfolding grid_def by (intro round_even_below) (simp add: power_int_def)
  from to_float64_below [OF assms this] show False by simp
qed

lemma shortest_2_64:
  assumes "shortest (2 ^ 64) = (m, e)"
  shows "0 \<le> e \<and> 2 ^ 64 \<le> m * 10 ^ nat e"
proof -
  have fl: "\<lfloor>2 ^ 64 / 10 powi 3 :: rat\<rfloor> = 18446744073709551" by (rule floor_unique) (simp_all add: power_int_def)
  have near: "to_float64 (decimal d 3) = Some (2 ^ 64)" if "d = 18446744073709551 \<or> d = 18446744073709552" for d
    using that to_float64_near [of "int d * 1000"] by (auto simp: decimal_def power_int_def)
  then have cands: "candidates (2 ^ 64) 3 = [18446744073709551, 18446744073709552]"
    unfolding candidates_def Let_def fl by simp
  then have "candidates (2 ^ 64) 3 \<noteq> []" by simp
  then obtain m' e' where s: "shortest (2 ^ 64) = (m', e')" "3 \<le> e'"
      "to_float64 (decimal m' e') = Some (2 ^ 64)"
    using shortest_candidate [of "2 ^ 64" 3] by auto
  then have me: "m' = m" "e' = e" using assms by simp_all
  show ?thesis
  proof (cases "e = 3")
    case True
    then have "m = nearest (2 ^ 64) 3 (candidates (2 ^ 64) 3)"
      using assms by (auto simp: shortest_def split: option.splits)
    then have "m = 18446744073709552"
      unfolding cands by (simp add: nearest_def decimal_def power_int_def Let_def)
    then show ?thesis using True by simp
  next
    case False
    then have "0 \<le> e - 4" using s(2) me by simp
    then obtain i where "e - 4 = int i" by (rule nonneg_int_cases)
    then have e: "e = int i + 4" by simp
    define j where "j = int m * 10 ^ i"
    have "decimal m e = of_int (10000 * j)" by (simp add: decimal_def e j_def power_int_def nat_add_distrib power_add)
    then have "2 ^ 64 - 1024 \<le> 10000 * j" using s(3) me by (intro to_float64_far) simp
    then have "1844674407370956 \<le> j" by simp
    then have "2 ^ 64 \<le> 10000 * j" by simp
    moreover have "int (m * 10 ^ nat e) = 10000 * j"
      unfolding e j_def by (simp add: nat_add_distrib power_add)
    ultimately have "int (2 ^ 64) \<le> int (m * 10 ^ nat e)" by simp
    then have "2 ^ 64 \<le> m * 10 ^ nat e" by (rule of_nat_le_iff [THEN iffD1])
    moreover have "0 \<le> e" by (simp add: e)
    ultimately show ?thesis by (rule conjI [rotated])
  qed
qed

lemma FormatFloat_int:
  assumes "m < 2 ^ 53"
  shows "\<exists>d e. FormatFloat (Float64 neg (of_nat m)) = (neg, d, e) \<and> 0 \<le> e \<and> d * 10 ^ nat e = m"
proof (cases "m = 0")
  case True
  then show ?thesis by (simp add: FormatFloat_def shortest_def)
next
  case False
  then obtain d e where "shortest (of_int (int m)) = (d, e)" "0 \<le> e" "int (d * 10 ^ nat e) = int m"
    using shortest_int [of "int m"] assms by auto
  then show ?thesis unfolding of_nat_eq_iff by (simp add: FormatFloat_def)
qed

lemma ParseFloat_max64: "ParseFloat neg (2 ^ 64 - 1) 0 = Some (Float64 neg (2 ^ 64))"
  using to_float64_near [of "2 ^ 64 - 1"] by (simp add: ParseFloat_def decimal_def)

lemma FormatFloat_max64:
  "FormatFloat (Float64 neg (2 ^ 64)) = (neg', m, e) \<Longrightarrow> 0 \<le> e \<and> 2 ^ 64 \<le> m * 10 ^ nat e"
  using shortest_2_64 [of m e] by (simp add: FormatFloat_def)

end
