(* ===== verification/Json.thy ===== *)
theory Json
  imports Go_Text Go_Float "HOL-Library.Char_ord" "HOL-Library.List_Lexorder"
begin

text \<open>
  What the code uses of \<open>encoding/json\<close>. A document is a value of type \<open>json\<close>; its text (spacing,
  escapes) is left out, strings are valid UTF-8, and it is nested at most 10,000 deep. A number is its
  sign, its digits \<open>m\<close> and the exponent \<open>e\<close> of its last digit, for \<open>m * 10 ^ e\<close>. A decoder takes the
  document and the variable it is decoded into, as \<open>json.Unmarshal\<close> does: members that are missing leave
  their field alone, and \<open>null\<close> leaves anything alone that has no \<open>nil\<close>. After an error the callers drop
  the variable, so an error has no value.

  A variable of type \<open>any\<close> gets a value of the types that JSON has in Go: all numbers are \<open>float64\<close> and
  objects are maps, which have one value for a key and are written in the order of their keys.

  The text forms of types that come from libraries, \<open>uuid.UUID\<close>, \<open>netip.Addr\<close>, \<open>net.IP\<close>,
  \<open>netip.AddrPort\<close> and \<open>time.Time\<close>, are the parameter \<open>texts\<close>.
\<close>

section \<open>Documents\<close>

datatype json =
    JNull
  | JBool bool
  | JNum bool nat int
  | JStr string
  | JArr "json list"
  | JObj "(string \<times> json) list"

type_synonym UUID = "128 word"

record texts =
  uuid_String :: "UUID \<Rightarrow> string"
  uuid_Parse :: "string \<Rightarrow> UUID option"
  addr_Parse :: "string \<Rightarrow> addr option"
  addrport_String :: "addrport \<Rightarrow> string"
  ip_String :: "bytes \<Rightarrow> string option"
  ip_Parse :: "string \<Rightarrow> bytes option"
  time_Parse :: "string \<Rightarrow> int option"

section \<open>Decoding\<close>

type_synonym 'a decoder = "json \<Rightarrow> 'a \<Rightarrow> error + 'a"

definition dec_string :: "string decoder" where
  "dec_string j old = (case j of JStr s \<Rightarrow> Inr s | JNull \<Rightarrow> Inr old | _ \<Rightarrow> Inl ErrJson)"

definition dec_bool :: "bool decoder" where
  "dec_bool j old = (case j of JBool b \<Rightarrow> Inr b | JNull \<Rightarrow> Inr old | _ \<Rightarrow> Inl ErrJson)"

text \<open>
  Unsigned and signed integers of the width of the field; out of range is an error, as is a fraction,
  and for an unsigned one a minus sign, even that of minus zero. The number is one that the encoder
  has written, whose text is digits only exactly if its last digit is an integral one.
\<close>

definition dec_uint :: "'a::len word decoder" where
  "dec_uint j old =
     (case j of
        JNum neg m e \<Rightarrow>
          if \<not> neg \<and> 0 \<le> e \<and> m * 10 ^ nat e < 2 ^ LENGTH('a) then Inr (of_nat (m * 10 ^ nat e))
          else Inl ErrJson
      | JNull \<Rightarrow> Inr old
      | _ \<Rightarrow> Inl ErrJson)"

definition dec_int :: "'a::len word decoder" where
  "dec_int j old =
     (case j of
        JNum neg m e \<Rightarrow>
          (let n = (if neg then - int (m * 10 ^ nat e) else int (m * 10 ^ nat e)) in
           if 0 \<le> e \<and> - (2 ^ (LENGTH('a) - 1)) \<le> n \<and> n < 2 ^ (LENGTH('a) - 1) then Inr (word_of_int n)
           else Inl ErrJson)
      | JNull \<Rightarrow> Inr old
      | _ \<Rightarrow> Inl ErrJson)"

text \<open>A type with a text form of its own (\<open>UnmarshalText\<close>).\<close>

definition dec_text :: "(string \<Rightarrow> 'a option) \<Rightarrow> 'a decoder" where
  "dec_text parse j old =
     (case j of
        JStr s \<Rightarrow> (case parse s of Some x \<Rightarrow> Inr x | None \<Rightarrow> Inl ErrJson)
      | JNull \<Rightarrow> Inr old
      | _ \<Rightarrow> Inl ErrJson)"

text \<open>\<open>net.IP\<close> is a slice with a text form: \<open>null\<close> empties it.\<close>

definition dec_ip :: "texts \<Rightarrow> bytes decoder" where
  "dec_ip lib j old = (if j = JNull then Inr [] else dec_text (ip_Parse lib) j old)"

text \<open>
  A field of type \<open>any\<close> inside a struct. It is only ever decoded from a document that was written from an
  \<open>any\<close> before, which stands for its value (\<open>unmarshal_marshal\<close> below), so it is kept by that document.
\<close>

definition dec_any :: "json decoder" where
  "dec_any j old = Inr j"

text \<open>A pointer is set to nil by \<open>null\<close>, else to a decoded value, from the old one if it had one.\<close>

definition dec_ptr :: "'a \<Rightarrow> 'a decoder \<Rightarrow> 'a option decoder" where
  "dec_ptr zero dec j old =
     (if j = JNull then Inr None
      else map_sum id Some (dec j (case old of None \<Rightarrow> zero | Some x \<Rightarrow> x)))"

text \<open>A slice is decoded element by element, into the old elements while there are any.\<close>

fun dec_elems :: "'a \<Rightarrow> 'a decoder \<Rightarrow> json list \<Rightarrow> 'a list \<Rightarrow> error + 'a list" where
  "dec_elems zero dec [] olds = Inr []"
| "dec_elems zero dec (j # js) olds =
     (case dec j (case olds of [] \<Rightarrow> zero | x # _ \<Rightarrow> x) of
        Inl e \<Rightarrow> Inl e
      | Inr x \<Rightarrow>
          (case dec_elems zero dec js (tl olds) of Inl e \<Rightarrow> Inl e | Inr xs \<Rightarrow> Inr (x # xs)))"

definition dec_slice :: "'a \<Rightarrow> 'a decoder \<Rightarrow> 'a list decoder" where
  "dec_slice zero dec j old =
     (case j of JArr js \<Rightarrow> dec_elems zero dec js old | JNull \<Rightarrow> Inr [] | _ \<Rightarrow> Inl ErrJson)"

text \<open>
  Member names: the tag itself, else any name that folds to the same. Folding maps letters to upper
  case; of the letters outside ASCII only the long s and the Kelvin sign fold into ASCII.
\<close>

definition to_upper :: "char \<Rightarrow> char" where
  "to_upper c = (let n = of_char c :: nat in if 97 \<le> n \<and> n \<le> 122 then char_of (n - 32) else c)"

fun fold_name :: "string \<Rightarrow> string" where
  "fold_name [] = []"
| "fold_name (c # s) =
     (if c = CHR 0xC5 \<and> take 1 s = [CHR 0xBF] then CHR ''S'' # fold_name (drop 1 s)
      else if c = CHR 0xE2 \<and> take 2 s = [CHR 0x84, CHR 0xAA] then CHR ''K'' # fold_name (drop 2 s)
      else to_upper c # fold_name s)"

text \<open>A field of a struct: its tag, and how a member is decoded into the struct.\<close>

type_synonym 'r field = "string \<times> (json \<Rightarrow> 'r \<Rightarrow> error + 'r)"

definition fld :: "string \<Rightarrow> ('r \<Rightarrow> 'a) \<Rightarrow> (('a \<Rightarrow> 'a) \<Rightarrow> 'r \<Rightarrow> 'r) \<Rightarrow> 'a decoder \<Rightarrow> 'r field" where
  "fld tag get upd dec = (tag, \<lambda>j r. map_sum id (\<lambda>x. upd (\<lambda>_. x) r) (dec j (get r)))"

definition find_field :: "'r field list \<Rightarrow> string \<Rightarrow> 'r field option" where
  "find_field fs name =
     (case find (\<lambda>f. fst f = name) fs of
        Some f \<Rightarrow> Some f
      | None \<Rightarrow> find (\<lambda>f. fold_name (fst f) = fold_name name) fs)"

fun dec_members :: "'r field list \<Rightarrow> (string \<times> json) list \<Rightarrow> 'r \<Rightarrow> error + 'r" where
  "dec_members fs [] r = Inr r"
| "dec_members fs ((name, j) # ms) r =
     (case find_field fs name of
        None \<Rightarrow> dec_members fs ms r
      | Some f \<Rightarrow> (case snd f j r of Inl e \<Rightarrow> Inl e | Inr r' \<Rightarrow> dec_members fs ms r'))"

definition dec_struct :: "'r field list \<Rightarrow> 'r decoder" where
  "dec_struct fs j old =
     (case j of JObj ms \<Rightarrow> dec_members fs ms old | JNull \<Rightarrow> Inr old | _ \<Rightarrow> Inl ErrJson)"

section \<open>Encoding\<close>

definition enc_uint :: "'a::len word \<Rightarrow> json" where
  "enc_uint w = JNum False (unat w) 0"

text \<open>A member that is always there, and one that \<open>omitempty\<close> leaves out when it is empty.\<close>

definition mem :: "string \<Rightarrow> json \<Rightarrow> (string \<times> json) list" where
  "mem tag j = [(tag, j)]"

definition mem_ptr :: "string \<Rightarrow> ('a \<Rightarrow> json) \<Rightarrow> 'a option \<Rightarrow> (string \<times> json) list" where
  "mem_ptr tag enc x = (case x of None \<Rightarrow> [] | Some v \<Rightarrow> [(tag, enc v)])"

definition mem_str :: "string \<Rightarrow> string \<Rightarrow> (string \<times> json) list" where
  "mem_str tag s = (if s = '''' then [] else [(tag, JStr s)])"

section \<open>Values of any type\<close>

datatype any =
    ANil
  | ABool bool
  | ANum float64
  | AStr string
  | AArr "any list"
  | AObj "(string \<times> any) list"

text \<open>A map is the list of its pairs in the order of the keys; a new value for a key replaces the old one.\<close>

fun map_put :: "'k::linorder \<Rightarrow> 'v \<Rightarrow> ('k \<times> 'v) list \<Rightarrow> ('k \<times> 'v) list" where
  "map_put k v [] = [(k, v)]"
| "map_put k v ((k', v') # ms) =
     (if k = k' then (k, v) # ms
      else if k < k' then (k, v) # (k', v') # ms
      else (k', v') # map_put k v ms)"

text \<open>\<open>json.Unmarshal\<close> into an \<open>any\<close>: a number out of the range of \<open>float64\<close> is an error, also in a value that
  a later one for its key replaces.\<close>

fun unmarshal_any :: "json \<Rightarrow> error + any"
  and unmarshal_elems :: "json list \<Rightarrow> error + any list"
  and unmarshal_members :: "(string \<times> json) list \<Rightarrow> (string \<times> any) list \<Rightarrow> error + (string \<times> any) list"
where
  "unmarshal_any JNull = Inr ANil"
| "unmarshal_any (JBool b) = Inr (ABool b)"
| "unmarshal_any (JNum neg m e) =
     (case ParseFloat neg m e of None \<Rightarrow> Inl ErrJson | Some f \<Rightarrow> Inr (ANum f))"
| "unmarshal_any (JStr s) = Inr (AStr s)"
| "unmarshal_any (JArr js) = map_sum id AArr (unmarshal_elems js)"
| "unmarshal_any (JObj ms) = map_sum id AObj (unmarshal_members ms [])"
| "unmarshal_elems [] = Inr []"
| "unmarshal_elems (j # js) =
     (case unmarshal_any j of Inl e \<Rightarrow> Inl e | Inr a \<Rightarrow> map_sum id (Cons a) (unmarshal_elems js))"
| "unmarshal_members [] acc = Inr acc"
| "unmarshal_members ((k, j) # ms) acc =
     (case unmarshal_any j of Inl e \<Rightarrow> Inl e | Inr a \<Rightarrow> unmarshal_members ms (map_put k a acc))"

text \<open>\<open>json.Marshal\<close> of an \<open>any\<close>: the shortest digits for a number, the keys of a map in order.\<close>

fun marshal_any :: "any \<Rightarrow> json" where
  "marshal_any ANil = JNull"
| "marshal_any (ABool b) = JBool b"
| "marshal_any (ANum f) = (case FormatFloat f of (neg, m, e) \<Rightarrow> JNum neg m e)"
| "marshal_any (AStr s) = JStr s"
| "marshal_any (AArr as) = JArr (map marshal_any as)"
| "marshal_any (AObj ms) = JObj (map (\<lambda>(k, a). (k, marshal_any a)) ms)"

section \<open>Lemmas\<close>

named_theorems json_simps \<open>evaluation of decoders\<close>

lemma dec_base [json_simps]:
  "dec_string (JStr s) old = Inr s" "dec_string JNull old = Inr old"
  "dec_bool (JBool b) ob = Inr b" "dec_bool JNull ob = Inr ob"
  "dec_any j old' = Inr j"
  "dec_text parse JNull x = Inr x"
  "dec_text parse (JStr s) x = (case parse s of Some y \<Rightarrow> Inr y | None \<Rightarrow> Inl ErrJson)"
  "dec_ptr zero dec JNull ox = Inr None"
  "dec_slice zero dec JNull xs = Inr []"
  "dec_slice zero dec (JArr js) xs = dec_elems zero dec js xs"
  "dec_struct fs JNull r = Inr r"
  "dec_struct fs (JObj ms) r = dec_members fs ms r"
  by (simp_all add: dec_string_def dec_bool_def dec_any_def dec_text_def dec_ptr_def dec_slice_def
      dec_struct_def)

lemma dec_uint_enc [json_simps]: "dec_uint (enc_uint w) old = Inr w"
  using unsigned_less [of w] by (simp add: dec_uint_def enc_uint_def)

text \<open>
  A value that was decoded survives being written and read again.
\<close>

fun any_ok :: "any \<Rightarrow> bool" where
  "any_ok (ANum f) = (case FormatFloat f of (neg, m, e) \<Rightarrow> ParseFloat neg m e = Some f)"
| "any_ok (AArr as) = list_all any_ok as"
| "any_ok (AObj ms) = (sorted_wrt (<) (map fst ms) \<and> list_all (\<lambda>(k, a). any_ok a) ms)"
| "any_ok a = True"

lemma map_put_set: "set (map fst (map_put k v ms)) = insert k (set (map fst ms))"
  by (induction k v ms rule: map_put.induct) auto

lemma map_put_sorted: "sorted_wrt (<) (map fst ms) \<Longrightarrow> sorted_wrt (<) (map fst (map_put k v ms))"
proof (induction k v ms rule: map_put.induct)
  case (2 k v k' v' ms)
  show ?case
  proof (cases "k' < k")
    case True
    then show ?thesis using 2 map_put_set [of k v ms] by (auto simp del: set_map)
  next
    case False
    then show ?thesis using 2(2) by (auto simp: not_less_iff_gr_or_eq intro: less_trans)
  qed
qed simp

lemma map_put_all: "list_all P ms \<Longrightarrow> P (k, v) \<Longrightarrow> list_all P (map_put k v ms)"
  by (induction k v ms rule: map_put.induct) auto

lemma map_put_last: "\<forall>x \<in> set (map fst ms). x < k \<Longrightarrow> map_put k v ms = ms @ [(k, v)]"
  by (induction k v ms rule: map_put.induct) auto

lemma map_sum_Inr: "map_sum id f x = Inr y \<longleftrightarrow> (\<exists>z. x = Inr z \<and> y = f z)"
  by (cases x) auto

lemma unmarshal_any_ok:
  "unmarshal_any j = Inr a \<Longrightarrow> any_ok a"
  "unmarshal_elems js = Inr as \<Longrightarrow> list_all any_ok as"
  "unmarshal_members ms acc = Inr r \<Longrightarrow> sorted_wrt (<) (map fst acc) \<Longrightarrow> list_all (\<lambda>(k, a). any_ok a) acc \<Longrightarrow>
     sorted_wrt (<) (map fst r) \<and> list_all (\<lambda>(k, a). any_ok a) r"
proof (induction j and js and ms acc arbitrary: a and as and r
    rule: unmarshal_any_unmarshal_elems_unmarshal_members.induct)
  case (3 neg m e)
  then obtain f where f: "ParseFloat neg m e = Some f" "a = ANum f" by (auto split: option.splits)
  show ?case using ParseFloat_FormatFloat [OF f(1)] by (simp add: f(2) split: prod.split)
next
  case (10 k j ms acc)
  from 10(3) obtain b where b: "unmarshal_any j = Inr b" "unmarshal_members ms (map_put k b acc) = Inr r"
    by (auto split: sum.splits)
  show ?case
    using 10(1) [OF b(1)] 10(4,5) by (intro 10(2) [OF b]) (simp_all add: map_put_sorted map_put_all)
qed (auto simp: map_sum_Inr split: sum.splits)

lemma unmarshal_elems_map:
  "(\<And>a. a \<in> set as \<Longrightarrow> unmarshal_any (marshal_any a) = Inr a) \<Longrightarrow> unmarshal_elems (map marshal_any as) = Inr as"
  by (induction as) auto

lemma unmarshal_members_map:
  "(\<And>k a. (k, a) \<in> set ms \<Longrightarrow> unmarshal_any (marshal_any a) = Inr a) \<Longrightarrow> sorted_wrt (<) (map fst (acc @ ms)) \<Longrightarrow>
     unmarshal_members (map (\<lambda>(k, a). (k, marshal_any a)) ms) acc = Inr (acc @ ms)"
proof (induction ms arbitrary: acc)
  case (Cons x ms)
  obtain k a where x: "x = (k, a)" by force
  have "map_put k a acc = acc @ [(k, a)]"
    using Cons.prems(2) by (intro map_put_last) (auto simp: x sorted_wrt_append)
  moreover have "unmarshal_any (marshal_any a) = Inr a" using Cons.prems(1) [of k a] by (simp add: x)
  moreover have "unmarshal_members (map (\<lambda>(k, a). (k, marshal_any a)) ms) (acc @ [(k, a)]) = Inr ((acc @ [(k, a)]) @ ms)"
    using Cons.prems by (intro Cons.IH) (auto simp: x)
  ultimately show ?case by (simp add: x)
qed simp

lemma unmarshal_marshal: "any_ok a \<Longrightarrow> unmarshal_any (marshal_any a) = Inr a"
proof (induction a)
  case (AArr as)
  then have "unmarshal_elems (map marshal_any as) = Inr as"
    by (intro unmarshal_elems_map) (simp add: list_all_iff)
  then show ?case by simp
next
  case (AObj ms)
  then have "unmarshal_members (map (\<lambda>(k, a). (k, marshal_any a)) ms) [] = Inr ([] @ ms)"
    by (intro unmarshal_members_map) (force simp: list_all_iff)+
  then show ?case by simp
qed (auto split: prod.splits)

text \<open>A list of texts.\<close>

lemma unmarshal_texts: "unmarshal_elems (map JStr ss) = Inr (map AStr ss)"
  by (induction ss) auto

lemma dec_elems_texts:
  "list_all2 (\<lambda>s x. parse s = Some x) ss xs \<Longrightarrow> dec_elems z (dec_text parse) (map JStr ss) olds = Inr xs"
  by (induction ss xs arbitrary: olds rule: list_all2_induct) (auto simp: dec_text_def)

text \<open>
  A whole number below \<open>2 ^ 53\<close> is read from an \<open>any\<close> as from its own text; beyond, different numbers
  become the same.
\<close>

lemma small_number_kept:
  assumes "m < 2 ^ 53"
  shows "\<exists>a. unmarshal_any (JNum neg m 0) = Inr a \<and> dec_uint (marshal_any a) old = dec_uint (JNum neg m 0) old"
proof -
  obtain d e where "FormatFloat (Float64 neg (of_nat m)) = (neg, d, e)" "0 \<le> e" "d * 10 ^ nat e = m"
    using FormatFloat_int [OF assms] by blast
  then show ?thesis by (auto simp: ParseFloat_int [OF assms] dec_uint_def)
qed

lemma large_numbers_confused: "unmarshal_any (JNum False (2 ^ 53 + 1) 0) = unmarshal_any (JNum False (2 ^ 53) 0)"
proof -
  have "ParseFloat False (2 ^ 53) 0 = Some (Float64 False (of_int (2 ^ 53)))"
    using to_float64_int [of "2 ^ 53"] by (simp add: ParseFloat_def decimal_def)
  then show ?thesis using ParseFloat_rounds [of False] by simp
qed

text \<open>The largest integer of 64 bits is out of range for a field of 64 bits after it has been an \<open>any\<close>.\<close>

lemma largest_number_refused:
  "\<exists>a. unmarshal_any (JNum False (2 ^ 64 - 1) 0) = Inr a \<and> dec_uint (marshal_any a) (old :: u64) = Inl ErrJson"
proof -
  obtain neg m e where f: "FormatFloat (Float64 False (2 ^ 64)) = (neg, m, e)" by (metis prod_cases3)
  have "marshal_any (ANum (Float64 False (2 ^ 64))) = JNum neg m e" by (simp only: marshal_any.simps f prod.case)
  moreover have "dec_uint (JNum neg m e) old = Inl ErrJson"
    using FormatFloat_max64 [OF f] by (simp add: dec_uint_def)
  moreover have "unmarshal_any (JNum False (2 ^ 64 - 1) 0) = Inr (ANum (Float64 False (2 ^ 64)))"
    by (simp only: unmarshal_any.simps ParseFloat_max64 option.case)
  ultimately show ?thesis by (intro exI [of _ "ANum (Float64 False (2 ^ 64))"]) (simp only: simp_thms)
qed

end
