(* ===== verification/Go_Loop.thy ===== *)
theory Go_Loop
  imports Go_IO
begin

text \<open>
  Loops without a bound: \<open>for { body }\<close>, where a round of the body leaves the loop with a result,
  returns an error, or goes on. Whether such a loop ends depends on what its body sees, so running it
  is an option: \<open>None\<close> means that it never returns.
\<close>

partial_function (option) go_loop :: "('a option, 's) go \<Rightarrow> 's \<Rightarrow> ('a, 's) outcome option" where
  "go_loop body s =
     (case body s of
        Ok x s' \<Rightarrow> (case x of None \<Rightarrow> go_loop body s' | Some y \<Rightarrow> Some (Ok y s'))
      | Err e s' \<Rightarrow> Some (Err e s')
      | Panic p \<Rightarrow> Some (Panic p))"

text \<open>What comes before and after a loop.\<close>

definition before_loop ::
    "('a, 's) go \<Rightarrow> ('a \<Rightarrow> 's \<Rightarrow> ('b, 's) outcome option) \<Rightarrow> 's \<Rightarrow> ('b, 's) outcome option" where
  "before_loop m k s =
     (case m s of Ok x s' \<Rightarrow> k x s' | Err e s' \<Rightarrow> Some (Err e s') | Panic p \<Rightarrow> Some (Panic p))"

definition after_loop ::
    "('s \<Rightarrow> ('a, 's) outcome option) \<Rightarrow> ('a \<Rightarrow> ('b, 's) go) \<Rightarrow> 's \<Rightarrow> ('b, 's) outcome option" where
  "after_loop m k s = map_option (\<lambda>r. go_bind (\<lambda>_. r) k s) (m s)"

definition no_loop :: "('a, 's) go \<Rightarrow> 's \<Rightarrow> ('a, 's) outcome option" where
  "no_loop m s = Some (m s)"

text \<open>
  The state after \<open>n\<close> rounds that go on, and the result of a round that does not.
\<close>

fun rounds :: "('a option, 's) go \<Rightarrow> nat \<Rightarrow> 's \<Rightarrow> 's option" where
  "rounds body 0 s = Some s"
| "rounds body (Suc n) s = (case body s of Ok None s' \<Rightarrow> rounds body n s' | _ \<Rightarrow> None)"

definition leaves :: "('a option, 's) go \<Rightarrow> 's \<Rightarrow> ('a, 's) outcome option" where
  "leaves body s =
     (case body s of
        Ok None s' \<Rightarrow> None
      | Ok (Some y) s' \<Rightarrow> Some (Ok y s')
      | Err e s' \<Rightarrow> Some (Err e s')
      | Panic p \<Rightarrow> Some (Panic p))"

lemma go_loop_rounds:
  "rounds body n s = Some s' \<Longrightarrow> leaves body s' = Some r \<Longrightarrow> go_loop body s = Some r"
proof (induction n arbitrary: s)
  case 0
  then show ?case
    by (subst go_loop.simps) (simp add: leaves_def split: outcome.splits option.splits)
next
  case (Suc n)
  then show ?case
    by (subst go_loop.simps) (simp split: outcome.splits option.splits)
qed

lemma go_loop_ends:
  assumes "go_loop body s = Some r"
  shows "\<exists>n s'. rounds body n s = Some s' \<and> leaves body s' = Some r"
proof (rule go_loop.raw_induct [where P = "\<lambda>body s r. \<exists>n s'. rounds body n s = Some s' \<and> leaves body s' = Some r",
      OF _ assms])
  fix loop and body :: "('a option, 's) go" and s r
  assume IH: "\<And>body s r. loop body s = Some r \<Longrightarrow> \<exists>n s'. rounds body n s = Some s' \<and> leaves body s' = Some r"
    and run: "(case body s of
        Ok x s' \<Rightarrow> (case x of None \<Rightarrow> loop body s' | Some y \<Rightarrow> Some (Ok y s'))
      | Err e s' \<Rightarrow> Some (Err e s')
      | Panic p \<Rightarrow> Some (Panic p)) = Some r"
  show "\<exists>n s'. rounds body n s = Some s' \<and> leaves body s' = Some r"
  proof (cases "\<exists>s'. body s = Ok None s'")
    case True
    then obtain s' where s': "body s = Ok None s'" by blast
    with run IH [of body s' r] obtain n t where t: "rounds body n s' = Some t" "leaves body t = Some r"
      by auto
    with s' have "rounds body (Suc n) s = Some t" by simp
    with t(2) show ?thesis by blast
  next
    case False
    with run have "leaves body s = Some r"
      by (auto simp: leaves_def split: outcome.splits option.splits)
    then show ?thesis by (intro exI [where x = 0] exI [of _ s]) simp
  qed
qed

lemma leaves_or_goes_on: "leaves body s = None \<longleftrightarrow> (\<exists>s'. body s = Ok None s')"
  by (auto simp: leaves_def split: outcome.splits option.splits)

lemma rounds_Suc:
  "rounds body (Suc n) s =
     (case rounds body n s of None \<Rightarrow> None | Some t \<Rightarrow> (case body t of Ok None t' \<Rightarrow> Some t' | _ \<Rightarrow> None))"
proof (induction n arbitrary: s)
  case 0
  show ?case by (simp split: outcome.split option.split)
next
  case (Suc n)
  show ?case
  proof (cases "\<exists>s'. body s = Ok None s'")
    case True
    then obtain s' where "body s = Ok None s'" by blast
    then have "rounds body (Suc (Suc n)) s = rounds body (Suc n) s'" "rounds body (Suc n) s = rounds body n s'"
      by simp_all
    then show ?thesis by (simp only: Suc)
  next
    case False
    then have "rounds body (Suc m) s = None" for m by (cases "body s") (auto split: option.split)
    then show ?thesis by (simp only: option.case)
  qed
qed

text \<open>A loop never returns exactly when every round goes on.\<close>

lemma go_loop_None: "go_loop body s = None \<longleftrightarrow> (\<forall>n. rounds body n s \<noteq> None)"
proof
  assume none: "go_loop body s = None"
  show "\<forall>n. rounds body n s \<noteq> None"
  proof
    fix n show "rounds body n s \<noteq> None"
    proof (induction n)
      case (Suc n)
      then obtain t where t: "rounds body n s = Some t" by auto
      with none go_loop_rounds have "leaves body t = None" by fastforce
      with t show ?case by (auto simp: rounds_Suc leaves_or_goes_on simp del: rounds.simps)
    qed simp
  qed
next
  assume all: "\<forall>n. rounds body n s \<noteq> None"
  show "go_loop body s = None"
  proof (rule ccontr)
    assume "go_loop body s \<noteq> None"
    then obtain r n t where "rounds body n s = Some t" "leaves body t = Some r"
      using go_loop_ends by fastforce
    then have "rounds body (Suc n) s = None"
      by (auto simp: rounds_Suc leaves_def simp del: rounds.simps split: outcome.splits option.splits)
    with all show False by blast
  qed
qed

end
