(* ===== verification/Api_Request.thy ===== *)
theory Api_Request
  imports Json Go_Loop
begin

text \<open>
  \<open>src/api/api.go\<close> and \<open>src/api/request.go\<close>: the constants of the API and the one function that
  talks to it. The server is a function in the state that answers each request, given its number, and
  the requests are recorded in a log, so that a property quantifies over all servers. The HTTP client
  (connections, redirects, TLS) is behind it.
\<close>

section \<open>Constants\<close>

record Api =
  api_Code :: string
  api_Secret :: string

definition GoPlayitVersion :: string where
  "GoPlayitVersion = ''0.17.1''"

definition PlayitAPI :: string where
  "PlayitAPI = ''https://api.playit.gg''"

definition api_TunnelType :: "string list" where
  "api_TunnelType = [''minecraft-bedrock'', ''minecraft-java'', ''valheim'', ''terraria'', ''starbound'',
     ''rust'', ''7days'', ''unturned'']"

definition api_Regions :: "string list" where
  "api_Regions = [''smart-global'', ''global'', ''north-america'', ''europe'', ''asia'', ''india'',
     ''south-america'']"

section \<open>The server\<close>

text \<open>
  A reply is a failure of the transport, or a status code with a body: the document at its start, if
  there is one.
\<close>

datatype http_reply = HttpFail error | HttpReply nat "json option"

record http_request =
  rq_URL :: string
  rq_Header :: "(string \<times> string) list"
  rq_Body :: "json option"

record http =
  h_server :: "nat \<Rightarrow> http_request \<Rightarrow> http_reply"
  h_log :: "http_request list"

definition http_Do :: "http_request \<Rightarrow> (nat \<times> json option, http) go" where
  "http_Do rq h =
     (let h' = h\<lparr>h_log := h_log h @ [rq]\<rparr> in
      case h_server h (length (h_log h)) rq of
        HttpFail e \<Rightarrow> Err e h'
      | HttpReply code body \<Rightarrow> Ok (code, body) h')"

text \<open>\<open>http.Header.Set\<close>: the name in its canonical form, if it is a token, with this value only.\<close>

definition token_char :: "char \<Rightarrow> bool" where
  "token_char c \<longleftrightarrow>
     (let n = of_char c :: nat in 48 \<le> n \<and> n \<le> 57 \<or> 65 \<le> n \<and> n \<le> 90 \<or> 97 \<le> n \<and> n \<le> 122) \<or>
     c \<in> set (CHR 0x27 # CHR 0x60 # ''!#$%&*+-.^_|~'')"

definition to_lower :: "char \<Rightarrow> char" where
  "to_lower c = (let n = of_char c :: nat in if 65 \<le> n \<and> n \<le> 90 then char_of (n + 32) else c)"

fun canon_from :: "bool \<Rightarrow> string \<Rightarrow> string" where
  "canon_from up [] = []"
| "canon_from up (c # s) =
     (if up then to_upper c else to_lower c) # canon_from (c = CHR ''-'') s"

definition canonical_key :: "string \<Rightarrow> string" where
  "canonical_key k = (if list_all token_char k then canon_from True k else k)"

definition header_Set :: "string \<Rightarrow> string \<Rightarrow> (string \<times> string) list \<Rightarrow> (string \<times> string) list" where
  "header_Set k v h = (canonical_key k, v) # filter (\<lambda>(k', _). k' \<noteq> canonical_key k) h"

section \<open>A request\<close>

record envelope =
  env_Status :: string
  env_Data :: any

definition zero_envelope :: envelope where
  "zero_envelope = \<lparr>env_Status = '''', env_Data = ANil\<rparr>"

definition envelope_fields :: "envelope field list" where
  "envelope_fields =
     [fld ''status'' env_Status env_Status_update dec_string,
      fld ''data'' env_Data env_Data_update (\<lambda>j old. unmarshal_any j)]"

record error_status =
  es_Type :: string
  es_Message :: string

definition error_status_fields :: "error_status field list" where
  "error_status_fields =
     [fld ''type'' es_Type es_Type_update dec_string,
      fld ''message'' es_Message es_Message_update dec_string]"

text \<open>The decoder of a body.\<close>

definition json_Decode :: "'a decoder \<Rightarrow> json \<Rightarrow> 'a \<Rightarrow> ('a, 's) go" where
  "json_Decode dec doc to = (case dec doc to of Inl e \<Rightarrow> throw e | Inr x \<Rightarrow> ret x)"

text \<open>
  The value of type \<open>any\<close> is written out and read into the variable. A decoded value can always be
  written. Its numbers are those of \<open>float64\<close> by now, its objects have one member for a key.
\<close>

definition recodeJson :: "'a decoder \<Rightarrow> any \<Rightarrow> 'a \<Rightarrow> ('a, 's) go" where
  "recodeJson dec from to = (case dec (marshal_any from) to of Inl e \<Rightarrow> throw e | Inr x \<Rightarrow> ret x)"

text \<open>
  A status code of 300 or more: the text of a string in the reply is used as a format.
\<close>

definition response_error :: "any \<Rightarrow> ('a, 's) go" where
  "response_error Data =
     (case Data of
        AStr data \<Rightarrow> throw (ErrText (Sprintf_text data))
      | _ \<Rightarrow>
          go_bind (recodeJson (dec_struct error_status_fields) Data \<lparr>es_Type = '''', es_Message = ''''\<rparr>)
            (\<lambda>errStatus.
              if length (es_Message errStatus) > 0
              then throw (ErrText (es_Type errStatus @ '': '' @ es_Message errStatus))
              else throw (ErrText (es_Type errStatus))))"

text \<open>
  The header starts with the caller's pairs, in the order in which the map yields them. The result is
  the variable behind \<open>Response\<close> after the call (\<open>dec\<close> is \<open>None\<close> where the caller passes nil); no
  caller looks at the \<open>http.Response\<close>. Building the request cannot fail, since the address and all
  paths are fixed.
\<close>

definition requestToApi ::
    "Api \<Rightarrow> string \<Rightarrow> json option \<Rightarrow> 'a decoder option \<Rightarrow> 'a \<Rightarrow> (string \<times> string) list \<Rightarrow> ('a, http) go" where
  "requestToApi w Path Body dec Response Headers =
     (let header = fold (\<lambda>(key, value). header_Set key value) Headers [];
          header = (if length (api_Secret w) > 0
                    then header_Set ''Authorization'' (''Agent-Key '' @ api_Secret w) header else header) in
      go_bind (http_Do \<lparr>rq_URL = PlayitAPI @ Path, rq_Header = header, rq_Body = Body\<rparr>)
        (\<lambda>(StatusCode, body). case body of
            None \<Rightarrow> throw ErrJson
          | Some doc \<Rightarrow>
              go_bind (json_Decode (dec_struct envelope_fields) doc zero_envelope) (\<lambda>ResBody.
                if StatusCode \<ge> 300 then
                  response_error (env_Data ResBody)
                else
                  (case dec of
                     None \<Rightarrow> ret Response
                   | Some d \<Rightarrow> recodeJson d (env_Data ResBody) Response))))"

section \<open>The request as a function of the reply\<close>

definition api_request :: "Api \<Rightarrow> string \<Rightarrow> json option \<Rightarrow> http_request" where
  "api_request w Path Body =
     \<lparr>rq_URL = PlayitAPI @ Path,
      rq_Header = (if api_Secret w = '''' then [] else [(''Authorization'', ''Agent-Key '' @ api_Secret w)]),
      rq_Body = Body\<rparr>"

definition next_reply :: "http \<Rightarrow> http_request \<Rightarrow> http_reply" where
  "next_reply h rq = h_server h (length (h_log h)) rq"

definition logged :: "http_request \<Rightarrow> http \<Rightarrow> http" where
  "logged rq h = h\<lparr>h_log := h_log h @ [rq]\<rparr>"

text \<open>What the server's reply means for the caller: an error or a value for its variable.\<close>

definition status_error :: "any \<Rightarrow> error" where
  "status_error data =
     (case data of
        AStr s \<Rightarrow> ErrText (Sprintf_text s)
      | _ \<Rightarrow>
        (case dec_struct error_status_fields (marshal_any data) \<lparr>es_Type = '''', es_Message = ''''\<rparr> of
           Inl e \<Rightarrow> e
         | Inr st \<Rightarrow>
             ErrText (es_Type st @ (if es_Message st = '''' then '''' else '': '' @ es_Message st))))"

definition reply_value :: "'a decoder option \<Rightarrow> 'a \<Rightarrow> http_reply \<Rightarrow> error + 'a" where
  "reply_value dec old reply =
     (case reply of
        HttpFail e \<Rightarrow> Inl e
      | HttpReply code None \<Rightarrow> Inl ErrJson
      | HttpReply code (Some doc) \<Rightarrow>
          (case dec_struct envelope_fields doc zero_envelope of
             Inl e \<Rightarrow> Inl e
           | Inr env \<Rightarrow>
               if 300 \<le> code then Inl (status_error (env_Data env))
               else (case dec of None \<Rightarrow> Inr old | Some d \<Rightarrow> d (marshal_any (env_Data env)) old)))"

definition of_value :: "error + 'a \<Rightarrow> ('a, 's) go" where
  "of_value v = (case v of Inl e \<Rightarrow> throw e | Inr x \<Rightarrow> ret x)"

lemma of_value_simps [simp]: "of_value (Inl e) = throw e" "of_value (Inr x) = ret x"
  by (simp_all add: of_value_def)

lemma canonical_Authorization [simp]: "canonical_key ''Authorization'' = ''Authorization''"
  by code_simp

lemma recodeJson_value: "recodeJson dec a x = of_value (dec (marshal_any a) x)"
  by (simp add: recodeJson_def of_value_def)

lemma json_Decode_value: "json_Decode dec j x = of_value (dec j x)"
  by (simp add: json_Decode_def of_value_def)

lemma response_error_value: "response_error data = throw (status_error data)"
  by (cases data; cases "dec_struct error_status_fields (marshal_any data) \<lparr>es_Type = '''', es_Message = ''''\<rparr>")
     (auto simp: response_error_def status_error_def recodeJson_value)

lemma api_header:
  "(if length (api_Secret w) > 0
    then header_Set ''Authorization'' (''Agent-Key '' @ api_Secret w) [] else []) = rq_Header (api_request w Path Body)"
  by (simp add: api_request_def header_Set_def)

lemma requestToApi_eq:
  "requestToApi w Path Body dec old [] h =
     (let rq = api_request w Path Body in
      of_value (reply_value dec old (next_reply h rq)) (logged rq h))"
proof -
  define rq where "rq = api_request w Path Body"
  have rq: "\<lparr>rq_URL = PlayitAPI @ Path, rq_Header = rq_Header rq, rq_Body = Body\<rparr> = rq"
    by (simp add: rq_def api_request_def)
  have "requestToApi w Path Body dec old [] h =
    go_bind (http_Do rq) (\<lambda>(code, body). case body of None \<Rightarrow> throw ErrJson
      | Some doc \<Rightarrow> go_bind (of_value (dec_struct envelope_fields doc zero_envelope)) (\<lambda>env.
          if 300 \<le> code then throw (status_error (env_Data env))
          else (case dec of None \<Rightarrow> ret old | Some d \<Rightarrow> of_value (d (marshal_any (env_Data env)) old)))) h"
    unfolding requestToApi_def fold.simps id_apply Let_def api_header [of w Path Body] rq_def [symmetric] rq
    response_error_value recodeJson_value json_Decode_value ..
  also have "\<dots> = of_value (reply_value dec old (next_reply h rq)) (logged rq h)"
    by (auto simp: go_bind_def http_Do_def Let_def next_reply_def logged_def reply_value_def of_value_def
      split: http_reply.split option.split sum.split)
  finally show ?thesis by (simp add: rq_def Let_def)
qed

text \<open>A call beside the state of its caller, and a loop of calls.\<close>

definition on_http :: "('a, http) go \<Rightarrow> ('a, 'w \<times> http) go" where
  "on_http m = zoom snd (\<lambda>h (w, _). (w, h)) m"

definition loop_http :: "(http \<Rightarrow> ('a, http) outcome option) \<Rightarrow> 'w \<times> http \<Rightarrow> ('a, 'w \<times> http) outcome option" where
  "loop_http loop s = map_option (\<lambda>r. on_http (\<lambda>_. r) s) (loop (snd s))"

lemma on_http_eq: "on_http m s = (case m (snd s) of
    Ok x h \<Rightarrow> Ok x (fst s, h) | Err e h \<Rightarrow> Err e (fst s, h) | Panic p \<Rightarrow> Panic p)"
  by (simp add: on_http_def zoom_def split_beta split: outcome.split)

lemma on_http_fst: "on_http m s = Ok x s' \<Longrightarrow> fst s' = fst s" "on_http m s = Err e s' \<Longrightarrow> fst s' = fst s"
  by (cases "m (snd s)"; force simp: on_http_eq)+

lemma loop_http_fst: "loop_http loop s = Some (Ok x s') \<Longrightarrow> fst s' = fst s"
  "loop_http loop s = Some (Err e s') \<Longrightarrow> fst s' = fst s"
  by (auto simp: loop_http_def dest: on_http_fst)

section \<open>Polling\<close>

text \<open>
  A loop that repeats one request until the answer says stop. Its rounds differ in the number of the
  request only, so it ends with the first answer that does not go on, if there is one.
\<close>

definition asked :: "http_request \<Rightarrow> nat \<Rightarrow> http \<Rightarrow> http" where
  "asked rq n h = h\<lparr>h_log := h_log h @ replicate n rq\<rparr>"

definition poll_answer :: "(http_reply \<Rightarrow> error + 'a) \<Rightarrow> http_request \<Rightarrow> http \<Rightarrow> nat \<Rightarrow> error + 'a" where
  "poll_answer value_of rq h n = value_of (h_server h (length (h_log h) + n) rq)"

definition poll_waits ::
    "(http_reply \<Rightarrow> error + 'a) \<Rightarrow> ('a \<Rightarrow> bool) \<Rightarrow> http_request \<Rightarrow> http \<Rightarrow> nat \<Rightarrow> bool" where
  "poll_waits value_of goes_on rq h n =
     (case poll_answer value_of rq h n of Inl e \<Rightarrow> False | Inr x \<Rightarrow> goes_on x)"

lemma asked_0 [simp]: "asked rq 0 h = h"
  by (simp add: asked_def)

lemma asked_Suc: "asked rq (Suc n) h = logged rq (asked rq n h)"
  by (simp add: asked_def logged_def replicate_append_same [symmetric])

lemma next_reply_asked: "next_reply (asked rq n h) rq = h_server h (length (h_log h) + n) rq"
  by (simp add: next_reply_def asked_def)

locale polling =
  fixes body :: "('b option, http) go"
    and rq :: http_request
    and value_of :: "http_reply \<Rightarrow> error + 'a"
    and goes_on :: "'a \<Rightarrow> bool"
    and verdict :: "'a \<Rightarrow> ('b option, http) go"
  assumes body_eq: "body h =
      (case value_of (next_reply h rq) of Inl e \<Rightarrow> Err e (logged rq h) | Inr x \<Rightarrow> verdict x (logged rq h))"
    and waiting: "goes_on x \<Longrightarrow> verdict x h = Ok None h"
    and decided: "\<not> goes_on x \<Longrightarrow> verdict x h \<noteq> Ok None h'"
begin

lemma round_eq: "body (asked rq n h) =
    (case poll_answer value_of rq h n of
       Inl e \<Rightarrow> Err e (asked rq (Suc n) h) | Inr x \<Rightarrow> verdict x (asked rq (Suc n) h))"
  by (simp add: body_eq next_reply_asked poll_answer_def asked_Suc split: sum.split)

lemma rounds_eq: "rounds body n h =
    (if \<forall>i < n. poll_waits value_of goes_on rq h i then Some (asked rq n h) else None)"
proof (induction n)
  case (Suc n)
  have "(case body (asked rq n h) of Ok None t \<Rightarrow> Some t | _ \<Rightarrow> None) =
      (if poll_waits value_of goes_on rq h n then Some (asked rq (Suc n) h) else None)"
    by (auto simp: round_eq poll_waits_def waiting split: sum.split outcome.split option.split)
       (use decided in blast)
  then show ?case
    by (auto simp: rounds_Suc Suc less_Suc_eq simp del: rounds.simps)
qed simp

lemma never_ends: "go_loop body h = None \<longleftrightarrow> (\<forall>i. poll_waits value_of goes_on rq h i)"
  by (auto simp: go_loop_None rounds_eq)

lemma ends_first:
  assumes "\<forall>i < n. poll_waits value_of goes_on rq h i" and "\<not> poll_waits value_of goes_on rq h n"
  shows "go_loop body h = leaves body (asked rq n h)"
proof -
  have r: "rounds body n h = Some (asked rq n h)" using assms(1) by (simp add: rounds_eq)
  have "leaves body (asked rq n h) \<noteq> None"
    using assms(2) decided
    by (auto simp: leaves_or_goes_on round_eq poll_waits_def split: sum.splits)
  then show ?thesis using go_loop_rounds [OF r] by auto
qed

end

end
