(* ===== verification/Setup.thy ===== *)
theory Setup
  imports World Control_Feed Api_Request
begin

text \<open>
  \<open>src/tunnel/setup.go\<close>: finding a control server that answers a ping, and registering the agent
  with it. Both are nested bounded loops over sends and receives; each loop is a function of the
  number of rounds it has left. The debug output, the sleeps and the setting of read deadlines are
  left out, but for the reading of the clock that a deadline makes.
\<close>

section \<open>Texts of addresses\<close>

text \<open>
  The code compares the texts of a peer's \<open>net.UDPAddr\<close> and of a \<open>netip.AddrPort\<close>. The texts are
  given by what they show: an IPv4-mapped peer prints as dotted, an IPv4-mapped \<open>AddrPort\<close> does not.
\<close>

datatype addr_text =
    InvalidText
  | EmptyText u16
  | DottedText u32 bytes u16
  | HexText "128 word" bytes u16

fun AddrPort_String :: "addrport \<Rightarrow> addr_text" where
  "AddrPort_String (AddrPort ZeroAddr p) = InvalidText"
| "AddrPort_String (AddrPort (V4 w) p) = DottedText w [] p"
| "AddrPort_String (AddrPort (V6 w z) p) = HexText w z p"

fun UDPAddr_String :: "addrport \<Rightarrow> addr_text" where
  "UDPAddr_String (AddrPort ZeroAddr p) = EmptyText p"
| "UDPAddr_String (AddrPort (V4 w) p) = DottedText w [] p"
| "UDPAddr_String (AddrPort (V6 w z) p) =
     (if Addr_Is4In6 (V6 w z) then DottedText (ucast w) z p else HexText w z p)"

section \<open>Data\<close>

record ConnectedControl =
  cc_ControlAddr :: addrport
  cc_Udp :: "nat option"
  cc_Pong :: "Pong option"

record AuthenticatedControl =
  ac_ApiClient :: Api
  ac_Conn :: ConnectedControl
  ac_CurrentPing :: "u32 option"
  ac_LastPong :: Pong
  ac_ForceEpired :: bool
  ac_Registered :: AgentRegistered
  ac_Buff :: bytes

section \<open>Finding a control server\<close>

definition setup_ping :: "time \<Rightarrow> ControlRequest ControlRpcMessage" where
  "setup_ping now =
     \<lparr>rpc_RequestID = 1,
      rpc_Content = zero_ControlRequest\<lparr>creq_Ping :=
        Some \<lparr>ping_Now = now, ping_CurrentPing = None, ping_SessionID = None\<rparr>\<rparr>\<rparr>"

text \<open>\<open>for range 5\<close>: wait for the pong. \<open>None\<close> when the rounds are used up.\<close>

fun Setup_recv :: "nat \<Rightarrow> addrport \<Rightarrow> nat \<Rightarrow> (ConnectedControl option, world) go" where
  "Setup_recv conn Addr 0 = ret None"
| "Setup_recv conn Addr (Suc k) =
     go_bind time_Now (\<lambda>_.
     go_bind (go_try (UDP_Read (Some conn) 2048)) (\<lambda>r.
       case r of
         Inl e \<Rightarrow> if e = ErrTimeout then Setup_recv conn Addr k else throw e
       | Inr (buff, peer) \<Rightarrow>
           if UDPAddr_String peer \<noteq> AddrPort_String Addr then Setup_recv conn Addr k
           else
             go_bind (from_Reader (ControlFeed_ReadFrom zero_ControlFeed) buff) (\<lambda>feed.
               case cf_Response feed of
                 None \<Rightarrow> throw (Errorf ''unexpected control feed'')
               | Some msg \<Rightarrow>
                   if rpc_RequestID msg \<noteq> 1 then Setup_recv conn Addr k
                   else
                     (case rpc_Content msg of
                        None \<Rightarrow> crash NilDeref
                      | Some content \<Rightarrow>
                          (case cres_Pong content of
                             None \<Rightarrow> throw (Errorf ''expected pong got other response'')
                           | Some pong \<Rightarrow>
                               ret (Some \<lparr>cc_ControlAddr = Addr, cc_Udp = Some conn,
                                          cc_Pong = Some pong\<rparr>))))))"

text \<open>\<open>for range 3\<close>: send a ping and wait. A failed send closes the socket and ends the loop.\<close>

fun Setup_pings :: "nat \<Rightarrow> addrport \<Rightarrow> nat \<Rightarrow> (ConnectedControl option, world) go" where
  "Setup_pings conn Addr 0 = ret None"
| "Setup_pings conn Addr (Suc k) =
     go_bind time_Now (\<lambda>now.
     go_bind (go_try (to_Buffer (ControlRpcMessage_WriteTo ControlRequest_WriteTo (setup_ping now))))
       (\<lambda>enc. case enc of
          Inl e \<Rightarrow> go_bind (Close conn) (\<lambda>_. throw e)
        | Inr buffer \<Rightarrow>
            go_bind (go_try (UDP_Write (Some conn) buffer Addr)) (\<lambda>sent.
              case sent of
                Inl _ \<Rightarrow> go_bind (Close conn) (\<lambda>_. ret None)
              | Inr _ \<Rightarrow>
                  go_bind (Setup_recv conn Addr 5) (\<lambda>found.
                    case found of
                      Some c \<Rightarrow> ret (Some c)
                    | None \<Rightarrow> Setup_pings conn Addr k))))"

definition Setup_network :: "addrport \<Rightarrow> string" where
  "Setup_network Addr =
     (if Addr_Is4 (ap_Addr Addr) \<and> \<not> Addr_Is4In6 (ap_Addr Addr) then ''udp4'' else ''udp6'')"

fun Setup_Setup :: "addrport list \<Rightarrow> (ConnectedControl, world) go" where
  "Setup_Setup [] =
     throw (Errorf ''cannot make UDP tunnel to playit controller, check you internet conenction'')"
| "Setup_Setup (Addr # rest) =
     go_bind (go_try (ListenUDP (Setup_network Addr))) (\<lambda>r.
       case r of
         Inl _ \<Rightarrow> Setup_Setup rest
       | Inr conn \<Rightarrow>
           go_bind (Setup_pings conn Addr 3) (\<lambda>found.
             case found of
               Some c \<Rightarrow> ret c
             | None \<Rightarrow> Setup_Setup rest))"

section \<open>Registering the agent\<close>

text \<open>
  \<open>for range 5\<close>: wait for the answer to one registration request \<open>sent\<close>. \<open>None\<close> when the rounds
  are used up or a read timed out.
\<close>

fun Authenticate_recv ::
    "Api \<Rightarrow> ConnectedControl \<Rightarrow> bytes \<Rightarrow> nat \<Rightarrow> (AuthenticatedControl option, world) go" where
  "Authenticate_recv Api Control sent 0 = ret None"
| "Authenticate_recv Api Control sent (Suc k) =
     go_bind time_Now (\<lambda>_.
     go_bind (go_try (UDP_Read (cc_Udp Control) (length sent + 1024))) (\<lambda>r.
       case r of
         Inl e \<Rightarrow> if e = ErrTimeout then ret None else throw e
       | Inr (data, remote) \<Rightarrow>
           if UDPAddr_String remote \<noteq> AddrPort_String (cc_ControlAddr Control)
           then Authenticate_recv Api Control sent k
           else
             let reciver = overwrite data (sent @ replicate 1024 0) in
             go_bind (from_Reader (ControlFeed_ReadFrom zero_ControlFeed) data) (\<lambda>feed.
               case cf_Response feed of
                 None \<Rightarrow> crash NilDeref
               | Some response \<Rightarrow>
                   if rpc_RequestID response \<noteq> 10 then Authenticate_recv Api Control sent k
                   else
                     (case rpc_Content response of
                        None \<Rightarrow> throw (Errorf ''cannot get response'')
                      | Some controlRes \<Rightarrow>
                          if cres_RequestQueued controlRes
                          then Authenticate_recv Api Control sent k
                          else if cres_InvalidSignature controlRes
                          then throw (Errorf ''register return invalid signature'')
                          else if cres_Unauthorized controlRes then throw (Errorf ''unauthorized'')
                          else
                            (case (cres_AgentRegistered controlRes, cc_Pong Control) of
                               (Some reg, Some pong) \<Rightarrow>
                                 ret (Some \<lparr>ac_ApiClient = Api, ac_Conn = Control,
                                    ac_CurrentPing = None, ac_LastPong = pong,
                                    ac_ForceEpired = False, ac_Registered = reg,
                                    ac_Buff = drop (length data) reciver\<rparr>)
                             | (Some reg, None) \<Rightarrow> crash NilDeref
                             | (None, _) \<Rightarrow> Authenticate_recv Api Control sent k)))))"

fun Authenticate_rounds ::
    "Api \<Rightarrow> ConnectedControl \<Rightarrow> bytes \<Rightarrow> nat \<Rightarrow> (AuthenticatedControl, world) go" where
  "Authenticate_rounds Api Control tkBytes 0 = throw (Errorf ''failed1 to connect agent'')"
| "Authenticate_rounds Api Control tkBytes (Suc k) =
     go_bind (to_Buffer (ControlRpcMessage_WriteTo RawSlice_WriteTo
         \<lparr>rpc_RequestID = 10, rpc_Content = \<lparr>Buff = tkBytes\<rparr>\<rparr>)) (\<lambda>buffer.
     go_bind (UDP_Write (cc_Udp Control) buffer (cc_ControlAddr Control)) (\<lambda>_.
     go_bind (Authenticate_recv Api Control buffer 5) (\<lambda>found.
       case found of
         Some a \<Rightarrow> ret a
       | None \<Rightarrow> Authenticate_rounds Api Control tkBytes k)))"

definition ConnectedControl_Authenticate ::
    "ConnectedControl \<Rightarrow> Api \<Rightarrow> (AuthenticatedControl, world) go" where
  "ConnectedControl_Authenticate Control Api =
     (case cc_Pong Control of
        None \<Rightarrow> crash NilDeref
      | Some pong \<Rightarrow>
          if \<not> AddrPort_IsValid (pong_ClientAddr pong)
          then throw (Errorf ''invalid pong Client address'')
          else if \<not> AddrPort_IsValid (pong_TunnelAddr pong)
          then throw (Errorf ''invalid pong Tunnel address'')
          else
            go_bind (ProtoRegisterRegister (pong_ClientAddr pong) (pong_TunnelAddr pong)) (\<lambda>tk.
              case hex_decode tk of
                None \<Rightarrow> throw ErrHex
              | Some tkBytes \<Rightarrow> Authenticate_rounds Api Control tkBytes 5))"

section \<open>What the search sends\<close>

definition ping_bytes :: "time \<Rightarrow> bytes" where
  "ping_bytes now = be_bytes (1 :: u64) @ enc_request (RPing
        \<lparr>ping_Now = now, ping_CurrentPing = None, ping_SessionID = None\<rparr>)"

lemma to_Buffer_setup_ping:
  "to_Buffer (ControlRpcMessage_WriteTo ControlRequest_WriteTo (setup_ping now)) = ret (ping_bytes now)"
proof (rule to_Buffer_emits)
  have "req_ok writable_request (rpc_Content (setup_ping now))"
    by (simp add: req_ok_def setup_ping_def abs_request_def)
  from writes_emits [OF req.rpc_writes [OF this]]
  show "emits (ControlRpcMessage_WriteTo ControlRequest_WriteTo (setup_ping now)) (ping_bytes now)"
    by (simp add: enc_rpc_def req_enc_def setup_ping_def abs_request_def ping_bytes_def)
qed

text \<open>A round of the search, with the bytes it sends.\<close>

lemma Setup_pings_Suc:
  "Setup_pings conn Addr (Suc k) =
     go_bind time_Now (\<lambda>now.
     go_bind (go_try (UDP_Write (Some conn) (ping_bytes now) Addr)) (\<lambda>sent.
       case sent of
         Inl _ \<Rightarrow> go_bind (Close conn) (\<lambda>_. ret None)
       | Inr _ \<Rightarrow>
           go_bind (Setup_recv conn Addr 5) (\<lambda>found.
             case found of Some c \<Rightarrow> ret (Some c) | None \<Rightarrow> Setup_pings conn Addr k)))"
  by (simp only: Setup_pings.simps to_Buffer_setup_ping go_try_ret go_bind_ret sum.case)

definition setup_datagram :: "addrport \<Rightarrow> nat \<times> bytes \<times> addrport \<Rightarrow> bool" where
  "setup_datagram Addr x \<longleftrightarrow> snd (snd x) = Addr \<and> (\<exists>now. fst (snd x) = ping_bytes now)"

lemma sends_Setup_recv: "sends P 0 (Setup_recv conn Addr k)"
proof (induction k)
  case 0
  show ?case by (simp only: Setup_recv.simps) (rule sends_ret)
next
  case (Suc k)
  show ?case
    by (simp only: Setup_recv.simps) (intro sends_bind0 sends_intro Suc)
qed

lemma sends_Setup_pings: "sends (setup_datagram Addr) k (Setup_pings conn Addr k)"
proof (induction k)
  case 0
  show ?case by (simp only: Setup_pings.simps) (rule sends_ret)
next
  case (Suc k)
  have "sends (setup_datagram Addr) 1 (go_try (UDP_Write (Some conn) (ping_bytes now) Addr))" for now
    by (intro sends_intro) (auto simp: setup_datagram_def)
  moreover have "sends (setup_datagram Addr) k (go_bind (Close conn) (\<lambda>_. ret None))"
    by (intro sends_bind0 sends_Close sends_weaken0 [OF sends_ret])
  moreover have "sends (setup_datagram Addr) k (go_bind (Setup_recv conn Addr 5) (\<lambda>found.
      case found of Some c \<Rightarrow> ret (Some c) | None \<Rightarrow> Setup_pings conn Addr k))"
    by (intro sends_bind0 sends_Setup_recv sends_option Suc sends_weaken0 [OF sends_ret])
  ultimately have "sends (setup_datagram Addr) (1 + k) (Setup_pings conn Addr (Suc k))"
    unfolding Setup_pings_Suc
    by - (rule sends_bind0 [OF sends_time_Now], rule sends_bind, auto split: sum.split)
  then show ?case by simp
qed

lemma sends_Setup_Setup:
  "sends (\<lambda>x. \<exists>Addr \<in> set addrs. setup_datagram Addr x) (3 * length addrs) (Setup_Setup addrs)"
proof (induction addrs)
  case Nil
  show ?case by (simp only: Setup_Setup.simps) (rule sends_weaken0 [OF sends_throw])
next
  case (Cons Addr rest)
  let ?P = "\<lambda>x. \<exists>A \<in> set (Addr # rest). setup_datagram A x"
  have rest: "sends ?P (3 * length rest) (Setup_Setup rest)"
    by (rule sends_mono [OF Cons]) auto
  have here: "sends ?P 3 (Setup_pings conn Addr 3)" for conn
    by (rule sends_mono [OF sends_Setup_pings]) auto
  have "sends ?P (3 + 3 * length rest) (Setup_Setup (Addr # rest))"
    unfolding Setup_Setup.simps
    by (intro sends_bind0 sends_intro sends_mono [OF rest] here sends_weaken0 [OF sends_ret]) simp_all
  then show ?case by simp
qed

section \<open>What the search accepts\<close>

text \<open>
  \<open>pong_answer Addr r pong\<close>: the event \<open>r\<close> is a datagram whose sender prints as \<open>Addr\<close>, and its first
  2048 bytes decode to the answer \<open>pong\<close> to request 1.
\<close>

definition pong_answer :: "addrport \<Rightarrow> recv \<Rightarrow> Pong \<Rightarrow> bool" where
  "pong_answer Addr r pong \<longleftrightarrow>
     (\<exists>data peer feed rest msg content.
        r = Datagram data peer \<and> UDPAddr_String peer = AddrPort_String Addr \<and>
        ControlFeed_ReadFrom zero_ControlFeed (take 2048 data) = Ok feed rest \<and>
        cf_Response feed = Some msg \<and> rpc_RequestID msg = 1 \<and>
        rpc_Content msg = Some content \<and> cres_Pong content = Some pong)"

definition setup_result :: "recv set \<Rightarrow> addrport \<Rightarrow> ConnectedControl \<Rightarrow> bool" where
  "setup_result S Addr c \<longleftrightarrow>
     cc_ControlAddr c = Addr \<and> cc_Udp c \<noteq> None \<and>
     (\<exists>r \<in> S. \<exists>pong. cc_Pong c = Some pong \<and> pong_answer Addr r pong)"

lemma yields_Setup_recv:
  "yields (recv_in S) (\<lambda>v. case v of None \<Rightarrow> True | Some c \<Rightarrow> setup_result S Addr c)
     (Setup_recv conn Addr k)"
proof (induction k)
  case 0
  show ?case unfolding Setup_recv.simps by (rule yields_ret) simp
next
  case (Suc k)
  show ?case
    unfolding Setup_recv.simps
  proof (rule yields_bind_preserves, intro preserves_intro recv_in_ops,
      rule yields_bind [OF yields_try [OF yields_UDP_Read [where n = 2048]]],
      intro yields_sum yields_if yields_prod yields_throw Suc,
      rule yields_bind [OF yields_from_Reader], intro yields_option yields_if yields_throw yields_crash Suc)
    fix x r v data peer feed msg content pong
    assume "case r of Inl e \<Rightarrow> True | Inr (data, src) \<Rightarrow> \<exists>d. Datagram d src \<in> S \<and> data = take 2048 d"
      "r = Inr v" "v = (data, peer)" "\<not> UDPAddr_String peer \<noteq> AddrPort_String Addr"
      "\<exists>rest. ControlFeed_ReadFrom zero_ControlFeed data = Ok feed rest"
      "cf_Response feed = Some msg" "\<not> rpc_RequestID msg \<noteq> 1"
      "rpc_Content msg = Some content" "cres_Pong content = Some pong"
    then have "setup_result S Addr \<lparr>cc_ControlAddr = Addr, cc_Udp = Some conn, cc_Pong = Some pong\<rparr>"
      by (fastforce simp: setup_result_def pong_answer_def)
    then show "yields (recv_in S) (\<lambda>v. case v of None \<Rightarrow> True | Some c \<Rightarrow> setup_result S Addr c)
       (ret (Some \<lparr>cc_ControlAddr = Addr, cc_Udp = Some conn, cc_Pong = Some pong\<rparr>))"
      by (intro yields_ret) simp
  qed
qed

lemma yields_Setup_pings:
  "yields (recv_in S) (\<lambda>v. case v of None \<Rightarrow> True | Some c \<Rightarrow> setup_result S Addr c)
     (Setup_pings conn Addr k)"
proof (induction k)
  case 0
  show ?case unfolding Setup_pings.simps by (rule yields_ret) simp
next
  case (Suc k)
  let ?R = "\<lambda>v. case v of None \<Rightarrow> True | Some c \<Rightarrow> setup_result S Addr c"
  have "yields (recv_in S) ?R (go_bind (Setup_recv conn Addr 5) (\<lambda>found.
      case found of Some c \<Rightarrow> ret (Some c) | None \<Rightarrow> Setup_pings conn Addr k))"
    by (rule yields_bind [OF yields_Setup_recv]) (auto intro!: yields_option Suc yields_ret)
  moreover have "yields (recv_in S) ?R (go_bind (Close conn) (\<lambda>_. ret None))"
    by (intro yields_bind_preserves preserves_intro yields_ret) simp
  ultimately show ?case
    unfolding Setup_pings_Suc
    by - (rule yields_bind_preserves, intro preserves_intro,
          rule yields_bind_preserves, intro preserves_intro, rule yields_sum)
qed

lemma yields_Setup_Setup:
  "yields (recv_in S) (\<lambda>c. \<exists>Addr \<in> set addrs. setup_result S Addr c) (Setup_Setup addrs)"
proof (induction addrs)
  case Nil
  show ?case unfolding Setup_Setup.simps by (rule yields_throw)
next
  case (Cons Addr rest)
  have rest: "yields (recv_in S) (\<lambda>c. \<exists>A \<in> set (Addr # rest). setup_result S A c) (Setup_Setup rest)"
    by (rule yields_mono [OF Cons]) auto
  show ?case
    unfolding Setup_Setup.simps
    by (intro yields_bind_preserves preserves_intro yields_sum rest
          yields_bind [OF yields_Setup_pings] yields_option yields_ret) auto
qed

section \<open>A server that answers, and one that does not\<close>

lemma Setup_pings_sent:
  assumes "w_send w = []"
  shows "Setup_pings conn Addr (Suc k) w =
    go_bind (Setup_recv conn Addr 5)
      (\<lambda>found. case found of Some c \<Rightarrow> ret (Some c) | None \<Rightarrow> Setup_pings conn Addr k)
      (w\<lparr>w_ticks := Suc (w_ticks w),
         w_sent := w_sent w @ [(conn, ping_bytes (w_clock w (w_ticks w)), Addr)]\<rparr>)"
  using assms
  by (simp add: Setup_pings_Suc go_bind_Ok time_Now_def UDP_Write_accepted go_try_def
      del: Setup_recv.simps Setup_pings.simps)

lemma Setup_recv_answer:
  assumes "w_recv w = Datagram (enc_feed (FResponse 1 (RPong p))) peer # r"
    and "UDPAddr_String peer = AddrPort_String Addr"
    and "wire_addr (pong_ClientAddr p)" and "wire_addr (pong_TunnelAddr p)"
  shows "Setup_recv conn Addr (Suc k) w =
    Ok (Some \<lparr>cc_ControlAddr = Addr, cc_Udp = Some conn, cc_Pong = Some (decoded_pong p)\<rparr>)
      (w\<lparr>w_ticks := Suc (w_ticks w), w_recv := r\<rparr>)"
proof -
  let ?bs = "enc_feed (FResponse 1 (RPong p))"
  have "length ?bs \<le> 2048" using length_enc_Pong [OF assms(3,4)] by simp
  moreover obtain rest where "ControlFeed_ReadFrom zero_ControlFeed ?bs =
      Ok (rep_feed (FResponse 1 (RPong (decoded_pong p)))) rest"
    using ControlFeed_ReadFrom_Pong [OF assms(3,4)] by blast
  ultimately show ?thesis
    using assms(1,2)
    by (simp add: go_bind_def time_Now_def UDP_Read_def go_try_def from_Reader_def zero_ControlFeed_def
        zero_ControlResponse_def del: enc_feed.simps)
qed

lemma Setup_Setup_answer:
  assumes "w_listen w = []" and "w_send w = []"
    and "w_recv w = Datagram (enc_feed (FResponse 1 (RPong p))) peer # r"
    and "UDPAddr_String peer = AddrPort_String Addr"
    and "wire_addr (pong_ClientAddr p)" and "wire_addr (pong_TunnelAddr p)"
  shows "Setup_Setup (Addr # rest) w =
    Ok \<lparr>cc_ControlAddr = Addr, cc_Udp = Some (w_socks w), cc_Pong = Some (decoded_pong p)\<rparr>
      (w\<lparr>w_ticks := w_ticks w + 2, w_socks := Suc (w_socks w), w_recv := r,
         w_sent := w_sent w @ [(w_socks w, ping_bytes (w_clock w (w_ticks w)), Addr)]\<rparr>)"
proof -
  let ?w1 = "w\<lparr>w_socks := Suc (w_socks w), w_ticks := Suc (w_ticks w),
         w_sent := w_sent w @ [(w_socks w, ping_bytes (w_clock w (w_ticks w)), Addr)]\<rparr>"
  have "w_recv ?w1 = Datagram (enc_feed (FResponse 1 (RPong p))) peer # r" using assms(3) by simp
  from Setup_recv_answer [OF this assms(4-6), of "w_socks w" 4]
  have "Setup_pings (w_socks w) Addr 3 (w\<lparr>w_socks := Suc (w_socks w)\<rparr>) =
    Ok (Some \<lparr>cc_ControlAddr = Addr, cc_Udp = Some (w_socks w), cc_Pong = Some (decoded_pong p)\<rparr>)
      (?w1\<lparr>w_ticks := Suc (w_ticks ?w1), w_recv := r\<rparr>)"
    using assms(2) Setup_pings_sent [of "w\<lparr>w_socks := Suc (w_socks w)\<rparr>" "w_socks w" Addr 2]
    by (simp add: numeral_eq_Suc go_bind_def del: Setup_recv.simps Setup_pings.simps)
  then show ?thesis
    by (simp add: go_bind_def ListenUDP_accepted [OF assms(1)] go_try_def del: Setup_pings.simps)
qed

lemma Setup_recv_timeout:
  "w_recv w = [] \<Longrightarrow> Setup_recv conn Addr k w = Ok None (w\<lparr>w_ticks := w_ticks w + k\<rparr>)"
  by (induction k arbitrary: w)
     (simp_all add: go_bind_def time_Now_def UDP_Read_def go_try_def)

lemma Setup_pings_timeout:
  "w_recv w = [] \<Longrightarrow> w_send w = [] \<Longrightarrow>
   \<exists>n xs. Setup_pings conn Addr k w = Ok None (w\<lparr>w_ticks := n, w_sent := w_sent w @ xs\<rparr>) \<and>
     length xs = k"
proof (induction k arbitrary: w)
  case 0
  show ?case by (intro exI [of _ "w_ticks w"] exI [of _ "[]"]) simp
next
  case (Suc k)
  define w0 where "w0 = w\<lparr>w_ticks := Suc (w_ticks w),
      w_sent := w_sent w @ [(conn, ping_bytes (w_clock w (w_ticks w)), Addr)]\<rparr>"
  define w1 where "w1 = w0\<lparr>w_ticks := w_ticks w0 + 5\<rparr>"
  have "Setup_recv conn Addr 5 w0 = Ok None w1"
    using Suc.prems(1) Setup_recv_timeout [of w0 conn Addr 5] by (simp add: w0_def w1_def)
  then have "Setup_pings conn Addr (Suc k) w = Setup_pings conn Addr k w1"
    unfolding Setup_pings_sent [OF Suc.prems(2)] w0_def [symmetric]
    by (simp add: go_bind_def)
  moreover obtain n xs where "Setup_pings conn Addr k w1 =
      Ok None (w1\<lparr>w_ticks := n, w_sent := w_sent w1 @ xs\<rparr>)" "length xs = k"
    using Suc.IH [of w1] Suc.prems by (auto simp: w1_def w0_def)
  ultimately show ?case
    by (intro exI [of _ n] exI [of _ "(conn, ping_bytes (w_clock w (w_ticks w)), Addr) # xs"])
       (simp add: w1_def w0_def)
qed

lemma Setup_Setup_timeout:
  "w_recv w = [] \<Longrightarrow> w_send w = [] \<Longrightarrow> w_listen w = [] \<Longrightarrow>
   \<exists>n xs. Setup_Setup addrs w =
     Err (Errorf ''cannot make UDP tunnel to playit controller, check you internet conenction'')
       (w\<lparr>w_ticks := n, w_sent := w_sent w @ xs, w_socks := w_socks w + length addrs\<rparr>) \<and>
     length xs = 3 * length addrs"
proof (induction addrs arbitrary: w)
  case Nil
  show ?case by (intro exI [of _ "w_ticks w"] exI [of _ "[]"]) simp
next
  case (Cons Addr rest)
  define w1 where "w1 = w\<lparr>w_socks := Suc (w_socks w)\<rparr>"
  obtain n xs where 1: "Setup_pings (w_socks w) Addr 3 w1 =
      Ok None (w1\<lparr>w_ticks := n, w_sent := w_sent w1 @ xs\<rparr>)" "length xs = 3"
    using Setup_pings_timeout [of w1 "w_socks w" Addr 3] Cons.prems by (auto simp: w1_def)
  define w2 where "w2 = w1\<lparr>w_ticks := n, w_sent := w_sent w1 @ xs\<rparr>"
  obtain m ys where 2: "Setup_Setup rest w2 =
     Err (Errorf ''cannot make UDP tunnel to playit controller, check you internet conenction'')
       (w2\<lparr>w_ticks := m, w_sent := w_sent w2 @ ys, w_socks := w_socks w2 + length rest\<rparr>)"
     "length ys = 3 * length rest"
    using Cons.IH [of w2] Cons.prems by (auto simp: w2_def w1_def)
  have "Setup_Setup (Addr # rest) w = Setup_Setup rest w2"
    using 1(1) by (simp add: go_bind_def ListenUDP_accepted [OF Cons.prems(3)] go_try_def w1_def w2_def)
  with 1(2) 2 show ?case
    by (intro exI [of _ m] exI [of _ "xs @ ys"]) (simp add: w2_def w1_def)
qed

section \<open>What registration sends and accepts\<close>

lemma to_Buffer_register:
  "to_Buffer (ControlRpcMessage_WriteTo RawSlice_WriteTo
     \<lparr>rpc_RequestID = 10, rpc_Content = \<lparr>Buff = tkBytes\<rparr>\<rparr>) = ret (be_bytes (10 :: u64) @ tkBytes)"
  by (rule to_Buffer_emits, rule writes_emits)
     (use raw.rpc_writes [of "\<lparr>rpc_RequestID = 10, rpc_Content = \<lparr>Buff = tkBytes\<rparr>\<rparr>"] in
       \<open>simp add: enc_rpc_def\<close>)

lemma Authenticate_rounds_Suc:
  "Authenticate_rounds Api Control tkBytes (Suc k) =
     (let sent = be_bytes (10 :: u64) @ tkBytes in
      go_bind (UDP_Write (cc_Udp Control) sent (cc_ControlAddr Control)) (\<lambda>_.
      go_bind (Authenticate_recv Api Control sent 5) (\<lambda>found.
        case found of Some a \<Rightarrow> ret a | None \<Rightarrow> Authenticate_rounds Api Control tkBytes k)))"
  by (simp only: Authenticate_rounds.simps to_Buffer_register go_bind_ret Let_def)

definition register_datagram :: "ConnectedControl \<Rightarrow> nat \<times> bytes \<times> addrport \<Rightarrow> bool" where
  "register_datagram Control x \<longleftrightarrow>
     cc_Udp Control = Some (fst x) \<and> snd (snd x) = cc_ControlAddr Control \<and>
     (\<exists>key tkBytes. hex_decode key = Some tkBytes \<and> fst (snd x) = be_bytes (10 :: u64) @ tkBytes)"

lemma sends_Authenticate_recv: "sends P 0 (Authenticate_recv Api Control sent k)"
proof (induction k)
  case 0
  show ?case by (simp only: Authenticate_recv.simps) (rule sends_ret)
next
  case (Suc k)
  show ?case
    by (simp only: Authenticate_recv.simps Let_def) (intro sends_bind0 sends_intro Suc)
qed

lemma sends_Authenticate_rounds:
  assumes "hex_decode key = Some tkBytes"
  shows "sends (register_datagram Control) k (Authenticate_rounds Api Control tkBytes k)"
proof (induction k)
  case 0
  show ?case by (simp only: Authenticate_rounds.simps) (rule sends_throw)
next
  case (Suc k)
  have 1: "sends (register_datagram Control) 1
      (UDP_Write (cc_Udp Control) (be_bytes (10 :: u64) @ tkBytes) (cc_ControlAddr Control))"
    by (rule sends_UDP_Write) (use assms in \<open>auto simp: register_datagram_def\<close>)
  have "sends (register_datagram Control) (1 + k) (Authenticate_rounds Api Control tkBytes (Suc k))"
    unfolding Authenticate_rounds_Suc Let_def
    by (rule sends_bind [OF 1], rule sends_bind0 [OF sends_Authenticate_recv])
       (intro sends_option Suc sends_weaken0 [OF sends_ret])
  then show ?case by simp
qed

lemma sends_Authenticate:
  "sends (register_datagram Control) 5 (ConnectedControl_Authenticate Control Api)"
proof -
  have fin: "sends (register_datagram Control) 5 (case hex_decode tk of None \<Rightarrow> throw ErrHex
      | Some tkBytes \<Rightarrow> Authenticate_rounds Api Control tkBytes 5)" for tk
    by (cases "hex_decode tk")
       (simp_all only: option.case sends_weaken0 [OF sends_throw] sends_Authenticate_rounds)
  show ?thesis
    unfolding ConnectedControl_Authenticate_def
    by (cases "cc_Pong Control", simp_all only: option.case)
       (intro fin sends_if sends_bind0 sends_ProtoRegisterRegister
          sends_weaken0 [OF sends_throw] sends_weaken0 [OF sends_crash])+
qed

text \<open>
  \<open>register_answer Addr r reg\<close>: the event \<open>r\<close> is a datagram whose sender prints as \<open>Addr\<close>, and a
  prefix of it decodes to the registration \<open>reg\<close>, as the answer to request 10.
\<close>

definition register_answer :: "addrport \<Rightarrow> recv \<Rightarrow> AgentRegistered \<Rightarrow> bool" where
  "register_answer Addr r reg \<longleftrightarrow>
     (\<exists>data n peer feed rest msg content.
        r = Datagram data peer \<and> UDPAddr_String peer = AddrPort_String Addr \<and>
        ControlFeed_ReadFrom zero_ControlFeed (take n data) = Ok feed rest \<and>
        cf_Response feed = Some msg \<and> rpc_RequestID msg = 10 \<and>
        rpc_Content msg = Some content \<and> cres_AgentRegistered content = Some reg)"

definition auth_result :: "recv set \<Rightarrow> Api \<Rightarrow> ConnectedControl \<Rightarrow> AuthenticatedControl \<Rightarrow> bool" where
  "auth_result S Api Control a \<longleftrightarrow>
     ac_ApiClient a = Api \<and> ac_Conn a = Control \<and> cc_Pong Control = Some (ac_LastPong a) \<and>
     ac_CurrentPing a = None \<and> \<not> ac_ForceEpired a \<and>
     (\<exists>r \<in> S. register_answer (cc_ControlAddr Control) r (ac_Registered a))"

lemma yields_Authenticate_recv:
  "yields (recv_in S) (\<lambda>v. case v of None \<Rightarrow> True | Some a \<Rightarrow> auth_result S Api Control a)
     (Authenticate_recv Api Control sent k)"
proof (induction k)
  case 0
  show ?case unfolding Authenticate_recv.simps by (rule yields_ret) simp
next
  case (Suc k)
  let ?R = "\<lambda>v. case v of None \<Rightarrow> True | Some a \<Rightarrow> auth_result S Api Control a"
  show ?case
    unfolding Authenticate_recv.simps Let_def
  proof (rule yields_bind_preserves, intro preserves_intro recv_in_ops,
      rule yields_bind [OF yields_try [OF yields_UDP_Read [where n = "length sent + 1024"]]],
      intro yields_sum yields_if yields_prod yields_throw Suc,
      goal_cases)
    case 1 show ?case by (rule yields_ret) simp
  next
    case (2 x r v data peer)
    show ?case
    proof (rule yields_bind [OF yields_from_Reader],
        intro yields_option yields_if yields_throw yields_crash yields_prod Suc, goal_cases)
      case (1 feed msg content reg pong)
      from 1 2 obtain d where d: "Datagram d peer \<in> S" "data = take (length sent + 1024) d" by auto
      have "register_answer (cc_ControlAddr Control) (Datagram d peer) reg'"
        if "cres_AgentRegistered content = Some reg'" for reg'
        unfolding register_answer_def using 1 2 d that by fastforce
      with 1 d(1) Suc show ?case
        by (auto split: option.split intro!: yields_ret yields_crash bexI [of _ "Datagram d peer"]
            simp: auth_result_def)
    qed
  qed
qed

lemma yields_Authenticate_rounds:
  "yields (recv_in S) (auth_result S Api Control) (Authenticate_rounds Api Control tkBytes k)"
proof (induction k)
  case 0
  show ?case unfolding Authenticate_rounds.simps by (rule yields_throw)
next
  case (Suc k)
  show ?case
    unfolding Authenticate_rounds_Suc Let_def
    by (rule yields_bind_preserves, intro preserves_intro, rule yields_bind [OF yields_Authenticate_recv])
       (auto intro!: yields_option yields_ret Suc)
qed

definition pong_addrs_valid :: "ConnectedControl \<Rightarrow> bool" where
  "pong_addrs_valid Control \<longleftrightarrow>
     (\<exists>pong. cc_Pong Control = Some pong \<and>
        AddrPort_IsValid (pong_ClientAddr pong) \<and> AddrPort_IsValid (pong_TunnelAddr pong))"

lemma yields_Authenticate:
  "yields (recv_in S) (\<lambda>a. auth_result S Api Control a \<and> pong_addrs_valid Control)
     (ConnectedControl_Authenticate Control Api)"
proof (cases "cc_Pong Control")
  case None
  then show ?thesis
    unfolding ConnectedControl_Authenticate_def by (simp only: option.case) (rule yields_crash)
next
  case (Some pong)
  have "yields (recv_in S) (\<lambda>a. auth_result S Api Control a \<and> pong_addrs_valid Control)
      (go_bind (ProtoRegisterRegister c t) (\<lambda>tk. case hex_decode tk of None \<Rightarrow> throw ErrHex
        | Some tkBytes \<Rightarrow> Authenticate_rounds Api Control tkBytes 5))"
    if "pong_addrs_valid Control" for c t
    by (rule yields_bind_preserves, intro preserves_intro, rule yields_option [OF yields_throw],
        rule yields_mono [OF yields_Authenticate_rounds]) (use that in simp)
  with Some show ?thesis
    unfolding ConnectedControl_Authenticate_def
    by (simp only: option.case) (intro yields_if yields_throw, auto simp: pong_addrs_valid_def)
qed

lemma Authenticate_invalid:
  assumes "cc_Pong Control = Some pong"
    and "\<not> AddrPort_IsValid (pong_ClientAddr pong) \<or> \<not> AddrPort_IsValid (pong_TunnelAddr pong)"
  shows "\<exists>s. ConnectedControl_Authenticate Control Api w = Err (Errorf s) w"
  using assms by (auto simp: ConnectedControl_Authenticate_def)

text \<open>The first datagram after the first request decides.\<close>

lemma Authenticate_first_reply:
  assumes "cc_Pong Control = Some pong" and "pong_addrs_valid Control"
    and "cc_Udp Control = Some c" and "w_register w = Inr key # ks"
    and "hex_decode key = Some tkBytes" and "w_send w = []"
    and "w_recv w = Datagram data peer # r" and "length data \<le> 1024"
    and "UDPAddr_String peer = AddrPort_String (cc_ControlAddr Control)"
  defines "sent \<equiv> be_bytes (10 :: u64) @ tkBytes"
  defines "w1 \<equiv> w\<lparr>w_register := ks, w_sent := w_sent w @ [(c, sent, cc_ControlAddr Control)]\<rparr>"
  shows "ConnectedControl_Authenticate Control Api w =
    go_bind (Authenticate_recv Api Control sent 5) (\<lambda>found.
      case found of Some a \<Rightarrow> ret a | None \<Rightarrow> Authenticate_rounds Api Control tkBytes 4) w1"
    and "w_recv w1 = Datagram data peer # r"
proof -
  have "ProtoRegisterRegister a b w = Ok key (w\<lparr>w_register := ks\<rparr>)" for a b
    using assms(4) by (simp add: ProtoRegisterRegister_def)
  moreover have "UDP_Write (Some c) sent (cc_ControlAddr Control) (w\<lparr>w_register := ks\<rparr>) =
      Ok (length sent) w1"
    using assms(6) by (simp add: UDP_Write_accepted w1_def)
  moreover have "Authenticate_rounds Api Control tkBytes 5 =
      go_bind (UDP_Write (cc_Udp Control) sent (cc_ControlAddr Control)) (\<lambda>_.
      go_bind (Authenticate_recv Api Control sent 5) (\<lambda>found.
        case found of Some a \<Rightarrow> ret a | None \<Rightarrow> Authenticate_rounds Api Control tkBytes 4))"
    using Authenticate_rounds_Suc [of Api Control tkBytes 4] by (simp add: sent_def Let_def)
  ultimately show "ConnectedControl_Authenticate Control Api w =
    go_bind (Authenticate_recv Api Control sent 5) (\<lambda>found.
      case found of Some a \<Rightarrow> ret a | None \<Rightarrow> Authenticate_rounds Api Control tkBytes 4) w1"
    using assms(1,2,3,5)
    by (simp add: ConnectedControl_Authenticate_def pong_addrs_valid_def go_bind_Ok
        del: Authenticate_recv.simps Authenticate_rounds.simps)
  show "w_recv w1 = Datagram data peer # r"
    using assms(7) by (simp add: w1_def)
qed

lemma Authenticate_recv_reply:
  assumes "cc_Udp Control = Some c" and "w_recv w = Datagram data peer # r"
    and "length data \<le> 1024" and "UDPAddr_String peer = AddrPort_String (cc_ControlAddr Control)"
    and "ControlFeed_ReadFrom zero_ControlFeed data = Ok feed rest"
  shows "cf_Response feed = None \<Longrightarrow> Authenticate_recv Api Control sent (Suc k) w = Panic NilDeref"
    and "cc_Pong Control = Some pong \<Longrightarrow> feed = rep_feed (FResponse 10 (RAgentRegistered reg)) \<Longrightarrow>
      Authenticate_recv Api Control sent (Suc k) w =
        Ok (Some \<lparr>ac_ApiClient = Api, ac_Conn = Control, ac_CurrentPing = None, ac_LastPong = pong,
                  ac_ForceEpired = False, ac_Registered = reg,
                  ac_Buff = drop (length data) (sent @ replicate 1024 0)\<rparr>)
          (w\<lparr>w_ticks := Suc (w_ticks w), w_recv := r\<rparr>)"
  using assms
  by (simp_all add: go_bind_def time_Now_def UDP_Read_def go_try_def from_Reader_def Let_def
      zero_ControlFeed_def zero_ControlResponse_def)

section \<open>What the setup preserves\<close>

lemma preserves_Setup_recv:
  assumes [preserves_intro]: "preserves P time_Now" "\<And>c n. preserves P (UDP_Read c n)"
  shows "preserves P (Setup_recv conn Addr k)"
proof (induction k)
  case 0
  show ?case unfolding Setup_recv.simps by (intro preserves_intro)
next
  case (Suc k)
  show ?case unfolding Setup_recv.simps by (intro preserves_intro Suc)
qed

lemma preserves_Setup_pings:
  assumes [preserves_intro]: "preserves P time_Now" "\<And>c n. preserves P (UDP_Read c n)"
    "\<And>c. preserves P (Close c)" "\<And>c d a. preserves P (UDP_Write c d a)"
  shows "preserves P (Setup_pings conn Addr k)"
proof (induction k)
  case 0
  show ?case unfolding Setup_pings.simps by (intro preserves_intro)
next
  case (Suc k)
  show ?case unfolding Setup_pings.simps by (intro preserves_intro Suc preserves_Setup_recv)
qed

lemma preserves_Setup_Setup:
  assumes [preserves_intro]: "preserves P time_Now" "\<And>c n. preserves P (UDP_Read c n)"
    "\<And>c. preserves P (Close c)" "\<And>c d a. preserves P (UDP_Write c d a)"
    "\<And>n. preserves P (ListenUDP n)"
  shows "preserves P (Setup_Setup addrs)"
proof (induction addrs)
  case Nil
  show ?case unfolding Setup_Setup.simps by (intro preserves_intro)
next
  case (Cons Addr rest)
  show ?case unfolding Setup_Setup.simps by (intro preserves_intro Cons preserves_Setup_pings)
qed

lemma preserves_Authenticate_recv:
  assumes [preserves_intro]: "preserves P time_Now" "\<And>c n. preserves P (UDP_Read c n)"
  shows "preserves P (Authenticate_recv Api Control sent k)"
proof (induction k)
  case 0
  show ?case unfolding Authenticate_recv.simps by (intro preserves_intro)
next
  case (Suc k)
  show ?case unfolding Authenticate_recv.simps Let_def by (intro preserves_intro Suc)
qed

lemma preserves_Authenticate:
  assumes [preserves_intro]: "preserves P time_Now" "\<And>c n. preserves P (UDP_Read c n)"
    "\<And>c d a. preserves P (UDP_Write c d a)" "\<And>a b. preserves P (ProtoRegisterRegister a b)"
  shows "preserves P (ConnectedControl_Authenticate Control Api)"
proof -
  have "preserves P (Authenticate_rounds Api Control tkBytes k)" for tkBytes k
  proof (induction k)
    case 0
    show ?case unfolding Authenticate_rounds.simps by (intro preserves_intro)
  next
    case (Suc k)
    show ?case unfolding Authenticate_rounds.simps
      by (intro preserves_intro Suc preserves_Authenticate_recv)
  qed
  then show ?thesis
    unfolding ConnectedControl_Authenticate_def by (intro preserves_intro)
qed

end
