(* ===== verification/Control.thy ===== *)
theory Control
  imports Setup
begin

text \<open>
  \<open>src/tunnel/control.go\<close>: the authenticated control channel. The record is in theory Setup, whose
  \<open>Authenticate\<close> creates it. A pointer that the code takes into the record itself
  (\<open>&Auth.Registered.ID\<close>, \<open>&Auth.LastPong\<close>) is the value there at that moment.
\<close>

type_synonym 'a ac_go = "('a, AuthenticatedControl \<times> world) go"

definition update_auth :: "(AuthenticatedControl \<Rightarrow> AuthenticatedControl) \<Rightarrow> unit ac_go" where
  "update_auth f = modify (\<lambda>(Auth, w). (f Auth, w))"

section \<open>Sending\<close>

definition AuthenticatedControl_Send :: "ControlRequest ControlRpcMessage \<Rightarrow> unit ac_go" where
  "AuthenticatedControl_Send Req =
     go_bind (update_auth (ac_Buff_update (\<lambda>_. []))) (\<lambda>_.
     go_bind (to_Buffer (ControlRpcMessage_WriteTo ControlRequest_WriteTo Req)) (\<lambda>bufio.
     go_bind (update_auth (ac_Buff_update (\<lambda>_. bufio))) (\<lambda>_.
     go_bind get_state (\<lambda>(Auth, _).
     go_bind (on_world (UDP_Write (cc_Udp (ac_Conn Auth)) bufio (cc_ControlAddr (ac_Conn Auth)))) (\<lambda>_.
       ret ())))))"

definition request_message :: "u64 \<Rightarrow> ControlRequest \<Rightarrow> ControlRequest ControlRpcMessage" where
  "request_message RequestID content = \<lparr>rpc_RequestID = RequestID, rpc_Content = content\<rparr>"

definition SendKeepAlive :: "u64 \<Rightarrow> unit ac_go" where
  "SendKeepAlive RequestID =
     go_bind get_state (\<lambda>(Auth, _).
       AuthenticatedControl_Send (request_message RequestID
         (zero_ControlRequest\<lparr>creq_AgentKeepAlive := Some (reg_ID (ac_Registered Auth))\<rparr>)))"

definition SendSetupUDPChannel :: "u64 \<Rightarrow> unit ac_go" where
  "SendSetupUDPChannel RequestID =
     go_bind get_state (\<lambda>(Auth, _).
       AuthenticatedControl_Send (request_message RequestID
         (zero_ControlRequest\<lparr>creq_SetupUdpChannel := Some (reg_ID (ac_Registered Auth))\<rparr>)))"

definition SendPing :: "u64 \<Rightarrow> time \<Rightarrow> unit ac_go" where
  "SendPing RequestID Now =
     go_bind get_state (\<lambda>(Auth, _).
       AuthenticatedControl_Send (request_message RequestID
         (zero_ControlRequest\<lparr>creq_Ping := Some
            \<lparr>ping_Now = Now, ping_CurrentPing = ac_CurrentPing Auth,
             ping_SessionID = Some (reg_ID (ac_Registered Auth))\<rparr>\<rparr>)))"

section \<open>Expiry\<close>

definition FlowChanged :: "AuthenticatedControl \<Rightarrow> bool" where
  "FlowChanged Auth \<longleftrightarrow>
     AddrPort_Compare (pong_ClientAddr (ac_LastPong Auth)) (pong_ClientAddr (ac_LastPong Auth)) \<noteq> 0"

definition IsIspired :: "AuthenticatedControl \<Rightarrow> bool" where
  "IsIspired Auth \<longleftrightarrow>
     ac_ForceEpired Auth \<or> pong_SessionExpireAt (ac_LastPong Auth) = None \<or> FlowChanged Auth"

definition IntoRequiresAuth :: "AuthenticatedControl \<Rightarrow> ConnectedControl" where
  "IntoRequiresAuth Auth =
     \<lparr>cc_ControlAddr = cc_ControlAddr (ac_Conn Auth), cc_Udp = cc_Udp (ac_Conn Auth),
      cc_Pong = Some (ac_LastPong Auth)\<rparr>"

section \<open>Receiving\<close>

text \<open>The answers that \<open>RecFeedMsg\<close> keeps; \<open>now\<close> is the clock when it looks at a pong.\<close>

definition keep_registered :: "AgentRegistered \<Rightarrow> AuthenticatedControl \<Rightarrow> AuthenticatedControl" where
  "keep_registered reg Auth = Auth\<lparr>ac_Registered := reg\<rparr>"

definition keep_pong :: "Pong \<Rightarrow> u64 \<Rightarrow> AuthenticatedControl \<Rightarrow> AuthenticatedControl" where
  "keep_pong pong now Auth =
     (let Auth' = Auth\<lparr>ac_CurrentPing := Some (ucast (pong_RequestNow pong - now)),
                       ac_LastPong := pong\<rparr> in
      case pong_SessionExpireAt pong of
        None \<Rightarrow> Auth'
      | Some t \<Rightarrow> Auth'\<lparr>ac_Registered := (ac_Registered Auth')\<lparr>reg_ExpiresAt := t\<rparr>\<rparr>)"

definition keep_response :: "ControlResponse option ControlRpcMessage \<Rightarrow> unit ac_go" where
  "keep_response response =
     (case rpc_Content response of
        None \<Rightarrow> ret ()
      | Some content \<Rightarrow>
          (case cres_AgentRegistered content of
             Some reg \<Rightarrow> update_auth (keep_registered reg)
           | None \<Rightarrow>
               (case cres_Pong content of
                  Some pong \<Rightarrow>
                    go_bind (on_world time_Now) (\<lambda>now. update_auth (keep_pong pong now))
                | None \<Rightarrow> ret ())))"

definition RecFeedMsg :: "ControlFeed ac_go" where
  "RecFeedMsg =
     go_bind (update_auth (ac_Buff_update (\<lambda>b. b @ replicate 1024 0))) (\<lambda>_.
     go_bind get_state (\<lambda>(Auth, _).
     go_bind (on_world (UDP_Read (cc_Udp (ac_Conn Auth)) (length (ac_Buff Auth)))) (\<lambda>(data, remote).
     go_bind (update_auth (ac_Buff_update (overwrite data))) (\<lambda>_.
       if AddrPort_Compare remote (cc_ControlAddr (ac_Conn Auth)) \<noteq> 0
       then throw (InvalidRemote (cc_ControlAddr (ac_Conn Auth)) remote)
       else
         go_bind (from_Reader (ControlFeed_ReadFrom zero_ControlFeed)
             (drop (length data) (overwrite data (ac_Buff Auth)))) (\<lambda>feed.
         go_bind (case cf_Response feed of None \<Rightarrow> ret () | Some response \<Rightarrow> keep_response response) (\<lambda>_.
           ret feed))))))"

section \<open>Registering again\<close>

definition renew_control :: "AuthenticatedControl \<Rightarrow> AuthenticatedControl \<Rightarrow> AuthenticatedControl" where
  "renew_control conn Auth =
     Auth\<lparr>ac_Buff := ac_Buff conn, ac_Conn := ac_Conn conn, ac_CurrentPing := ac_CurrentPing conn,
          ac_LastPong := ac_LastPong conn, ac_Registered := ac_Registered conn\<rparr>"

definition AuthenticatedControl_Authenticate :: "unit ac_go" where
  "AuthenticatedControl_Authenticate =
     go_bind get_state (\<lambda>(Auth, _).
     go_bind (on_world (ConnectedControl_Authenticate (IntoRequiresAuth Auth) (ac_ApiClient Auth)))
       (\<lambda>conn. update_auth (renew_control conn)))"

section \<open>Properties\<close>

lemma FlowChanged_never [simp]: "\<not> FlowChanged Auth"
  by (simp add: FlowChanged_def)

lemma IsIspired_iff:
  "IsIspired Auth \<longleftrightarrow> ac_ForceEpired Auth \<or> pong_SessionExpireAt (ac_LastPong Auth) = None"
  by (simp add: IsIspired_def)

text \<open>What a request puts on the wire, and what it leaves in the state.\<close>

lemma Send_eq:
  fixes RequestID :: u64
  assumes "abs_request content = Some q" and "writable_request q"
  defines "bs \<equiv> be_bytes RequestID @ enc_request q"
  shows "AuthenticatedControl_Send (request_message RequestID content) (a, w) =
    (case UDP_Write (cc_Udp (ac_Conn a)) bs (cc_ControlAddr (ac_Conn a)) w of
       Ok n w' \<Rightarrow> Ok () (a\<lparr>ac_Buff := bs\<rparr>, w')
     | Err e w' \<Rightarrow> Err e (a\<lparr>ac_Buff := bs\<rparr>, w')
     | Panic p \<Rightarrow> Panic p)"
proof -
  have "req_ok writable_request (rpc_Content (request_message RequestID content))"
    using assms(1,2) by (simp add: req_ok_def request_message_def)
  from writes_emits [OF req.rpc_writes [OF this]]
  have "(to_Buffer (ControlRpcMessage_WriteTo ControlRequest_WriteTo
      (request_message RequestID content)) :: bytes ac_go) = ret bs"
    using assms(1) by (intro to_Buffer_emits) (simp add: enc_rpc_def req_enc_def request_message_def bs_def)
  then show ?thesis
    by (cases "UDP_Write (cc_Udp (ac_Conn a)) bs (cc_ControlAddr (ac_Conn a)) w")
       (simp_all add: AuthenticatedControl_Send_def go_bind_def update_auth_def on_world_def zoom_def)
qed

lemma SendKeepAlive_eq:
  "SendKeepAlive RequestID (a, w) = AuthenticatedControl_Send (request_message RequestID
     (rep_request (RAgentKeepAlive (reg_ID (ac_Registered a))))) (a, w)"
  and SendSetupUDPChannel_eq:
  "SendSetupUDPChannel RequestID (a, w) = AuthenticatedControl_Send (request_message RequestID
     (rep_request (RSetupUdpChannel (reg_ID (ac_Registered a))))) (a, w)"
  and SendPing_eq:
  "SendPing RequestID Now (a, w) = AuthenticatedControl_Send (request_message RequestID
     (rep_request (RPing \<lparr>ping_Now = Now, ping_CurrentPing = ac_CurrentPing a,
        ping_SessionID = Some (reg_ID (ac_Registered a))\<rparr>))) (a, w)"
  by (simp_all add: SendKeepAlive_def SendSetupUDPChannel_def SendPing_def go_bind_def)

text \<open>A datagram from elsewhere is refused; only the buffer changes.\<close>

lemma RecFeedMsg_other_source:
  assumes "cc_Udp (ac_Conn a) = Some c" and "w_recv w = Datagram data src # r"
    and "length data \<le> length (ac_Buff a) + 1024" and "src \<noteq> cc_ControlAddr (ac_Conn a)"
  shows "RecFeedMsg (a, w) = Err (InvalidRemote (cc_ControlAddr (ac_Conn a)) src)
     (a\<lparr>ac_Buff := overwrite data (ac_Buff a @ replicate 1024 0)\<rparr>, w\<lparr>w_recv := r\<rparr>)"
  using assms
  by (cases a) (simp add: RecFeedMsg_def go_bind_def update_auth_def on_world_def zoom_def UDP_Read_def)

text \<open>
  The function decodes what follows the datagram in the buffer. A datagram that covers the old
  contents of the buffer leaves only zeros, and is always an error.
\<close>

lemma RecFeedMsg_eq:
  assumes "cc_Udp (ac_Conn a) = Some c"
    and "w_recv w = Datagram data (cc_ControlAddr (ac_Conn a)) # r"
    and "length data \<le> length (ac_Buff a) + 1024"
  shows "RecFeedMsg (a, w) =
    go_bind (from_Reader (ControlFeed_ReadFrom zero_ControlFeed)
        (drop (length data) (ac_Buff a @ replicate 1024 0))) (\<lambda>feed.
      go_bind (case cf_Response feed of None \<Rightarrow> ret () | Some response \<Rightarrow> keep_response response) (\<lambda>_.
        ret feed))
      (a\<lparr>ac_Buff := overwrite data (ac_Buff a @ replicate 1024 0)\<rparr>, w\<lparr>w_recv := r\<rparr>)"
  using assms
  by (cases a) (simp add: RecFeedMsg_def go_bind_Ok update_auth_def on_world_def zoom_def UDP_Read_def)

lemma RecFeedMsg_zeros:
  assumes "cc_Udp (ac_Conn a) = Some c"
    and "w_recv w = Datagram data (cc_ControlAddr (ac_Conn a)) # r"
    and "length (ac_Buff a) \<le> length data" and "length data \<le> length (ac_Buff a) + 1020"
  shows "RecFeedMsg (a, w) = Err (Errorf ''invalid ControlFeed id'')
     (a\<lparr>ac_Buff := overwrite data (ac_Buff a @ replicate 1024 0)\<rparr>, w\<lparr>w_recv := r\<rparr>)"
proof -
  define n where "n = 1020 - (length data - length (ac_Buff a))"
  have "1024 - (length data - length (ac_Buff a)) = 4 + n" using assms(3,4) by (simp add: n_def)
  moreover have "drop (length data) (ac_Buff a @ replicate 1024 0) =
      replicate (1024 - (length data - length (ac_Buff a))) (0 :: u8)"
    using assms(3) by simp
  moreover have "replicate 4 (0 :: u8) = be_bytes (0 :: u32)"
    by (simp add: be_bytes_0_32 eval_nat_numeral)
  ultimately have "drop (length data) (ac_Buff a @ replicate 1024 0) =
      be_bytes (0 :: u32) @ replicate n 0"
    by (simp only: replicate_add)
  then show ?thesis
    using assms
    by (simp add: RecFeedMsg_eq from_Reader_def go_bind_def ControlFeed_ReadFrom_id
        del: drop_append)
qed

lemma preserves_update_auth: "preserves (\<lambda>s. P (snd s)) (update_auth f)"
  unfolding update_auth_def by (rule preserves_modify) auto

lemma preserves_Send:
  "(\<And>c d a. preserves P (UDP_Write c d a)) \<Longrightarrow> preserves (\<lambda>s. P (snd s)) (AuthenticatedControl_Send r)"
  unfolding AuthenticatedControl_Send_def
  by (intro preserves_intro preserves_update_auth preserves_on_world)

lemma preserves_requests:
  assumes "\<And>c d a. preserves P (UDP_Write c d a)"
  shows "preserves (\<lambda>s. P (snd s)) (SendPing i now)"
    and "preserves (\<lambda>s. P (snd s)) (SendKeepAlive i)"
    and "preserves (\<lambda>s. P (snd s)) (SendSetupUDPChannel i)"
  unfolding SendPing_def SendKeepAlive_def SendSetupUDPChannel_def
  by (intro preserves_intro preserves_Send assms)+

section \<open>Invariants of the record\<close>

text \<open>
  What the operations of the control channel promise to a property of its record: they change it
  by these updates only. A pong that is kept has an expiry, since every decoded one does.
\<close>

locale control_invariant =
  fixes Q :: "AuthenticatedControl \<Rightarrow> bool"
  assumes Q_Buff: "Q a \<Longrightarrow> Q (ac_Buff_update f a)"
    and Q_registered: "Q a \<Longrightarrow> Q (keep_registered reg a)"
    and Q_pong: "Q a \<Longrightarrow> pong_SessionExpireAt pong \<noteq> None \<Longrightarrow> Q (keep_pong pong now a)"
    and Q_renew: "Q a \<Longrightarrow> auth_result S (ac_ApiClient a) (IntoRequiresAuth a) conn \<Longrightarrow>
      Q (renew_control conn a)"
    and Q_force: "Q a \<Longrightarrow> Q (ac_ForceEpired_update (\<lambda>_. True) a)"
begin

lemma update_auth: "(\<And>a. Q a \<Longrightarrow> Q (f a)) \<Longrightarrow> preserves (\<lambda>s. Q (fst s)) (update_auth f)"
  unfolding update_auth_def by (rule preserves_modify) auto

lemma Send: "preserves (\<lambda>s. Q (fst s)) (AuthenticatedControl_Send r)"
  unfolding AuthenticatedControl_Send_def
  by (intro preserves_intro update_auth preserves_fst_on_world Q_Buff)

lemma requests:
  "preserves (\<lambda>s. Q (fst s)) (SendPing i t)" "preserves (\<lambda>s. Q (fst s)) (SendKeepAlive i)"
  "preserves (\<lambda>s. Q (fst s)) (SendSetupUDPChannel i)"
  unfolding SendPing_def SendKeepAlive_def SendSetupUDPChannel_def by (intro preserves_intro Send)+

lemma RecFeedMsg: "preserves (\<lambda>s. Q (fst s)) RecFeedMsg"
proof -
  have keep: "preserves (\<lambda>s. Q (fst s)) (keep_response response)"
    if "ControlFeed_ReadFrom zero_ControlFeed bs = Ok feed rest" "cf_Response feed = Some response"
    for bs feed rest response
  proof -
    have "preserves (\<lambda>s. Q (fst s)) (case cres_Pong content of None \<Rightarrow> ret ()
        | Some pong \<Rightarrow> go_bind (on_world time_Now) (\<lambda>now. update_auth (keep_pong pong now)))"
      if "rpc_Content response = Some content" for content
    proof (cases "cres_Pong content")
      case None
      then show ?thesis by (simp only: option.case) (rule preserves_ret)
    next
      case (Some pong)
      then have "pong_SessionExpireAt pong \<noteq> None"
        using ControlFeed_ReadFrom_pong_expiry \<open>ControlFeed_ReadFrom zero_ControlFeed bs = Ok feed rest\<close>
          \<open>cf_Response feed = Some response\<close> that by blast
      with Some show ?thesis
        by (simp only: option.case) (intro preserves_intro preserves_fst_on_world update_auth Q_pong)
    qed
    then show ?thesis
      unfolding keep_response_def
      by - (rule preserves_option_eq [OF preserves_ret], rule preserves_option, assumption,
            rule update_auth, erule Q_registered)
  qed
  have parse: "yields (\<lambda>s. Q (fst s)) (\<lambda>_. True)
      (go_bind (from_Reader (ControlFeed_ReadFrom zero_ControlFeed) bs) (\<lambda>feed.
        go_bind (case cf_Response feed of None \<Rightarrow> ret () | Some response \<Rightarrow> keep_response response) (\<lambda>_.
          ret feed)))" for bs
  proof (rule yields_bind [OF yields_from_Reader])
    fix feed assume "\<exists>rest. ControlFeed_ReadFrom zero_ControlFeed bs = Ok feed rest"
    then obtain rest where f: "ControlFeed_ReadFrom zero_ControlFeed bs = Ok feed rest" ..
    have "preserves (\<lambda>s. Q (fst s))
        (case cf_Response feed of None \<Rightarrow> ret () | Some response \<Rightarrow> keep_response response)"
      by (rule preserves_option_eq [OF preserves_ret]) (rule keep [OF f])
    then show "yields (\<lambda>s. Q (fst s)) (\<lambda>_. True)
       (go_bind (case cf_Response feed of None \<Rightarrow> ret () | Some response \<Rightarrow> keep_response response)
         (\<lambda>_. ret feed))"
      by (rule yields_bind_preserves) (rule yields_ret, rule TrueI)
  qed
  show ?thesis
    unfolding RecFeedMsg_def
    by (rule yields_preserves [OF parse] preserves_get_state preserves_throw preserves_fst_on_world
          update_auth preserves_if preserves_prod preserves_bind | erule Q_Buff)+
qed

lemma Authenticate: "preserves (\<lambda>s. Q (fst s)) AuthenticatedControl_Authenticate"
proof (rule preservesI)
  fix s :: "AuthenticatedControl \<times> world" assume q: "Q (fst s)"
  obtain a w where s: "s = (a, w)" by (cases s)
  show "outcome_all (\<lambda>s. Q (fst s)) (AuthenticatedControl_Authenticate s)"
  proof (cases "ConnectedControl_Authenticate (IntoRequiresAuth a) (ac_ApiClient a) w")
    case (Ok conn w')
    then have "auth_result UNIV (ac_ApiClient a) (IntoRequiresAuth a) conn"
      using yieldsD [OF yields_Authenticate [where S = UNIV]] by (fastforce simp: recv_in_def)
    with Ok q show ?thesis
      by (auto simp: s AuthenticatedControl_Authenticate_def go_bind_def on_world_def zoom_def
          update_auth_def intro: Q_renew)
  qed (use q in \<open>simp_all add: s AuthenticatedControl_Authenticate_def go_bind_def on_world_def
      zoom_def\<close>)
qed

lemma force: "preserves (\<lambda>s. Q (fst s)) (update_auth (ac_ForceEpired_update (\<lambda>_. True)))"
  by (rule update_auth) (rule Q_force)

end

definition expiry_known :: "AuthenticatedControl \<Rightarrow> bool" where
  "expiry_known a \<longleftrightarrow>
     pong_SessionExpireAt (ac_LastPong a) \<noteq> None \<and> cc_Pong (ac_Conn a) \<noteq> None"

definition connected_to :: "addrport \<Rightarrow> nat option \<Rightarrow> AuthenticatedControl \<Rightarrow> bool" where
  "connected_to addr conn a \<longleftrightarrow>
     cc_ControlAddr (ac_Conn a) = addr \<and> cc_Udp (ac_Conn a) = conn"

interpretation expiry: control_invariant expiry_known
  by unfold_locales
     (auto simp: expiry_known_def keep_registered_def keep_pong_def renew_control_def auth_result_def
       IntoRequiresAuth_def Let_def split: option.split)

interpretation forced: control_invariant ac_ForceEpired
  by unfold_locales
     (auto simp: keep_registered_def keep_pong_def renew_control_def Let_def split: option.split)

interpretation conn: control_invariant "connected_to addr conn"
  by unfold_locales
     (auto simp: connected_to_def keep_registered_def keep_pong_def renew_control_def auth_result_def
       IntoRequiresAuth_def Let_def split: option.split)

section \<open>Invariants of the world\<close>

context world_invariant
begin

lemma Setup_Setup: "preserves P (Setup_Setup addrs)"
  by (intro preserves_Setup_Setup P_clock P_read P_close P_write P_listen)

lemma ConnectedControl_Authenticate: "preserves P (ConnectedControl_Authenticate Control Api)"
  by (intro preserves_Authenticate P_clock P_read P_write P_register)

lemma AuthenticatedControl_Authenticate: "preserves (\<lambda>s. P (snd s)) AuthenticatedControl_Authenticate"
  unfolding AuthenticatedControl_Authenticate_def
  by (intro preserves_intro preserves_on_world preserves_update_auth ConnectedControl_Authenticate)

lemma keep_response: "preserves (\<lambda>s. P (snd s)) (keep_response response)"
  unfolding keep_response_def
  by (intro preserves_intro preserves_on_world preserves_update_auth P_clock)

lemma RecFeedMsg_world: "preserves (\<lambda>s. P (snd s)) RecFeedMsg"
  unfolding RecFeedMsg_def
  by (intro preserves_intro preserves_on_world preserves_update_auth P_read keep_response)

end

end
