(* ===== verification/Udp_Proto.thy ===== *)
theory Udp_Proto
  imports Control_Codec
begin

text \<open>
  \<open>src/tunnel/udp_proto.go\<close>: the footer that the agent appends to a tunnelled UDP payload, and its
  parser, which looks at the tail of a packet.
\<close>

section \<open>Data and operations\<close>

definition REDIRECT_FLOW_4_FOOTER_ID_OLD :: u64 where
  "REDIRECT_FLOW_4_FOOTER_ID_OLD = 0x5cb867cf788173b2"

definition REDIRECT_FLOW_4_FOOTER_ID :: u64 where
  "REDIRECT_FLOW_4_FOOTER_ID = 0x4448474f48414344"

definition REDIRECT_FLOW_6_FOOTER_ID :: u64 where
  "REDIRECT_FLOW_6_FOOTER_ID = 0x6668676f68616366"

definition UDP_CHANNEL_ESTABLISH_ID :: u64 where
  "UDP_CHANNEL_ESTABLISH_ID = 0xd01fe6830ddce781"

definition V4_LEN :: nat where
  "V4_LEN = 20"

definition V6_LEN :: nat where
  "V6_LEN = 48"

record UdpFlowBase =
  fb_Src :: addrport
  fb_Dst :: addrport

record UdpFlow6 =
  f6_Base :: UdpFlowBase
  f6_Flow :: u32

record UdpFlow =
  flow_V4 :: "UdpFlowBase option"
  flow_V6 :: "UdpFlow6 option"

definition UdpFlow_Len :: "UdpFlow \<Rightarrow> nat" where
  "UdpFlow_Len w = (if flow_V4 w = None then V6_LEN else V4_LEN)"

definition UdpFlow_Src :: "UdpFlow \<Rightarrow> (addrport, 's) go" where
  "UdpFlow_Src w =
     (case flow_V4 w of
        None \<Rightarrow> (case flow_V6 w of None \<Rightarrow> crash NilDeref | Some v \<Rightarrow> ret (fb_Src (f6_Base v)))
      | Some b \<Rightarrow> ret (fb_Src b))"

definition UdpFlow_Dst :: "UdpFlow \<Rightarrow> (addrport, 's) go" where
  "UdpFlow_Dst w =
     (case flow_V4 w of
        None \<Rightarrow> (case flow_V6 w of None \<Rightarrow> crash NilDeref | Some v \<Rightarrow> ret (fb_Dst (f6_Base v)))
      | Some b \<Rightarrow> ret (fb_Dst b))"

definition UdpFlowBase_WriteTo :: "UdpFlowBase \<Rightarrow> (unit, writer) go" where
  "UdpFlowBase_WriteTo conn =
     go_seq
       [WriteData (Addr_AsSlice (ap_Addr (fb_Src conn))),
        WriteData (Addr_AsSlice (ap_Addr (fb_Dst conn))),
        WriteU16 (ap_Port (fb_Src conn)), WriteU16 (ap_Port (fb_Dst conn))]"

definition UdpFlow_WriteTo :: "UdpFlow \<Rightarrow> (unit, writer) go" where
  "UdpFlow_WriteTo w =
     (case flow_V4 w of
        Some b \<Rightarrow> go_seq [UdpFlowBase_WriteTo b, WriteU64 REDIRECT_FLOW_4_FOOTER_ID_OLD]
      | None \<Rightarrow>
        (case flow_V6 w of
           None \<Rightarrow> crash NilDeref
         | Some v \<Rightarrow> go_seq
             [UdpFlowBase_WriteTo (f6_Base v), WriteU32 (f6_Flow v),
              WriteU64 REDIRECT_FLOW_6_FOOTER_ID]))"

text \<open>
  Each read of the parser opens a new reader at the start of the slice. The value of an operation
  on a fresh reader; the readers used never fail.
\<close>

definition value_of :: "('a::zero, reader) go \<Rightarrow> reader \<Rightarrow> 'a" where
  "value_of m r = (case m r of Ok v r' \<Rightarrow> v | _ \<Rightarrow> 0)"

definition FromTailUdpFlow :: "bytes \<Rightarrow> UdpFlow option \<times> u64 \<times> error option" where
  "FromTailUdpFlow slice0 =
     (if length slice0 < 8 then (None, 0, Some (Errorf ''not space to footer''))
      else
        let footer = be_decode (drop (length slice0 - 8) slice0) :: u64 in
        if footer = (REDIRECT_FLOW_4_FOOTER_ID OR REDIRECT_FLOW_4_FOOTER_ID_OLD) then
          (if length slice0 < V4_LEN then (None, 0, Some (Errorf ''v4 not have space''))
           else
             let slice = drop (length slice0 - V4_LEN) slice0;
                 srcIP = AddrFromSlice (fst (fst (ReadBuffN 4 slice)));
                 dstIP = AddrFromSlice (fst (fst (ReadBuffN 4 slice)));
                 src_port = value_of ReadU16 slice;
                 dst_port = value_of ReadU16 slice
             in (Some \<lparr>flow_V4 = Some \<lparr>fb_Src = AddrPort srcIP src_port,
                                        fb_Dst = AddrPort dstIP dst_port\<rparr>,
                       flow_V6 = None\<rparr>, 0, None))
        else if footer = REDIRECT_FLOW_6_FOOTER_ID then
          (if length slice0 < V6_LEN then (None, footer, Some (Errorf ''v6 not have space''))
           else
             let slice = drop (length slice0 - V6_LEN) slice0;
                 srcIP = AddrFromSlice (fst (fst (ReadBuffN 16 slice)));
                 dstIP = AddrFromSlice (fst (fst (ReadBuffN 16 slice)));
                 src_port = value_of ReadU16 slice;
                 dst_port = value_of ReadU16 slice;
                 flow = value_of ReadU32 slice
             in (Some \<lparr>flow_V4 = None,
                       flow_V6 = Some \<lparr>f6_Base = \<lparr>fb_Src = AddrPort srcIP src_port,
                                                   fb_Dst = AddrPort dstIP dst_port\<rparr>,
                                      f6_Flow = flow\<rparr>\<rparr>, 0, None))
        else (None, footer, None))"

section \<open>The footer on the wire\<close>

definition enc_FlowBase :: "UdpFlowBase \<Rightarrow> bytes" where
  "enc_FlowBase b =
     Addr_AsSlice (ap_Addr (fb_Src b)) @ Addr_AsSlice (ap_Addr (fb_Dst b)) @
     be_bytes (ap_Port (fb_Src b)) @ be_bytes (ap_Port (fb_Dst b))"

definition enc_Flow4 :: "UdpFlowBase \<Rightarrow> bytes" where
  "enc_Flow4 b = enc_FlowBase b @ be_bytes REDIRECT_FLOW_4_FOOTER_ID_OLD"

definition enc_Flow6 :: "UdpFlow6 \<Rightarrow> bytes" where
  "enc_Flow6 v = enc_FlowBase (f6_Base v) @ be_bytes (f6_Flow v) @ be_bytes REDIRECT_FLOW_6_FOOTER_ID"

definition flow_ok :: "UdpFlow \<Rightarrow> bool" where
  "flow_ok w \<longleftrightarrow>
     (case flow_V4 w of
        Some b \<Rightarrow> Addr_Is4 (ap_Addr (fb_Src b)) \<and> Addr_Is4 (ap_Addr (fb_Dst b))
      | None \<Rightarrow> (case flow_V6 w of
          None \<Rightarrow> False
        | Some v \<Rightarrow> Addr_Is6 (ap_Addr (fb_Src (f6_Base v))) \<and> Addr_Is6 (ap_Addr (fb_Dst (f6_Base v)))))"

definition enc_Flow :: "UdpFlow \<Rightarrow> bytes" where
  "enc_Flow w =
     (case flow_V4 w of
        Some b \<Rightarrow> enc_Flow4 b
      | None \<Rightarrow> (case flow_V6 w of None \<Rightarrow> [] | Some v \<Rightarrow> enc_Flow6 v))"

lemma length_AsSlice4: "Addr_Is4 a \<Longrightarrow> length (Addr_AsSlice a) = 4"
  and length_AsSlice6: "Addr_Is6 a \<Longrightarrow> length (Addr_AsSlice a) = 16"
  by (cases a; simp)+

lemma writes_FlowBase [writes_intro]: "writes (UdpFlowBase_WriteTo b) (enc_FlowBase b)"
  unfolding UdpFlowBase_WriteTo_def
  by (rule writes_cong, (rule writes_intro)+) (simp add: enc_FlowBase_def)

lemma writes_UdpFlow:
  assumes "flow_V4 w \<noteq> None \<or> flow_V6 w \<noteq> None"
  shows "writes (UdpFlow_WriteTo w) (enc_Flow w)"
proof -
  have "writes (go_seq [UdpFlowBase_WriteTo b, WriteU32 f, WriteU64 i])
      (enc_FlowBase b @ be_bytes f @ be_bytes i @ [])" for b f i
    by (intro writes_intro)
  moreover have "writes (go_seq [UdpFlowBase_WriteTo b, WriteU64 i]) (enc_FlowBase b @ be_bytes i)"
    for b i
    by (rule writes_two) (rule writes_intro)+
  ultimately show ?thesis
    using assms by (auto simp: UdpFlow_WriteTo_def enc_Flow_def enc_Flow4_def enc_Flow6_def
        split: option.splits)
qed

lemma length_enc_Flow: "flow_ok w \<Longrightarrow> length (enc_Flow w) = UdpFlow_Len w"
  by (auto simp: flow_ok_def enc_Flow_def enc_Flow4_def enc_Flow6_def enc_FlowBase_def UdpFlow_Len_def
      V4_LEN_def V6_LEN_def length_AsSlice4 length_AsSlice6 split: option.splits)

section \<open>The parser\<close>

lemma ReadBuffN_take: "n \<le> length s \<Longrightarrow> fst (fst (ReadBuffN n s)) = take n s"
  by (simp add: ReadBuffN_def ReadBuff_def read_elems_bytes)

lemma value_of_ReadU16: "2 \<le> length s \<Longrightarrow> value_of ReadU16 s = be_decode (take 2 s)"
  and value_of_ReadU32: "4 \<le> length s \<Longrightarrow> value_of ReadU32 s = be_decode (take 4 s)"
  by (simp_all add: value_of_def ReadU16_full ReadU32_full)

lemmas footer_ids =
  REDIRECT_FLOW_4_FOOTER_ID_OLD_def REDIRECT_FLOW_4_FOOTER_ID_def REDIRECT_FLOW_6_FOOTER_ID_def

text \<open>The footer is read from the last eight bytes.\<close>

lemma footer_of_tail: "be_decode (drop (length (p @ be_bytes f) - 8) (p @ be_bytes (f :: u64))) = f"
  by simp

text \<open>Only the last \<open>V6_LEN\<close> bytes matter.\<close>

lemma FromTailUdpFlow_tail:
  assumes "V6_LEN \<le> length t"
  shows "FromTailUdpFlow (p @ t) = FromTailUdpFlow t"
proof -
  have "drop (length (p @ t) - n) (p @ t) = drop (length t - n) t" if "n \<le> length t" for n
    using that by simp
  with assms show ?thesis
    by (simp add: FromTailUdpFlow_def V6_LEN_def V4_LEN_def Let_def)
qed

text \<open>What the parser makes of a packet with an IPv4 footer, and with an IPv6 one.\<close>

lemma FromTailUdpFlow_Flow4:
  "FromTailUdpFlow (p @ enc_Flow4 b) = (None, REDIRECT_FLOW_4_FOOTER_ID_OLD, None)"
proof -
  have "FromTailUdpFlow (q @ be_bytes REDIRECT_FLOW_4_FOOTER_ID_OLD)
      = (None, REDIRECT_FLOW_4_FOOTER_ID_OLD, None)" for q
    unfolding FromTailUdpFlow_def Let_def footer_of_tail by (simp add: footer_ids)
  from this [of "p @ enc_FlowBase b"] show ?thesis by (simp add: enc_Flow4_def)
qed

definition read_back6 :: "128 word \<Rightarrow> UdpFlow" where
  "read_back6 src =
     (let a = AddrPort (V6 src []) (ucast (drop_bit 112 src)) in
      \<lparr>flow_V4 = None,
       flow_V6 = Some \<lparr>f6_Base = \<lparr>fb_Src = a, fb_Dst = a\<rparr>, f6_Flow = ucast (drop_bit 96 src)\<rparr>\<rparr>)"

lemma FromTailUdpFlow_Flow6:
  assumes src: "ap_Addr (fb_Src (f6_Base v)) = V6 sw sz" and dst: "ap_Addr (fb_Dst (f6_Base v)) = V6 dw dz"
  shows "FromTailUdpFlow (p @ enc_Flow6 v) = (Some (read_back6 sw), 0, None)"
proof -
  define t where "t = be_bytes dw @ be_bytes (ap_Port (fb_Src (f6_Base v))) @
    be_bytes (ap_Port (fb_Dst (f6_Base v))) @ be_bytes (f6_Flow v)"
  have enc: "enc_Flow6 v = (be_bytes sw @ t) @ be_bytes REDIRECT_FLOW_6_FOOTER_ID"
    using src dst by (simp add: enc_Flow6_def enc_FlowBase_def t_def)
  have len: "length (enc_Flow6 v) = 48" and lt: "length t = 24"
    by (simp_all add: enc) (simp_all add: t_def)
  have head: "take n (enc_Flow6 v) = take n (be_bytes sw)" if "n \<le> 16" for n
    using that by (simp add: enc)
  have foot: "be_decode (drop (length (enc_Flow6 v) - 8) (enc_Flow6 v)) = REDIRECT_FLOW_6_FOOTER_ID"
    unfolding enc by (rule footer_of_tail)
  have ne: "REDIRECT_FLOW_6_FOOTER_ID \<noteq> (REDIRECT_FLOW_4_FOOTER_ID OR REDIRECT_FLOW_4_FOOTER_ID_OLD)"
    by (simp add: footer_ids)
  have "FromTailUdpFlow (enc_Flow6 v) = (Some (read_back6 sw), 0, None)"
    using foot ne
    by (simp add: FromTailUdpFlow_def Let_def len V6_LEN_def ReadBuffN_take value_of_ReadU16
        value_of_ReadU32 head be_decode_take2_128 be_decode_take4_128 read_back6_def
        AddrFromSlice_def)
  then show ?thesis by (simp add: FromTailUdpFlow_tail len V6_LEN_def)
qed

text \<open>Exactly the packets that are too short for their footer are errors.\<close>

lemma FromTailUdpFlow_error_iff:
  "snd (snd (FromTailUdpFlow s)) \<noteq> None \<longleftrightarrow>
     length s < 8 \<or>
     (let f = be_decode (drop (length s - 8) s) :: u64 in
        f = (REDIRECT_FLOW_4_FOOTER_ID OR REDIRECT_FLOW_4_FOOTER_ID_OLD) \<and> length s < V4_LEN \<or>
        f = REDIRECT_FLOW_6_FOOTER_ID \<and> length s < V6_LEN)"
  by (auto simp: FromTailUdpFlow_def Let_def footer_ids)

lemma FromTailUdpFlow_flow_iff:
  "fst (FromTailUdpFlow s) \<noteq> None \<longleftrightarrow>
     (let f = be_decode (drop (length s - 8) s) :: u64 in
        f = (REDIRECT_FLOW_4_FOOTER_ID OR REDIRECT_FLOW_4_FOOTER_ID_OLD) \<and> V4_LEN \<le> length s \<or>
        f = REDIRECT_FLOW_6_FOOTER_ID \<and> V6_LEN \<le> length s)"
  by (auto simp: FromTailUdpFlow_def Let_def footer_ids V4_LEN_def V6_LEN_def)

end
