(* ===== verification/Rwlock.thy ===== *)
theory Rwlock
  imports Go_IO
begin

text \<open>
  \<open>src/tunnel/rwlock/rwlock.go\<close>: a value behind a \<open>sync.RWMutex\<close>. \<open>Write\<close> and \<open>Read\<close> take the lock
  and return a copy of the value with the function that releases it: an assignment to the copy
  does not reach the value. First the operations for one goroutine, where a lock that is not free
  is never granted; then goroutines running programs of these operations.
\<close>

section \<open>Operations\<close>

record 'a rwlock =
  rw_Value :: 'a
  rw_readers :: nat
  rw_writer :: bool

definition new_rwlock :: "'a \<Rightarrow> 'a rwlock" where
  "new_rwlock v = \<lparr>rw_Value = v, rw_readers = 0, rw_writer = False\<rparr>"

definition Rwlock_Write :: "('a, 'a rwlock) go" where
  "Rwlock_Write rw =
     (if rw_writer rw \<or> 0 < rw_readers rw then Panic Blocked
      else Ok (rw_Value rw) (rw\<lparr>rw_writer := True\<rparr>))"

definition Rwlock_Read :: "('a, 'a rwlock) go" where
  "Rwlock_Read rw =
     (if rw_writer rw then Panic Blocked
      else Ok (rw_Value rw) (rw\<lparr>rw_readers := Suc (rw_readers rw)\<rparr>))"

text \<open>Releasing a lock that is not held is a fatal error of the run-time.\<close>

definition Rwlock_Unlock :: "(unit, 'a rwlock) go" where
  "Rwlock_Unlock rw =
     (if rw_writer rw then Ok () (rw\<lparr>rw_writer := False\<rparr>)
      else Panic (LogPanic ''sync: Unlock of unlocked RWMutex''))"

definition Rwlock_RUnlock :: "(unit, 'a rwlock) go" where
  "Rwlock_RUnlock rw =
     (if 0 < rw_readers rw then Ok () (rw\<lparr>rw_readers := rw_readers rw - 1\<rparr>)
      else Panic (LogPanic ''sync: RUnlock of unlocked RWMutex''))"

definition rw_free :: "'a rwlock \<Rightarrow> bool" where
  "rw_free rw \<longleftrightarrow> rw_readers rw = 0 \<and> \<not> rw_writer rw"

lemma rw_free_new [simp]: "rw_free (new_rwlock v)" "rw_Value (new_rwlock v) = v"
  by (simp_all add: rw_free_def new_rwlock_def)

section \<open>The interface to a lock\<close>

text \<open>
  What a client relies on: in a state where the lock is open for it, acquiring succeeds at once with
  the value, and releasing brings the lock back. A shared lock stays open while it is held.
  \<open>guarded\<close> is a section whose release is deferred: it runs on success and on error alike.
\<close>

definition guarded :: "('v, 's) go \<Rightarrow> (unit, 's) go \<Rightarrow> ('v \<Rightarrow> ('a, 's) go) \<Rightarrow> ('a, 's) go" where
  "guarded acq rel body =
     go_bind acq (\<lambda>v.
     go_bind (go_try (body v)) (\<lambda>res.
     go_bind rel (\<lambda>_.
       case res of Inl e \<Rightarrow> throw e | Inr x \<Rightarrow> ret x)))"

locale rw_lock =
  fixes acquire :: "('v, 'l) go"
    and release :: "(unit, 'l) go"
    and view :: "'l \<Rightarrow> 'v"
    and open_for :: "'l \<Rightarrow> bool"
    and held :: "'l \<Rightarrow> 'l"
  assumes acquire: "open_for l \<Longrightarrow> acquire l = Ok (view l) (held l)"
    and release: "open_for l \<Longrightarrow> release (held l) = Ok () l"
    and view_held: "view (held l) = view l"
begin

lemma guarded_Ok:
  assumes "open_for (get s)"
    and "body (view (get s)) (put (held (get s)) s) = Ok x t" and "get t = held (get s)"
  shows "guarded (zoom get put acquire) (zoom get put release) body s = Ok x (put (get s) t)"
  using assms by (simp add: guarded_def go_bind_def go_try_def zoom_def acquire release)

lemma guarded_Err:
  assumes "open_for (get s)"
    and "body (view (get s)) (put (held (get s)) s) = Err e t" and "get t = held (get s)"
  shows "guarded (zoom get put acquire) (zoom get put release) body s = Err e (put (get s) t)"
  using assms by (simp add: guarded_def go_bind_def go_try_def zoom_def acquire release)

lemma guarded_Panic:
  assumes "open_for (get s)"
    and "body (view (get s)) (put (held (get s)) s) = Panic p"
  shows "guarded (zoom get put acquire) (zoom get put release) body s = Panic p"
  using assms by (simp add: guarded_def go_bind_def go_try_def zoom_def acquire)

lemma acquire_release: "open_for l \<Longrightarrow> go_bind acquire (\<lambda>v. go_bind release (\<lambda>_. ret v)) l = Ok (view l) l"
  by (simp add: go_bind_def acquire release)

end

locale rw_shared_lock = rw_lock acquire release view open_for held
  for acquire :: "('v, 'l) go" and release :: "(unit, 'l) go" and view :: "'l \<Rightarrow> 'v"
    and open_for :: "'l \<Rightarrow> bool" and held :: "'l \<Rightarrow> 'l" +
  assumes open_held: "open_for l \<Longrightarrow> open_for (held l)"
begin

text \<open>Sections of a shared lock nest.\<close>

lemma acquire_twice: "open_for l \<Longrightarrow> go_bind acquire (\<lambda>_. acquire) l = Ok (view l) (held (held l))"
  by (simp add: go_bind_def acquire open_held view_held)

end

definition read_held :: "'a rwlock \<Rightarrow> 'a rwlock" where
  "read_held rw = rw\<lparr>rw_readers := Suc (rw_readers rw)\<rparr>"

definition write_held :: "'a rwlock \<Rightarrow> 'a rwlock" where
  "write_held rw = rw\<lparr>rw_writer := True\<rparr>"

interpretation rd: rw_shared_lock Rwlock_Read Rwlock_RUnlock rw_Value "\<lambda>rw. \<not> rw_writer rw" read_held
  by unfold_locales (simp_all add: Rwlock_Read_def Rwlock_RUnlock_def read_held_def)

interpretation wr: rw_lock Rwlock_Write Rwlock_Unlock rw_Value rw_free write_held
  by unfold_locales (simp_all add: Rwlock_Write_def Rwlock_Unlock_def write_held_def rw_free_def)

section \<open>Goroutines\<close>

text \<open>
  A goroutine is the list of lock operations it has yet to make. \<open>Lock\<close> first announces the
  writer, and an announced writer keeps new readers out (\<open>sync.RWMutex\<close>); it is granted when no
  goroutine holds the lock.
\<close>

datatype rw_call = CallRead | CallWrite | CallRUnlock | CallUnlock

record rw_sys =
  sys_progs :: "rw_call list list"
  sys_readers :: nat
  sys_writer :: bool
  sys_waiting :: "nat list"

inductive rw_step :: "rw_sys \<Rightarrow> rw_sys \<Rightarrow> bool" where
  do_read: "i < length (sys_progs s) \<Longrightarrow> sys_progs s ! i = CallRead # p \<Longrightarrow>
    \<not> sys_writer s \<Longrightarrow> sys_waiting s = [] \<Longrightarrow>
    rw_step s (s\<lparr>sys_progs := (sys_progs s)[i := p], sys_readers := Suc (sys_readers s)\<rparr>)"
| do_announce: "i < length (sys_progs s) \<Longrightarrow> sys_progs s ! i = CallWrite # p \<Longrightarrow>
    i \<notin> set (sys_waiting s) \<Longrightarrow>
    rw_step s (s\<lparr>sys_waiting := sys_waiting s @ [i]\<rparr>)"
| do_write: "sys_waiting s = i # ws \<Longrightarrow> i < length (sys_progs s) \<Longrightarrow>
    sys_progs s ! i = CallWrite # p \<Longrightarrow> \<not> sys_writer s \<Longrightarrow> sys_readers s = 0 \<Longrightarrow>
    rw_step s (s\<lparr>sys_progs := (sys_progs s)[i := p], sys_writer := True, sys_waiting := ws\<rparr>)"
| do_runlock: "i < length (sys_progs s) \<Longrightarrow> sys_progs s ! i = CallRUnlock # p \<Longrightarrow>
    0 < sys_readers s \<Longrightarrow>
    rw_step s (s\<lparr>sys_progs := (sys_progs s)[i := p], sys_readers := sys_readers s - 1\<rparr>)"
| do_unlock: "i < length (sys_progs s) \<Longrightarrow> sys_progs s ! i = CallUnlock # p \<Longrightarrow>
    sys_writer s \<Longrightarrow>
    rw_step s (s\<lparr>sys_progs := (sys_progs s)[i := p], sys_writer := False\<rparr>)"

definition rw_start :: "rw_call list list \<Rightarrow> rw_sys" where
  "rw_start ps = \<lparr>sys_progs = ps, sys_readers = 0, sys_writer = False, sys_waiting = []\<rparr>"

inductive rw_reach :: "rw_call list list \<Rightarrow> rw_sys \<Rightarrow> bool" for ps where
  start: "rw_reach ps (rw_start ps)"
| step: "rw_reach ps s \<Longrightarrow> rw_step s t \<Longrightarrow> rw_reach ps t"

definition rw_exclusive :: "rw_sys \<Rightarrow> bool" where
  "rw_exclusive s \<longleftrightarrow> (sys_writer s \<longrightarrow> sys_readers s = 0)"

lemma rw_step_exclusive: "rw_step s t \<Longrightarrow> rw_exclusive s \<Longrightarrow> rw_exclusive t"
  by (induction rule: rw_step.induct) (auto simp: rw_exclusive_def)

lemma rw_reach_exclusive: "rw_reach ps s \<Longrightarrow> rw_exclusive s"
proof (induction rule: rw_reach.induct)
  case start
  show ?case by (simp add: rw_exclusive_def rw_start_def)
next
  case (step s t)
  then show ?case by (blast intro: rw_step_exclusive)
qed

definition rw_stuck :: "rw_sys \<Rightarrow> bool" where
  "rw_stuck s \<longleftrightarrow> (\<exists>p \<in> set (sys_progs s). p \<noteq> []) \<and> (\<forall>t. \<not> rw_step s t)"

inductive_cases rw_stepE: "rw_step s t"

text \<open>
  The lock operations of \<open>UdpTunnel\<close>: \<open>SetUdpTunnel\<close> is one write section, the getters are one
  read section, and \<open>ReceiveFrom\<close>, for a datagram from another source than the tunnel, calls
  \<open>GetToken\<close> inside a read section of its own.
\<close>

definition write_section :: "rw_call list" where
  "write_section = [CallWrite, CallUnlock]"

definition read_section :: "rw_call list" where
  "read_section = [CallRead, CallRUnlock]"

definition nested_read_section :: "rw_call list" where
  "nested_read_section = [CallRead, CallRead, CallRUnlock, CallRUnlock]"

lemma nested_read_stuck:
  "rw_stuck \<lparr>sys_progs = [tl nested_read_section, write_section], sys_readers = 1,
     sys_writer = False, sys_waiting = [1]\<rparr>"
proof -
  let ?s = "\<lparr>sys_progs = [tl nested_read_section, write_section], sys_readers = 1,
     sys_writer = False, sys_waiting = [1]\<rparr>"
  have "\<not> rw_step ?s t" for t
  proof
    assume "rw_step ?s t"
    then show False
      by (cases rule: rw_step.cases)
         (auto simp: nested_read_section_def write_section_def less_Suc_eq)
  qed
  then show ?thesis by (auto simp: rw_stuck_def write_section_def)
qed

lemma nested_read_reach:
  "rw_reach [nested_read_section, write_section]
    \<lparr>sys_progs = [tl nested_read_section, write_section], sys_readers = 1,
     sys_writer = False, sys_waiting = [1]\<rparr>"
proof -
  let ?ps = "[nested_read_section, write_section]"
  let ?s1 = "\<lparr>sys_progs = [tl nested_read_section, write_section], sys_readers = 1,
     sys_writer = False, sys_waiting = []\<rparr>"
  have "rw_step (rw_start ?ps) ?s1"
    using rw_step.do_read [of 0 "rw_start ?ps" "tl nested_read_section"]
    by (simp add: rw_start_def nested_read_section_def)
  moreover have "rw_step ?s1 (?s1\<lparr>sys_waiting := [1]\<rparr>)"
    using rw_step.do_announce [of 1 ?s1 "[CallUnlock]"] by (simp add: write_section_def)
  ultimately have "rw_reach ?ps (?s1\<lparr>sys_waiting := [1]\<rparr>)"
    by (blast intro: rw_reach.intros)
  then show ?thesis by simp
qed

section \<open>Sections that do not nest never deadlock\<close>

fun flat :: "rw_call list \<Rightarrow> bool" where
  "flat [] = True"
| "flat (CallRead # CallRUnlock # p) = flat p"
| "flat (CallWrite # CallUnlock # p) = flat p"
| "flat _ = False"

fun_cases flat_readE: "flat (CallRead # p)"
fun_cases flat_writeE: "flat (CallWrite # p)"

definition starts :: "rw_call \<Rightarrow> rw_call list \<Rightarrow> bool" where
  "starts c p \<longleftrightarrow> (\<exists>q. p = c # q)"

lemma starts_simps [simp]: "\<not> starts c []" "starts c (d # p) \<longleftrightarrow> c = d"
  by (auto simp: starts_def)

definition in_section :: "rw_call list \<Rightarrow> bool" where
  "in_section p \<longleftrightarrow> flat p \<or> (\<exists>q. (p = CallRUnlock # q \<or> p = CallUnlock # q) \<and> flat q)"

definition rw_flat_inv :: "rw_sys \<Rightarrow> bool" where
  "rw_flat_inv s \<longleftrightarrow>
     (\<forall>p \<in> set (sys_progs s). in_section p) \<and>
     sys_readers s = length (filter (starts CallRUnlock) (sys_progs s)) \<and>
     length (filter (starts CallUnlock) (sys_progs s)) = (if sys_writer s then 1 else 0) \<and>
     distinct (sys_waiting s) \<and>
     (\<forall>i \<in> set (sys_waiting s). i < length (sys_progs s) \<and> starts CallWrite (sys_progs s ! i))"

lemma length_filter_update:
  "i < length xs \<Longrightarrow>
   length (filter P (xs[i := y])) + (if P (xs ! i) then 1 else 0)
     = length (filter P xs) + (if P y then 1 else 0)"
proof (induction xs arbitrary: i)
  case Nil
  then show ?case by simp
next
  case (Cons x xs)
  then show ?case by (cases i) force+
qed

lemma in_section_update:
  "\<forall>p \<in> set xs. in_section p \<Longrightarrow> in_section y \<Longrightarrow> \<forall>p \<in> set (xs[i := y]). in_section p"
  by (metis insertE set_update_subset_insert subsetD)

lemma in_section_readD: "in_section (CallRead # p) \<Longrightarrow> \<exists>q. p = CallRUnlock # q \<and> flat q"
  by (auto simp: in_section_def elim: flat_readE)

lemma in_section_writeD: "in_section (CallWrite # p) \<Longrightarrow> \<exists>q. p = CallUnlock # q \<and> flat q"
  by (auto simp: in_section_def elim: flat_writeE)

lemma in_section_unlockD:
  "in_section (CallRUnlock # p) \<Longrightarrow> flat p" "in_section (CallUnlock # p) \<Longrightarrow> flat p"
  by (auto simp: in_section_def)

lemma flat_starts: "flat p \<Longrightarrow> \<not> starts CallRUnlock p \<and> \<not> starts CallUnlock p"
  by (auto simp: starts_def)

text \<open>What a step that removes the first call \<open>d\<close> of goroutine \<open>i\<close> has to keep.\<close>

lemma rw_flat_inv_update:
  assumes inv: "rw_flat_inv s" and i: "i < length (sys_progs s)" "sys_progs s ! i = d # q"
    and q: "in_section q" and progs: "sys_progs t = (sys_progs s)[i := q]"
    and readers: "sys_readers t + (if d = CallRUnlock then 1 else 0)
      = sys_readers s + (if starts CallRUnlock q then 1 else 0)"
    and writer: "(if sys_writer t then 1 else 0) + (if d = CallUnlock then 1 else 0)
      = (if sys_writer s then 1 else 0) + (if starts CallUnlock q then 1 else (0 :: nat))"
    and waiting: "set (sys_waiting t) \<subseteq> set (sys_waiting s) - {i}" "distinct (sys_waiting t)"
  shows "rw_flat_inv t"
proof -
  have count: "length (filter (starts c) (sys_progs t)) + (if d = c then 1 else 0)
      = length (filter (starts c) (sys_progs s)) + (if starts c q then 1 else 0)" for c
    using length_filter_update [of i "sys_progs s" "starts c" q] i by (simp add: progs eq_commute)
  have "\<forall>p \<in> set (sys_progs t). in_section p"
    unfolding progs by (rule in_section_update) (use inv q in \<open>simp_all add: rw_flat_inv_def\<close>)
  moreover have "sys_readers t = length (filter (starts CallRUnlock) (sys_progs t))"
    using inv readers count [of CallRUnlock] by (simp add: rw_flat_inv_def)
  moreover have "length (filter (starts CallUnlock) (sys_progs t)) = (if sys_writer t then 1 else 0)"
    using inv writer count [of CallUnlock] by (simp add: rw_flat_inv_def)
  moreover have "k < length (sys_progs t) \<and> starts CallWrite (sys_progs t ! k)"
    if "k \<in> set (sys_waiting t)" for k
  proof -
    have "k \<in> set (sys_waiting s)" "k \<noteq> i" using that waiting(1) by auto
    then show ?thesis using inv by (auto simp: progs rw_flat_inv_def)
  qed
  ultimately show ?thesis using waiting(2) by (simp add: rw_flat_inv_def)
qed

lemma rw_flat_inv_prog: "rw_flat_inv s \<Longrightarrow> i < length (sys_progs s) \<Longrightarrow> in_section (sys_progs s ! i)"
  by (simp add: rw_flat_inv_def)

lemma rw_flat_inv_waiting:
  "rw_flat_inv s \<Longrightarrow> i \<in> set (sys_waiting s) \<Longrightarrow> starts CallWrite (sys_progs s ! i)"
  by (simp add: rw_flat_inv_def)

lemma rw_flat_inv_step: "rw_step s t \<Longrightarrow> rw_flat_inv s \<Longrightarrow> rw_flat_inv t"
proof (induction rule: rw_step.induct)
  case (do_read i s p)
  then obtain q where "p = CallRUnlock # q" "flat q"
    using in_section_readD rw_flat_inv_prog by metis
  then have "in_section p" "starts CallRUnlock p" "\<not> starts CallUnlock p"
    by (auto simp: in_section_def)
  moreover have "distinct (sys_waiting s)" using do_read by (simp add: rw_flat_inv_def)
  ultimately show ?case
    by (intro rw_flat_inv_update [OF do_read(5,1,2)])
       (simp_all add: do_read(4))
next
  case (do_announce i s p)
  then show ?case by (auto simp: rw_flat_inv_def)
next
  case (do_write s i ws p)
  then obtain q where "p = CallUnlock # q" "flat q"
    using in_section_writeD rw_flat_inv_prog by metis
  then have "in_section p" "starts CallUnlock p" "\<not> starts CallRUnlock p"
    by (auto simp: in_section_def)
  moreover have "distinct (i # ws)" using do_write by (simp add: rw_flat_inv_def)
  ultimately show ?case
    by (intro rw_flat_inv_update [OF do_write(6,2,3)])
       (use do_write(4,5) in \<open>auto simp: do_write(1)\<close>)
next
  case (do_runlock i s p)
  then have "flat p" using in_section_unlockD rw_flat_inv_prog by metis
  moreover have "i \<notin> set (sys_waiting s)" using do_runlock rw_flat_inv_waiting by fastforce
  moreover have "distinct (sys_waiting s)" using do_runlock by (simp add: rw_flat_inv_def)
  ultimately show ?case
    by (intro rw_flat_inv_update [OF do_runlock(4,1,2)])
       (use do_runlock(3) flat_starts [of p] in \<open>simp_all add: in_section_def\<close>)
next
  case (do_unlock i s p)
  then have "flat p" using in_section_unlockD rw_flat_inv_prog by metis
  moreover have "i \<notin> set (sys_waiting s)" using do_unlock rw_flat_inv_waiting by fastforce
  moreover have "distinct (sys_waiting s)" using do_unlock by (simp add: rw_flat_inv_def)
  ultimately show ?case
    by (intro rw_flat_inv_update [OF do_unlock(4,1,2)])
       (use do_unlock(3) flat_starts [of p] in \<open>simp_all add: in_section_def\<close>)
qed

lemma rw_flat_inv_start:
  assumes "\<forall>p \<in> set ps. flat p"
  shows "rw_flat_inv (rw_start ps)"
proof -
  have "filter (starts CallRUnlock) ps = []" "filter (starts CallUnlock) ps = []"
    using assms flat_starts by (auto simp: filter_empty_conv)
  with assms show ?thesis by (auto simp: rw_flat_inv_def rw_start_def in_section_def)
qed

lemma rw_flat_inv_reach:
  assumes "rw_reach ps s" and "\<forall>p \<in> set ps. flat p"
  shows "rw_flat_inv s"
  using assms(1)
proof (induction rule: rw_reach.induct)
  case start
  show ?case using assms(2) by (rule rw_flat_inv_start)
next
  case (step s t)
  then show ?case by (blast intro: rw_flat_inv_step)
qed

lemma rw_flat_unlock_progress:
  assumes inv: "rw_flat_inv s" and i: "i < length (sys_progs s)"
    and c: "starts CallRUnlock (sys_progs s ! i) \<or> starts CallUnlock (sys_progs s ! i)"
  shows "\<exists>t. rw_step s t"
proof -
  from c show ?thesis
  proof
    assume r: "starts CallRUnlock (sys_progs s ! i)"
    then have "sys_progs s ! i \<in> set (filter (starts CallRUnlock) (sys_progs s))" using i by simp
    then have "filter (starts CallRUnlock) (sys_progs s) \<noteq> []" by force
    then have "0 < sys_readers s" using inv by (simp add: rw_flat_inv_def)
    with r i show ?thesis by (auto simp: starts_def intro: rw_step.do_runlock)
  next
    assume u: "starts CallUnlock (sys_progs s ! i)"
    then have "sys_progs s ! i \<in> set (filter (starts CallUnlock) (sys_progs s))" using i by simp
    then have "filter (starts CallUnlock) (sys_progs s) \<noteq> []" by force
    then have "sys_writer s" using inv by (auto simp: rw_flat_inv_def split: if_splits)
    with u i show ?thesis by (auto simp: starts_def intro: rw_step.do_unlock)
  qed
qed

lemma rw_flat_not_stuck:
  assumes inv: "rw_flat_inv s"
  shows "\<not> rw_stuck s"
proof
  assume stuck: "rw_stuck s"
  then obtain j where j: "j < length (sys_progs s)" "sys_progs s ! j \<noteq> []"
    by (auto simp: rw_stuck_def in_set_conv_nth)
  have none: "\<not> starts CallRUnlock (sys_progs s ! i) \<and> \<not> starts CallUnlock (sys_progs s ! i)"
    if "i < length (sys_progs s)" for i
    using rw_flat_unlock_progress [OF inv that] stuck by (auto simp: rw_stuck_def)
  have "filter (starts CallRUnlock) (sys_progs s) = []" "filter (starts CallUnlock) (sys_progs s) = []"
    using none by (auto simp: filter_empty_conv in_set_conv_nth)
  with inv have free: "sys_readers s = 0" "\<not> sys_writer s"
    by (auto simp: rw_flat_inv_def split: if_splits)
  have "\<exists>t. rw_step s t"
  proof (cases "sys_waiting s")
    case (Cons i ws)
    with inv have "i < length (sys_progs s)" "starts CallWrite (sys_progs s ! i)"
      by (auto simp: rw_flat_inv_def)
    with Cons free show ?thesis by (auto simp: starts_def intro: rw_step.do_write)
  next
    case Nil
    obtain c p where cp: "sys_progs s ! j = c # p" using j(2) by (cases "sys_progs s ! j") auto
    with none [OF j(1)] have "c = CallRead \<or> c = CallWrite" by (cases c) auto
    then show ?thesis
      using rw_step.do_read [of j s p] rw_step.do_announce [of j s p] cp j(1) Nil free by auto
  qed
  with stuck show False by (auto simp: rw_stuck_def)
qed

end
