(* ===== verification/Udp_Tunnel.thy ===== *)
theory Udp_Tunnel
  imports World Udp_Proto Rwlock
begin

text \<open>
  \<open>src/tunnel/udp_tunnel.go\<close>: the UDP channel of the agent: its two sockets, the channel details
  behind a lock, the times of the last confirmation and of the last token sent, and the operations
  on them. Texts of errors are kept without the values formatted into them.
\<close>

section \<open>State\<close>

record ChannelDetails =
  cd_Udp :: "UdpChannelDetails option"
  cd_AddrHistory :: "addrport list"

record UdpTunnel =
  ut_Udp4 :: "nat option"
  ut_Udp6 :: "nat option"
  ut_Details :: "ChannelDetails rwlock"
  ut_LastConfirm :: u32
  ut_LastSend :: u32

type_synonym 'a ut_go = "('a, UdpTunnel \<times> world) go"

definition on_details :: "('a, ChannelDetails rwlock) go \<Rightarrow> 'a ut_go" where
  "on_details = zoom (\<lambda>(u, w). ut_Details u) (\<lambda>d (u, w). (u\<lparr>ut_Details := d\<rparr>, w))"

text \<open>\<open>lock, unlock := udp.Details.Read(); defer unlock()\<close> around the rest of a function.\<close>

definition with_read :: "(ChannelDetails \<Rightarrow> 'a ut_go) \<Rightarrow> 'a ut_go" where
  "with_read body =
     guarded (on_details Rwlock_Read) (on_details Rwlock_RUnlock) body"

section \<open>Operations\<close>

definition new_ChannelDetails :: ChannelDetails where
  "new_ChannelDetails = \<lparr>cd_Udp = None, cd_AddrHistory = []\<rparr>"

definition AssignUdpTunnel :: "unit ut_go" where
  "AssignUdpTunnel =
     go_bind (on_world (ListenUDP ''udp4'')) (\<lambda>udp4.
     go_bind (modify (\<lambda>(u, w). (u\<lparr>ut_Udp4 := Some udp4\<rparr>, w))) (\<lambda>_.
     go_bind (go_try (on_world (ListenUDP ''udp6''))) (\<lambda>r.
       modify (\<lambda>(u, w).
         (u\<lparr>ut_Udp6 := (case r of Inl _ \<Rightarrow> None | Inr udp6 \<Rightarrow> Some udp6),
            ut_Details := new_rwlock new_ChannelDetails,
            ut_LastConfirm := 0, ut_LastSend := 0\<rparr>, w)))))"

definition IsSetup :: "bool ut_go" where
  "IsSetup = with_read (\<lambda>data. ret (cd_Udp data \<noteq> None))"

definition InvalidateSession :: "unit ut_go" where
  "InvalidateSession = modify (\<lambda>(u, w). (u\<lparr>ut_LastConfirm := 0, ut_LastSend := 0\<rparr>, w))"

text \<open>\<open>uint32(time.Now().UnixMilli()) / 1_000\<close>\<close>

definition sec_of :: "u64 \<Rightarrow> u32" where
  "sec_of ms = (ucast ms :: u32) div 1000"

definition now_sec :: "u32 ut_go" where
  "now_sec = go_bind (on_world time_Now) (\<lambda>ms. ret (sec_of ms))"

definition RequireResend :: "bool ut_go" where
  "RequireResend =
     go_bind get_state (\<lambda>(udp, _).
     go_bind now_sec (\<lambda>now. ret (10 < now - ut_LastConfirm udp)))"

definition RequiresAuth :: "bool ut_go" where
  "RequiresAuth =
     go_bind get_state (\<lambda>(udp, _).
       if ut_LastSend udp < ut_LastConfirm udp then ret False
       else go_bind now_sec (\<lambda>now. ret (5 < now - ut_LastSend udp)))"

definition SendToken :: "UdpChannelDetails \<Rightarrow> unit ut_go" where
  "SendToken details =
     go_bind get_state (\<lambda>(udp, _).
     go_bind
       (if Addr_Is4 (ap_Addr (ucd_TunnelAddr details)) then
          go_try (on_world (UDP_Write (ut_Udp4 udp) (ucd_Token details) (ucd_TunnelAddr details)))
        else if ut_Udp6 udp = None then throw (Errorf ''ipv6 not supported'')
        else go_try (on_world (UDP_Write (ut_Udp6 udp) (ucd_Token details) (ucd_TunnelAddr details))))
       (\<lambda>_.
     go_bind now_sec (\<lambda>now. modify (\<lambda>(u, w). (u\<lparr>ut_LastSend := now\<rparr>, w)))))"

text \<open>
  \<open>SetUdpTunnel\<close> works on \<open>lock\<close>, the copy that \<open>Details.Write\<close> returns; the copy as the function
  leaves it is never stored.
\<close>

definition SetUdpTunnel_copy :: "ChannelDetails \<Rightarrow> UdpChannelDetails \<Rightarrow> ChannelDetails" where
  "SetUdpTunnel_copy lock details =
     (case cd_Udp lock of
        None \<Rightarrow> lock
      | Some current \<Rightarrow>
          (if AddrPort_Compare (ucd_TunnelAddr current) (ucd_TunnelAddr details) \<noteq> 0
           then lock\<lparr>cd_AddrHistory := cd_AddrHistory lock @ [ucd_TunnelAddr current]\<rparr>
           else lock)\<lparr>cd_Udp := Some details\<rparr>)"

definition SetUdpTunnel :: "UdpChannelDetails \<Rightarrow> unit ut_go" where
  "SetUdpTunnel details =
     go_bind (on_details Rwlock_Write) (\<lambda>lock.
       if (case cd_Udp lock of
             None \<Rightarrow> False
           | Some current \<Rightarrow>
               ucd_Token current = ucd_Token details \<and>
               AddrPort_Compare (ucd_TunnelAddr current) (ucd_TunnelAddr details) = 0)
       then on_details Rwlock_Unlock
       else
         let lock' = SetUdpTunnel_copy lock details in
         go_bind (on_details Rwlock_Unlock) (\<lambda>_. SendToken details))"

definition ResendToken :: "bool ut_go" where
  "ResendToken =
     with_read (\<lambda>lock.
       case cd_Udp lock of
         None \<Rightarrow> ret False
       | Some d \<Rightarrow> go_bind (SendToken d) (\<lambda>_. ret True))"

definition GetSock :: "(nat option \<times> addrport) ut_go" where
  "GetSock =
     with_read (\<lambda>lock.
       case cd_Udp lock of
         None \<Rightarrow> throw (Errorf ''udp tunnel not connected'')
       | Some d \<Rightarrow>
           go_bind get_state (\<lambda>(udp, _).
             if Addr_Is4 (ap_Addr (ucd_TunnelAddr d)) then ret (ut_Udp4 udp, ucd_TunnelAddr d)
             else if ut_Udp6 udp = None then throw (Errorf ''ipv6 not setup'')
             else ret (ut_Udp6 udp, ucd_TunnelAddr d)))"

definition UdpTunnel_Send :: "bytes \<Rightarrow> UdpFlow \<Rightarrow> nat ut_go" where
  "UdpTunnel_Send data Flow =
     go_bind (to_Buffer (UdpFlow_WriteTo Flow)) (\<lambda>footer.
     go_bind GetSock (\<lambda>(socket, addr).
       on_world (UDP_Write socket (data @ footer) addr)))"

definition GetToken :: "bytes ut_go" where
  "GetToken =
     with_read (\<lambda>lock.
       case cd_Udp lock of
         None \<Rightarrow> throw (Errorf ''udp tunnel not connected'')
       | Some d \<Rightarrow> ret (ucd_Token d))"

datatype UdpTunnelRx = ConfirmerdConnection | ReceivedPacket u64 UdpFlow

text \<open>
  The part of \<open>ReceiveFrom\<close> after the check of the source, on the buffer as the read left it.
\<close>

definition ReceiveFrom_packet :: "bytes \<Rightarrow> nat \<Rightarrow> UdpTunnelRx ut_go" where
  "ReceiveFrom_packet buff byteSize =
     go_bind GetToken (\<lambda>token.
       if take byteSize buff = token then
         go_bind now_sec (\<lambda>now.
         go_bind (modify (\<lambda>(u, w). (u\<lparr>ut_LastConfirm := now\<rparr>, w))) (\<lambda>_.
           ret ConfirmerdConnection))
       else if length buff + V6_LEN < byteSize then throw (Errorf ''receive buffer too small'')
       else
         (case FromTailUdpFlow (drop byteSize buff) of
            (_, footerInt, Some e) \<Rightarrow>
              if footerInt = UDP_CHANNEL_ESTABLISH_ID
              then throw (Errorf ''unexpected UDP establish packet'')
              else throw (Errorf ''failed to extract udp footer'')
          | (None, _, None) \<Rightarrow> crash NilDeref
          | (Some footer, _, None) \<Rightarrow>
              ret (ReceivedPacket (of_nat byteSize - of_nat (UdpFlow_Len footer)) footer)))"

definition ReceiveFrom :: "bytes \<Rightarrow> UdpTunnelRx ut_go" where
  "ReceiveFrom buff0 =
     go_bind GetSock (\<lambda>(udp, tunnelAddr).
     go_bind (on_world (UDP_Read udp (length buff0))) (\<lambda>(data, remote).
       let buff = overwrite data buff0; byteSize = length data in
       if AddrPort_Compare tunnelAddr remote \<noteq> 0 then
         with_read (\<lambda>lock.
           if \<not> list_ex (\<lambda>a. AddrPort_Compare a remote = 0) (cd_AddrHistory lock)
           then throw (Errorf ''got data from other source'')
           else ReceiveFrom_packet buff byteSize)
       else ReceiveFrom_packet buff byteSize))"

section \<open>The details and their lock\<close>

text \<open>
  \<open>keeps_details m\<close>: started while no writer holds the lock, \<open>m\<close> is never blocked and leaves the
  lock and the details behind it exactly as they were, on success and on error.
\<close>

named_theorems keeps_intro \<open>operations that keep the channel details\<close>

fun keeps_outcome :: "ChannelDetails rwlock \<Rightarrow> ('a, UdpTunnel \<times> world) outcome \<Rightarrow> bool" where
  "keeps_outcome d (Ok x s) \<longleftrightarrow> ut_Details (fst s) = d"
| "keeps_outcome d (Err e s) \<longleftrightarrow> ut_Details (fst s) = d"
| "keeps_outcome d (Panic p) \<longleftrightarrow> p \<noteq> Blocked"

definition keeps_details :: "'a ut_go \<Rightarrow> bool" where
  "keeps_details m \<longleftrightarrow>
     (\<forall>s. \<not> rw_writer (ut_Details (fst s)) \<longrightarrow> keeps_outcome (ut_Details (fst s)) (m s))"

lemma keepsI:
  "(\<And>s. \<not> rw_writer (ut_Details (fst s)) \<Longrightarrow> keeps_outcome (ut_Details (fst s)) (m s)) \<Longrightarrow>
   keeps_details m"
  unfolding keeps_details_def by blast

lemma keepsD:
  "keeps_details m \<Longrightarrow> \<not> rw_writer (ut_Details (fst s)) \<Longrightarrow> keeps_outcome (ut_Details (fst s)) (m s)"
  unfolding keeps_details_def by blast

lemma keeps_ret [keeps_intro]: "keeps_details (ret x)"
  and keeps_throw [keeps_intro]: "keeps_details (throw e)"
  and keeps_get_state [keeps_intro]: "keeps_details get_state"
  by (rule keepsI, simp)+

lemma keeps_crash [keeps_intro]: "p \<noteq> Blocked \<Longrightarrow> keeps_details (crash p)"
  by (rule keepsI) simp

lemma keeps_bind [keeps_intro]:
  assumes m: "keeps_details m" and k: "\<And>x. keeps_details (k x)"
  shows "keeps_details (go_bind m k)"
proof (rule keepsI)
  fix s :: "UdpTunnel \<times> world" assume w: "\<not> rw_writer (ut_Details (fst s))"
  show "keeps_outcome (ut_Details (fst s)) (go_bind m k s)"
  proof (cases "m s")
    case (Ok x t)
    then have "ut_Details (fst t) = ut_Details (fst s)" using keepsD [OF m w] by simp
    with Ok keepsD [OF k, of t] w show ?thesis by (simp add: go_bind_def)
  qed (use keepsD [OF m w] in \<open>simp_all add: go_bind_def\<close>)
qed

lemma keeps_try [keeps_intro]:
  assumes m: "keeps_details m"
  shows "keeps_details (go_try m)"
proof (rule keepsI)
  fix s :: "UdpTunnel \<times> world" assume w: "\<not> rw_writer (ut_Details (fst s))"
  show "keeps_outcome (ut_Details (fst s)) (go_try m s)"
    using keepsD [OF m w] by (cases "m s") (simp_all add: go_try_def)
qed

lemma keeps_modify [keeps_intro]:
  "(\<And>s. ut_Details (fst (f s)) = ut_Details (fst s)) \<Longrightarrow> keeps_details (modify f)"
  by (rule keepsI) simp

lemma keeps_on_world:
  assumes "\<And>w. m w \<noteq> Panic Blocked"
  shows "keeps_details (on_world m)"
proof (rule keepsI)
  fix s :: "UdpTunnel \<times> world"
  show "keeps_outcome (ut_Details (fst s)) (on_world m s)"
    using assms [of "snd s"] by (cases "m (snd s)") (auto simp: on_world_def zoom_def split: prod.split)
qed

lemma time_Now_not_Panic: "time_Now w \<noteq> Panic p"
  and UDP_Write_not_Panic: "UDP_Write c d a w \<noteq> Panic p"
  and UDP_Read_not_Panic: "UDP_Read c n w \<noteq> Panic p"
  by (auto simp: time_Now_def UDP_Write_def UDP_Read_def Let_def
      split: option.splits list.splits recv.splits)

lemma keeps_time_Now [keeps_intro]: "keeps_details (on_world time_Now)"
  and keeps_UDP_Write [keeps_intro]: "keeps_details (on_world (UDP_Write c d a))"
  and keeps_UDP_Read [keeps_intro]: "keeps_details (on_world (UDP_Read c n))"
  by (intro keeps_on_world time_Now_not_Panic UDP_Write_not_Panic UDP_Read_not_Panic)+

lemma keeps_with_read [keeps_intro]:
  assumes body: "\<And>lock. keeps_details (body lock)"
  shows "keeps_details (with_read body)"
proof (rule keepsI)
  fix s :: "UdpTunnel \<times> world" assume free: "\<not> rw_writer (ut_Details (fst s))"
  define get where "get = (\<lambda>(u :: UdpTunnel, w :: world). ut_Details u)"
  define put where "put = (\<lambda>d (u :: UdpTunnel, w :: world). (u\<lparr>ut_Details := d\<rparr>, w))"
  have get: "get s = ut_Details (fst s)" for s by (simp add: get_def split: prod.split)
  have put: "ut_Details (fst (put d s)) = d" for d s by (simp add: put_def split: prod.split)
  have eq: "with_read body = guarded (zoom get put Rwlock_Read) (zoom get put Rwlock_RUnlock) body"
    by (simp add: with_read_def on_details_def get_def put_def)
  have opn: "\<not> rw_writer (get s)" using free by (simp add: get)
  have keep: "keeps_outcome (read_held (get s)) (body (rw_Value (get s)) (put (read_held (get s)) s))"
    using keepsD [OF body, of "put (read_held (get s)) s"] free
    by (simp add: put get read_held_def)
  show "keeps_outcome (ut_Details (fst s)) (with_read body s)"
  proof (cases "body (rw_Value (get s)) (put (read_held (get s)) s)")
    case (Ok x t)
    have "get t = read_held (get s)" using keep Ok by (simp add: get)
    then have "with_read body s = Ok x (put (get s) t)"
      unfolding eq using rd.guarded_Ok [where get = get and put = put and s = s and body = body] opn Ok
      by blast
    then show ?thesis by (simp add: put get)
  next
    case (Err e t)
    have "get t = read_held (get s)" using keep Err by (simp add: get)
    then have "with_read body s = Err e (put (get s) t)"
      unfolding eq using rd.guarded_Err [where get = get and put = put and s = s and body = body] opn Err
      by blast
    then show ?thesis by (simp add: put get)
  next
    case (Panic p)
    then have "with_read body s = Panic p"
      unfolding eq using rd.guarded_Panic [where get = get and put = put and s = s and body = body] opn
      by blast
    then show ?thesis using Panic keep by simp
  qed
qed

lemma keeps_now_sec [keeps_intro]: "keeps_details now_sec"
  unfolding now_sec_def by (intro keeps_intro)

lemma keeps_if [keeps_intro]:
  "keeps_details m \<Longrightarrow> keeps_details n \<Longrightarrow> keeps_details (if b then m else n)"
  by simp

lemma keeps_prod [keeps_intro]:
  "(\<And>x y. keeps_details (f x y)) \<Longrightarrow> keeps_details (case p of (x, y) \<Rightarrow> f x y)"
  by (cases p) simp

lemma keeps_option [keeps_intro]:
  "keeps_details m \<Longrightarrow> (\<And>x. keeps_details (f x)) \<Longrightarrow>
   keeps_details (case v of None \<Rightarrow> m | Some x \<Rightarrow> f x)"
  by (cases v) simp_all

lemma keeps_SendToken [keeps_intro]: "keeps_details (SendToken details)"
  unfolding SendToken_def by (intro keeps_intro) (auto split: prod.split)

lemma keeps_IsSetup [keeps_intro]: "keeps_details IsSetup"
  unfolding IsSetup_def by (intro keeps_intro)

lemma keeps_InvalidateSession [keeps_intro]: "keeps_details InvalidateSession"
  unfolding InvalidateSession_def by (intro keeps_intro) (auto split: prod.split)

lemma keeps_RequireResend [keeps_intro]: "keeps_details RequireResend"
  unfolding RequireResend_def by (intro keeps_intro)

lemma keeps_RequiresAuth [keeps_intro]: "keeps_details RequiresAuth"
  unfolding RequiresAuth_def by (intro keeps_intro)

lemma keeps_ResendToken [keeps_intro]: "keeps_details ResendToken"
  unfolding ResendToken_def by (intro keeps_intro)

lemma keeps_GetSock [keeps_intro]: "keeps_details GetSock"
  unfolding GetSock_def by (intro keeps_intro)

lemma keeps_GetToken [keeps_intro]: "keeps_details GetToken"
  unfolding GetToken_def by (intro keeps_intro)

lemma UdpFlow_WriteTo_not_Blocked: "UdpFlow_WriteTo flow w \<noteq> Panic Blocked"
proof (cases "flow_V4 flow \<noteq> None \<or> flow_V6 flow \<noteq> None")
  case True
  then show ?thesis using writes_no_panic writes_UdpFlow by blast
next
  case False
  then show ?thesis by (simp add: UdpFlow_WriteTo_def)
qed

lemma keeps_to_Buffer:
  "(\<And>w. m w \<noteq> Panic Blocked) \<Longrightarrow> keeps_details (to_Buffer m)"
  by (auto simp: to_Buffer_def intro!: keeps_intro split: outcome.split)

lemma keeps_UdpTunnel_Send [keeps_intro]: "keeps_details (UdpTunnel_Send data flow)"
  unfolding UdpTunnel_Send_def by (intro keeps_intro keeps_to_Buffer UdpFlow_WriteTo_not_Blocked)

lemma keeps_ReceiveFrom_packet [keeps_intro]: "keeps_details (ReceiveFrom_packet buff n)"
  unfolding ReceiveFrom_packet_def by (intro keeps_intro) (auto split: prod.split)

lemma keeps_ReceiveFrom [keeps_intro]: "keeps_details (ReceiveFrom buff)"
  unfolding ReceiveFrom_def Let_def by (intro keeps_intro)

text \<open>
  \<open>SetUdpTunnel\<close> takes the lock for writing, so it also needs that nobody reads; it too leaves the
  details as they were.
\<close>

definition SetUdpTunnel_skips :: "ChannelDetails \<Rightarrow> UdpChannelDetails \<Rightarrow> bool" where
  "SetUdpTunnel_skips cd details \<longleftrightarrow>
     (\<exists>current. cd_Udp cd = Some current \<and> ucd_Token current = ucd_Token details \<and>
        ucd_TunnelAddr current = ucd_TunnelAddr details)"

lemma SetUdpTunnel_eq:
  assumes "rw_free (ut_Details u)"
  shows "SetUdpTunnel details (u, w) =
    (if SetUdpTunnel_skips (rw_Value (ut_Details u)) details then Ok () (u, w)
     else SendToken details (u, w))"
proof -
  have upd: "u\<lparr>ut_Details := ut_Details u\<rparr> = u" by simp
  show ?thesis
    using wr.acquire [OF assms] wr.release [OF assms]
    by (auto simp: SetUdpTunnel_def SetUdpTunnel_skips_def go_bind_def on_details_def zoom_def Let_def
        split: option.splits)
qed

lemma SetUdpTunnel_keeps:
  assumes "rw_free (ut_Details (fst s))"
  shows "keeps_outcome (ut_Details (fst s)) (SetUdpTunnel details s)"
proof (cases s)
  case (Pair u w)
  have "\<not> rw_writer (ut_Details (fst (u, w)))" using assms Pair by (simp add: rw_free_def)
  from keepsD [OF keeps_SendToken this, of details] show ?thesis
    using assms Pair by (simp add: SetUdpTunnel_eq)
qed

section \<open>Runs of the UDP tunnel\<close>

datatype udp_op =
    OpIsSetup
  | OpInvalidateSession
  | OpRequireResend
  | OpRequiresAuth
  | OpSetUdpTunnel UdpChannelDetails
  | OpResendToken
  | OpSend bytes UdpFlow
  | OpGetToken
  | OpReceiveFrom bytes

definition discard :: "('a, 's) go \<Rightarrow> (unit, 's) go" where
  "discard m = go_bind m (\<lambda>_. ret ())"

fun run_udp_op :: "udp_op \<Rightarrow> unit ut_go" where
  "run_udp_op OpIsSetup = discard IsSetup"
| "run_udp_op OpInvalidateSession = InvalidateSession"
| "run_udp_op OpRequireResend = discard RequireResend"
| "run_udp_op OpRequiresAuth = discard RequiresAuth"
| "run_udp_op (OpSetUdpTunnel d) = SetUdpTunnel d"
| "run_udp_op OpResendToken = discard ResendToken"
| "run_udp_op (OpSend data flow) = discard (UdpTunnel_Send data flow)"
| "run_udp_op OpGetToken = discard GetToken"
| "run_udp_op (OpReceiveFrom buff) = discard (ReceiveFrom buff)"

inductive udp_step :: "UdpTunnel \<times> world \<Rightarrow> UdpTunnel \<times> world \<Rightarrow> bool" where
  op_ok: "run_udp_op op s = Ok () s' \<Longrightarrow> udp_step s s'"
| op_err: "run_udp_op op s = Err e s' \<Longrightarrow> udp_step s s'"

inductive udp_reach :: "UdpTunnel \<times> world \<Rightarrow> bool" where
  assigned: "AssignUdpTunnel s0 = Ok () s \<Longrightarrow> udp_reach s"
| step: "udp_reach s \<Longrightarrow> udp_step s s' \<Longrightarrow> udp_reach s'"

lemma keeps_discard [keeps_intro]: "keeps_details m \<Longrightarrow> keeps_details (discard m)"
  unfolding discard_def by (intro keeps_intro)

text \<open>
  Every operation but \<open>SetUdpTunnel\<close> goes through while others read, and gives back just what it took.
\<close>

lemma run_udp_op_restores:
  assumes "\<not> rw_writer (ut_Details (fst s))"
    and "rw_readers (ut_Details (fst s)) = 0 \<or> (\<forall>d. op \<noteq> OpSetUdpTunnel d)"
  shows "keeps_outcome (ut_Details (fst s)) (run_udp_op op s)"
proof (cases op)
  case (OpSetUdpTunnel d)
  with assms have "rw_free (ut_Details (fst s))" by (simp add: rw_free_def)
  then show ?thesis by (simp add: OpSetUdpTunnel SetUdpTunnel_keeps)
qed (simp_all add: keepsD [OF _ assms(1)] keeps_intro)

lemma run_udp_op_keeps:
  assumes "rw_free (ut_Details (fst s))"
  shows "keeps_outcome (ut_Details (fst s)) (run_udp_op op s)"
  using assms by (intro run_udp_op_restores) (simp_all add: rw_free_def)

lemma AssignUdpTunnel_details:
  "AssignUdpTunnel s0 = Ok () s \<Longrightarrow>
   ut_Details (fst s) = new_rwlock new_ChannelDetails \<and> ut_LastConfirm (fst s) = 0 \<and> ut_LastSend (fst s) = 0"
  by (auto simp: AssignUdpTunnel_def go_bind_def go_try_def split: outcome.splits prod.splits)

lemma udp_step_details:
  assumes "udp_step s s'" and "rw_free (ut_Details (fst s))"
  shows "ut_Details (fst s') = ut_Details (fst s)"
  using assms(1)
proof cases
  case (op_ok op)
  with run_udp_op_keeps [OF assms(2), of op] show ?thesis by simp
next
  case (op_err op e)
  with run_udp_op_keeps [OF assms(2), of op] show ?thesis by simp
qed

lemma udp_reach_details: "udp_reach s \<Longrightarrow> ut_Details (fst s) = new_rwlock new_ChannelDetails"
proof (induction rule: udp_reach.induct)
  case (assigned s0 s)
  then show ?case using AssignUdpTunnel_details by blast
next
  case (step s s')
  then show ?case using udp_step_details by (metis rw_free_new(1))
qed

section \<open>The seconds kept\<close>

definition max_sec :: u32 where
  "max_sec = 4294967"

lemma sec_of_bound: "sec_of ms \<le> max_sec"
proof -
  have "unat (ucast ms :: u32) < 2 ^ 32" using unsigned_less [of "ucast ms :: u32"] by simp
  then have "unat (ucast ms :: u32) div 1000 \<le> 4294967" by simp
  then show ?thesis by (simp add: sec_of_def max_sec_def word_le_nat_alt unat_div)
qed

definition secs_ok :: "UdpTunnel \<times> world \<Rightarrow> bool" where
  "secs_ok s \<longleftrightarrow> ut_LastConfirm (fst s) \<le> max_sec \<and> ut_LastSend (fst s) \<le> max_sec"

text \<open>The wrapping difference that the code compares, on the values that it stores.\<close>

lemma elapsed_exceeds:
  assumes "prev \<le> max_sec" and "now \<le> max_sec" and "k < 0xf0000000"
  shows "k < now - prev \<longleftrightarrow> now < prev \<or> unat prev + unat k < unat now"
proof (cases "now < prev")
  case True
  then have "unat (now - prev) = unat now + 2 ^ 32 - unat prev"
    using unat_sub_if' [of now prev] by (simp add: word_less_nat_alt)
  moreover have "unat prev \<le> 4294967" "unat k < 4026531840"
    using assms(1,3) by (simp_all add: max_sec_def word_le_nat_alt word_less_nat_alt)
  ultimately show ?thesis using True by (simp add: word_less_nat_alt)
next
  case False
  then have "unat (now - prev) = unat now - unat prev"
    by (simp add: unat_sub word_le_nat_alt word_less_nat_alt)
  then show ?thesis using False by (auto simp: word_less_nat_alt)
qed

lemma secs_on_world: "preserves secs_ok (on_world m)"
  unfolding on_world_def by (rule preserves_zoom) (auto simp: secs_ok_def)

lemma secs_on_details: "preserves secs_ok (on_details m)"
  unfolding on_details_def by (rule preserves_zoom) (auto simp: secs_ok_def)

lemma secs_with_read [preserves_intro]:
  "(\<And>d. preserves secs_ok (body d)) \<Longrightarrow> preserves secs_ok (with_read body)"
  unfolding with_read_def guarded_def by (intro preserves_intro secs_on_details)

lemma secs_now_sec_store:
  assumes "\<And>u w n. n \<le> max_sec \<Longrightarrow> secs_ok (u, w) \<Longrightarrow> preserves secs_ok (k n)"
  shows "preserves secs_ok (go_bind now_sec k)"
proof (rule preservesI)
  fix s :: "UdpTunnel \<times> world" assume s: "secs_ok s"
  obtain u w where [simp]: "s = (u, w)" by (cases s)
  define n where "n = sec_of (w_clock w (w_ticks w))"
  have run: "go_bind now_sec k s = k n (u, w\<lparr>w_ticks := Suc (w_ticks w)\<rparr>)"
    by (simp add: now_sec_def go_bind_def on_world_def zoom_def time_Now_def n_def)
  have "secs_ok (u, w\<lparr>w_ticks := Suc (w_ticks w)\<rparr>)" using s by (simp add: secs_ok_def)
  then show "outcome_all secs_ok (go_bind now_sec k s)"
    unfolding run using assms [of n u w] s sec_of_bound preservesD by (simp add: n_def)
qed

lemma secs_SendToken [preserves_intro]: "preserves secs_ok (SendToken details)"
  unfolding SendToken_def
  by (intro preserves_intro secs_on_world secs_now_sec_store) (auto simp: secs_ok_def)

lemma secs_now_sec [preserves_intro]: "preserves secs_ok now_sec"
  unfolding now_sec_def by (intro preserves_intro secs_on_world)

lemma secs_GetSock [preserves_intro]: "preserves secs_ok GetSock"
  unfolding GetSock_def by (intro preserves_intro)

lemma secs_GetToken [preserves_intro]: "preserves secs_ok GetToken"
  unfolding GetToken_def by (intro preserves_intro)

lemma secs_ReceiveFrom_packet [preserves_intro]: "preserves secs_ok (ReceiveFrom_packet buff n)"
  unfolding ReceiveFrom_packet_def
  by (intro preserves_intro secs_now_sec_store) (auto simp: secs_ok_def)

lemma secs_ReceiveFrom [preserves_intro]: "preserves secs_ok (ReceiveFrom buff)"
  unfolding ReceiveFrom_def Let_def by (intro preserves_intro secs_on_world)

lemma secs_SetUdpTunnel [preserves_intro]: "preserves secs_ok (SetUdpTunnel d)"
  unfolding SetUdpTunnel_def Let_def by (intro preserves_intro secs_on_details)

lemma secs_run_udp_op: "preserves secs_ok (run_udp_op op)"
proof (cases op)
  case (OpSend data flow)
  then show ?thesis
    by (simp add: discard_def UdpTunnel_Send_def) (intro preserves_intro secs_on_world)
qed (simp_all add: discard_def IsSetup_def InvalidateSession_def RequireResend_def RequiresAuth_def
      ResendToken_def,
    (intro preserves_intro; auto simp: secs_ok_def max_sec_def)+)

lemma udp_reach_secs: "udp_reach s \<Longrightarrow> secs_ok s"
proof (induction rule: udp_reach.induct)
  case (assigned s0 s)
  then show ?case using AssignUdpTunnel_details by (auto simp: secs_ok_def max_sec_def)
next
  case (step s s')
  from step.hyps(2) show ?case
  proof cases
    case (op_ok op)
    then show ?thesis using preservesD [OF secs_run_udp_op step.IH, of op] by simp
  next
    case (op_err op e)
    then show ?thesis using preservesD [OF secs_run_udp_op step.IH, of op] by simp
  qed
qed

lemma RequireResend_eq:
  "RequireResend (u, w) = Ok (10 < sec_of (w_clock w (w_ticks w)) - ut_LastConfirm u)
     (u, w\<lparr>w_ticks := Suc (w_ticks w)\<rparr>)"
  by (simp add: RequireResend_def now_sec_def go_bind_def on_world_def zoom_def time_Now_def)

lemma RequiresAuth_eq:
  "RequiresAuth (u, w) =
     (if ut_LastSend u < ut_LastConfirm u then Ok False (u, w)
      else Ok (5 < sec_of (w_clock w (w_ticks w)) - ut_LastSend u)
        (u, w\<lparr>w_ticks := Suc (w_ticks w)\<rparr>))"
  by (simp add: RequiresAuth_def now_sec_def go_bind_def on_world_def zoom_def time_Now_def)

section \<open>Receiving\<close>

text \<open>A section that only reads leaves the state; its result depends on the details.\<close>

lemma with_read_pure:
  assumes "\<not> rw_writer (ut_Details u)"
    and "\<And>s. body (rw_Value (ut_Details u)) s = Ok x s"
  shows "with_read body (u, w) = Ok x (u, w)"
  using assms
  by (simp add: with_read_def guarded_def on_details_def zoom_def go_bind_def go_try_def
      Rwlock_Read_def Rwlock_RUnlock_def)

lemma with_read_pure_Err:
  assumes "\<not> rw_writer (ut_Details u)"
    and "\<And>s. body (rw_Value (ut_Details u)) s = Err e s"
  shows "with_read body (u, w) = Err e (u, w)"
  using assms
  by (simp add: with_read_def guarded_def on_details_def zoom_def go_bind_def go_try_def
      Rwlock_Read_def Rwlock_RUnlock_def)

definition udp_of :: "UdpTunnel \<Rightarrow> UdpChannelDetails option" where
  "udp_of u = cd_Udp (rw_Value (ut_Details u))"

lemma GetToken_eq:
  assumes "\<not> rw_writer (ut_Details u)"
  shows "GetToken (u, w) =
    (case udp_of u of
       None \<Rightarrow> Err (Errorf ''udp tunnel not connected'') (u, w)
     | Some d \<Rightarrow> Ok (ucd_Token d) (u, w))"
proof (cases "udp_of u")
  case None
  then show ?thesis unfolding GetToken_def
    by (simp add: with_read_pure_Err [OF assms] udp_of_def)
next
  case (Some d)
  then show ?thesis unfolding GetToken_def
    by (simp add: with_read_pure [OF assms] udp_of_def)
qed

lemma IsSetup_eq:
  assumes "\<not> rw_writer (ut_Details u)"
  shows "IsSetup (u, w) = Ok (udp_of u \<noteq> None) (u, w)"
  unfolding IsSetup_def by (simp add: with_read_pure [OF assms] udp_of_def)

text \<open>The socket and the address that a connected tunnel uses.\<close>

definition sock_for :: "UdpTunnel \<Rightarrow> UdpChannelDetails \<Rightarrow> nat option" where
  "sock_for u d = (if Addr_Is4 (ap_Addr (ucd_TunnelAddr d)) then ut_Udp4 u else ut_Udp6 u)"

lemma GetSock_eq:
  assumes w: "\<not> rw_writer (ut_Details u)"
  shows "GetSock (u, w) =
    (case udp_of u of
       None \<Rightarrow> Err (Errorf ''udp tunnel not connected'') (u, w)
     | Some d \<Rightarrow>
         if \<not> Addr_Is4 (ap_Addr (ucd_TunnelAddr d)) \<and> ut_Udp6 u = None
         then Err (Errorf ''ipv6 not setup'') (u, w)
         else Ok (sock_for u d, ucd_TunnelAddr d) (u, w))"
  using w
  by (cases "cd_Udp (rw_Value (ut_Details u))")
     (auto simp: udp_of_def GetSock_def with_read_def guarded_def on_details_def zoom_def go_bind_def
       go_try_def Rwlock_Read_def Rwlock_RUnlock_def sock_for_def)

text \<open>After the source check, for a connected tunnel.\<close>

lemma ReceiveFrom_packet_eq:
  assumes "\<not> rw_writer (ut_Details u)" and "udp_of u = Some d" and "n \<le> length buff"
  shows "ReceiveFrom_packet buff n (u, w) =
    (if take n buff = ucd_Token d then
       Ok ConfirmerdConnection
         (u\<lparr>ut_LastConfirm := sec_of (w_clock w (w_ticks w))\<rparr>, w\<lparr>w_ticks := Suc (w_ticks w)\<rparr>)
     else
       (case FromTailUdpFlow (drop n buff) of
          (_, _, Some e) \<Rightarrow> Err (Errorf ''failed to extract udp footer'') (u, w)
        | (None, _, None) \<Rightarrow> Panic NilDeref
        | (Some f, _, None) \<Rightarrow> Ok (ReceivedPacket (of_nat n - of_nat (UdpFlow_Len f)) f) (u, w)))"
proof -
  have "fst (snd (FromTailUdpFlow s)) \<noteq> UDP_CHANNEL_ESTABLISH_ID"
    if "snd (snd (FromTailUdpFlow s)) \<noteq> None" for s
    using that by (auto simp: FromTailUdpFlow_def Let_def footer_ids UDP_CHANNEL_ESTABLISH_ID_def)
  from this [of "drop n buff"] assms show ?thesis
    by (auto simp: ReceiveFrom_packet_def go_bind_def GetToken_eq now_sec_def on_world_def zoom_def
        time_Now_def V6_LEN_def split: prod.split option.split)
qed

lemma ReceiveFrom_from_tunnel:
  assumes free: "\<not> rw_writer (ut_Details u)" and d: "udp_of u = Some d"
    and sock: "sock_for u d = Some c"
    and recv: "w_recv w = Datagram data (ucd_TunnelAddr d) # r" and len: "length data \<le> length buff"
  shows "ReceiveFrom buff (u, w) =
    ReceiveFrom_packet (overwrite data buff) (length data) (u, w\<lparr>w_recv := r\<rparr>)"
proof -
  have "GetSock (u, w) = Ok (Some c, ucd_TunnelAddr d) (u, w)"
    using d sock by (auto simp: GetSock_eq [OF free] sock_for_def split: if_splits)
  then show ?thesis
    using recv len
    by (simp add: ReceiveFrom_def go_bind_def on_world_def zoom_def UDP_Read_def Let_def)
qed

lemma with_read_Ok_free:
  assumes "with_read body (u, w) = Ok x s'"
  shows "\<exists>t. body (rw_Value (ut_Details u)) (u\<lparr>ut_Details := read_held (ut_Details u)\<rparr>, w) = Ok x t"
  using assms
  by (auto simp: with_read_def guarded_def on_details_def zoom_def go_bind_def go_try_def
      Rwlock_Read_def read_held_def split: outcome.splits if_splits sum.splits prod.splits)

text \<open>Whatever is returned came from the tunnel's address or from a former one.\<close>

lemma ReceiveFrom_source:
  assumes free: "\<not> rw_writer (ut_Details u)" and ok: "ReceiveFrom buff (u, w) = Ok rx s'"
  shows "\<exists>d data src r. udp_of u = Some d \<and> w_recv w = Datagram data src # r \<and>
    (src = ucd_TunnelAddr d \<or> src \<in> set (cd_AddrHistory (rw_Value (ut_Details u))))"
proof -
  from ok obtain d where d: "udp_of u = Some d"
    and sock: "GetSock (u, w) = Ok (sock_for u d, ucd_TunnelAddr d) (u, w)"
    by (auto simp: ReceiveFrom_def go_bind_def GetSock_eq [OF free] split: option.splits if_splits)
  from ok sock obtain data src r where rd: "w_recv w = Datagram data src # r"
    by (auto simp: ReceiveFrom_def go_bind_def on_world_def zoom_def UDP_Read_def
        split: option.splits list.splits recv.splits outcome.splits)
  show ?thesis
  proof (cases "src = ucd_TunnelAddr d")
    case True
    with d rd show ?thesis by blast
  next
    case False
    obtain c where "sock_for u d = Some c"
      using ok sock by (auto simp: ReceiveFrom_def go_bind_def on_world_def zoom_def UDP_Read_def
          split: option.splits)
    with ok sock rd False have
      "with_read (\<lambda>lock. if \<not> list_ex (\<lambda>a. AddrPort_Compare a src = 0) (cd_AddrHistory lock)
         then throw (Errorf ''got data from other source'')
         else ReceiveFrom_packet (overwrite (take (length buff) data) buff)
           (length (take (length buff) data))) (u, w\<lparr>w_recv := r\<rparr>) = Ok rx s'"
      by (simp add: ReceiveFrom_def go_bind_def on_world_def zoom_def UDP_Read_def Let_def)
    from with_read_Ok_free [OF this]
    have "list_ex (\<lambda>a. AddrPort_Compare a src = 0) (cd_AddrHistory (rw_Value (ut_Details u)))"
      by (auto split: if_splits)
    then have "src \<in> set (cd_AddrHistory (rw_Value (ut_Details u)))"
      by (auto simp: list_ex_iff)
    with d rd show ?thesis by blast
  qed
qed

section \<open>Invariants of the world under the tunnel\<close>

lemma preserves_on_details: "preserves (\<lambda>s. P (snd s)) (on_details m)"
  unfolding on_details_def by (rule preserves_zoom) auto

lemma preserves_with_read [preserves_intro]:
  "(\<And>d. preserves (\<lambda>s. P (snd s)) (body d)) \<Longrightarrow> preserves (\<lambda>s. P (snd s)) (with_read body)"
  unfolding with_read_def guarded_def by (intro preserves_intro preserves_on_details)

lemma preserves_modify_fst: "(\<And>u w. snd (f (u, w)) = w) \<Longrightarrow> preserves (\<lambda>s. P (snd s)) (modify f)"
  by (rule preserves_modify) auto

context world_invariant
begin

lemma now_sec: "preserves (\<lambda>s. P (snd s)) now_sec"
  unfolding now_sec_def by (intro preserves_intro preserves_on_world P_clock)

lemma SendToken: "preserves (\<lambda>s. P (snd s)) (SendToken details)"
  unfolding SendToken_def
  by (intro preserves_intro preserves_on_world P_write now_sec preserves_modify_fst) simp

lemma udp_queries:
  "preserves (\<lambda>s. P (snd s)) RequiresAuth" "preserves (\<lambda>s. P (snd s)) RequireResend"
  "preserves (\<lambda>s. P (snd s)) ResendToken" "preserves (\<lambda>s. P (snd s)) (SetUdpTunnel details)"
  unfolding RequiresAuth_def RequireResend_def ResendToken_def SetUdpTunnel_def Let_def
  by (intro preserves_intro preserves_on_details now_sec SendToken)+

lemma AssignUdpTunnel: "preserves (\<lambda>s. P (snd s)) AssignUdpTunnel"
  unfolding AssignUdpTunnel_def
  by (intro preserves_intro preserves_on_world P_listen preserves_modify_fst) (simp_all split: sum.split)

end

end
