(* ===== verification/Simples_Tunnel.thy ===== *)
theory Simples_Tunnel
  imports Control Udp_Tunnel
begin

text \<open>
  \<open>src/tunnel/simples_tunnel.go\<close>: the agent's main state machine. \<open>Update\<close> is called in a loop; it
  registers again when the session is over, sends pings, keeps the UDP channel authenticated and
  receives the messages of the control server. Debug output and sleeps are left out.
\<close>

section \<open>State\<close>

record SimplesTunnel =
  st_ApiClaim :: Api
  st_ControlAddr :: addrport
  st_ControlChannel :: "AuthenticatedControl option"
  st_UdpTunnel :: UdpTunnel
  st_LastKeepAlive :: u64
  st_LastPing :: u64
  st_LastPong :: u64
  st_LastUdpAuth :: u64
  st_lastControlTargets :: "addrport list"

type_synonym 'a st_go = "('a, SimplesTunnel \<times> world) go"

text \<open>A method of the control channel; a nil channel is dereferenced.\<close>

definition on_control :: "'a ac_go \<Rightarrow> 'a st_go" where
  "on_control m =
     (\<lambda>(t, w). case st_ControlChannel t of
        None \<Rightarrow> Panic NilDeref
      | Some Auth \<Rightarrow>
          zoom (\<lambda>(t, w). (Auth, w)) (\<lambda>(a, w) (t, _). (t\<lparr>st_ControlChannel := Some a\<rparr>, w)) m (t, w))"

definition on_udp :: "'a ut_go \<Rightarrow> 'a st_go" where
  "on_udp = zoom (\<lambda>(t, w). (st_UdpTunnel t, w)) (\<lambda>(u, w) (t, _). (t\<lparr>st_UdpTunnel := u\<rparr>, w))"

definition update_tun :: "(SimplesTunnel \<Rightarrow> SimplesTunnel) \<Rightarrow> unit st_go" where
  "update_tun f = modify (\<lambda>(t, w). (f t, w))"

section \<open>Choosing the control server\<close>

definition ControlAddresses :: "(addrport list, world) go" where
  "ControlAddresses =
     go_bind AgentRoutings (\<lambda>(Targets6, Targets4).
       ret (map (\<lambda>v. AddrPort v 5525) (Targets6 @ Targets4)))"

definition SimplesTunnel_Setup :: "unit st_go" where
  "SimplesTunnel_Setup =
     go_bind (on_udp AssignUdpTunnel) (\<lambda>_.
     go_bind get_state (\<lambda>(Tun, _).
     go_bind (on_world ControlAddresses) (\<lambda>addresses.
     go_bind (on_world (Setup_Setup addresses)) (\<lambda>setup.
     go_bind (on_world (ConnectedControl_Authenticate setup (st_ApiClaim Tun))) (\<lambda>control_channel.
       update_tun (\<lambda>Tun. Tun\<lparr>st_ControlAddr := cc_ControlAddr setup,
                             st_ControlChannel := Some control_channel\<rparr>))))))"

definition UpdateControlAddr :: "ConnectedControl \<Rightarrow> bool st_go" where
  "UpdateControlAddr conncted =
     go_bind get_state (\<lambda>(Tun, _).
       if AddrPort_Compare (cc_ControlAddr conncted) (st_ControlAddr Tun) = 0 then ret False
       else
         go_bind (on_world (ConnectedControl_Authenticate conncted (st_ApiClaim Tun)))
           (\<lambda>controlChannel.
         go_bind (update_tun (\<lambda>Tun. Tun\<lparr>st_ControlChannel := Some controlChannel,
             st_ControlAddr := cc_ControlAddr conncted,
             st_LastPing := 0, st_LastKeepAlive := 0, st_LastUdpAuth := 0\<rparr>)) (\<lambda>_.
         go_bind (on_udp InvalidateSession) (\<lambda>_.
           ret True))))"

definition targets_gone :: "addrport list \<Rightarrow> addrport list \<Rightarrow> bool" where
  "targets_gone lastControlTargets addresses \<longleftrightarrow>
     list_ex (\<lambda>a. \<not> list_ex (\<lambda>b. AddrPort_Compare a b = 0) addresses) lastControlTargets"

definition ReloadControlAddr :: "bool st_go" where
  "ReloadControlAddr =
     go_bind (on_world ControlAddresses) (\<lambda>addresses.
     go_bind get_state (\<lambda>(Tun, _).
       if targets_gone (st_lastControlTargets Tun) addresses then ret False
       else
         go_bind (on_world (Setup_Setup addresses)) (\<lambda>setup.
         go_bind (go_try (UpdateControlAddr setup)) (\<lambda>updated.
         go_bind (update_tun (\<lambda>Tun. Tun\<lparr>st_lastControlTargets := addresses\<rparr>)) (\<lambda>_.
           case updated of Inl e \<Rightarrow> throw e | Inr b \<Rightarrow> ret b)))))"

section \<open>Update\<close>

text \<open>Registering again when the session is over: False where \<open>Update\<close> returns after an error.\<close>

definition Update_auth :: "bool st_go" where
  "Update_auth =
     go_bind (on_control (go_bind get_state (\<lambda>(Auth, _). ret (IsIspired Auth)))) (\<lambda>expired.
       if expired then
         go_bind (go_try (on_control AuthenticatedControl_Authenticate)) (\<lambda>r.
           case r of Inl _ \<Rightarrow> ret False | Inr _ \<Rightarrow> ret True)
       else ret True)"

definition Update_ping :: "u64 \<Rightarrow> unit st_go" where
  "Update_ping now =
     go_bind get_state (\<lambda>(Tun, _).
       if now - st_LastPing Tun > 1000 then
         go_bind (update_tun (st_LastPing_update (\<lambda>_. now))) (\<lambda>_.
           go_drop_err (on_control (SendPing 200 now)))
       else ret ())"

definition Update_udp_setup :: "u64 \<Rightarrow> unit st_go" where
  "Update_udp_setup now =
     go_bind get_state (\<lambda>(Tun, _).
       if 5000 < now - st_LastUdpAuth Tun then
         go_bind (update_tun (st_LastUdpAuth_update (\<lambda>_. now))) (\<lambda>_.
           go_drop_err (on_control (SendSetupUDPChannel 9000)))
       else ret ())"

definition Update_resend :: "u64 \<Rightarrow> unit st_go" where
  "Update_resend now =
     go_bind get_state (\<lambda>(Tun, _).
       if 1000 < now - st_LastUdpAuth Tun then
         go_bind (update_tun (st_LastUdpAuth_update (\<lambda>_. now))) (\<lambda>_.
         go_bind (go_try (on_udp ResendToken)) (\<lambda>_. ret ()))
       else ret ())"

definition timeTillExpire :: "u64 \<Rightarrow> u64 \<Rightarrow> u64" where
  "timeTillExpire x y = (if x > y then y else x)"

definition Update_keepalive :: "u64 \<Rightarrow> unit st_go" where
  "Update_keepalive now =
     go_bind (on_control get_state) (\<lambda>(Auth, _).
     go_bind get_state (\<lambda>(Tun, _).
       if 10000 < now - st_LastKeepAlive Tun \<and>
          timeTillExpire (reg_ExpiresAt (ac_Registered Auth)) now < 30000 then
         go_bind (update_tun (st_LastKeepAlive_update (\<lambda>_. now))) (\<lambda>_.
         go_bind (go_drop_err (on_control (SendKeepAlive 100))) (\<lambda>_.
           go_drop_err (on_control (SendSetupUDPChannel 1))))
       else ret ()))"

text \<open>What \<open>Update\<close> does with an answer of the control server; the result is the new \<open>timeout\<close>.\<close>

definition Update_response :: "ControlResponse option ControlRpcMessage \<Rightarrow> nat \<Rightarrow> nat st_go" where
  "Update_response response timeout =
     (case rpc_Content response of
        None \<Rightarrow> crash NilDeref
      | Some cont \<Rightarrow>
          (case cres_UdpChannelDetails cont of
             Some details \<Rightarrow>
               go_bind (go_try (on_udp (SetUdpTunnel details))) (\<lambda>r.
                 case r of Inl _ \<Rightarrow> ret (timeout + 1) | Inr _ \<Rightarrow> ret timeout)
           | None \<Rightarrow>
               (case cres_Pong cont of
                  Some pong \<Rightarrow>
                    go_bind (on_world time_Now) (\<lambda>now.
                    go_bind (update_tun (st_LastPong_update (\<lambda>_. now))) (\<lambda>_.
                    go_bind (on_control get_state) (\<lambda>(Auth, _).
                      case cc_Pong (ac_Conn Auth) of None \<Rightarrow> crash NilDeref | Some _ \<Rightarrow> ret timeout)))
                | None \<Rightarrow>
                    if cres_Unauthorized cont
                    then crash (LogPanic ''unauthorized, check token or reload agent'')
                    else ret timeout)))"

text \<open>\<open>for range 30\<close>, until a new client is announced or ten messages have failed.\<close>

fun Update_recv :: "nat \<Rightarrow> nat \<Rightarrow> NewClient option st_go" where
  "Update_recv 0 timeout = ret None"
| "Update_recv (Suc k) timeout =
     (if timeout \<ge> 10 then ret None
      else
        go_bind (go_try (on_control RecFeedMsg)) (\<lambda>r.
          case r of
            Inl _ \<Rightarrow> Update_recv k (timeout + 1)
          | Inr men \<Rightarrow>
              (case cf_NewClient men of
                 Some client \<Rightarrow> ret (Some client)
               | None \<Rightarrow>
                   (case cf_Response men of
                      None \<Rightarrow> Update_recv k timeout
                    | Some response \<Rightarrow>
                        go_bind (Update_response response timeout) (\<lambda>timeout'.
                          Update_recv k timeout')))))"

definition Update_pong_timeout :: "unit st_go" where
  "Update_pong_timeout =
     go_bind get_state (\<lambda>(Tun, _).
       if st_LastPong Tun = 0 then ret ()
       else
         go_bind (on_world time_Now) (\<lambda>now.
           if now - st_LastPong Tun > 6000 then
             go_bind (update_tun (st_LastPong_update (\<lambda>_. 0))) (\<lambda>_.
               on_control (update_auth (ac_ForceEpired_update (\<lambda>_. True))))
           else ret ()))"

definition Update_channel :: "u64 \<Rightarrow> NewClient option st_go" where
  "Update_channel now =
     go_bind (on_udp RequiresAuth) (\<lambda>auth.
       if auth then go_bind (Update_udp_setup now) (\<lambda>_. ret None)
       else
         go_bind (on_udp RequireResend) (\<lambda>resend.
           if resend then
             go_bind (Update_resend now) (\<lambda>_.
             go_bind (Update_keepalive now) (\<lambda>_.
               Update_recv 30 0))
           else ret None))"

text \<open>What \<open>Update\<close> does when the session is valid, or after it was renewed.\<close>

definition Update_session :: "NewClient option st_go" where
  "Update_session =
     go_bind (on_world time_Now) (\<lambda>now.
     go_bind (Update_ping now) (\<lambda>_.
     go_bind (Update_channel now) (\<lambda>client.
       case client of
         Some c \<Rightarrow> ret (Some c)
       | None \<Rightarrow> go_bind Update_pong_timeout (\<lambda>_. ret None))))"

definition Update :: "NewClient option st_go" where
  "Update = go_bind Update_auth (\<lambda>go_on. if go_on then Update_session else ret None)"

section \<open>Every error inside Update is absorbed\<close>

lemma no_error_time_Now [no_error_intro]: "no_error time_Now"
  by (simp add: no_error_def time_Now_def)

lemma no_error_on_world [no_error_intro]: "no_error m \<Longrightarrow> no_error (on_world m)"
  unfolding on_world_def by (rule no_error_zoom)

lemma no_error_on_udp [no_error_intro]: "no_error m \<Longrightarrow> no_error (on_udp m)"
  unfolding on_udp_def by (rule no_error_zoom)

lemma no_error_on_control [no_error_intro]: "no_error m \<Longrightarrow> no_error (on_control m)"
  by (auto simp: no_error_def on_control_def zoom_def split: outcome.splits option.splits)

lemma no_error_update [no_error_intro]: "no_error (update_tun f)" "no_error (update_auth g)"
  unfolding update_tun_def update_auth_def by (rule no_error_ops)+

lemma no_error_now_sec [no_error_intro]: "no_error now_sec"
  unfolding now_sec_def by (intro no_error_intro)

lemma no_error_RequiresAuth [no_error_intro]: "no_error RequiresAuth"
  unfolding RequiresAuth_def by (intro no_error_intro)

lemma no_error_RequireResend [no_error_intro]: "no_error RequireResend"
  unfolding RequireResend_def by (intro no_error_intro)

lemma no_error_Update_response [no_error_intro]: "no_error (Update_response response timeout)"
  unfolding Update_response_def by (intro no_error_intro)

lemma no_error_Update_recv [no_error_intro]: "no_error (Update_recv k timeout)"
proof (induction k arbitrary: timeout)
  case 0
  show ?case unfolding Update_recv.simps by (intro no_error_intro)
next
  case (Suc k)
  show ?case unfolding Update_recv.simps by (intro no_error_intro Suc)
qed

lemma no_error_Update: "no_error Update"
  unfolding Update_def Update_session_def Update_auth_def Update_ping_def Update_channel_def Update_udp_setup_def
    Update_resend_def Update_keepalive_def Update_pong_timeout_def
  by (intro no_error_intro)

section \<open>An idle UDP channel\<close>

text \<open>
  \<open>idle P\<close>: no channel details, no token sent or confirmed, and \<open>P\<close> of the world. It is preserved by
  all that \<open>Update\<close> does outside its receive loop, when \<open>P\<close> is.
\<close>

definition idle :: "(world \<Rightarrow> bool) \<Rightarrow> SimplesTunnel \<times> world \<Rightarrow> bool" where
  "idle P s \<longleftrightarrow>
     ut_Details (st_UdpTunnel (fst s)) = new_rwlock new_ChannelDetails \<and>
     ut_LastSend (st_UdpTunnel (fst s)) = 0 \<and> ut_LastConfirm (st_UdpTunnel (fst s)) = 0 \<and> P (snd s)"

lemma idle_on_world: "preserves P m \<Longrightarrow> preserves (idle P) (on_world m)"
  by (rule preservesI) (auto simp: on_world_def zoom_def idle_def dest: preservesD split: outcome.split)

lemma idle_on_control:
  assumes m: "preserves (\<lambda>s. P (snd s)) m"
  shows "preserves (idle P) (on_control m)"
proof (rule preservesI)
  fix s :: "SimplesTunnel \<times> world" assume i: "idle P s"
  obtain t w where s: "s = (t, w)" by (cases s)
  show "outcome_all (idle P) (on_control m s)"
  proof (cases "st_ControlChannel t")
    case (Some a)
    have "outcome_all (\<lambda>s. P (snd s)) (m (a, w))"
      using preservesD [OF m, of "(a, w)"] i by (simp add: s idle_def)
    with Some i show ?thesis
      by (cases "m (a, w)") (auto simp: s on_control_def zoom_def idle_def)
  qed (simp add: s on_control_def)
qed

lemma idle_update_tun:
  "(\<And>t. st_UdpTunnel (f t) = st_UdpTunnel t) \<Longrightarrow> preserves (idle P) (update_tun f)"
  unfolding update_tun_def by (rule preserves_modify) (auto simp: idle_def)

text \<open>
  Five seconds into the clock's range, the first question of \<open>Update\<close>, whether the channel has to be
  set up, is answered with yes, and nothing is received.
\<close>

definition late_clock :: "world \<Rightarrow> bool" where
  "late_clock w \<longleftrightarrow> (\<forall>n. 5 < sec_of (w_clock w n))"

lemma idle_RequiresAuth:
  assumes "\<And>w. P w \<Longrightarrow> late_clock w" and "preserves P time_Now"
  shows "yields (idle P) (\<lambda>auth. auth) (on_udp RequiresAuth)"
proof (rule yieldsI)
  fix s :: "SimplesTunnel \<times> world" assume i: "idle P s"
  obtain t w where s: "s = (t, w)" by (cases s)
  have "P w" using i s by (simp add: idle_def)
  then have "late_clock w" "P (w\<lparr>w_ticks := Suc (w_ticks w)\<rparr>)"
    using assms(1) preservesD [OF assms(2), of w] by (simp_all add: time_Now_def)
  with i show "case on_udp RequiresAuth s of Ok x s' \<Rightarrow> x \<and> idle P s' | Err e s' \<Rightarrow> idle P s' | Panic p \<Rightarrow> True"
    by (simp add: s on_udp_def zoom_def RequiresAuth_eq idle_def late_clock_def)
qed

lemma idle_Update_session:
  assumes late: "\<And>w. P w \<Longrightarrow> late_clock w" and tick: "preserves P time_Now"
    and send: "\<And>c d a. preserves P (UDP_Write c d a)"
  shows "yields (idle P) (\<lambda>client. client = None) Update_session"
proof -
  have ping: "preserves (idle P) (Update_ping t)" for t
    unfolding Update_ping_def
    by (intro preserves_intro idle_update_tun idle_on_control preserves_requests send) simp
  have udp_setup: "preserves (idle P) (Update_udp_setup t)" for t
    unfolding Update_udp_setup_def
    by (intro preserves_intro idle_update_tun idle_on_control preserves_requests send) simp
  have pong: "preserves (idle P) Update_pong_timeout"
    unfolding Update_pong_timeout_def
    by (intro preserves_intro idle_update_tun idle_on_world tick idle_on_control preserves_update_auth) simp
  have channel: "yields (idle P) (\<lambda>client. client = None) (Update_channel t)" for t
    unfolding Update_channel_def
    by (rule yields_bind [OF idle_RequiresAuth [OF late tick]])
       (auto intro!: yields_bind_preserves udp_setup yields_ret)
  show ?thesis
    unfolding Update_session_def
    by (rule yields_bind_preserves [OF idle_on_world [OF tick]], rule yields_bind_preserves [OF ping],
        rule yields_bind [OF channel]) (auto intro!: yields_bind_preserves pong yields_ret)
qed

lemma Update_valid:
  assumes "st_ControlChannel t = Some a" and "\<not> IsIspired a"
  shows "Update (t, w) = Update_session (t, w)"
proof -
  have "t\<lparr>st_ControlChannel := Some a\<rparr> = t" using assms(1) by (cases t) simp
  then have "Update_auth (t, w) = Ok True (t, w)"
    using assms by (simp add: Update_auth_def on_control_def go_bind_def zoom_def)
  then show ?thesis by (simp add: Update_def go_bind_def)
qed

section \<open>Invariants of the control channel in the tunnel\<close>

text \<open>\<open>ctl Q\<close>: there is a control channel and it satisfies \<open>Q\<close>.\<close>

definition ctl :: "(AuthenticatedControl \<Rightarrow> bool) \<Rightarrow> SimplesTunnel \<times> world \<Rightarrow> bool" where
  "ctl Q s \<longleftrightarrow> (\<exists>a. st_ControlChannel (fst s) = Some a \<and> Q a)"

lemma ctl_on_control:
  assumes m: "preserves (\<lambda>s. Q (fst s)) m"
  shows "preserves (ctl Q) (on_control m)"
proof (rule preservesI)
  fix s :: "SimplesTunnel \<times> world" assume i: "ctl Q s"
  obtain t w where s: "s = (t, w)" by (cases s)
  from i obtain a where a: "st_ControlChannel t = Some a" "Q a" by (auto simp: s ctl_def)
  then have "outcome_all (\<lambda>s. Q (fst s)) (m (a, w))"
    using preservesD [OF m, of "(a, w)"] by simp
  with a show "outcome_all (ctl Q) (on_control m s)"
    by (cases "m (a, w)") (auto simp: s on_control_def zoom_def ctl_def)
qed

lemma ctl_on_world: "preserves (ctl Q) (on_world m)"
  unfolding on_world_def by (rule preserves_zoom) (auto simp: ctl_def)

lemma ctl_on_udp: "preserves (ctl Q) (on_udp m)"
  unfolding on_udp_def by (rule preserves_zoom) (auto simp: ctl_def)

lemma ctl_update_tun:
  "(\<And>t. st_ControlChannel (f t) = st_ControlChannel t) \<Longrightarrow> preserves (ctl Q) (update_tun f)"
  unfolding update_tun_def by (rule preserves_modify) (auto simp: ctl_def)

context control_invariant
begin

lemma ctl_Update_recv: "preserves (ctl Q) (Update_recv k timeout)"
proof (induction k arbitrary: timeout)
  case 0
  show ?case unfolding Update_recv.simps by (rule preserves_ret)
next
  case (Suc k)
  show ?case
    unfolding Update_recv.simps Update_response_def
    by (intro preserves_intro ctl_on_control ctl_on_udp ctl_on_world ctl_update_tun RecFeedMsg Suc) simp
qed

lemma ctl_Update_auth: "preserves (ctl Q) Update_auth"
  unfolding Update_auth_def
  by (intro preserves_intro ctl_on_control Authenticate)

lemma ctl_Update: "preserves (ctl Q) Update"
  unfolding Update_def Update_session_def Update_ping_def Update_channel_def Update_udp_setup_def
    Update_resend_def Update_keepalive_def Update_pong_timeout_def
  by (intro preserves_intro ctl_Update_auth ctl_on_control ctl_on_udp ctl_on_world ctl_update_tun
        requests ctl_Update_recv force; simp)

end

section \<open>Reachable states\<close>

text \<open>
  Between the calls of the tunnel's operations the rest of the world may change in any way but in
  its clock.
\<close>

inductive tun_reach :: "SimplesTunnel \<times> world \<Rightarrow> bool" where
  setup_ok: "SimplesTunnel_Setup s0 = Ok () s \<Longrightarrow> tun_reach s"
| environment: "tun_reach (t, w) \<Longrightarrow> w_clock w' = w_clock w \<Longrightarrow> tun_reach (t, w')"
| update_ok: "tun_reach s \<Longrightarrow> Update s = Ok client s' \<Longrightarrow> tun_reach s'"
| reload_ok: "tun_reach s \<Longrightarrow> ReloadControlAddr s = Ok b s' \<Longrightarrow> tun_reach s'"
| reload_err: "tun_reach s \<Longrightarrow> ReloadControlAddr s = Err e s' \<Longrightarrow> tun_reach s'"

text \<open>An authenticated control channel made from the result of \<open>Setup\<close>.\<close>

lemma Setup_Setup_expiry:
  "yields (recv_in UNIV) (\<lambda>c. \<exists>pong. cc_Pong c = Some pong \<and> pong_SessionExpireAt pong \<noteq> None)
     (Setup_Setup addrs)"
  by (rule yields_mono [OF yields_Setup_Setup [where S = UNIV]])
     (auto simp: setup_result_def pong_answer_def dest: ControlFeed_ReadFrom_pong_expiry)

lemma Authenticate_expiry:
  assumes "cc_Pong c = Some pong" and "pong_SessionExpireAt pong \<noteq> None"
  shows "yields (recv_in UNIV) (\<lambda>a. expiry_known a \<and> ac_Conn a = c \<and> \<not> ac_ForceEpired a)
     (ConnectedControl_Authenticate c Api)"
  by (rule yields_mono [OF yields_Authenticate [where S = UNIV]])
     (use assms in \<open>auto simp: auth_result_def expiry_known_def\<close>)

text \<open>
  \<open>linked s\<close>: there is a control channel whose last pong has an expiry, and it is connected to the
  control address of the tunnel.
\<close>

definition linked :: "SimplesTunnel \<times> world \<Rightarrow> bool" where
  "linked s \<longleftrightarrow>
     (\<exists>a. st_ControlChannel (fst s) = Some a \<and> expiry_known a \<and>
        cc_ControlAddr (ac_Conn a) = st_ControlAddr (fst s))"

lemma addr_on_control: "preserves (\<lambda>s. st_ControlAddr (fst s) = addr) (on_control m)"
  by (rule preservesI) (auto simp: on_control_def zoom_def split: option.split outcome.split)

lemma addr_on_world: "preserves (\<lambda>s. st_ControlAddr (fst s) = addr) (on_world m)"
  by (rule preserves_fst_on_world)

lemma addr_on_udp: "preserves (\<lambda>s. st_ControlAddr (fst s) = addr) (on_udp m)"
  unfolding on_udp_def by (rule preserves_zoom) auto

lemma addr_update_tun:
  "(\<And>t. st_ControlAddr (f t) = st_ControlAddr t) \<Longrightarrow>
   preserves (\<lambda>s. st_ControlAddr (fst s) = addr) (update_tun f)"
  unfolding update_tun_def by (rule preserves_modify) auto

lemma addr_Update_recv: "preserves (\<lambda>s. st_ControlAddr (fst s) = addr) (Update_recv k timeout)"
proof (induction k arbitrary: timeout)
  case 0
  show ?case unfolding Update_recv.simps by (rule preserves_ret)
next
  case (Suc k)
  show ?case
    unfolding Update_recv.simps Update_response_def
    by (intro preserves_intro addr_on_control addr_on_udp addr_on_world addr_update_tun Suc) simp
qed

lemma addr_Update: "preserves (\<lambda>s. st_ControlAddr (fst s) = addr) Update"
  unfolding Update_def Update_session_def Update_auth_def Update_ping_def Update_channel_def
    Update_udp_setup_def Update_resend_def Update_keepalive_def Update_pong_timeout_def
  by (intro preserves_intro addr_on_control addr_on_udp addr_on_world addr_update_tun
        addr_Update_recv; simp)

lemma linked_Update: "preserves linked Update"
proof (rule preservesI)
  fix s assume "linked s"
  then obtain a where "st_ControlChannel (fst s) = Some a" "expiry_known a"
      "connected_to (st_ControlAddr (fst s)) (cc_Udp (ac_Conn a)) a"
    by (auto simp: linked_def connected_to_def)
  then have "outcome_all (ctl expiry_known) (Update s)"
    and "outcome_all (ctl (connected_to (st_ControlAddr (fst s)) (cc_Udp (ac_Conn a)))) (Update s)"
    and "outcome_all (\<lambda>s'. st_ControlAddr (fst s') = st_ControlAddr (fst s)) (Update s)"
    by (auto intro: preservesD [OF expiry.ctl_Update] preservesD [OF conn.ctl_Update]
        preservesD [OF addr_Update] simp: ctl_def)
  then show "outcome_all linked (Update s)"
    by (cases "Update s") (auto simp: linked_def ctl_def connected_to_def)
qed

lemma linked_on_world: "preserves linked (on_world m)"
  unfolding on_world_def by (rule preserves_zoom) (auto simp: linked_def)

lemma linked_UpdateControlAddr:
  assumes "cc_Pong c = Some pong" and "pong_SessionExpireAt pong \<noteq> None"
  shows "preserves linked (UpdateControlAddr c)"
proof (rule preservesI)
  fix s assume l: "linked s"
  obtain t w where s: "s = (t, w)" by (cases s)
  show "outcome_all linked (UpdateControlAddr c s)"
  proof (cases "cc_ControlAddr c = st_ControlAddr t")
    case True
    with l show ?thesis by (simp add: s UpdateControlAddr_def go_bind_def)
  next
    case False
    show ?thesis
    proof (cases "ConnectedControl_Authenticate c (st_ApiClaim t) w")
      case (Ok a w')
      then have "expiry_known a \<and> ac_Conn a = c"
        using yieldsD [OF Authenticate_expiry [OF assms]] by (fastforce simp: recv_in_def)
      with Ok False show ?thesis
        by (simp add: s UpdateControlAddr_def go_bind_def on_world_def zoom_def update_tun_def
            on_udp_def InvalidateSession_def linked_def)
    qed (use l False in \<open>simp_all add: s UpdateControlAddr_def go_bind_def on_world_def zoom_def
        linked_def\<close>)
  qed
qed

lemma linked_ReloadControlAddr: "preserves linked ReloadControlAddr"
proof -
  have targets: "preserves linked (update_tun (\<lambda>t. t\<lparr>st_lastControlTargets := addresses\<rparr>))" for addresses
    unfolding update_tun_def by (rule preserves_modify) (auto simp: linked_def)
  have tail: "preserves linked (go_bind (go_try (UpdateControlAddr c)) (\<lambda>updated.
      go_bind (update_tun (\<lambda>t. t\<lparr>st_lastControlTargets := addresses\<rparr>)) (\<lambda>_.
        case updated of Inl e \<Rightarrow> throw e | Inr b \<Rightarrow> ret b)))"
    if "\<exists>pong. cc_Pong c = Some pong \<and> pong_SessionExpireAt pong \<noteq> None" for c addresses
    using that by (elim exE conjE) (intro preserves_intro targets linked_UpdateControlAddr)
  have "yields linked (\<lambda>c. \<exists>pong. cc_Pong c = Some pong \<and> pong_SessionExpireAt pong \<noteq> None)
      (on_world (Setup_Setup addresses))" for addresses
    using yields_fst_on_world [OF Setup_Setup_expiry, where Q = "\<lambda>_. True"]
    by (rule yields_strengthen) (rule linked_on_world)
  then have body: "preserves linked (go_bind (on_world (Setup_Setup addresses)) (\<lambda>c.
      go_bind (go_try (UpdateControlAddr c)) (\<lambda>updated.
      go_bind (update_tun (\<lambda>t. t\<lparr>st_lastControlTargets := addresses\<rparr>)) (\<lambda>_.
        case updated of Inl e \<Rightarrow> throw e | Inr b \<Rightarrow> ret b))))" for addresses
    by (rule yields_preserves [OF yields_bind [OF _ preserves_yields [OF tail]]])
  show ?thesis
    unfolding ReloadControlAddr_def
    by (rule preserves_bind [OF linked_on_world], rule preserves_bind [OF preserves_get_state],
        rule preserves_prod, rule preserves_if [OF preserves_ret body])
qed

lemma SimplesTunnel_Setup_Ok:
  assumes "SimplesTunnel_Setup s0 = Ok () s"
  obtains s1 c a addresses w2 w3 w4 where "on_udp AssignUdpTunnel s0 = Ok () s1"
    "ControlAddresses (snd s1) = Ok addresses w2" "Setup_Setup addresses w2 = Ok c w3"
    "ConnectedControl_Authenticate c (st_ApiClaim (fst s1)) w3 = Ok a w4"
    "s = ((fst s1)\<lparr>st_ControlAddr := cc_ControlAddr c, st_ControlChannel := Some a\<rparr>, w4)"
  using assms
  by (auto simp: SimplesTunnel_Setup_def go_bind_def on_world_def zoom_def update_tun_def
      split: outcome.splits prod.splits)

lemma linked_Setup:
  assumes "SimplesTunnel_Setup s0 = Ok () s"
  shows "linked s \<and> \<not> ctl ac_ForceEpired s"
proof -
  obtain s1 c a addresses w2 w3 w4 where "on_udp AssignUdpTunnel s0 = Ok () s1"
      "ControlAddresses (snd s1) = Ok addresses w2" and c: "Setup_Setup addresses w2 = Ok c w3"
    and a: "ConnectedControl_Authenticate c (st_ApiClaim (fst s1)) w3 = Ok a w4"
    and s: "s = ((fst s1)\<lparr>st_ControlAddr := cc_ControlAddr c, st_ControlChannel := Some a\<rparr>, w4)"
    using assms by (rule SimplesTunnel_Setup_Ok)
  obtain pong where "cc_Pong c = Some pong" "pong_SessionExpireAt pong \<noteq> None"
    using yieldsD [OF Setup_Setup_expiry _ c] by (auto simp: recv_in_def)
  from yieldsD [OF Authenticate_expiry [OF this] _ a]
  have "expiry_known a \<and> ac_Conn a = c \<and> \<not> ac_ForceEpired a" by (simp add: recv_in_def)
  then show ?thesis by (simp add: s linked_def ctl_def)
qed

lemma tun_reach_linked: "tun_reach s \<Longrightarrow> linked s"
proof (induction rule: tun_reach.induct)
  case (setup_ok s0 s)
  then show ?case using linked_Setup by blast
next
  case (environment t w w')
  then show ?case by (simp add: linked_def)
next
  case (update_ok s client s')
  then show ?case using preservesD [OF linked_Update] by fastforce
next
  case (reload_ok s b s')
  then show ?case using preservesD [OF linked_ReloadControlAddr] by fastforce
next
  case (reload_err s e s')
  then show ?case using preservesD [OF linked_ReloadControlAddr] by fastforce
qed

section \<open>Invariants of the world under Update\<close>

lemma world_on_control: "preserves (\<lambda>s. P (snd s)) m \<Longrightarrow> preserves (\<lambda>s. P (snd s)) (on_control m)"
proof (rule preservesI)
  fix s :: "SimplesTunnel \<times> world"
  assume m: "preserves (\<lambda>s. P (snd s)) m" and i: "P (snd s)"
  obtain t w where s: "s = (t, w)" by (cases s)
  show "outcome_all (\<lambda>s. P (snd s)) (on_control m s)"
  proof (cases "st_ControlChannel t")
    case (Some a)
    have "outcome_all (\<lambda>s. P (snd s)) (m (a, w))"
      using preservesD [OF m, of "(a, w)"] i by (simp add: s)
    with Some show ?thesis
      by (cases "m (a, w)") (auto simp: s on_control_def zoom_def)
  qed (simp add: s on_control_def)
qed

lemma world_on_udp: "preserves (\<lambda>s. P (snd s)) m \<Longrightarrow> preserves (\<lambda>s. P (snd s)) (on_udp m)"
proof (rule preservesI)
  fix s :: "SimplesTunnel \<times> world"
  assume m: "preserves (\<lambda>s. P (snd s)) m" and i: "P (snd s)"
  obtain t w where s: "s = (t, w)" by (cases s)
  have "outcome_all (\<lambda>s. P (snd s)) (m (st_UdpTunnel t, w))"
    using preservesD [OF m, of "(st_UdpTunnel t, w)"] i by (simp add: s)
  then show "outcome_all (\<lambda>s. P (snd s)) (on_udp m s)"
    by (cases "m (st_UdpTunnel t, w)") (auto simp: s on_udp_def zoom_def)
qed

lemma world_update_tun: "preserves (\<lambda>s. P (snd s)) (update_tun f)"
  unfolding update_tun_def by (rule preserves_modify) auto

context world_invariant
begin

lemmas on_tunnel = preserves_on_world world_on_control world_on_udp world_update_tun
  preserves_update_auth preserves_requests [OF P_write] RecFeedMsg_world udp_queries P_clock
  AuthenticatedControl_Authenticate

lemma Update_recv: "preserves (\<lambda>s. P (snd s)) (Update_recv k timeout)"
proof (induction k arbitrary: timeout)
  case 0
  show ?case unfolding Update_recv.simps by (rule preserves_ret)
next
  case (Suc k)
  show ?case
    unfolding Update_recv.simps Update_response_def by (intro preserves_intro on_tunnel Suc)
qed

lemma Update: "preserves (\<lambda>s. P (snd s)) Update"
  unfolding Update_def Update_session_def Update_auth_def Update_ping_def Update_channel_def
    Update_udp_setup_def Update_resend_def Update_keepalive_def Update_pong_timeout_def
  by (intro preserves_intro on_tunnel Update_recv)

lemma ReloadControlAddr: "preserves (\<lambda>s. P (snd s)) ReloadControlAddr"
  unfolding ReloadControlAddr_def UpdateControlAddr_def ControlAddresses_def InvalidateSession_def
  by (intro preserves_intro on_tunnel Setup_Setup ConnectedControl_Authenticate P_routing
        preserves_modify_fst) auto

end

section \<open>Reachable states are idle\<close>

lemma idle_Update_auth: "preserves (idle (clock_is c)) Update_auth"
  unfolding Update_auth_def
  by (intro preserves_intro idle_on_control clk.AuthenticatedControl_Authenticate)

lemma idle_Update:
  assumes "\<And>w. clock_is c w \<Longrightarrow> late_clock w"
  shows "yields (idle (clock_is c)) (\<lambda>client. client = None) Update"
  unfolding Update_def
  by (rule yields_bind_preserves [OF idle_Update_auth], rule yields_if)
     (rule idle_Update_session [OF assms clk.P_clock clk.P_write], assumption, rule yields_ret, rule refl)

lemma idle_ReloadControlAddr: "preserves (idle (clock_is c)) ReloadControlAddr"
proof -
  have "preserves (idle (clock_is c)) (on_udp InvalidateSession)"
    by (rule preservesI) (auto simp: on_udp_def zoom_def InvalidateSession_def idle_def)
  then show ?thesis
    unfolding ReloadControlAddr_def UpdateControlAddr_def ControlAddresses_def
    by (intro preserves_intro idle_on_world idle_update_tun clk.Setup_Setup
          clk.ConnectedControl_Authenticate clk.P_routing) auto
qed

lemma idle_Setup:
  assumes "SimplesTunnel_Setup s0 = Ok () s"
  shows "idle (\<lambda>_. True) s"
proof -
  obtain s1 c a addresses w2 w3 w4 where u: "on_udp AssignUdpTunnel s0 = Ok () s1"
      "ControlAddresses (snd s1) = Ok addresses w2" "Setup_Setup addresses w2 = Ok c w3"
      "ConnectedControl_Authenticate c (st_ApiClaim (fst s1)) w3 = Ok a w4"
      "s = ((fst s1)\<lparr>st_ControlAddr := cc_ControlAddr c, st_ControlChannel := Some a\<rparr>, w4)"
    using assms by (rule SimplesTunnel_Setup_Ok)
  from u(1) obtain s2 where "AssignUdpTunnel (st_UdpTunnel (fst s0), snd s0) = Ok () s2"
      "st_UdpTunnel (fst s1) = fst s2"
    by (cases s0) (auto simp: on_udp_def zoom_def split: outcome.splits)
  with AssignUdpTunnel_details show ?thesis by (fastforce simp: u(5) idle_def)
qed

lemma idle_clock: "idle (\<lambda>_. True) s \<Longrightarrow> w_clock (snd s) = c \<Longrightarrow> idle (clock_is c) s"
  by (simp add: idle_def clock_is_def)

lemma idle_weaken: "idle P s \<Longrightarrow> idle (\<lambda>_. True) s"
  by (simp add: idle_def)

text \<open>The clock of a reachable state is the one of every state before it.\<close>

lemma clock_Update: "Update s = Ok client s' \<Longrightarrow> w_clock (snd s') = w_clock (snd s)"
  using preservesD [OF clk.Update, of "w_clock (snd s)" s] by (simp add: clock_is_def)

lemma clock_Reload:
  "outcome_all (\<lambda>s'. w_clock (snd s') = w_clock (snd s)) (ReloadControlAddr s)"
  using preservesD [OF clk.ReloadControlAddr, of "w_clock (snd s)" s] by (simp add: clock_is_def)

lemma late_clock_cong: "w_clock w = w_clock v \<Longrightarrow> late_clock w \<longleftrightarrow> late_clock v"
  by (simp add: late_clock_def)

lemma late_clock_is: "late_clock v \<Longrightarrow> clock_is (w_clock v) w \<Longrightarrow> late_clock w"
  by (simp add: late_clock_def clock_is_def)

lemma tun_reach_idle: "tun_reach s \<Longrightarrow> late_clock (snd s) \<Longrightarrow> idle (\<lambda>_. True) s"
proof (induction rule: tun_reach.induct)
  case (setup_ok s0 s)
  then show ?case using idle_Setup by blast
next
  case (environment t w w')
  then show ?case by (simp add: idle_def late_clock_def)
next
  case (update_ok s client s')
  have c: "w_clock (snd s') = w_clock (snd s)" using update_ok.hyps(2) by (rule clock_Update)
  then have "late_clock (snd s)" using update_ok.prems late_clock_cong by blast
  then have "idle (clock_is (w_clock (snd s))) s" and "\<And>w. clock_is (w_clock (snd s)) w \<Longrightarrow> late_clock w"
    using update_ok.IH by (blast intro: idle_clock late_clock_is)+
  from yieldsD [OF idle_Update [OF this(2)] this(1) update_ok.hyps(2)] show ?case
    using idle_weaken by blast
next
  case (reload_ok s b s')
  then have c: "w_clock (snd s') = w_clock (snd s)" using clock_Reload [of s] by simp
  then have "idle (clock_is (w_clock (snd s))) s"
    using reload_ok.IH reload_ok.prems late_clock_cong [OF c] by (simp add: idle_clock)
  from preservesD [OF idle_ReloadControlAddr this] show ?case
    using reload_ok.hyps(2) idle_weaken by simp
next
  case (reload_err s e s')
  then have c: "w_clock (snd s') = w_clock (snd s)" using clock_Reload [of s] by simp
  then have "idle (clock_is (w_clock (snd s))) s"
    using reload_err.IH reload_err.prems late_clock_cong [OF c] by (simp add: idle_clock)
  from preservesD [OF idle_ReloadControlAddr this] show ?case
    using reload_err.hyps(2) idle_weaken by simp
qed

lemma tun_reach_Update_None:
  assumes "tun_reach s" and "late_clock (snd s)" and "Update s = Ok client s'"
  shows "client = None"
proof -
  have "idle (clock_is (w_clock (snd s))) s" using tun_reach_idle [OF assms(1,2)] by (simp add: idle_clock)
  moreover have "\<And>w. clock_is (w_clock (snd s)) w \<Longrightarrow> late_clock w"
    using assms(2) by (rule late_clock_is)
  ultimately show ?thesis using yieldsD [OF idle_Update] assms(3) by blast
qed

text \<open>A session that is valid is not listened to either.\<close>

definition unread :: "(nat \<Rightarrow> u64) \<Rightarrow> recv list \<Rightarrow> world \<Rightarrow> bool" where
  "unread c r w \<longleftrightarrow> w_clock w = c \<and> w_recv w = r"

lemma unread_ops: "preserves (unread c r) time_Now" "preserves (unread c r) (UDP_Write k d a)"
  by (rule preservesI; auto simp: unread_def time_Now_def UDP_Write_def Let_def
      split: option.split list.split)+

lemma tun_reach_Update_unread:
  assumes "tun_reach s" and "late_clock (snd s)" and "\<not> ctl IsIspired s"
  shows "outcome_all (\<lambda>s'. w_recv (snd s') = w_recv (snd s)) (Update s)"
proof -
  obtain t w where s: "s = (t, w)" by (cases s)
  from tun_reach_linked [OF assms(1)] assms(3) obtain a where
      "st_ControlChannel t = Some a" "\<not> IsIspired a" by (auto simp: s linked_def ctl_def)
  then have "Update s = Update_session s" by (simp add: s Update_valid)
  moreover have "idle (unread (w_clock w) (w_recv w)) s"
    using tun_reach_idle [OF assms(1,2)] by (simp add: s idle_def unread_def)
  moreover have "preserves (idle (unread (w_clock w) (w_recv w))) Update_session"
  proof (rule yields_preserves, rule idle_Update_session [OF _ unread_ops])
    fix v assume "unread (w_clock w) (w_recv w) v"
    then show "late_clock v" using assms(2) late_clock_cong [of v w] by (simp add: s unread_def)
  qed
  ultimately show ?thesis
    using preservesD outcome_all_mono [of "idle (unread (w_clock w) (w_recv w))"]
    by (fastforce simp: s idle_def unread_def)
qed

section \<open>The operations one by one\<close>

lemma tun_reach_IsIspired:
  assumes "tun_reach s" and "st_ControlChannel (fst s) = Some a"
  shows "IsIspired a \<longleftrightarrow> ac_ForceEpired a"
  using tun_reach_linked [OF assms(1)] assms(2) by (auto simp: linked_def IsIspired_iff expiry_known_def)

lemma UpdateControlAddr_eq:
  "UpdateControlAddr c (t, w) =
    (if cc_ControlAddr c = st_ControlAddr t then Ok False (t, w)
     else
       (case ConnectedControl_Authenticate c (st_ApiClaim t) w of
          Err e w' \<Rightarrow> Err e (t, w')
        | Panic p \<Rightarrow> Panic p
        | Ok a w' \<Rightarrow>
            Ok True (t\<lparr>st_ControlChannel := Some a, st_ControlAddr := cc_ControlAddr c,
                st_LastPing := 0, st_LastKeepAlive := 0, st_LastUdpAuth := 0,
                st_UdpTunnel := (st_UdpTunnel t)\<lparr>ut_LastConfirm := 0, ut_LastSend := 0\<rparr>\<rparr>, w')))"
  by (simp add: UpdateControlAddr_def go_bind_def on_world_def zoom_def update_tun_def on_udp_def
      InvalidateSession_def split: outcome.split)

text \<open>
  The keep-alive waits for \<open>timeTillExpire\<close> to fall below 30 s; but that is the smaller of the time
  of expiry and of the time now, both counted from 1970.
\<close>

lemma timeTillExpire_small: "timeTillExpire x y < k \<longleftrightarrow> x < k \<or> y < k"
  by (auto simp: timeTillExpire_def)

lemma Update_keepalive_idle:
  assumes "st_ControlChannel t = Some a" and "30000 \<le> now"
    and "30000 \<le> reg_ExpiresAt (ac_Registered a)"
  shows "Update_keepalive now (t, w) = Ok () (t, w)"
proof -
  have "t\<lparr>st_ControlChannel := Some a\<rparr> = t" using assms(1) by (cases t) simp
  moreover have "\<not> timeTillExpire (reg_ExpiresAt (ac_Registered a)) now < 30000"
    using assms(2,3) by (auto simp: timeTillExpire_small)
  ultimately show ?thesis
    using assms(1) by (simp add: Update_keepalive_def on_control_def zoom_def go_bind_def)
qed

lemma targets_gone_iff: "targets_gone old new \<longleftrightarrow> \<not> set old \<subseteq> set new"
  by (auto simp: targets_gone_def list_ex_iff)

lemma Reload_gone:
  assumes "ControlAddresses w = Ok addresses w1" and "\<not> set (st_lastControlTargets t) \<subseteq> set addresses"
  shows "ReloadControlAddr (t, w) = Ok False (t, w1)"
  using assms by (simp add: ReloadControlAddr_def go_bind_def on_world_def zoom_def targets_gone_iff)

lemma Reload_same:
  assumes "ControlAddresses w = Ok addresses w1" and "set (st_lastControlTargets t) \<subseteq> set addresses"
    and "Setup_Setup addresses w1 = Ok c w2" and "cc_ControlAddr c = st_ControlAddr t"
  shows "ReloadControlAddr (t, w) = Ok False (t\<lparr>st_lastControlTargets := addresses\<rparr>, w2)"
  using assms
  by (simp add: ReloadControlAddr_def go_bind_def on_world_def zoom_def targets_gone_iff
      UpdateControlAddr_eq go_try_def update_tun_def)

lemma ControlAddresses_eq:
  "w_routing w = Inr (t6, t4) # r \<Longrightarrow>
   ControlAddresses w = Ok (map (\<lambda>v. AddrPort v 5525) (t6 @ t4)) (w\<lparr>w_routing := r\<rparr>)"
  by (simp add: ControlAddresses_def go_bind_def AgentRoutings_def)

end
