(* ===== verification/Api_Agents.thy ===== *)
theory Api_Agents
  imports Api_Request
begin

text \<open>
  \<open>src/api/others.go\<close>: what the agent asks the API about itself. Each call is one request; the structs
  of the replies are records with the list of their fields, each with its tag and decoder.
\<close>

section \<open>Data\<close>

record api_PortRange =
  apr_From :: u16
  apr_To :: u16

definition api_PortRange_fields :: "api_PortRange field list" where
  "api_PortRange_fields =
     [fld ''from'' apr_From apr_From_update dec_uint,
      fld ''to'' apr_To apr_To_update dec_uint]"

definition zero_api_PortRange :: api_PortRange where
  "zero_api_PortRange = \<lparr>apr_From = 0, apr_To = 0\<rparr>"

record AgentTunnel =
  at_ID :: UUID
  at_Name :: string
  at_IpNum :: u16
  at_RegionNum :: u16
  at_Port :: api_PortRange
  at_Proto :: string
  at_LocalIp :: bytes
  at_LocalPort :: u16
  at_TunnelType :: string
  at_AssignedDomain :: string
  at_CustomDomain :: string
  at_Disabled :: "json option"

definition AgentTunnel_fields :: "texts \<Rightarrow> AgentTunnel field list" where
  "AgentTunnel_fields lib =
     [fld ''id'' at_ID at_ID_update (dec_text (uuid_Parse lib)),
      fld ''name'' at_Name at_Name_update dec_string,
      fld ''ip_num'' at_IpNum at_IpNum_update dec_uint,
      fld ''region_num'' at_RegionNum at_RegionNum_update dec_uint,
      fld ''port'' at_Port at_Port_update (dec_struct api_PortRange_fields),
      fld ''proto'' at_Proto at_Proto_update dec_string,
      fld ''local_ip'' at_LocalIp at_LocalIp_update (dec_ip lib),
      fld ''local_port'' at_LocalPort at_LocalPort_update dec_uint,
      fld ''tunnel_type'' at_TunnelType at_TunnelType_update dec_string,
      fld ''assigned_domain'' at_AssignedDomain at_AssignedDomain_update dec_string,
      fld ''custom_domain'' at_CustomDomain at_CustomDomain_update dec_string,
      fld ''disabled'' at_Disabled at_Disabled_update (dec_ptr JNull dec_any)]"

definition zero_AgentTunnel :: AgentTunnel where
  "zero_AgentTunnel =
     \<lparr>at_ID = 0, at_Name = '''', at_IpNum = 0, at_RegionNum = 0, at_Port = zero_api_PortRange,
      at_Proto = '''', at_LocalIp = [], at_LocalPort = 0, at_TunnelType = '''', at_AssignedDomain = '''',
      at_CustomDomain = '''', at_Disabled = None\<rparr>"

record AgentPendingTunnel =
  ap_ID :: UUID
  ap_Name :: string
  ap_PortType :: string
  ap_PortCount :: u16
  ap_TunnelType :: string
  ap_Disabled :: bool

definition AgentPendingTunnel_fields :: "texts \<Rightarrow> AgentPendingTunnel field list" where
  "AgentPendingTunnel_fields lib =
     [fld ''id'' ap_ID ap_ID_update (dec_text (uuid_Parse lib)),
      fld ''name'' ap_Name ap_Name_update dec_string,
      fld ''proto'' ap_PortType ap_PortType_update dec_string,
      fld ''port_count'' ap_PortCount ap_PortCount_update dec_uint,
      fld ''tunnel_type'' ap_TunnelType ap_TunnelType_update dec_string,
      fld ''is_disabled'' ap_Disabled ap_Disabled_update dec_bool]"

definition zero_AgentPendingTunnel :: AgentPendingTunnel where
  "zero_AgentPendingTunnel =
     \<lparr>ap_ID = 0, ap_Name = '''', ap_PortType = '''', ap_PortCount = 0, ap_TunnelType = '''',
      ap_Disabled = False\<rparr>"

record AgentRunData =
  rd_ID :: UUID
  rd_Type :: string
  rd_AccountStatus :: string
  rd_Tunnels :: "AgentTunnel list"
  rd_TunnelsPending :: "AgentPendingTunnel list"

definition AgentRunData_fields :: "texts \<Rightarrow> AgentRunData field list" where
  "AgentRunData_fields lib =
     [fld ''agent_id'' rd_ID rd_ID_update (dec_text (uuid_Parse lib)),
      fld ''agent_type'' rd_Type rd_Type_update dec_string,
      fld ''account_status'' rd_AccountStatus rd_AccountStatus_update dec_string,
      fld ''tunnels'' rd_Tunnels rd_Tunnels_update
        (dec_slice zero_AgentTunnel (dec_struct (AgentTunnel_fields lib))),
      fld ''pending'' rd_TunnelsPending rd_TunnelsPending_update
        (dec_slice zero_AgentPendingTunnel (dec_struct (AgentPendingTunnel_fields lib)))]"

definition zero_AgentRunData :: AgentRunData where
  "zero_AgentRunData =
     \<lparr>rd_ID = 0, rd_Type = '''', rd_AccountStatus = '''', rd_Tunnels = [], rd_TunnelsPending = []\<rparr>"

record AgentRouting =
  ar_Agent :: UUID
  ar_Targets4 :: "addr list"
  ar_Targets6 :: "addr list"

definition AgentRouting_fields :: "texts \<Rightarrow> AgentRouting field list" where
  "AgentRouting_fields lib =
     [fld ''agent_id'' ar_Agent ar_Agent_update (dec_text (uuid_Parse lib)),
      fld ''targets4'' ar_Targets4 ar_Targets4_update (dec_slice ZeroAddr (dec_text (addr_Parse lib))),
      fld ''targets6'' ar_Targets6 ar_Targets6_update (dec_slice ZeroAddr (dec_text (addr_Parse lib)))]"

definition zero_AgentRouting :: AgentRouting where
  "zero_AgentRouting = \<lparr>ar_Agent = 0, ar_Targets4 = [], ar_Targets6 = []\<rparr>"

record AgentVersion =
  agv_Platform :: string
  agv_Version :: string

record PlayitAgentVersion =
  pav_Official :: bool
  pav_DetailsWebsite :: string
  pav_Version :: AgentVersion

definition enc_AgentVersion :: "AgentVersion \<Rightarrow> json" where
  "enc_AgentVersion v = JObj (mem_str ''platform'' (agv_Platform v) @ mem ''version'' (JStr (agv_Version v)))"

definition enc_PlayitAgentVersion :: "PlayitAgentVersion \<Rightarrow> json" where
  "enc_PlayitAgentVersion v =
     JObj (mem ''official'' (JBool (pav_Official v)) @
       mem ''details_website'' (JStr (pav_DetailsWebsite v)) @
       mem ''version'' (enc_AgentVersion (pav_Version v)))"

section \<open>Calls\<close>

definition Api_AgentInfo :: "texts \<Rightarrow> Api \<Rightarrow> (AgentRunData, http) go" where
  "Api_AgentInfo lib w =
     requestToApi w ''/agents/rundata'' None (Some (dec_struct (AgentRunData_fields lib)))
       zero_AgentRunData []"

definition Api_AgentRoutings :: "texts \<Rightarrow> Api \<Rightarrow> UUID option \<Rightarrow> (AgentRouting, http) go" where
  "Api_AgentRoutings lib w AgentID =
     requestToApi w ''/agents/routing/get''
       (Some (JObj (mem_ptr ''agent_id'' (JStr \<circ> uuid_String lib) AgentID)))
       (Some (dec_struct (AgentRouting_fields lib))) zero_AgentRouting []"

record register_code =
  rc_Key :: string

definition register_code_fields :: "register_code field list" where
  "register_code_fields = [fld ''key'' rc_Key rc_Key_update dec_string]"

definition Api_ProtoRegisterRegister :: "texts \<Rightarrow> Api \<Rightarrow> addrport \<Rightarrow> addrport \<Rightarrow> (string, http) go" where
  "Api_ProtoRegisterRegister lib w Client Tunnel =
     (let body = JObj (mem ''client_addr'' (JStr (addrport_String lib Client)) @
            mem ''tunnel_addr'' (JStr (addrport_String lib Tunnel)) @
            mem ''agent_version'' (enc_PlayitAgentVersion
              \<lparr>pav_Official = False,
               pav_DetailsWebsite = ''https://sirherobrine23.org/playit-cloud/go-playit'',
               pav_Version = \<lparr>agv_Platform = ''unknown'', agv_Version = GoPlayitVersion\<rparr>\<rparr>)) in
      go_bind (requestToApi w ''/proto/register'' (Some body) (Some (dec_struct register_code_fields))
          \<lparr>rc_Key = ''''\<rparr> [])
        (\<lambda>code. ret (rc_Key code)))"

end
