(* ===== verification/Address_Lookup.thy ===== *)
theory Address_Lookup
  imports Lib Api_Agents
begin

text \<open>
  \<open>src/tunnel/address_lookup.go\<close>: where the traffic of a tunnel address goes on the local machine.
  A list of overrides is searched in order; without a match the same port of \<open>127.0.0.1\<close> is used.
\<close>

definition api_PortType :: "string list" where
  "api_PortType = [''both'', ''tcp'', ''udp'']"

record PortType =
  pt_Value :: string

definition PortType_IsValid :: "PortType \<Rightarrow> bool" where
  "PortType_IsValid w = List.member api_PortType (pt_Value w)"

definition PortProto_SetBoth :: "PortProto \<Rightarrow> PortProto" where
  "PortProto_SetBoth proto = proto\<lparr>Value := ''both''\<rparr>"

definition PortProto_SetTcp :: "PortProto \<Rightarrow> PortProto" where
  "PortProto_SetTcp proto = proto\<lparr>Value := ''tcp''\<rparr>"

definition PortProto_SetUdp :: "PortProto \<Rightarrow> PortProto" where
  "PortProto_SetUdp proto = proto\<lparr>Value := ''udp''\<rparr>"

record 'a AddressValue =
  av_Value :: 'a
  av_FromPort :: u16
  av_ToPort :: u16

record MatchIp =
  mi_IP :: addrport
  mi_RegionID :: "u16 option"

definition MatchIp_Matches :: "MatchIp \<Rightarrow> addrport \<Rightarrow> bool" where
  "MatchIp_Matches mat ip \<longleftrightarrow> AddrPort_Compare (mi_IP mat) ip = 0"

record MappingOverride =
  mo_MatchIP :: MatchIp
  mo_Proto :: PortType
  mo_Port :: api_PortRange
  mo_LocalAddr :: addrport

type_synonym LookupWithOverrides = "MappingOverride list"

definition override_value :: "MappingOverride \<Rightarrow> addrport AddressValue" where
  "override_value over =
     \<lparr>av_Value = mo_LocalAddr over, av_FromPort = apr_From (mo_Port over),
      av_ToPort = apr_To (mo_Port over)\<rparr>"

definition default_value :: "addrport \<Rightarrow> addrport AddressValue" where
  "default_value IpPort =
     \<lparr>av_Value = AddrPort (AddrFrom4 [127, 0, 0, 1]) (ap_Port IpPort),
      av_FromPort = ap_Port IpPort, av_ToPort = ap_Port IpPort + 1\<rparr>"

fun LookupWithOverrides_Lookup ::
    "LookupWithOverrides \<Rightarrow> addrport \<Rightarrow> PortType \<Rightarrow> addrport AddressValue option" where
  "LookupWithOverrides_Lookup [] IpPort Proto = Some (default_value IpPort)"
| "LookupWithOverrides_Lookup (over # rest) IpPort Proto =
     (if pt_Value (mo_Proto over) = pt_Value Proto \<and> MatchIp_Matches (mo_MatchIP over) IpPort
      then Some (override_value over)
      else LookupWithOverrides_Lookup rest IpPort Proto)"

section \<open>The lookup is the first match\<close>

definition override_for :: "addrport \<Rightarrow> PortType \<Rightarrow> MappingOverride \<Rightarrow> bool" where
  "override_for IpPort Proto over \<longleftrightarrow>
     pt_Value (mo_Proto over) = pt_Value Proto \<and> mi_IP (mo_MatchIP over) = IpPort"

lemma Lookup_find:
  "LookupWithOverrides_Lookup overs IpPort Proto =
     Some (case find (override_for IpPort Proto) overs of
       Some over \<Rightarrow> override_value over | None \<Rightarrow> default_value IpPort)"
  by (induction overs) (auto simp: override_for_def MatchIp_Matches_def)

lemma Lookup_append:
  "LookupWithOverrides_Lookup (xs @ ys) IpPort Proto =
     (if \<exists>over \<in> set xs. override_for IpPort Proto over
      then LookupWithOverrides_Lookup xs IpPort Proto
      else LookupWithOverrides_Lookup ys IpPort Proto)"
  by (induction xs) (auto simp: override_for_def MatchIp_Matches_def)

text \<open>
  The default range holds the one port looked up, as long as the next port exists; at 65535 the
  upper end wraps to 0.
\<close>

lemma default_value_range:
  "unat (av_ToPort (default_value p)) =
     (if ap_Port p = 0xffff then 0 else unat (ap_Port p) + 1)"
proof -
  have "unat (w + 1) = (if w = 0xffff then 0 else unat w + 1)" for w :: u16
  proof (cases "w = 0xffff")
    case False
    have "(-1 :: u16) = 0xffff" by simp
    then have "w + 1 \<noteq> 0" using False by (metis eq_neg_iff_add_eq_0)
    then show ?thesis using False by (simp add: unatSuc add.commute)
  next
    case True
    then show ?thesis by simp
  qed
  then show ?thesis by (simp add: default_value_def)
qed

lemma default_value_loopback: "Addr_IsLoopback (ap_Addr (av_Value (default_value p)))"
  by (simp add: default_value_def AddrFrom4_def be_decode_def be_shift_def)

lemma SetProto_valid:
  "valid_proto (PortProto_SetBoth p)" "valid_proto (PortProto_SetTcp p)" "valid_proto (PortProto_SetUdp p)"
  by (simp_all add: valid_proto_def PortProto_SetBoth_def PortProto_SetTcp_def PortProto_SetUdp_def)

lemma PortType_IsValid_proto: "PortType_IsValid w \<longleftrightarrow> valid_proto \<lparr>Value = pt_Value w\<rparr>"
  by (auto simp: PortType_IsValid_def api_PortType_def valid_proto_def)

end
