(* ===== verification/Runner.thy ===== *)
theory Runner
  imports Simples_Tunnel Address_Lookup
begin

text \<open>
  \<open>src/tunnel/runner.go\<close>: the agent's main loop. \<open>Run\<close> sets the tunnel up and starts a goroutine
  that reloads and updates it while \<open>KeepRunning\<close> holds; \<open>Run\<close> itself waits for an error that the
  goroutine sends. The answers of the successive \<open>KeepRunning.Load()\<close> are a list, since the flag is
  changed from outside. Every other end of the goroutine, panics included, passes the deferred
  \<open>os.Exit(2)\<close>; it is kept with its reason. The handler of the interrupt signal is an operation
  of its own, which may run in any state that the loop has reached. The printing is left out.
\<close>

record 'l TunnelRunner =
  tr_Lookup :: 'l
  tr_Tunnel :: SimplesTunnel

datatype exit_reason = FlagCleared | ReloadFailed error | ClientPanic NewClient | RunPanic panic

datatype run_end = Running "SimplesTunnel \<times> world" | Exit2 exit_reason | Returned error

text \<open>The reload of the control address when 30 seconds have passed on the signed clock.\<close>

definition Run_reload :: "u64 \<Rightarrow> u64 st_go" where
  "Run_reload lastControlUpdate =
     go_bind (on_world time_Now) (\<lambda>now.
       if 30000 < sint (now - lastControlUpdate)
       then go_bind ReloadControlAddr (\<lambda>_. ret now)
       else ret lastControlUpdate)"

fun Run_loop :: "bool list \<Rightarrow> u64 \<Rightarrow> SimplesTunnel \<times> world \<Rightarrow> run_end" where
  "Run_loop [] lastControlUpdate s = Running s"
| "Run_loop (keep # keeps) lastControlUpdate s =
     (if \<not> keep then Exit2 FlagCleared
      else
        (case Run_reload lastControlUpdate s of
           Err e s1 \<Rightarrow> Exit2 (ReloadFailed e)
         | Panic p \<Rightarrow> Exit2 (RunPanic p)
         | Ok last1 s1 \<Rightarrow>
             (case Update s1 of
                Err e s2 \<Rightarrow> Returned e
              | Panic p \<Rightarrow> Exit2 (RunPanic p)
              | Ok (Some newClient) s2 \<Rightarrow> Exit2 (ClientPanic newClient)
              | Ok None s2 \<Rightarrow> Run_loop keeps last1 s2)))"

definition Run :: "bool list \<Rightarrow> 'l TunnelRunner \<Rightarrow> world \<Rightarrow> run_end" where
  "Run keeps tun w =
     (case SimplesTunnel_Setup (tr_Tunnel tun, w) of
        Err e s1 \<Rightarrow> Returned e
      | Panic p \<Rightarrow> Exit2 (RunPanic p)
      | Ok _ s1 \<Rightarrow>
          (case on_world time_Now s1 of
             Ok now s2 \<Rightarrow> Run_loop keeps now s2
           | Err e s2 \<Rightarrow> Returned e
           | Panic p \<Rightarrow> Exit2 (RunPanic p)))"

text \<open>
  The handler of the interrupt signal clears \<open>KeepRunning\<close>, closes the control socket and exits the
  process; closing a nil connection is an error that is dropped.
\<close>

definition Run_interrupt :: "unit st_go" where
  "Run_interrupt =
     go_bind get_state (\<lambda>(Tun, _).
       case st_ControlChannel Tun of
         None \<Rightarrow> crash NilDeref
       | Some Auth \<Rightarrow>
           (case cc_Udp (ac_Conn Auth) of
              None \<Rightarrow> ret ()
            | Some c \<Rightarrow> on_world (Close c)))"

definition UseSpecialLan :: "bool \<Rightarrow> (unit, 's) go" where
  "UseSpecialLan enable = crash (LogPanic ''no implemented UseSpecialLan'')"

section \<open>How the loop ends\<close>

text \<open>The goroutine never has an error to send: \<open>Run\<close> returns only when the setup fails.\<close>

lemma Run_loop_not_Returned: "Run_loop keeps lastControlUpdate s \<noteq> Returned e"
  by (induction keeps lastControlUpdate s rule: Run_loop.induct)
     (use no_error_Update in \<open>auto simp: no_error_def split: outcome.split option.split\<close>)

lemma tun_reach_time:
  assumes "tun_reach s" and "on_world time_Now s = Ok now s'"
  shows "tun_reach s' \<and> w_clock (snd s') = w_clock (snd s)"
proof -
  obtain t w where s: "s = (t, w)" by fastforce
  with assms(2) have "s' = (t, w\<lparr>w_ticks := Suc (w_ticks w)\<rparr>)"
    by (simp add: on_world_def zoom_def time_Now_def)
  then show ?thesis
    using tun_reach.environment [of t w "w\<lparr>w_ticks := Suc (w_ticks w)\<rparr>"] assms(1) s by simp
qed

lemma Run_reload_reach:
  assumes r: "tun_reach s" and ok: "Run_reload lastControlUpdate s = Ok x s'"
  shows "tun_reach s' \<and> w_clock (snd s') = w_clock (snd s)"
proof -
  obtain now s1 where t: "on_world time_Now s = Ok now s1"
    using ok by (auto simp: Run_reload_def go_bind_def split: outcome.splits)
  have 1: "tun_reach s1" "w_clock (snd s1) = w_clock (snd s)" using tun_reach_time [OF r t] by auto
  show ?thesis
  proof (cases "30000 < sint (now - lastControlUpdate)")
    case True
    then obtain b where "ReloadControlAddr s1 = Ok b s'"
      using ok t by (auto simp: Run_reload_def go_bind_def split: outcome.splits)
    then have "tun_reach s'" "w_clock (snd s') = w_clock (snd s1)"
      using tun_reach.reload_ok [OF 1(1)] clock_Reload [of s1] by simp_all
    with 1 show ?thesis by simp
  next
    case False
    then have "s' = s1" using ok t by (simp add: Run_reload_def go_bind_def)
    with 1 show ?thesis by simp
  qed
qed

text \<open>As long as the clock is in range, no client of the tunnel server ever reaches the loop.\<close>

lemma Run_loop_no_client:
  "tun_reach s \<Longrightarrow> late_clock (snd s) \<Longrightarrow> Run_loop keeps lastControlUpdate s \<noteq> Exit2 (ClientPanic c)"
proof (induction keeps arbitrary: lastControlUpdate s)
  case Nil
  then show ?case by simp
next
  case (Cons keep keeps)
  show ?case
  proof (cases "Run_reload lastControlUpdate s")
    case (Ok last1 s1)
    have 1: "tun_reach s1" "late_clock (snd s1)"
      using Run_reload_reach [OF Cons.prems(1) Ok] Cons.prems(2) late_clock_cong by blast+
    show ?thesis
    proof (cases "Update s1")
      case u: (Ok client s2)
      have "client = None" using tun_reach_Update_None [OF 1 u] .
      moreover have "tun_reach s2" using tun_reach.update_ok [OF 1(1) u] .
      moreover have "late_clock (snd s2)" using clock_Update [OF u] 1(2) late_clock_cong by blast
      ultimately show ?thesis using Ok u Cons.IH by simp
    qed (use Ok in simp_all)
  qed simp_all
qed

text \<open>
  The states that the loop has when its flag has been read so many times are reachable, so the
  handler finds a control channel in them.
\<close>

lemma Run_loop_reach: "tun_reach s \<Longrightarrow> Run_loop keeps lastControlUpdate s = Running s' \<Longrightarrow> tun_reach s'"
proof (induction keeps arbitrary: lastControlUpdate s)
  case (Cons keep keeps)
  then have keep: keep by (cases keep) simp_all
  obtain last1 s1 where r: "Run_reload lastControlUpdate s = Ok last1 s1"
    using Cons.prems(2) keep by (cases "Run_reload lastControlUpdate s") simp_all
  have 1: "tun_reach s1" using Run_reload_reach [OF Cons.prems(1) r] by simp
  obtain s2 where u: "Update s1 = Ok None s2"
    using Cons.prems(2) keep r by (cases "Update s1") (simp_all split: option.splits)
  have "Run_loop keeps last1 s2 = Running s'" using Cons.prems(2) keep r u by simp
  then show ?case using Cons.IH tun_reach.update_ok [OF 1 u] by blast
qed simp

lemma Run_reach:
  assumes "Run keeps tun w = Running s"
  shows "tun_reach s"
proof -
  obtain s1 where s1: "SimplesTunnel_Setup (tr_Tunnel tun, w) = Ok () s1"
    using assms by (cases "SimplesTunnel_Setup (tr_Tunnel tun, w)") (simp_all add: Run_def)
  obtain now s2 where t: "on_world time_Now s1 = Ok now s2"
    by (cases s1) (simp add: on_world_def zoom_def time_Now_def)
  have "tun_reach s2" using tun_reach_time [OF tun_reach.setup_ok [OF s1] t] by simp
  moreover have "Run_loop keeps now s2 = Running s" using assms by (simp add: Run_def s1 t)
  ultimately show ?thesis by (rule Run_loop_reach)
qed

lemma Run_interrupt_eq:
  assumes "tun_reach (t, w)"
  shows "\<exists>a. st_ControlChannel t = Some a \<and>
    Run_interrupt (t, w) = Ok () (t, case cc_Udp (ac_Conn a) of
      None \<Rightarrow> w | Some c \<Rightarrow> w\<lparr>w_closed := c # w_closed w\<rparr>)"
  using tun_reach_linked [OF assms]
  by (auto simp: linked_def Run_interrupt_def go_bind_def on_world_def zoom_def Close_def split: option.split)

end
