(* ===== verification/Demo.thy ===== *)
theory Demo
  imports Runner
begin

text \<open>
  A concrete agent, on which the properties are instantiated: a control server that answers the
  first ping with a pong and the first registration request with a session.
\<close>

definition server :: addrport where
  "server = AddrPort (V4 0x0A000001) 5525"

definition agent_addr :: addrport where
  "agent_addr = AddrPort (V4 0x0A000002) 40000"

definition demo_pong :: Pong where
  "demo_pong =
     \<lparr>pong_RequestNow = 1, pong_ServerNow = 2, pong_ServerId = 3, pong_DataCenterId = 4,
      pong_ClientAddr = agent_addr, pong_TunnelAddr = server, pong_SessionExpireAt = Some 5\<rparr>"

definition demo_session :: AgentSessionId where
  "demo_session = \<lparr>SessionID = 1, AccountID = 2, AgentID = 3\<rparr>"

definition demo_registered :: AgentRegistered where
  "demo_registered = \<lparr>reg_ID = demo_session, reg_ExpiresAt = 90000\<rparr>"

definition pong_datagram :: recv where
  "pong_datagram = Datagram (enc_feed (FResponse 1 (RPong demo_pong))) server"

definition registered_datagram :: recv where
  "registered_datagram = Datagram (enc_feed (FResponse 10 (RAgentRegistered demo_registered))) server"

text \<open>The clock stands at 100 s; the hexadecimal key of the registration is one byte.\<close>

definition demo_world :: "recv list \<Rightarrow> world" where
  "demo_world events =
     \<lparr>w_clock = \<lambda>_. 100000, w_ticks = 0, w_listen = [], w_socks = 0, w_closed = [],
      w_recv = events, w_send = [], w_sent = [], w_register = [Inr ''0a''],
      w_routing = [Inr ([], [V4 0x0A000001])]\<rparr>"

definition demo_conn :: ConnectedControl where
  "demo_conn = \<lparr>cc_ControlAddr = server, cc_Udp = Some 2, cc_Pong = Some (decoded_pong demo_pong)\<rparr>"

definition demo_Api :: Api where
  "demo_Api = \<lparr>api_Code = '''', api_Secret = ''''\<rparr>"

definition demo_control :: AuthenticatedControl where
  "demo_control =
     \<lparr>ac_ApiClient = demo_Api, ac_Conn = demo_conn,
      ac_CurrentPing = None, ac_LastPong = decoded_pong demo_pong, ac_ForceEpired = False,
      ac_Registered = demo_registered, ac_Buff = []\<rparr>"

definition demo_udp :: UdpTunnel where
  "demo_udp =
     \<lparr>ut_Udp4 = Some 0, ut_Udp6 = Some 1, ut_Details = new_rwlock new_ChannelDetails,
      ut_LastConfirm = 0, ut_LastSend = 0\<rparr>"

definition demo_tunnel :: SimplesTunnel where
  "demo_tunnel =
     \<lparr>st_ApiClaim = demo_Api, st_ControlAddr = AddrPort ZeroAddr 0,
      st_ControlChannel = None, st_UdpTunnel = demo_udp, st_LastKeepAlive = 0, st_LastPing = 0,
      st_LastPong = 0, st_LastUdpAuth = 0, st_lastControlTargets = []\<rparr>"

lemma wire_demo: "wire_addr (pong_ClientAddr demo_pong)" "wire_addr (pong_TunnelAddr demo_pong)"
  by (simp_all add: demo_pong_def agent_addr_def server_def wire_addr_def AddrPort_IsValid_def
      Addr_IsValid_def)

lemma text_server: "UDPAddr_String server = AddrPort_String server"
  by (simp add: server_def)

lemma demo_valid: "cc_Pong c = Some (decoded_pong demo_pong) \<Longrightarrow> pong_addrs_valid c"
  by (simp add: pong_addrs_valid_def decoded_pong_def demo_pong_def agent_addr_def server_def
      AddrPort_IsValid_def Addr_IsValid_def)

lemma hex_decode_demo: "hex_decode ''0a'' = Some [10]"
  by code_simp

lemma late_demo: "late_clock (demo_world events)"
proof -
  have "(5 :: u32) < sec_of 100000" by code_simp
  then show ?thesis by (simp add: late_clock_def demo_world_def)
qed

lemma demo_Setup_answer:
  assumes "w_listen w = []" and "w_send w = []" and "w_recv w = pong_datagram # r"
  shows "Setup_Setup (server # rest) w =
    Ok \<lparr>cc_ControlAddr = server, cc_Udp = Some (w_socks w), cc_Pong = Some (decoded_pong demo_pong)\<rparr>
      (w\<lparr>w_ticks := w_ticks w + 2, w_socks := Suc (w_socks w), w_recv := r,
         w_sent := w_sent w @ [(w_socks w, ping_bytes (w_clock w (w_ticks w)), server)]\<rparr>)"
  using Setup_Setup_answer [OF assms(1,2) assms(3) [unfolded pong_datagram_def] text_server wire_demo]
  by simp

lemma demo_Authenticate:
  assumes "cc_Pong c = Some (decoded_pong demo_pong)" and "cc_ControlAddr c = server"
    and "cc_Udp c = Some k" and "w_register w = Inr ''0a'' # ks" and "w_send w = []"
    and "w_recv w = registered_datagram # r"
  shows "\<exists>a w'. ConnectedControl_Authenticate c Api w = Ok a w' \<and> w_clock w' = w_clock w"
proof -
  let ?data = "enc_feed (FResponse 10 (RAgentRegistered demo_registered))"
  have len: "length ?data \<le> 1024" by (simp add: enc_AgentRegistered_def)
  have dec: "ControlFeed_ReadFrom zero_ControlFeed ?data =
      Ok (rep_feed (FResponse 10 (RAgentRegistered demo_registered))) []"
    by (rule readsD_all, rule reads_ControlFeed) simp
  note first = Authenticate_first_reply [OF assms(1) demo_valid [OF assms(1)] assms(3,4)
      hex_decode_demo assms(5) assms(6) [unfolded registered_datagram_def] len]
  define v where "v = w\<lparr>w_register := ks, w_sent := w_sent w @ [(k, be_bytes (10 :: u64) @ [10], server)]\<rparr>"
  have reply: "w_recv v = Datagram ?data server # r"
    using assms(6) by (simp add: v_def registered_datagram_def)
  have peer: "UDPAddr_String server = AddrPort_String (cc_ControlAddr c)"
    by (simp add: assms(2) text_server)
  note run = Authenticate_recv_reply(2) [OF assms(3) reply len peer dec assms(1) refl,
      where Api = Api and k = 4 and sent = "be_bytes (10 :: u64) @ [10]"]
  have "(5 :: nat) = Suc 4" by simp
  then have "\<exists>a. ConnectedControl_Authenticate c Api w = Ok a (v\<lparr>w_ticks := Suc (w_ticks v), w_recv := r\<rparr>)"
    using first(1) [OF peer, of Api]
    by (simp only: assms(2) v_def [symmetric] go_bind_def run outcome.case option.case ret_apply) blast
  then show ?thesis by (auto simp: v_def)
qed

text \<open>The agent can be set up on this world.\<close>

lemma demo_Setup:
  "\<exists>s. SimplesTunnel_Setup (demo_tunnel, demo_world [pong_datagram, registered_datagram]) = Ok () s \<and>
     late_clock (snd s)"
proof -
  let ?w = "demo_world [pong_datagram, registered_datagram]"
  define w1 where "w1 = ?w\<lparr>w_socks := 2\<rparr>"
  have udp: "on_udp AssignUdpTunnel (demo_tunnel, ?w) = Ok () (demo_tunnel, w1)"
    by (simp add: on_udp_def zoom_def AssignUdpTunnel_def go_bind_def on_world_def ListenUDP_def
        go_try_def demo_world_def demo_tunnel_def demo_udp_def w1_def Let_def)
  define w2 where "w2 = w1\<lparr>w_routing := []\<rparr>"
  have addrs: "ControlAddresses w1 = Ok [server] w2"
    using ControlAddresses_eq [of w1 "[]" "[V4 0x0A000001]" "[]"]
    by (simp add: w2_def w1_def demo_world_def server_def)
  define w3 where "w3 = w2\<lparr>w_ticks := w_ticks w2 + 2, w_socks := Suc (w_socks w2),
      w_recv := [registered_datagram],
      w_sent := w_sent w2 @ [(w_socks w2, ping_bytes (w_clock w2 (w_ticks w2)), server)]\<rparr>"
  have found: "Setup_Setup [server] w2 = Ok demo_conn w3"
    using demo_Setup_answer [of w2 "[registered_datagram]" "[]"]
    by (simp add: w2_def w1_def w3_def demo_world_def demo_conn_def)
  obtain a w4 where auth: "ConnectedControl_Authenticate demo_conn (st_ApiClaim demo_tunnel) w3 = Ok a w4"
    and clk: "w_clock w4 = w_clock w3"
    using demo_Authenticate [of demo_conn 2 w3 "[]" "[]" "st_ApiClaim demo_tunnel"]
    by (auto simp: demo_conn_def w3_def w2_def w1_def demo_world_def)
  have "late_clock w4"
    using clk late_demo [of "[]"]
    by (simp add: late_clock_def w3_def w2_def w1_def demo_world_def)
  then show ?thesis
    using udp addrs found auth
    by (simp add: SimplesTunnel_Setup_def go_bind_def on_world_def zoom_def update_tun_def)
qed

lemma demo_reach: "\<exists>s. tun_reach s \<and> late_clock (snd s)"
  using demo_Setup tun_reach.setup_ok by blast

end
