(* ===== verification/Lan_Address.thy ===== *)
theory Lan_Address
  imports Go_IO
begin

text \<open>
  \<open>src/tunnel/lan_address.go\<close>: the mapping of a peer address to a local loopback address, so that
  a local server sees one address per peer, and the sockets opened with it. Dialling goes to the
  operating system and is a parameter, \<open>dial\<close>.
\<close>

section \<open>The mapping\<close>

definition shuffle :: "u32 \<Rightarrow> u32" where
  "shuffle v0 =
     (let v1 = (drop_bit 16 v0 XOR v0) * 0x45d9f3;
          v2 = (drop_bit 16 v1 XOR v1) * 0x45d9f3
      in drop_bit 16 v2 XOR v2)"

definition asLocalMasked :: "u32 \<Rightarrow> u32" where
  "asLocalMasked ip0 =
     (let ip = shuffle ip0 AND 0x00FFFFFF in
      (if ip = 0 then 1 else ip) OR 0x7F000000)"

definition ipv4_of :: "u32 \<Rightarrow> bytes" where
  "ipv4_of w =
     net_IPv4 (ucast (drop_bit 24 w)) (ucast (drop_bit 16 w)) (ucast (drop_bit 8 w)) (ucast w)"

text \<open>A slice that is neither 4 nor 16 bytes long has no \<open>To16\<close>, and slicing nil panics.\<close>

definition mapToLocalIP4 :: "bytes \<Rightarrow> (bytes, 's) go" where
  "mapToLocalIP4 ip =
     (case IP_To4 ip of
        Some ip4 \<Rightarrow> ret (ipv4_of (asLocalMasked (be_decode ip4)))
      | None \<Rightarrow>
        (case IP_To16 ip of
           None \<Rightarrow> crash SliceBounds
         | Some bs \<Rightarrow>
             ret (ipv4_of (asLocalMasked
               (shuffle (be_decode (take 4 bs)) XOR
                shuffle (be_decode (take 4 (drop 4 bs))) XOR
                shuffle (be_decode (take 4 (drop 8 bs))) XOR
                shuffle (be_decode (take 4 (drop 12 bs))))))))"

section \<open>Sockets\<close>

type_synonym 'c dial = "string \<Rightarrow> addrport option \<Rightarrow> addrport \<Rightarrow> error + 'c"

text \<open>\<open>net.DialUDP\<close> without a remote address is an error before anything is sent.\<close>

definition net_DialUDP :: "'c dial \<Rightarrow> string \<Rightarrow> addrport option \<Rightarrow> addrport option \<Rightarrow> error + 'c" where
  "net_DialUDP dial network laddr raddr =
     (case raddr of None \<Rightarrow> Inl (ErrNet ''missing address'') | Some r \<Rightarrow> dial network laddr r)"

definition of_sum :: "error + 'a \<Rightarrow> ('a, 's) go" where
  "of_sum r = (case r of Inl e \<Rightarrow> throw e | Inr x \<Rightarrow> ret x)"

definition TcpSocket :: "'c dial \<Rightarrow> bool \<Rightarrow> addrport \<Rightarrow> addrport \<Rightarrow> ('c, 's) go" where
  "TcpSocket dial SpecialLan Peer Host =
     (if Addr_IsLoopback (ap_Addr Host) \<and> SpecialLan then
        go_bind (mapToLocalIP4 (Addr_AsSlice (ap_Addr Peer))) (\<lambda>local_ip.
          (case IP_To4 local_ip of
             None \<Rightarrow> crash SliceBounds
           | Some ip4 \<Rightarrow> of_sum (dial ''tcp4'' (Some (AddrPort (AddrFrom4 ip4) 0)) Host)))
      else of_sum (dial ''tcp'' None Host))"

definition UdpSocket :: "'c dial \<Rightarrow> bool \<Rightarrow> addrport \<Rightarrow> addrport \<Rightarrow> ('c, 's) go" where
  "UdpSocket dial SpecialLan Peer Host =
     (if Addr_IsLoopback (ap_Addr Host) \<and> SpecialLan then
        go_bind (mapToLocalIP4 (Addr_AsSlice (ap_Addr Peer))) (\<lambda>local_ip.
          let local_port = 40000 + (ap_Port Peer mod 24000) in
          (case net_DialUDP dial ''udp4'' (Some (AddrPort (AddrFrom16 local_ip) local_port)) (Some Host) of
             Inr stream \<Rightarrow> ret stream
           | Inl _ \<Rightarrow>
             (case net_DialUDP dial ''udp4'' (Some (AddrPort (AddrFrom16 local_ip) 0)) (Some Host) of
                Inr stream \<Rightarrow> ret stream
              | Inl _ \<Rightarrow> of_sum (net_DialUDP dial ''udp4'' None None))))
      else of_sum (net_DialUDP dial ''udp'' None (Some Host)))"

section \<open>Shuffling is a permutation\<close>

text \<open>
  \<open>x ^ (x >> 16)\<close> is its own inverse on 32 bits, and the multiplier is odd: its inverse modulo
  \<open>2^32\<close> is \<open>0xdd72673b\<close>.
\<close>

definition xorshift16 :: "u32 \<Rightarrow> u32" where
  "xorshift16 v = drop_bit 16 v XOR v"

definition unshuffle :: "u32 \<Rightarrow> u32" where
  "unshuffle v =
     xorshift16 (0xdd72673b * xorshift16 (0xdd72673b * xorshift16 v))"

lemma xorshift16_involution [simp]: "xorshift16 (xorshift16 v) = v"
proof (rule bit_word_eqI)
  fix n assume "n < LENGTH(32)"
  moreover have "\<not> bit v (n + 32)" by (auto dest: bit_imp_le_length)
  ultimately show "bit (xorshift16 (xorshift16 v)) n = bit v n"
    by (auto simp: xorshift16_def bit_simps add.commute [of 16])
qed

lemma shuffle_alt:
  "shuffle v = xorshift16 (0x45d9f3 * xorshift16 (0x45d9f3 * xorshift16 v))"
  by (simp add: shuffle_def xorshift16_def Let_def mult.commute)

lemma multiplier_inverse:
  "(0xdd72673b :: u32) * (0x45d9f3 * v) = v" "(0x45d9f3 :: u32) * (0xdd72673b * v) = v"
proof -
  have "(0xdd72673b :: u32) * 0x45d9f3 = 1" "(0x45d9f3 :: u32) * 0xdd72673b = 1" by simp_all
  then show "(0xdd72673b :: u32) * (0x45d9f3 * v) = v" "(0x45d9f3 :: u32) * (0xdd72673b * v) = v"
    by (simp_all only: mult.assoc [symmetric] mult_1_left)
qed

lemma unshuffle_shuffle [simp]: "unshuffle (shuffle v) = v"
  by (simp only: unshuffle_def shuffle_alt multiplier_inverse xorshift16_involution)

lemma shuffle_unshuffle [simp]: "shuffle (unshuffle v) = v"
  by (simp only: unshuffle_def shuffle_alt multiplier_inverse xorshift16_involution)

lemma bij_shuffle: "bij shuffle"
  by (rule bijI' [where f = shuffle]) (metis unshuffle_shuffle, metis shuffle_unshuffle)

section \<open>The local address\<close>

lemma mask24: "w AND (0x00FFFFFF :: u32) = take_bit 24 w"
  using take_bit_eq_mask [of 24 w] by (simp add: mask_eq_decr_exp)

definition local_low :: "u32 \<Rightarrow> u32" where
  "local_low ip = (if take_bit 24 (shuffle ip) = 0 then 1 else take_bit 24 (shuffle ip))"

lemma asLocalMasked_low: "asLocalMasked ip = local_low ip OR push_bit 24 127"
  by (simp add: asLocalMasked_def local_low_def mask24 Let_def)

lemma take_bit_local_low [simp]: "take_bit 24 (local_low ip) = local_low ip"
proof -
  have "take_bit 24 (1 :: u32) = 1" by simp
  then show ?thesis by (simp add: local_low_def)
qed

lemma local_low_nonzero [simp]: "local_low ip \<noteq> 0"
  by (simp add: local_low_def)

lemma bit_local_low: "bit (local_low ip) n \<Longrightarrow> n < 24"
  by (metis bit_take_bit_iff take_bit_local_low)

lemma asLocalMasked_network: "drop_bit 24 (asLocalMasked ip) = 127"
proof (rule bit_word_eqI)
  fix n assume "n < LENGTH(32)"
  have "\<not> bit (local_low ip) (24 + n)" by (auto dest: bit_local_low)
  moreover have "bit (push_bit 24 127 :: u32) (24 + n) = bit (127 :: u32) n" if "n < 8"
    using that by (simp only: bit_push_bit_iff) simp
  moreover have "\<not> bit (127 :: u32) n" if "\<not> n < 8"
  proof
    assume "bit (127 :: u32) n"
    then have "bit (mask 7 :: u32) n" by (simp add: mask_eq_decr_exp)
    with that show False by (simp add: bit_mask_iff)
  qed
  moreover have "\<not> bit (push_bit 24 127 :: u32) (24 + n)" if "\<not> n < 8"
    using that by (auto dest: bit_imp_le_length)
  ultimately show "bit (drop_bit 24 (asLocalMasked ip)) n = bit (127 :: u32) n"
    by (simp only: asLocalMasked_low bit_drop_bit_eq comp_def bit_or_iff) blast
qed

lemma asLocalMasked_host: "take_bit 24 (asLocalMasked ip) = local_low ip"
proof -
  have "take_bit 24 (push_bit 24 x :: u32) = 0" for x
    by (simp add: take_bit_push_bit)
  then show ?thesis by (simp only: asLocalMasked_low take_bit_or take_bit_local_low) simp
qed

lemma word_eq_split24: "drop_bit 24 v = drop_bit 24 w \<Longrightarrow> take_bit 24 v = take_bit 24 w \<Longrightarrow> v = (w :: u32)"
  by (metis bits_ident)

lemma asLocalMasked_split: "asLocalMasked ip = l \<longleftrightarrow> drop_bit 24 l = 127 \<and> local_low ip = take_bit 24 l"
  by (auto simp: asLocalMasked_network asLocalMasked_host intro: word_eq_split24)

section \<open>How many peers share a local address\<close>

lemma card_fibre24:
  assumes "take_bit 24 m = m"
  shows "card {v :: u32. take_bit 24 v = m} = 256"
proof -
  let ?f = "\<lambda>i :: u8. push_bit 24 (ucast i) OR m :: u32"
  have m: "\<not> bit m n" if "24 \<le> n" for n
    using that by (metis assms bit_take_bit_iff not_le)
  have hi: "bit (?f i) (24 + n) = bit i n" if "n < 8" for i n
    using that m by (auto simp: bit_simps)
  have "inj ?f"
  proof (rule injI, rule bit_word_eqI)
    fix i j :: u8 and n assume "?f i = ?f j" "n < LENGTH(8)"
    then show "bit i n = bit j n" using hi [of n i] hi [of n j] by simp
  qed
  moreover have "{v. take_bit 24 v = m} = range ?f"
  proof (intro equalityI subsetI)
    fix v assume "v \<in> {v. take_bit 24 v = m}"
    then have low: "bit v n = bit m n" if "n < 24" for n
      using that by (auto simp: bit_take_bit_iff)
    have "v = ?f (ucast (drop_bit 24 v))"
    proof (rule bit_word_eqI)
      fix n assume "n < LENGTH(32)"
      then show "bit v n = bit (?f (ucast (drop_bit 24 v))) n"
        using low [of n] m [of n] by (cases "n < 24") (auto simp: bit_simps)
    qed
    then show "v \<in> range ?f" by blast
  next
    fix v assume "v \<in> range ?f"
    then obtain i where v: "v = ?f i" by blast
    have "take_bit 24 v = m"
    proof (rule bit_word_eqI)
      fix n assume "n < LENGTH(32)"
      then show "bit (take_bit 24 v) n = bit m n"
        using m [of n] by (auto simp: v bit_simps)
    qed
    then show "v \<in> {v. take_bit 24 v = m}" by simp
  qed
  ultimately show ?thesis by (simp add: card_image card_word)
qed

lemma card_shuffle_fibre:
  assumes "take_bit 24 m = m"
  shows "card {v. take_bit 24 (shuffle v) = m} = 256"
proof -
  have "{v. take_bit 24 (shuffle v) = m} = unshuffle ` {v. take_bit 24 v = m}"
    by (auto simp: image_iff) (metis unshuffle_shuffle)
  moreover have "inj unshuffle" by (rule injI) (metis shuffle_unshuffle)
  ultimately show ?thesis
    using card_fibre24 [OF assms] by (simp add: card_image inj_on_subset)
qed

lemma asLocalMasked_card:
  assumes "drop_bit 24 l = 127" and "1 < take_bit 24 l"
  shows "card {ip. asLocalMasked ip = l} = 256"
proof -
  have "{ip. asLocalMasked ip = l} = {ip. take_bit 24 (shuffle ip) = take_bit 24 l}"
    using assms by (auto simp: asLocalMasked_split local_low_def)
  then show ?thesis by (simp add: card_shuffle_fibre)
qed

lemma asLocalMasked_card_first: "card {ip. asLocalMasked ip = 0x7F000001} = 512"
proof -
  have l: "drop_bit 24 (0x7F000001 :: u32) = 127" "take_bit 24 (0x7F000001 :: u32) = 1"
    by simp_all
  have "{ip. asLocalMasked ip = 0x7F000001} =
      {ip. take_bit 24 (shuffle ip) = 0} \<union> {ip. take_bit 24 (shuffle ip) = 1}"
    by (auto simp: asLocalMasked_split l local_low_def)
  moreover have "card {ip. take_bit 24 (shuffle ip) = 0} = 256"
    by (rule card_shuffle_fibre) simp
  moreover have "card {ip. take_bit 24 (shuffle ip) = 1} = 256"
    by (rule card_shuffle_fibre) simp
  ultimately show ?thesis by (simp add: card_Un_disjoint disjoint_iff)
qed

section \<open>The sockets\<close>

lemma ipv4_of_bytes: "ipv4_of w = v4InV6Prefix @ be_bytes w"
proof -
  have "LENGTH(32) div 8 = Suc (Suc (Suc (Suc 0)))" by simp
  then show ?thesis
    by (simp only: be_bytes_def be_encode.simps) (simp add: ipv4_of_def net_IPv4_def)
qed

text \<open>The word that the mapping of a slice is made of, for the slices that have one.\<close>

definition local_source :: "bytes \<Rightarrow> u32" where
  "local_source ip =
     (case IP_To4 ip of
        Some ip4 \<Rightarrow> be_decode ip4
      | None \<Rightarrow>
          shuffle (be_decode (take 4 ip)) XOR shuffle (be_decode (take 4 (drop 4 ip))) XOR
          shuffle (be_decode (take 4 (drop 8 ip))) XOR shuffle (be_decode (take 4 (drop 12 ip))))"

lemma mapToLocalIP4_eq:
  "mapToLocalIP4 ip =
     (if length ip = 4 \<or> length ip = 16
      then ret (v4InV6Prefix @ be_bytes (asLocalMasked (local_source ip)))
      else crash SliceBounds)"
  by (auto simp: mapToLocalIP4_def local_source_def ipv4_of_bytes IP_To4_def IP_To16_def)

lemma mapToLocalIP4_addr:
  "mapToLocalIP4 (Addr_AsSlice a) =
     (if Addr_IsValid a
      then ret (v4InV6Prefix @ be_bytes (asLocalMasked (local_source (Addr_AsSlice a))))
      else crash SliceBounds)"
  by (cases a) (simp_all add: mapToLocalIP4_eq Addr_IsValid_def)

lemma local_source_mapped: "local_source (Addr_AsSlice (V6 (mapped4 w) z)) = local_source (Addr_AsSlice (V4 w))"
  by (simp add: local_source_def be_bytes_mapped4)

lemma UdpSocket_port_bounds:
  "40000 \<le> unat (40000 + p mod 24000 :: u16) \<and> unat (40000 + p mod 24000 :: u16) < 64000"
proof -
  have m: "unat (p mod 24000) < 24000"
    by (simp add: unat_mod_distrib)
  then have "unat (40000 + p mod 24000 :: u16) = 40000 + unat (p mod 24000)"
    by (simp add: unat_word_ariths)
  with m show ?thesis by simp
qed

lemma UdpSocket_special:
  assumes "Addr_IsLoopback (ap_Addr Host)" and "Addr_IsValid (ap_Addr Peer)"
  shows "UdpSocket dial True Peer Host s =
    (let l = V6 (mapped4 (asLocalMasked (local_source (Addr_AsSlice (ap_Addr Peer))))) [] in
     case dial ''udp4'' (Some (AddrPort l (40000 + ap_Port Peer mod 24000))) Host of
       Inr c \<Rightarrow> Ok c s
     | Inl _ \<Rightarrow>
       (case dial ''udp4'' (Some (AddrPort l 0)) Host of
          Inr c \<Rightarrow> Ok c s
        | Inl _ \<Rightarrow> Err (ErrNet ''missing address'') s))"
  using assms
  by (simp add: UdpSocket_def mapToLocalIP4_addr net_DialUDP_def of_sum_def Let_def split: sum.split)

lemma asLocalMasked_class_card:
  "card {ip. asLocalMasked ip = l} =
     (if drop_bit 24 l = 127 \<and> take_bit 24 l \<noteq> 0 then if l = 0x7F000001 then 512 else 256 else 0)"
proof (cases "drop_bit 24 l \<noteq> 127 \<or> take_bit 24 l = 0")
  case True
  then have "{ip. asLocalMasked ip = l} = {}" using asLocalMasked_network asLocalMasked_host by auto
  moreover have "\<not> (drop_bit 24 l = 127 \<and> take_bit 24 l \<noteq> 0)" using True by blast
  ultimately show ?thesis by (simp only: card.empty if_False)
next
  case False
  show ?thesis
  proof (cases "l = 0x7F000001")
    case True
    then show ?thesis using asLocalMasked_card_first by simp
  next
    case ne: False
    have "drop_bit 24 (0x7F000001 :: u32) = 127" "take_bit 24 (0x7F000001 :: u32) = 1" by simp_all
    then have "take_bit 24 l \<noteq> 1" using ne False word_eq_split24 [of l "0x7F000001"] by auto
    moreover have "1 < x" if "x \<noteq> 0" "x \<noteq> 1" for x :: u32
      using that by unat_arith
    ultimately have "1 < take_bit 24 l" using False by blast
    with False ne asLocalMasked_card [of l] show ?thesis by simp
  qed
qed

end
