(* ===== verification/Api_World.thy ===== *)
theory Api_World
  imports Simples_Tunnel Api_Agents
begin

text \<open>
  The two calls of \<open>src/api/others.go\<close> that the tunnel makes: their requests, what the replies mean, and
  the addresses that \<open>ControlAddresses\<close> of \<open>src/tunnel/simples_tunnel.go\<close> makes of the routes. In theory
  World the calls are answered by scripts; whatever they return here, for any server and in any order,
  is shown to be what some scripts give. So a property of the tunnel for all scripts is one for all
  servers.
\<close>

section \<open>The two calls\<close>

definition auth_header :: "Api \<Rightarrow> (string \<times> string) list" where
  "auth_header w = (if api_Secret w = '''' then [] else [(''Authorization'', ''Agent-Key '' @ api_Secret w)])"

definition register_request :: "texts \<Rightarrow> Api \<Rightarrow> addrport \<Rightarrow> addrport \<Rightarrow> http_request" where
  "register_request lib w Client Tunnel =
     \<lparr>rq_URL = ''https://api.playit.gg/proto/register'', rq_Header = auth_header w,
      rq_Body = Some (JObj
        [(''client_addr'', JStr (addrport_String lib Client)),
         (''tunnel_addr'', JStr (addrport_String lib Tunnel)),
         (''agent_version'', JObj
           [(''official'', JBool False),
            (''details_website'', JStr ''https://sirherobrine23.org/playit-cloud/go-playit''),
            (''version'', JObj [(''platform'', JStr ''unknown''), (''version'', JStr ''0.17.1'')])])])\<rparr>"

definition routing_request :: "Api \<Rightarrow> http_request" where
  "routing_request w =
     \<lparr>rq_URL = ''https://api.playit.gg/agents/routing/get'', rq_Header = auth_header w, rq_Body = Some (JObj [])\<rparr>"

lemma Api_ProtoRegisterRegister_eq:
  "Api_ProtoRegisterRegister lib w Client Tunnel h =
     (let rq = register_request lib w Client Tunnel in
      case reply_value (Some (dec_struct register_code_fields)) \<lparr>rc_Key = ''''\<rparr> (next_reply h rq) of
        Inl e \<Rightarrow> Err e (logged rq h)
      | Inr code \<Rightarrow> Ok (rc_Key code) (logged rq h))"
proof -
  define body where "body = JObj (mem ''client_addr'' (JStr (addrport_String lib Client)) @
      mem ''tunnel_addr'' (JStr (addrport_String lib Tunnel)) @
      mem ''agent_version'' (enc_PlayitAgentVersion
        \<lparr>pav_Official = False, pav_DetailsWebsite = ''https://sirherobrine23.org/playit-cloud/go-playit'',
         pav_Version = \<lparr>agv_Platform = ''unknown'', agv_Version = GoPlayitVersion\<rparr>\<rparr>))"
  have rq: "api_request w ''/proto/register'' (Some body) = register_request lib w Client Tunnel"
    by (simp add: api_request_def register_request_def body_def PlayitAPI_def auth_header_def mem_def
        enc_PlayitAgentVersion_def enc_AgentVersion_def mem_str_def GoPlayitVersion_def)
  show ?thesis
    unfolding Api_ProtoRegisterRegister_def body_def [symmetric] Let_def
    by (simp add: go_bind_def requestToApi_eq rq of_value_def Let_def split: sum.split)
qed

lemma Api_AgentRoutings_eq:
  "Api_AgentRoutings lib w None h =
     (let rq = routing_request w in
      of_value (reply_value (Some (dec_struct (AgentRouting_fields lib))) zero_AgentRouting (next_reply h rq)) (logged rq h))"
proof -
  have "api_request w ''/agents/routing/get'' (Some (JObj (mem_ptr ''agent_id'' (JStr \<circ> uuid_String lib) None))) =
      routing_request w"
    by (simp add: api_request_def routing_request_def PlayitAPI_def auth_header_def mem_ptr_def)
  then show ?thesis by (simp add: Api_AgentRoutings_def requestToApi_eq Let_def)
qed

text \<open>A reply in its envelope, and what the two kinds of data in it mean.\<close>

definition api_reply :: "nat \<Rightarrow> string \<Rightarrow> json \<Rightarrow> http_reply" where
  "api_reply code status d = HttpReply code (Some (JObj [(''status'', JStr status), (''data'', d)]))"

lemma reply_value_api:
  assumes "unmarshal_any d = Inr a" and "code < 300"
  shows "reply_value (Some dec) old (api_reply code status d) = dec (marshal_any a) old"
  using assms
  by (simp add: reply_value_def api_reply_def dec_struct_def envelope_fields_def find_field_def fld_def
      dec_string_def zero_envelope_def)

lemma register_code_value:
  "code < 300 \<Longrightarrow> reply_value (Some (dec_struct register_code_fields)) \<lparr>rc_Key = ''''\<rparr>
     (api_reply code status (JObj [(''key'', JStr key)])) = Inr \<lparr>rc_Key = key\<rparr>"
  by (simp add: reply_value_api dec_struct_def register_code_fields_def find_field_def fld_def dec_string_def)

definition routing_data :: "string list \<Rightarrow> string list \<Rightarrow> json" where
  "routing_data t4 t6 = JObj [(''targets4'', JArr (map JStr t4)), (''targets6'', JArr (map JStr t6))]"

lemma routing_value:
  assumes "list_all2 (\<lambda>s a. addr_Parse lib s = Some a) t4 a4"
    and "list_all2 (\<lambda>s a. addr_Parse lib s = Some a) t6 a6" and "code < 300"
  shows "reply_value (Some (dec_struct (AgentRouting_fields lib))) zero_AgentRouting
      (api_reply code status (routing_data t4 t6)) = Inr \<lparr>ar_Agent = 0, ar_Targets4 = a4, ar_Targets6 = a6\<rparr>"
proof -
  have "unmarshal_any (routing_data t4 t6) =
      Inr (AObj [(''targets4'', AArr (map AStr t4)), (''targets6'', AArr (map AStr t6))])"
    by (simp add: routing_data_def unmarshal_texts)
  then show ?thesis
    using dec_elems_texts [OF assms(1)] dec_elems_texts [OF assms(2)] assms(3)
    by (simp add: reply_value_api dec_struct_def AgentRouting_fields_def find_field_def fld_def dec_slice_def
        zero_AgentRouting_def comp_def)
qed

lemma ControlAddresses_routed:
  assumes "w_routing wd = Inr (t6, t4) # rest"
  shows "ControlAddresses wd = Ok (map (\<lambda>a. AddrPort a 5525) (t6 @ t4)) (wd\<lparr>w_routing := rest\<rparr>)"
  using assms by (simp add: ControlAddresses_def go_bind_def AgentRoutings_def)

section \<open>The calls as scripts\<close>

datatype api_call = CallRegister addrport addrport | CallRoutings

datatype call_result = Registered "error + string" | Routed "error + addr list \<times> addr list"

fun api_run :: "texts \<Rightarrow> Api \<Rightarrow> api_call \<Rightarrow> (call_result, http) go" where
  "api_run lib w (CallRegister Client Tunnel) =
     go_bind (go_try (Api_ProtoRegisterRegister lib w Client Tunnel)) (\<lambda>r. ret (Registered r))"
| "api_run lib w CallRoutings =
     go_bind (go_try (Api_AgentRoutings lib w None)) (\<lambda>r.
       ret (Routed (map_sum id (\<lambda>d. (ar_Targets6 d, ar_Targets4 d)) r)))"

fun world_run :: "api_call \<Rightarrow> (call_result, world) go" where
  "world_run (CallRegister Client Tunnel) =
     go_bind (go_try (ProtoRegisterRegister Client Tunnel)) (\<lambda>r. ret (Registered r))"
| "world_run CallRoutings = go_bind (go_try AgentRoutings) (\<lambda>r. ret (Routed r))"

text \<open>The results of a sequence of calls.\<close>

fun go_map :: "('c \<Rightarrow> ('a, 's) go) \<Rightarrow> 'c list \<Rightarrow> ('a list, 's) go" where
  "go_map f [] = ret []"
| "go_map f (c # cs) = go_bind (f c) (\<lambda>x. go_bind (go_map f cs) (\<lambda>xs. ret (x # xs)))"

definition registers :: "call_result list \<Rightarrow> (error + string) list" where
  "registers rs = List.map_filter (\<lambda>r. case r of Registered x \<Rightarrow> Some x | _ \<Rightarrow> None) rs"

definition routings :: "call_result list \<Rightarrow> (error + addr list \<times> addr list) list" where
  "routings rs = List.map_filter (\<lambda>r. case r of Routed x \<Rightarrow> Some x | _ \<Rightarrow> None) rs"

lemma api_run_Ok: "\<exists>r h'. api_run lib w c h = Ok r h' \<and>
    (case c of CallRegister _ _ \<Rightarrow> \<exists>x. r = Registered x | CallRoutings \<Rightarrow> \<exists>x. r = Routed x) \<and>
    length (h_log h') = Suc (length (h_log h))"
  by (cases c)
     (auto simp: go_bind_def go_try_def Api_ProtoRegisterRegister_def Api_AgentRoutings_def
       requestToApi_eq of_value_def logged_def Let_def split: sum.split outcome.split)

lemma world_call_Registered:
  assumes "w_register wd = x # xs"
  shows "world_run (CallRegister Client Tunnel) wd = Ok (Registered x) (wd\<lparr>w_register := xs\<rparr>)"
  using assms by (cases x) (simp_all add: go_bind_def go_try_def ProtoRegisterRegister_def)

lemma world_call_Routed:
  assumes "w_routing wd = x # xs"
  shows "world_run CallRoutings wd = Ok (Routed x) (wd\<lparr>w_routing := xs\<rparr>)"
  using assms by (cases x) (simp_all add: go_bind_def go_try_def AgentRoutings_def split_beta)

lemma scripts_simps [simp]:
  "registers [] = []" "routings [] = []"
  "registers (Registered x # rs) = x # registers rs" "registers (Routed y # rs) = registers rs"
  "routings (Routed y # rs) = y # routings rs" "routings (Registered x # rs) = routings rs"
  by (simp_all add: registers_def routings_def map_filter_simps)

lemma go_map_Cons_Ok:
  "f c s = Ok x s' \<Longrightarrow> go_map f cs s' = Ok xs t \<Longrightarrow> go_map f (c # cs) s = Ok (x # xs) t"
  by (simp add: go_bind_def)

text \<open>Any sequence of calls to any server, replayed from scripts; one request for each call.\<close>

lemma scripts_replay:
  "\<exists>rs h'. go_map (api_run lib w) cs h = Ok rs h' \<and> length (h_log h') = length (h_log h) + length cs \<and>
     (\<forall>wd a b. go_map world_run cs (wd\<lparr>w_register := registers rs @ a, w_routing := routings rs @ b\<rparr>) =
        Ok rs (wd\<lparr>w_register := a, w_routing := b\<rparr>))"
proof (induction cs arbitrary: h)
  case Nil
  show ?case by simp
next
  case (Cons c cs)
  obtain r h1 where r: "api_run lib w c h = Ok r h1" "length (h_log h1) = Suc (length (h_log h))"
    and shape: "case c of CallRegister _ _ \<Rightarrow> \<exists>x. r = Registered x | CallRoutings \<Rightarrow> \<exists>x. r = Routed x"
    using api_run_Ok by blast
  obtain rs h2 where rs: "go_map (api_run lib w) cs h1 = Ok rs h2"
      "length (h_log h2) = length (h_log h1) + length cs"
    and replay: "\<And>wd a b. go_map world_run cs (wd\<lparr>w_register := registers rs @ a, w_routing := routings rs @ b\<rparr>) =
        Ok rs (wd\<lparr>w_register := a, w_routing := b\<rparr>)"
    using Cons by blast
  have "go_map world_run (c # cs) (wd\<lparr>w_register := registers (r # rs) @ a, w_routing := routings (r # rs) @ b\<rparr>) =
      Ok (r # rs) (wd\<lparr>w_register := a, w_routing := b\<rparr>)" for wd a b
  proof (rule go_map_Cons_Ok)
    show "world_run c (wd\<lparr>w_register := registers (r # rs) @ a, w_routing := routings (r # rs) @ b\<rparr>) =
        Ok r (wd\<lparr>w_register := registers rs @ a, w_routing := routings rs @ b\<rparr>)"
      using shape
      by (cases c)
         (auto simp del: world_run.simps simp: world_call_Registered world_call_Routed)
    show "go_map world_run cs (wd\<lparr>w_register := registers rs @ a, w_routing := routings rs @ b\<rparr>) =
        Ok rs (wd\<lparr>w_register := a, w_routing := b\<rparr>)" by (rule replay)
  qed
  with go_map_Cons_Ok [OF r(1) rs(1)] r(2) rs(2) show ?case by (auto simp del: go_map.simps)
qed

end
