(* ===== verification/Api_Claim.thy ===== *)
theory Api_Claim
  imports Api_Request
begin

text \<open>
  \<open>src/api/claim.go\<close>: a claim code for the agent, and the exchange of the code for the agent's
  secret once the user has accepted the claim in the browser. The second asks the API until the user
  has decided, so it need not return.
\<close>

definition ClaimAgents :: "string list" where
  "ClaimAgents = [''default'', ''assignable'', ''self-managed'']"

text \<open>\<open>rand.Read\<close> is the parameter: \<open>n\<close> random bytes or an error.\<close>

definition AiisgnClaimCode :: "(nat \<Rightarrow> error + bytes) \<Rightarrow> (unit, Api) go" where
  "AiisgnClaimCode rand_Read =
     go_bind get_state (\<lambda>w.
       if length (api_Code w) > 0 then ret ()
       else
         (case rand_Read 5 of
            Inl e \<Rightarrow> throw e
          | Inr codeBuff \<Rightarrow> modify (api_Code_update (\<lambda>_. hex_encode codeBuff))))"

definition ClaimUrl :: "Api \<Rightarrow> string" where
  "ClaimUrl w = ''https://playit.gg/claim/'' @ url_PathEscape (api_Code w)"

definition claim_body :: "Api \<Rightarrow> string \<Rightarrow> json" where
  "claim_body w AgentType =
     JObj (mem ''code'' (JStr (api_Code w)) @ mem ''agent_type'' (JStr AgentType) @
       mem ''version'' (JStr (''go-playit '' @ GoPlayitVersion)))"

record claim_Code =
  claim_Code_Code :: string
  claim_Code_SecretKey :: string

definition claim_Code_fields :: "claim_Code field list" where
  "claim_Code_fields =
     [fld ''code'' claim_Code_Code claim_Code_Code_update dec_string,
      fld ''secret_key'' claim_Code_SecretKey claim_Code_SecretKey_update dec_string]"

definition enc_claim_Code :: "claim_Code \<Rightarrow> json" where
  "enc_claim_Code c =
     JObj (mem_str ''code'' (claim_Code_Code c) @ mem_str ''secret_key'' (claim_Code_SecretKey c))"

text \<open>One round of the loop: ask whether the user has decided.\<close>

definition claim_verdict :: "string \<Rightarrow> (unit option, http) go" where
  "claim_verdict waitUser =
     (if waitUser = ''UserRejected'' then throw (Errorf ''claim rejected'')
      else if waitUser = ''UserAccepted'' then ret (Some ())
      else ret None)"

definition claim_wait :: "Api \<Rightarrow> json \<Rightarrow> (unit option, http) go" where
  "claim_wait w body =
     go_bind (requestToApi w ''/claim/setup'' (Some body) (Some dec_string) '''' []) claim_verdict"

definition claim_exchange :: "Api \<Rightarrow> (string, http) go" where
  "claim_exchange w =
     (let getCode = \<lparr>claim_Code_Code = api_Code w, claim_Code_SecretKey = ''''\<rparr> in
      go_bind (requestToApi w ''/claim/exchange'' (Some (enc_claim_Code getCode))
          (Some (dec_struct claim_Code_fields)) getCode [])
        (\<lambda>getCode. ret (claim_Code_SecretKey getCode)))"

text \<open>\<open>None\<close>: the loop never ends.\<close>

definition ClaimAgentSecret :: "string \<Rightarrow> Api \<times> http \<Rightarrow> (unit, Api \<times> http) outcome option" where
  "ClaimAgentSecret AgentType s =
     (let w = fst s in
      if api_Code w = '''' then no_loop (throw (Errorf ''assign claim code'')) s
      else if api_Secret w \<noteq> '''' then no_loop (throw (Errorf ''agent secret key ared located'')) s
      else if \<not> List.member ClaimAgents AgentType
      then no_loop (throw (Errorf ''set valid agent type'')) s
      else
        after_loop (loop_http (go_loop (claim_wait w (claim_body w AgentType))))
          (\<lambda>_. go_bind (on_http (claim_exchange w)) (\<lambda>SecretKey.
             modify (\<lambda>(w, h). (w\<lparr>api_Secret := SecretKey\<rparr>, h)))) s)"

section \<open>What the calls do\<close>

lemma AiisgnClaimCode_eq:
  "AiisgnClaimCode rand_Read w =
     (if api_Code w \<noteq> '''' then Ok () w
      else (case rand_Read 5 of
              Inl e \<Rightarrow> Err e w
            | Inr bs \<Rightarrow> Ok () (w\<lparr>api_Code := hex_encode bs\<rparr>)))"
  by (simp add: AiisgnClaimCode_def go_bind_def split: sum.split)

lemma ClaimUrl_hex: "ClaimUrl (w\<lparr>api_Code := hex_encode bs\<rparr>) = ''https://playit.gg/claim/'' @ hex_encode bs"
  by (simp add: ClaimUrl_def url_PathEscape_hex)

text \<open>The question of the loop, and the answers that it goes on with.\<close>

definition claim_question :: "Api \<Rightarrow> string \<Rightarrow> http_request" where
  "claim_question w AgentType = api_request w ''/claim/setup'' (Some (claim_body w AgentType))"

definition claim_answer :: "Api \<Rightarrow> string \<Rightarrow> http \<Rightarrow> nat \<Rightarrow> error + string" where
  "claim_answer w AgentType = poll_answer (reply_value (Some dec_string) '''') (claim_question w AgentType)"

definition undecided :: "string \<Rightarrow> bool" where
  "undecided s \<longleftrightarrow> s \<noteq> ''UserRejected'' \<and> s \<noteq> ''UserAccepted''"

definition claim_undecided :: "Api \<Rightarrow> string \<Rightarrow> http \<Rightarrow> nat \<Rightarrow> bool" where
  "claim_undecided w AgentType h n \<longleftrightarrow>
     (case claim_answer w AgentType h n of Inl e \<Rightarrow> False | Inr s \<Rightarrow> undecided s)"

interpretation claim: polling "claim_wait w (claim_body w AgentType)" "claim_question w AgentType"
    "reply_value (Some dec_string) ''''" undecided claim_verdict for w AgentType
  by unfold_locales
     (auto simp: claim_wait_def claim_question_def go_bind_def requestToApi_eq Let_def of_value_def
       claim_verdict_def undecided_def split: sum.split)

lemma claim_undecided_waits:
  "claim_undecided w AgentType h =
     poll_waits (reply_value (Some dec_string) '''') undecided (claim_question w AgentType) h"
  by (simp add: fun_eq_iff claim_undecided_def poll_waits_def claim_answer_def)

definition claim_ready :: "string \<Rightarrow> Api \<Rightarrow> bool" where
  "claim_ready AgentType w \<longleftrightarrow> api_Code w \<noteq> '''' \<and> api_Secret w = '''' \<and> AgentType \<in> set ClaimAgents"

lemma ClaimAgentSecret_ready:
  assumes "claim_ready AgentType w"
  shows "ClaimAgentSecret AgentType (w, h) =
     after_loop (loop_http (go_loop (claim_wait w (claim_body w AgentType))))
       (\<lambda>_. go_bind (on_http (claim_exchange w)) (\<lambda>SecretKey.
          modify (\<lambda>(w, h). (w\<lparr>api_Secret := SecretKey\<rparr>, h)))) (w, h)"
  using assms by (simp add: ClaimAgentSecret_def claim_ready_def)

lemma ClaimAgentSecret_refused:
  assumes "\<not> claim_ready AgentType w"
  shows "\<exists>e. ClaimAgentSecret AgentType (w, h) = Some (Err e (w, h))"
  using assms by (auto simp: ClaimAgentSecret_def claim_ready_def no_loop_def Let_def)

lemma ClaimAgentSecret_None:
  assumes "claim_ready AgentType w"
  shows "ClaimAgentSecret AgentType (w, h) = None \<longleftrightarrow> (\<forall>n. claim_undecided w AgentType h n)"
  by (simp add: ClaimAgentSecret_ready [OF assms] after_loop_def loop_http_def claim.never_ends
      claim_undecided_waits)

text \<open>The reply to the exchange.\<close>

definition claim_exchange_request :: "Api \<Rightarrow> http_request" where
  "claim_exchange_request w =
     api_request w ''/claim/exchange'' (Some (JObj [(''code'', JStr (api_Code w))]))"

definition claim_secret :: "Api \<Rightarrow> http \<Rightarrow> error + string" where
  "claim_secret w h =
     map_sum id claim_Code_SecretKey (reply_value (Some (dec_struct claim_Code_fields))
       \<lparr>claim_Code_Code = api_Code w, claim_Code_SecretKey = ''''\<rparr> (next_reply h (claim_exchange_request w)))"

lemma claim_exchange_eq:
  assumes "api_Code w \<noteq> ''''"
  shows "claim_exchange w h = of_value (claim_secret w h) (logged (claim_exchange_request w) h)"
  using assms
  by (simp add: claim_exchange_def Let_def enc_claim_Code_def mem_str_def go_bind_def requestToApi_eq
      claim_secret_def claim_exchange_request_def of_value_def split: sum.split)

lemma ClaimAgentSecret_decided:
  assumes "claim_ready AgentType w" and "\<forall>i < n. claim_undecided w AgentType h i"
    and "\<not> claim_undecided w AgentType h n"
  defines "h' \<equiv> asked (claim_question w AgentType) (Suc n) h"
  shows "ClaimAgentSecret AgentType (w, h) = Some
    (case claim_answer w AgentType h n of
       Inl e \<Rightarrow> Err e (w, h')
     | Inr s \<Rightarrow>
         if s = ''UserRejected'' then Err (Errorf ''claim rejected'') (w, h')
         else (case claim_secret w h' of
             Inl e \<Rightarrow> Err e (w, logged (claim_exchange_request w) h')
           | Inr secret \<Rightarrow> Ok () (w\<lparr>api_Secret := secret\<rparr>, logged (claim_exchange_request w) h')))"
proof -
  have code: "api_Code w \<noteq> ''''" using assms(1) by (simp add: claim_ready_def)
  have loop: "go_loop (claim_wait w (claim_body w AgentType)) h =
      leaves (claim_wait w (claim_body w AgentType)) (asked (claim_question w AgentType) n h)"
    using assms(2,3) unfolding claim_undecided_waits by (rule claim.ends_first)
  have "undecided s \<Longrightarrow> claim_answer w AgentType h n \<noteq> Inr s" for s
    using assms(3) by (auto simp: claim_undecided_def)
  then show ?thesis
    unfolding ClaimAgentSecret_ready [OF assms(1)] after_loop_def loop_http_def snd_conv loop leaves_def
      claim.round_eq claim_answer_def [symmetric] h'_def [symmetric]
    by (auto simp: on_http_def zoom_def claim_verdict_def undecided_def go_bind_def
        claim_exchange_eq [OF code] of_value_def split: sum.split)
qed

end
