(* ===== verification/Api_Tunnels.thy ===== *)
theory Api_Tunnels
  imports Api_Agents
begin

text \<open>
  \<open>src/api/tunnels.go\<close>: creating, deleting and listing tunnels. A field of type \<open>any\<close> holds one of the
  structs that the code tests for, or another value, given by its document (\<open>None\<close> for a value that
  cannot be encoded). What is decoded into such a field comes out of a reply's data, so its document has
  been written from an \<open>any\<close> (\<open>recodeJson\<close>) and stands for that value.
\<close>

section \<open>Where a tunnel leads\<close>

record AssignedDefaultCreate =
  adc_Ip :: bytes
  adc_Port :: "u16 option"

record AssignedAgentCreate =
  aac_ID :: UUID
  aac_Ip :: bytes
  aac_Port :: "u16 option"

record AssignedManagedCreate =
  amc_ID :: "UUID option"

datatype origin_any =
    OriginDefault AssignedDefaultCreate
  | OriginAgent AssignedAgentCreate
  | OriginManaged AssignedManagedCreate
  | OriginOther "json option"

record TunnelOriginCreate =
  toc_Type :: string
  toc_Agent :: origin_any

fun is_OriginDefault :: "origin_any \<Rightarrow> bool" where
  "is_OriginDefault (OriginDefault _) = True"
| "is_OriginDefault _ = False"

fun is_OriginAgent :: "origin_any \<Rightarrow> bool" where
  "is_OriginAgent (OriginAgent _) = True"
| "is_OriginAgent _ = False"

fun is_OriginManaged :: "origin_any \<Rightarrow> bool" where
  "is_OriginManaged (OriginManaged _) = True"
| "is_OriginManaged _ = False"

definition TunnelOriginCreate_Check :: "TunnelOriginCreate \<Rightarrow> error option" where
  "TunnelOriginCreate_Check Origin =
     (if toc_Type Origin = ''default'' \<and> \<not> is_OriginDefault (toc_Agent Origin)
      then Some (Errorf ''current agent is default, so Agent don't is AssignedDefaultCreate'')
      else if toc_Type Origin = ''agent'' \<and> \<not> is_OriginAgent (toc_Agent Origin)
      then Some (Errorf ''current agent is agent, so Agent don't is AssignedAgentCreate'')
      else if toc_Type Origin = ''managed'' \<and> \<not> is_OriginManaged (toc_Agent Origin)
      then Some (Errorf ''current managed is default, so Agent don't is AssignedManagedCreate'')
      else None)"

section \<open>Which address a tunnel uses\<close>

record UseAllocDedicatedIp =
  uad_IpHost :: string
  uad_Port :: "u16 option"

record UseAllocPortAlloc =
  uap_ID :: UUID

record UseRegion =
  ur_Region :: string

datatype alloc_any =
    AllocDedicatedIp UseAllocDedicatedIp
  | AllocPortAlloc UseAllocPortAlloc
  | AllocRegion UseRegion
  | AllocOther "json option"

record TunnelCreateUseAllocation =
  tca_Status :: string
  tca_Type :: string
  tca_Data :: alloc_any

text \<open>The check also sets the type, on the caller's value, which it gets by reference.\<close>

definition TunnelCreateUseAllocation_Check :: "(unit, TunnelCreateUseAllocation) go" where
  "TunnelCreateUseAllocation_Check =
     go_bind get_state (\<lambda>Alloc.
       case tca_Data Alloc of
         AllocDedicatedIp _ \<Rightarrow> modify (tca_Type_update (\<lambda>_. ''dedicated-ip''))
       | AllocPortAlloc _ \<Rightarrow> modify (tca_Type_update (\<lambda>_. ''port-allocation''))
       | AllocRegion Region \<Rightarrow>
           if List.member api_Regions (ur_Region Region)
           then modify (tca_Type_update (\<lambda>_. ''region''))
           else throw (Errorf ''set valid region'')
       | AllocOther _ \<Rightarrow> throw (Errorf ''invalid allocation type''))"

section \<open>Encoding\<close>

text \<open>An address of a wrong length has no text form, which is an error of the encoder.\<close>

definition enc_ip :: "texts \<Rightarrow> bytes \<Rightarrow> error + json" where
  "enc_ip lib ip = (case ip_String lib ip of Some s \<Rightarrow> Inr (JStr s) | None \<Rightarrow> Inl ErrJson)"

definition enc_any :: "json option \<Rightarrow> error + json" where
  "enc_any v = (case v of Some j \<Rightarrow> Inr j | None \<Rightarrow> Inl ErrJson)"

fun enc_origin_any :: "texts \<Rightarrow> origin_any \<Rightarrow> error + json" where
  "enc_origin_any lib (OriginDefault a) =
     map_sum id (\<lambda>ip. JObj (mem ''local_ip'' ip @ mem_ptr ''local_port'' enc_uint (adc_Port a)))
       (enc_ip lib (adc_Ip a))"
| "enc_origin_any lib (OriginAgent a) =
     map_sum id (\<lambda>ip. JObj (mem ''agent_id'' (JStr (uuid_String lib (aac_ID a))) @ mem ''local_ip'' ip @
         mem_ptr ''local_port'' enc_uint (aac_Port a)))
       (enc_ip lib (aac_Ip a))"
| "enc_origin_any lib (OriginManaged a) =
     Inr (JObj (mem_ptr ''agent_id'' (JStr \<circ> uuid_String lib) (amc_ID a)))"
| "enc_origin_any lib (OriginOther v) = enc_any v"

definition enc_TunnelOriginCreate :: "texts \<Rightarrow> TunnelOriginCreate \<Rightarrow> error + json" where
  "enc_TunnelOriginCreate lib Origin =
     map_sum id (\<lambda>data. JObj (mem ''type'' (JStr (toc_Type Origin)) @ mem ''data'' data))
       (enc_origin_any lib (toc_Agent Origin))"

fun enc_alloc_any :: "texts \<Rightarrow> alloc_any \<Rightarrow> error + json" where
  "enc_alloc_any lib (AllocDedicatedIp a) =
     Inr (JObj (mem ''ip_hostname'' (JStr (uad_IpHost a)) @ mem_ptr ''port'' enc_uint (uad_Port a)))"
| "enc_alloc_any lib (AllocPortAlloc a) =
     Inr (JObj (mem ''alloc_id'' (JStr (uuid_String lib (uap_ID a)))))"
| "enc_alloc_any lib (AllocRegion a) = Inr (JObj (mem ''region'' (JStr (ur_Region a))))"
| "enc_alloc_any lib (AllocOther v) = enc_any v"

definition enc_TunnelCreateUseAllocation :: "texts \<Rightarrow> TunnelCreateUseAllocation \<Rightarrow> error + json" where
  "enc_TunnelCreateUseAllocation lib Alloc =
     map_sum id (\<lambda>details. JObj (mem ''status'' (JStr (tca_Status Alloc)) @
         mem ''type'' (JStr (tca_Type Alloc)) @ mem ''details'' details))
       (enc_alloc_any lib (tca_Data Alloc))"

section \<open>A tunnel to create\<close>

record Tunnel =
  tun_ID :: "UUID option"
  tun_Name :: string
  tun_TunnelType :: string
  tun_PortType :: string
  tun_PortCount :: u16
  tun_Origin :: TunnelOriginCreate
  tun_Enabled :: bool
  tun_Alloc :: "TunnelCreateUseAllocation option"
  tun_Firewall :: "UUID option"

definition enc_Tunnel :: "texts \<Rightarrow> Tunnel \<Rightarrow> error + json" where
  "enc_Tunnel lib tun =
     (case enc_TunnelOriginCreate lib (tun_Origin tun) of
        Inl e \<Rightarrow> Inl e
      | Inr origin \<Rightarrow>
          map_sum id
            (\<lambda>alloc. JObj (mem_ptr ''tunnel_id'' (JStr \<circ> uuid_String lib) (tun_ID tun) @
               mem_str ''name'' (tun_Name tun) @ mem_str ''tunnel_type'' (tun_TunnelType tun) @
               mem ''port_type'' (JStr (tun_PortType tun)) @
               mem ''port_count'' (enc_uint (tun_PortCount tun)) @ mem ''origin'' origin @
               mem ''enabled'' (JBool (tun_Enabled tun)) @ alloc @
               mem_ptr ''firewall_id'' (JStr \<circ> uuid_String lib) (tun_Firewall tun)))
            (case tun_Alloc tun of
               None \<Rightarrow> Inr []
             | Some a \<Rightarrow> map_sum id (mem ''alloc'') (enc_TunnelCreateUseAllocation lib a)))"

section \<open>The tunnels of an account\<close>

record account_Domain =
  ad_ID :: UUID
  ad_Name :: string
  ad_IsExternal :: bool
  ad_Parent :: string
  ad_Source :: string

record account_Ratelimit =
  al_BytesSecs :: u64
  al_PacketsSecs :: u64

record account_ExpireNotice =
  ae_Disable :: int
  ae_Remove :: int

record AccountTunnel =
  act_ID :: UUID
  act_TunnelType :: string
  act_CreatedAt :: int
  act_Name :: string
  act_PortType :: string
  act_PortCount :: u32
  act_Alloc :: TunnelCreateUseAllocation
  act_Origin :: TunnelOriginCreate
  act_Domain :: "account_Domain option"
  act_FirewallID :: string
  act_Ratelimit :: account_Ratelimit
  act_Active :: bool
  act_DisabledReason :: string
  act_Region :: string
  act_ExpireNotice :: "account_ExpireNotice option"

record AlloctedPorts =
  apo_Allowed :: u16
  apo_Claimed :: u16
  apo_Desired :: u16

record AccountTunnels =
  acs_Tcp :: AlloctedPorts
  acs_Udp :: AlloctedPorts
  acs_Tunnels :: "AccountTunnel list"

text \<open>A time is the number of its nanoseconds, 0 for the zero time.\<close>

definition zero_TunnelCreateUseAllocation :: TunnelCreateUseAllocation where
  "zero_TunnelCreateUseAllocation = \<lparr>tca_Status = '''', tca_Type = '''', tca_Data = AllocOther (Some JNull)\<rparr>"

definition zero_TunnelOriginCreate :: TunnelOriginCreate where
  "zero_TunnelOriginCreate = \<lparr>toc_Type = '''', toc_Agent = OriginOther (Some JNull)\<rparr>"

definition zero_AccountTunnel :: AccountTunnel where
  "zero_AccountTunnel =
     \<lparr>act_ID = 0, act_TunnelType = '''', act_CreatedAt = 0, act_Name = '''', act_PortType = '''',
      act_PortCount = 0, act_Alloc = zero_TunnelCreateUseAllocation, act_Origin = zero_TunnelOriginCreate,
      act_Domain = None, act_FirewallID = '''', act_Ratelimit = \<lparr>al_BytesSecs = 0, al_PacketsSecs = 0\<rparr>,
      act_Active = False, act_DisabledReason = '''', act_Region = '''', act_ExpireNotice = None\<rparr>"

definition zero_AccountTunnels :: AccountTunnels where
  "zero_AccountTunnels =
     \<lparr>acs_Tcp = \<lparr>apo_Allowed = 0, apo_Claimed = 0, apo_Desired = 0\<rparr>,
      acs_Udp = \<lparr>apo_Allowed = 0, apo_Claimed = 0, apo_Desired = 0\<rparr>, acs_Tunnels = []\<rparr>"

definition TunnelCreateUseAllocation_fields :: "TunnelCreateUseAllocation field list" where
  "TunnelCreateUseAllocation_fields =
     [fld ''status'' tca_Status tca_Status_update dec_string,
      fld ''type'' tca_Type tca_Type_update dec_string,
      fld ''details'' tca_Data tca_Data_update (\<lambda>j old. Inr (AllocOther (Some j)))]"

definition TunnelOriginCreate_fields :: "TunnelOriginCreate field list" where
  "TunnelOriginCreate_fields =
     [fld ''type'' toc_Type toc_Type_update dec_string,
      fld ''data'' toc_Agent toc_Agent_update (\<lambda>j old. Inr (OriginOther (Some j)))]"

definition account_Domain_fields :: "texts \<Rightarrow> account_Domain field list" where
  "account_Domain_fields lib =
     [fld ''id'' ad_ID ad_ID_update (dec_text (uuid_Parse lib)),
      fld ''name'' ad_Name ad_Name_update dec_string,
      fld ''is_external'' ad_IsExternal ad_IsExternal_update dec_bool,
      fld ''parent'' ad_Parent ad_Parent_update dec_string,
      fld ''source'' ad_Source ad_Source_update dec_string]"

definition account_Ratelimit_fields :: "account_Ratelimit field list" where
  "account_Ratelimit_fields =
     [fld ''bytes_per_second'' al_BytesSecs al_BytesSecs_update dec_uint,
      fld ''packets_per_second'' al_PacketsSecs al_PacketsSecs_update dec_uint]"

definition account_ExpireNotice_fields :: "texts \<Rightarrow> account_ExpireNotice field list" where
  "account_ExpireNotice_fields lib =
     [fld ''disable_at'' ae_Disable ae_Disable_update (dec_text (time_Parse lib)),
      fld ''remove_at'' ae_Remove ae_Remove_update (dec_text (time_Parse lib))]"

definition AccountTunnel_fields :: "texts \<Rightarrow> AccountTunnel field list" where
  "AccountTunnel_fields lib =
     [fld ''id'' act_ID act_ID_update (dec_text (uuid_Parse lib)),
      fld ''tunnel_type'' act_TunnelType act_TunnelType_update dec_string,
      fld ''created_at'' act_CreatedAt act_CreatedAt_update (dec_text (time_Parse lib)),
      fld ''name'' act_Name act_Name_update dec_string,
      fld ''port_type'' act_PortType act_PortType_update dec_string,
      fld ''port_count'' act_PortCount act_PortCount_update dec_int,
      fld ''alloc'' act_Alloc act_Alloc_update (dec_struct TunnelCreateUseAllocation_fields),
      fld ''origin'' act_Origin act_Origin_update (dec_struct TunnelOriginCreate_fields),
      fld ''domain'' act_Domain act_Domain_update
        (dec_ptr \<lparr>ad_ID = 0, ad_Name = '''', ad_IsExternal = False, ad_Parent = '''', ad_Source = ''''\<rparr>
          (dec_struct (account_Domain_fields lib))),
      fld ''firewall_id'' act_FirewallID act_FirewallID_update dec_string,
      fld ''ratelimit'' act_Ratelimit act_Ratelimit_update (dec_struct account_Ratelimit_fields),
      fld ''active'' act_Active act_Active_update dec_bool,
      fld ''disabled_reason'' act_DisabledReason act_DisabledReason_update dec_string,
      fld ''region'' act_Region act_Region_update dec_string,
      fld ''expire_notice'' act_ExpireNotice act_ExpireNotice_update
        (dec_ptr \<lparr>ae_Disable = 0, ae_Remove = 0\<rparr> (dec_struct (account_ExpireNotice_fields lib)))]"

definition AlloctedPorts_fields :: "AlloctedPorts field list" where
  "AlloctedPorts_fields =
     [fld ''allowed'' apo_Allowed apo_Allowed_update dec_uint,
      fld ''claimed'' apo_Claimed apo_Claimed_update dec_uint,
      fld ''desired'' apo_Desired apo_Desired_update dec_uint]"

definition AccountTunnels_fields :: "texts \<Rightarrow> AccountTunnels field list" where
  "AccountTunnels_fields lib =
     [fld ''tcp_alloc'' acs_Tcp acs_Tcp_update (dec_struct AlloctedPorts_fields),
      fld ''udp_alloc'' acs_Udp acs_Udp_update (dec_struct AlloctedPorts_fields),
      fld ''tunnels'' acs_Tunnels acs_Tunnels_update
        (dec_slice zero_AccountTunnel (dec_struct (AccountTunnel_fields lib)))]"

section \<open>Calls\<close>

definition ListTunnels ::
    "texts \<Rightarrow> Api \<Rightarrow> UUID option \<Rightarrow> UUID option \<Rightarrow> (AccountTunnels, http) go" where
  "ListTunnels lib w TunnelID AgentID =
     requestToApi w ''/tunnels/list''
       (Some (JObj (mem_ptr ''tunnel_id'' (JStr \<circ> uuid_String lib) TunnelID @
          mem_ptr ''agent_id'' (JStr \<circ> uuid_String lib) AgentID)))
       (Some (dec_struct (AccountTunnels_fields lib))) zero_AccountTunnels []"

definition DeleteTunnel :: "texts \<Rightarrow> Api \<Rightarrow> UUID option \<Rightarrow> (unit, http) go" where
  "DeleteTunnel lib w TunnelID =
     (case TunnelID of
        None \<Rightarrow> ret ()
      | Some i \<Rightarrow>
          requestToApi w ''/tunnels/delete'' (Some (JObj (mem ''tunnel_id'' (JStr (uuid_String lib i)))))
            None () [])"

record created_id =
  ci_ID :: UUID

definition created_id_fields :: "texts \<Rightarrow> created_id field list" where
  "created_id_fields lib = [fld ''id'' ci_ID ci_ID_update (dec_text (uuid_Parse lib))]"

text \<open>A round of the loop: the first tunnel of the list, which need not be there.\<close>

definition created_verdict :: "AccountTunnels \<Rightarrow> (unit option, http) go" where
  "created_verdict tuns =
     (case acs_Tunnels tuns of
        [] \<Rightarrow> crash IndexRange
      | t # _ \<Rightarrow> if tca_Status (act_Alloc t) = ''pending'' then ret None else ret (Some ()))"

definition created_wait :: "texts \<Rightarrow> Api \<Rightarrow> UUID \<Rightarrow> UUID \<Rightarrow> (unit option, http) go" where
  "created_wait lib w tunnel agent =
     go_bind (ListTunnels lib w (Some tunnel) (Some agent)) created_verdict"

text \<open>
  The tunnel is a copy, its allocation is the caller's value: the first part of the state is what the
  pointer \<open>tun.Alloc\<close> points to. \<open>None\<close>: the loop never ends.
\<close>

definition CreateTunnel_checks :: "Tunnel \<Rightarrow> (TunnelCreateUseAllocation, TunnelCreateUseAllocation option \<times> 'h) go" where
  "CreateTunnel_checks tun =
     go_bind get_state (\<lambda>(alloc, _).
       case alloc of
         None \<Rightarrow> crash NilDeref
       | Some a \<Rightarrow>
           go_bind (zoom (\<lambda>_. a) (\<lambda>a (_, h). (Some a, h)) TunnelCreateUseAllocation_Check) (\<lambda>_.
             case TunnelOriginCreate_Check (tun_Origin tun) of
               Some e \<Rightarrow> throw e
             | None \<Rightarrow>
                 if length (tun_TunnelType tun) > 0 \<and> \<not> List.member api_TunnelType (tun_TunnelType tun)
                 then throw (Errorf ''invalid tunnel type'')
                 else go_bind get_state (\<lambda>(alloc, _). ret (the alloc))))"

definition CreateTunnel_requests :: "texts \<Rightarrow> Api \<Rightarrow> Tunnel \<Rightarrow> (UUID \<times> UUID, http) go" where
  "CreateTunnel_requests lib w tun =
     (case enc_Tunnel lib tun of
        Inl e \<Rightarrow> throw e
      | Inr body \<Rightarrow>
          go_bind (requestToApi w ''/tunnels/create'' (Some body) (Some (dec_struct (created_id_fields lib)))
              \<lparr>ci_ID = 0\<rparr> []) (\<lambda>tunnelId.
          go_bind (Api_AgentInfo lib w) (\<lambda>info. ret (ci_ID tunnelId, rd_ID info))))"

definition CreateTunnel ::
    "texts \<Rightarrow> Api \<Rightarrow> Tunnel \<Rightarrow> http \<Rightarrow> (unit, TunnelCreateUseAllocation option \<times> http) outcome option" where
  "CreateTunnel lib w tun h =
     before_loop
       (go_bind (CreateTunnel_checks tun) (\<lambda>alloc.
          on_http (CreateTunnel_requests lib w (tun\<lparr>tun_Alloc := Some alloc\<rparr>))))
       (\<lambda>(tunnel, agent). loop_http (go_loop (created_wait lib w tunnel agent)))
       (tun_Alloc tun, h)"

section \<open>What the checks accept\<close>

fun alloc_type :: "alloc_any \<Rightarrow> string option" where
  "alloc_type (AllocDedicatedIp _) = Some ''dedicated-ip''"
| "alloc_type (AllocPortAlloc _) = Some ''port-allocation''"
| "alloc_type (AllocRegion r) = (if ur_Region r \<in> set api_Regions then Some ''region'' else None)"
| "alloc_type (AllocOther _) = None"

fun origin_type :: "origin_any \<Rightarrow> string option" where
  "origin_type (OriginDefault _) = Some ''default''"
| "origin_type (OriginAgent _) = Some ''agent''"
| "origin_type (OriginManaged _) = Some ''managed''"
| "origin_type (OriginOther _) = None"

text \<open>A type of the three must be that of the value; any other type goes with any value.\<close>

definition origin_ok :: "TunnelOriginCreate \<Rightarrow> bool" where
  "origin_ok Origin \<longleftrightarrow>
     toc_Type Origin \<in> {''default'', ''agent'', ''managed''} \<longrightarrow> origin_type (toc_Agent Origin) = Some (toc_Type Origin)"

definition tunnel_type_ok :: "string \<Rightarrow> bool" where
  "tunnel_type_ok t \<longleftrightarrow> t = '''' \<or> t \<in> set api_TunnelType"

lemma Alloc_Check_eq:
  "TunnelCreateUseAllocation_Check a =
     (case alloc_type (tca_Data a) of
        Some t \<Rightarrow> Ok () (a\<lparr>tca_Type := t\<rparr>)
      | None \<Rightarrow> Err (Errorf (case tca_Data a of AllocRegion _ \<Rightarrow> ''set valid region''
                                           | _ \<Rightarrow> ''invalid allocation type'')) a)"
  by (cases "tca_Data a") (simp_all add: TunnelCreateUseAllocation_Check_def go_bind_def)

lemma Origin_Check_eq: "TunnelOriginCreate_Check Origin = None \<longleftrightarrow> origin_ok Origin"
  by (cases "toc_Agent Origin") (auto simp: TunnelOriginCreate_Check_def origin_ok_def)

definition tunnel_ok :: "Tunnel \<Rightarrow> bool" where
  "tunnel_ok tun \<longleftrightarrow>
     (case tun_Alloc tun of None \<Rightarrow> False | Some a \<Rightarrow> alloc_type (tca_Data a) \<noteq> None) \<and>
     origin_ok (tun_Origin tun) \<and> tunnel_type_ok (tun_TunnelType tun)"

lemma checks_nil: "CreateTunnel_checks tun (None, h) = Panic NilDeref"
  by (simp add: CreateTunnel_checks_def go_bind_def)

lemma checks_eq:
  "CreateTunnel_checks tun (Some a, h) =
     (case alloc_type (tca_Data a) of
        None \<Rightarrow> Err (Errorf (case tca_Data a of AllocRegion _ \<Rightarrow> ''set valid region''
                                         | _ \<Rightarrow> ''invalid allocation type'')) (Some a, h)
      | Some t \<Rightarrow>
          (case TunnelOriginCreate_Check (tun_Origin tun) of
             Some e \<Rightarrow> Err e (Some (a\<lparr>tca_Type := t\<rparr>), h)
           | None \<Rightarrow>
               if tunnel_type_ok (tun_TunnelType tun) then Ok (a\<lparr>tca_Type := t\<rparr>) (Some (a\<lparr>tca_Type := t\<rparr>), h)
               else Err (Errorf ''invalid tunnel type'') (Some (a\<lparr>tca_Type := t\<rparr>), h)))"
  by (auto simp: CreateTunnel_checks_def go_bind_def zoom_def Alloc_Check_eq tunnel_type_ok_def
      split: option.split)

lemma CreateTunnel_nil: "tun_Alloc tun = None \<Longrightarrow> CreateTunnel lib w tun h = Some (Panic NilDeref)"
  by (simp add: CreateTunnel_def before_loop_def go_bind_def checks_nil)

lemma CreateTunnel_refused:
  assumes "tun_Alloc tun = Some a" and "\<not> tunnel_ok tun"
  shows "\<exists>e a'. CreateTunnel lib w tun h = Some (Err e (Some a', h)) \<and> a' = a\<lparr>tca_Type := tca_Type a'\<rparr>"
  using assms Origin_Check_eq [of "tun_Origin tun"]
  by (auto simp: CreateTunnel_def before_loop_def go_bind_def checks_eq tunnel_ok_def split: option.split)

section \<open>Waiting for the tunnel\<close>

definition list_question :: "texts \<Rightarrow> Api \<Rightarrow> UUID \<Rightarrow> UUID \<Rightarrow> http_request" where
  "list_question lib w tunnel agent =
     api_request w ''/tunnels/list'' (Some (JObj [(''tunnel_id'', JStr (uuid_String lib tunnel)),
       (''agent_id'', JStr (uuid_String lib agent))]))"

definition list_value :: "texts \<Rightarrow> http_reply \<Rightarrow> error + AccountTunnels" where
  "list_value lib = reply_value (Some (dec_struct (AccountTunnels_fields lib))) zero_AccountTunnels"

definition first_pending :: "AccountTunnels \<Rightarrow> bool" where
  "first_pending tuns \<longleftrightarrow>
     (case acs_Tunnels tuns of [] \<Rightarrow> False | t # _ \<Rightarrow> tca_Status (act_Alloc t) = ''pending'')"

interpretation created: polling "created_wait lib w tunnel agent" "list_question lib w tunnel agent"
    "list_value lib" first_pending created_verdict for lib w tunnel agent
  by unfold_locales
     (auto simp: created_wait_def list_question_def list_value_def ListTunnels_def go_bind_def requestToApi_eq
       Let_def of_value_def mem_ptr_def created_verdict_def first_pending_def split: sum.split list.split)

text \<open>The tunnel as it is sent, and the two requests before the loop.\<close>

definition checked_alloc :: "Tunnel \<Rightarrow> TunnelCreateUseAllocation option" where
  "checked_alloc tun = map_option (\<lambda>a. a\<lparr>tca_Type := the (alloc_type (tca_Data a))\<rparr>) (tun_Alloc tun)"

definition create_request :: "Api \<Rightarrow> json \<Rightarrow> http_request" where
  "create_request w body = api_request w ''/tunnels/create'' (Some body)"

definition rundata_request :: "Api \<Rightarrow> http_request" where
  "rundata_request w = api_request w ''/agents/rundata'' None"

definition create_value :: "texts \<Rightarrow> http_reply \<Rightarrow> error + created_id" where
  "create_value lib = reply_value (Some (dec_struct (created_id_fields lib))) \<lparr>ci_ID = 0\<rparr>"

definition rundata_value :: "texts \<Rightarrow> http_reply \<Rightarrow> error + AgentRunData" where
  "rundata_value lib = reply_value (Some (dec_struct (AgentRunData_fields lib))) zero_AgentRunData"

lemma CreateTunnel_ok:
  fixes w h
  assumes "tunnel_ok tun" and "enc_Tunnel lib (tun\<lparr>tun_Alloc := checked_alloc tun\<rparr>) = Inr body"
  defines "h1 \<equiv> logged (create_request w body) h"
  defines "h2 \<equiv> logged (rundata_request w) h1"
  shows "CreateTunnel lib w tun h =
     (case create_value lib (next_reply h (create_request w body)) of
        Inl e \<Rightarrow> Some (Err e (checked_alloc tun, h1))
      | Inr c \<Rightarrow>
          (case rundata_value lib (next_reply h1 (rundata_request w)) of
             Inl e \<Rightarrow> Some (Err e (checked_alloc tun, h2))
           | Inr info \<Rightarrow>
               loop_http (go_loop (created_wait lib w (ci_ID c) (rd_ID info))) (checked_alloc tun, h2)))"
proof -
  obtain a t where a: "tun_Alloc tun = Some a" "alloc_type (tca_Data a) = Some t"
    using assms(1) by (auto simp: tunnel_ok_def split: option.splits)
  have "TunnelOriginCreate_Check (tun_Origin tun) = None" "tunnel_type_ok (tun_TunnelType tun)"
    using assms(1) by (simp_all add: tunnel_ok_def Origin_Check_eq)
  with a have checks: "CreateTunnel_checks tun (Some a, h) = Ok (a\<lparr>tca_Type := t\<rparr>) (Some (a\<lparr>tca_Type := t\<rparr>), h)"
    by (simp add: checks_eq)
  have alloc: "checked_alloc tun = Some (a\<lparr>tca_Type := t\<rparr>)" using a by (simp add: checked_alloc_def)
  show ?thesis
    using assms(2) unfolding alloc
    by (simp add: CreateTunnel_def before_loop_def go_bind_def a(1) checks on_http_def zoom_def
        CreateTunnel_requests_def Api_AgentInfo_def requestToApi_eq Let_def of_value_def h1_def h2_def
        create_request_def rundata_request_def create_value_def rundata_value_def split: sum.split)
qed

lemma created_loop:
  fixes lib w tunnel agent
  defines "rq \<equiv> list_question lib w tunnel agent"
  assumes "\<forall>i < n. poll_waits (list_value lib) first_pending rq h i"
    and "\<not> poll_waits (list_value lib) first_pending rq h n"
  shows "loop_http (go_loop (created_wait lib w tunnel agent)) (a, h) = Some
    (case poll_answer (list_value lib) rq h n of
       Inl e \<Rightarrow> Err e (a, asked rq (Suc n) h)
     | Inr tuns \<Rightarrow>
         if acs_Tunnels tuns = [] then Panic IndexRange else Ok () (a, asked rq (Suc n) h))"
proof -
  have "\<not> first_pending tuns" if "poll_answer (list_value lib) rq h n = Inr tuns" for tuns
    using assms(3) that by (simp add: poll_waits_def)
  then show ?thesis
    using created.ends_first [OF assms(2,3) [unfolded rq_def]] created.round_eq [of lib w tunnel agent n h]
    by (auto simp: loop_http_def leaves_def rq_def [symmetric] on_http_def zoom_def created_verdict_def
        first_pending_def split: sum.split list.split)
qed

lemma CreateTunnel_alloc:
  assumes "tunnel_ok tun"
  shows "case CreateTunnel lib w tun h of
      Some (Ok _ (a', _)) \<Rightarrow> a' = checked_alloc tun
    | Some (Err _ (a', _)) \<Rightarrow> a' = checked_alloc tun
    | _ \<Rightarrow> True"
proof (cases "enc_Tunnel lib (tun\<lparr>tun_Alloc := checked_alloc tun\<rparr>)")
  case (Inr body)
  from CreateTunnel_ok [OF assms Inr, of w h] show ?thesis
    by (auto split: sum.splits option.splits outcome.splits dest: loop_http_fst)
next
  case (Inl e)
  obtain a t where a: "tun_Alloc tun = Some a" "alloc_type (tca_Data a) = Some t"
    using assms by (auto simp: tunnel_ok_def split: option.splits)
  have "TunnelOriginCreate_Check (tun_Origin tun) = None" "tunnel_type_ok (tun_TunnelType tun)"
    using assms by (simp_all add: tunnel_ok_def Origin_Check_eq)
  with a have "CreateTunnel_checks tun (Some a, h) = Ok (a\<lparr>tca_Type := t\<rparr>) (Some (a\<lparr>tca_Type := t\<rparr>), h)"
    by (simp add: checks_eq)
  with a Inl show ?thesis
    by (simp add: CreateTunnel_def before_loop_def go_bind_def on_http_def zoom_def
        CreateTunnel_requests_def checked_alloc_def)
qed

section \<open>Reading an allocation back\<close>

text \<open>What is decoded into a field of type \<open>any\<close> is a document, so no listed allocation passes the check.\<close>

lemma allocation_read_back:
  assumes "enc_TunnelCreateUseAllocation lib a = Inr doc"
  shows "\<exists>details. enc_alloc_any lib (tca_Data a) = Inr details \<and>
    dec_struct TunnelCreateUseAllocation_fields doc zero_TunnelCreateUseAllocation =
      Inr (a\<lparr>tca_Data := AllocOther (Some details)\<rparr>)"
  using assms
  by (cases "enc_alloc_any lib (tca_Data a)")
     (auto simp: enc_TunnelCreateUseAllocation_def mem_def TunnelCreateUseAllocation_fields_def
       dec_struct_def find_field_def fld_def dec_string_def zero_TunnelCreateUseAllocation_def)

end
