(* ===== verification/Tcp_Tunnel.thy ===== *)
theory Tcp_Tunnel
  imports Control_Feed
begin

text \<open>
  \<open>src/tunnel/tcp_tunnel.go\<close>: the connection to the tunnel server for a new client. The operating
  system is a script of outcomes in the state, as for the UDP sockets of the agent: a stream is a number,
  and the state holds the streams that are open with their peers, and what was sent.
\<close>

record TcpTunnel =
  tt_ClaimInstructions :: ClaimInstructions

record tcp_world =
  tw_dial :: "error option list"
  tw_write :: "error option list"
  tw_read :: "(error + bytes) list"
  tw_next :: nat
  tw_open :: "(nat \<times> addrport) list"
  tw_sent :: "(nat \<times> bytes) list"

text \<open>An exhausted script lets a dial and a write succeed, and ends the stream for a read.\<close>

definition DialTCP :: "addrport \<Rightarrow> (nat, tcp_world) go" where
  "DialTCP peer w =
     (let w' = w\<lparr>tw_dial := tl (tw_dial w)\<rparr> in
      case tw_dial w of
        Some e # _ \<Rightarrow> Err e w'
      | _ \<Rightarrow> Ok (tw_next w) (w'\<lparr>tw_next := Suc (tw_next w), tw_open := (tw_next w, peer) # tw_open w\<rparr>))"

definition TCP_Write :: "nat \<Rightarrow> bytes \<Rightarrow> (unit, tcp_world) go" where
  "TCP_Write stream data w =
     (let w' = w\<lparr>tw_write := tl (tw_write w)\<rparr> in
      case tw_write w of
        Some e # _ \<Rightarrow> Err e w'
      | _ \<Rightarrow> Ok () (w'\<lparr>tw_sent := tw_sent w @ [(stream, data)]\<rparr>))"

definition TCP_Read :: "nat \<Rightarrow> nat \<Rightarrow> (bytes, tcp_world) go" where
  "TCP_Read stream n w =
     (let w' = w\<lparr>tw_read := tl (tw_read w)\<rparr> in
      case tw_read w of
        Inr data # _ \<Rightarrow> Ok (take n data) w'
      | Inl e # _ \<Rightarrow> Err e w'
      | [] \<Rightarrow> Err EOF w')"

definition TCP_Close :: "nat \<Rightarrow> (unit, tcp_world) go" where
  "TCP_Close stream w = Ok () (w\<lparr>tw_open := filter (\<lambda>(i, _). i \<noteq> stream) (tw_open w)\<rparr>)"

definition TcpTunnel_Connect :: "TcpTunnel \<Rightarrow> (nat, tcp_world) go" where
  "TcpTunnel_Connect tcp =
     go_bind (DialTCP (ci_Address (tt_ClaimInstructions tcp))) (\<lambda>stream.
     go_bind (go_try (TCP_Write stream (ci_Token (tt_ClaimInstructions tcp)))) (\<lambda>written.
       case written of
         Inl e \<Rightarrow> go_bind (TCP_Close stream) (\<lambda>_. throw e)
       | Inr _ \<Rightarrow>
           go_bind (go_try (TCP_Read stream 8)) (\<lambda>res.
             case res of
               Inl e \<Rightarrow> go_bind (TCP_Close stream) (\<lambda>_. throw e)
             | Inr _ \<Rightarrow> ret stream)))"

text \<open>Streams have numbers below the next one.\<close>

definition streams_ok :: "tcp_world \<Rightarrow> bool" where
  "streams_ok w \<longleftrightarrow> (\<forall>(i, _) \<in> set (tw_open w). i < tw_next w)"

lemma close_new:
  assumes "streams_ok w"
  shows "filter (\<lambda>(i, _). i \<noteq> tw_next w) ((tw_next w, peer) # tw_open w) = tw_open w"
  using assms by (auto simp: streams_ok_def filter_id_conv)

lemma TcpTunnel_Connect_outcome:
  assumes "streams_ok w"
  shows "case TcpTunnel_Connect tcp w of
      Ok stream w' \<Rightarrow>
        stream = tw_next w \<and> tw_open w' = (stream, ci_Address (tt_ClaimInstructions tcp)) # tw_open w \<and>
        tw_sent w' = tw_sent w @ [(stream, ci_Token (tt_ClaimInstructions tcp))] \<and> streams_ok w'
    | Err e w' \<Rightarrow> tw_open w' = tw_open w \<and> streams_ok w'
    | Panic p \<Rightarrow> False"
  using assms close_new [OF assms, of "ci_Address (tt_ClaimInstructions tcp)"]
  by (auto simp: TcpTunnel_Connect_def go_bind_def go_try_def DialTCP_def TCP_Write_def TCP_Read_def
      TCP_Close_def Let_def streams_ok_def
      split: list.split option.split sum.split)

end
