(* ===== verification/Api_Properties.thy ===== *)
theory Api_Properties
  imports Demo Api_World Api_Claim Api_Tunnels Tcp_Tunnel
begin

text \<open>
  The properties of the client of the HTTP API and of the TCP connection for a client, with a demo
  server on which they are instantiated.
\<close>

section \<open>A demo server\<close>

definition demo_texts :: texts where
  "demo_texts =
     \<lparr>uuid_String = (\<lambda>u. replicate (unat u) CHR ''i''), uuid_Parse = (\<lambda>s. Some (of_nat (length s))),
      addr_Parse = (\<lambda>s. if s = ''10.0.0.1'' then Some (V4 0x0A000001)
        else if s = ''fd00::1'' then Some (V6 0xFD000000000000000000000000000001 []) else None),
      addrport_String = (\<lambda>p. if p = server then ''10.0.0.1:5525'' else ''invalid AddrPort''),
      ip_String = (\<lambda>ip. if ip = [] then Some '''' else None), ip_Parse = (\<lambda>s. Some []),
      time_Parse = (\<lambda>s. None)\<rparr>"

text \<open>A server that answers by the path and the number of the request.\<close>

definition demo_http :: "(nat \<Rightarrow> string \<Rightarrow> http_reply) \<Rightarrow> http" where
  "demo_http answers = \<lparr>h_server = (\<lambda>n rq. answers n (drop (length PlayitAPI) (rq_URL rq))), h_log = []\<rparr>"

definition data_reply :: "json \<Rightarrow> http_reply" where
  "data_reply d = api_reply 200 ''success'' d"

lemma reply_value_data:
  assumes "unmarshal_any d = Inr a"
  shows "reply_value (Some dec) old (data_reply d) = dec (marshal_any a) old"
  using assms by (simp add: data_reply_def reply_value_api)

section \<open>Properties\<close>

text \<open>C28: a call of the API sends one request, to the fixed server, with the agent's secret if there is
  one and no other header; its result depends on the reply only: a transport error and a body that is
  no envelope are errors, a status of 300 or more is an error that carries the server's text (a plain
  text after it has served as a format), and any other reply is decoded into the caller's variable,
  if it has one. The data goes through a value of type \<open>any\<close>, with its numbers rounded to \<open>float64\<close>, a
  number beyond their range an error, and one member for each key of an object.\<close>

theorem api_answer:
  "requestToApi w Path Body dec old [] h =
     (let rq = \<lparr>rq_URL = ''https://api.playit.gg'' @ Path,
            rq_Header = (if api_Secret w = '''' then []
                         else [(''Authorization'', ''Agent-Key '' @ api_Secret w)]),
            rq_Body = Body\<rparr>;
          h' = h\<lparr>h_log := h_log h @ [rq]\<rparr> in
      case h_server h (length (h_log h)) rq of
        HttpFail e \<Rightarrow> Err e h'
      | HttpReply code None \<Rightarrow> Err ErrJson h'
      | HttpReply code (Some doc) \<Rightarrow>
          (case dec_struct envelope_fields doc zero_envelope of
             Inl e \<Rightarrow> Err e h'
           | Inr env \<Rightarrow>
               if 300 \<le> code then Err (status_error (env_Data env)) h'
               else (case dec of
                   None \<Rightarrow> Ok old h'
                 | Some d \<Rightarrow> (case d (marshal_any (env_Data env)) old of Inl e \<Rightarrow> Err e h' | Inr x \<Rightarrow> Ok x h'))))"
  unfolding requestToApi_eq Let_def reply_value_def api_request_def next_reply_def logged_def PlayitAPI_def
  by (simp split: http_reply.split option.split sum.split)

text \<open>C29: with a code, without a secret, and for a known type of agent, claiming the secret returns
  exactly if some answer to its question is not a request to wait; else it asks for ever. In any other
  case it returns an error at once, without a request and with the agent unchanged.\<close>

theorem claim_terminates:
  "if api_Code w \<noteq> '''' \<and> api_Secret w = '''' \<and> AgentType \<in> {''default'', ''assignable'', ''self-managed''}
   then ClaimAgentSecret AgentType (w, h) = None \<longleftrightarrow> (\<forall>n. claim_undecided w AgentType h n)
   else \<exists>e. ClaimAgentSecret AgentType (w, h) = Some (Err e (w, h))"
  using ClaimAgentSecret_None [of AgentType w h] ClaimAgentSecret_refused [of AgentType w h]
  unfolding claim_ready_def ClaimAgents_def by simp

text \<open>C30: what a claim that is decided by the answer with number \<open>n\<close> does: it has asked \<open>n + 1\<close> times, in
  the same words; a rejection is an error; after an acceptance it exchanges the code, once, and the
  secret is set to the one in the reply, which is empty if the reply has none.\<close>

theorem claim_outcome:
  assumes "claim_ready AgentType w" and "\<forall>i < n. claim_undecided w AgentType h i"
    and "\<not> claim_undecided w AgentType h n"
  defines "h' \<equiv> asked (claim_question w AgentType) (Suc n) h"
  shows "ClaimAgentSecret AgentType (w, h) = Some
    (case claim_answer w AgentType h n of
       Inl e \<Rightarrow> Err e (w, h')
     | Inr s \<Rightarrow>
         if s = ''UserRejected'' then Err (Errorf ''claim rejected'') (w, h')
         else (case claim_secret w h' of
             Inl e \<Rightarrow> Err e (w, logged (claim_exchange_request w) h')
           | Inr secret \<Rightarrow> Ok () (w\<lparr>api_Secret := secret\<rparr>, logged (claim_exchange_request w) h')))"
  unfolding h'_def by (rule ClaimAgentSecret_decided [OF assms(1-3)])

definition demo_claim :: http where
  "demo_claim = demo_http (\<lambda>n path.
     if path = ''/claim/exchange'' then data_reply (JObj [(''secret_key'', JStr ''s3cret'')])
     else if n < 2 then data_reply (JStr ''WaitingForUser'') else data_reply (JStr ''UserAccepted''))"

definition demo_agent :: Api where
  "demo_agent = \<lparr>api_Code = ''0a0b0c0d0e'', api_Secret = ''''\<rparr>"

theorem claim_outcome_witness:
  "\<exists>h'. ClaimAgentSecret ''default'' (demo_agent, demo_claim) =
     Some (Ok () (demo_agent\<lparr>api_Secret := ''s3cret''\<rparr>, h')) \<and> length (h_log h') = 4"
proof -
  have ready: "claim_ready ''default'' demo_agent"
    by (simp add: claim_ready_def demo_agent_def ClaimAgents_def)
  have answer: "claim_answer demo_agent ''default'' demo_claim n =
      Inr (if n < 2 then ''WaitingForUser'' else ''UserAccepted'')" for n
    by (simp add: claim_answer_def poll_answer_def demo_claim_def demo_http_def claim_question_def
        api_request_def reply_value_data dec_string_def)
  have wait: "\<forall>i < 2. claim_undecided demo_agent ''default'' demo_claim i"
    and stop: "\<not> claim_undecided demo_agent ''default'' demo_claim 2"
    by (simp_all add: claim_undecided_def answer undecided_def)
  have secret: "claim_secret demo_agent (asked (claim_question demo_agent ''default'') (Suc 2) demo_claim) =
      Inr ''s3cret''"
    by (simp add: claim_secret_def next_reply_def asked_def demo_claim_def demo_http_def
        claim_exchange_request_def api_request_def reply_value_data dec_struct_def claim_Code_fields_def
        find_field_def fld_def dec_string_def)
  show ?thesis
    unfolding claim_outcome [OF ready wait stop] answer secret
    by (simp add: logged_def asked_def demo_claim_def demo_http_def)
qed

text \<open>C31: a tunnel is checked before anything is sent. Without an allocation the check dereferences a nil
  pointer; with one that is not accepted (no struct of the three kinds, or an unknown region), with
  an origin that is not of its type, or with an unknown tunnel type, it is an error without any
  request, and of the caller's allocation only the type can have changed.\<close>

theorem create_refused:
  assumes "\<not> tunnel_ok tun"
  shows "case tun_Alloc tun of
      None \<Rightarrow> CreateTunnel lib w tun h = Some (Panic NilDeref)
    | Some a \<Rightarrow> \<exists>e t. CreateTunnel lib w tun h = Some (Err e (Some (a\<lparr>tca_Type := t\<rparr>), h))"
  using assms CreateTunnel_nil [of tun lib w h] CreateTunnel_refused [of tun _ lib w h]
  by (auto split: option.split) (metis)

definition demo_new_tunnel :: Tunnel where
  "demo_new_tunnel =
     \<lparr>tun_ID = None, tun_Name = ''mc'', tun_TunnelType = ''minecraft-java'', tun_PortType = ''tcp'',
      tun_PortCount = 1, tun_Origin = \<lparr>toc_Type = ''managed'', toc_Agent = OriginManaged \<lparr>amc_ID = None\<rparr>\<rparr>,
      tun_Enabled = True,
      tun_Alloc = Some \<lparr>tca_Status = '''', tca_Type = '''', tca_Data = AllocRegion \<lparr>ur_Region = ''europe''\<rparr>\<rparr>,
      tun_Firewall = None\<rparr>"

theorem create_refused_witness:
  "CreateTunnel demo_texts demo_agent (demo_new_tunnel\<lparr>tun_Alloc := None\<rparr>) demo_claim = Some (Panic NilDeref)"
  using create_refused [of "demo_new_tunnel\<lparr>tun_Alloc := None\<rparr>" demo_texts demo_agent demo_claim]
  by (simp add: tunnel_ok_def)

text \<open>C32: once a tunnel is created, with identifier \<open>i\<close> for the agent \<open>g\<close>, the call returns exactly if
  some later list of the agent's tunnels is an error or does not begin with a pending one; it then
  returns that error or success, after one more list than there were pending ones, or crashes when
  the list is empty, since its first element is taken. The lists are read as in C28: a number beyond
  \<open>float64\<close>, or one that its rounding takes out of the range of its field, makes a list an error.\<close>

theorem create_waits:
  fixes lib w h tun
  assumes "tunnel_ok tun" and "enc_Tunnel lib (tun\<lparr>tun_Alloc := checked_alloc tun\<rparr>) = Inr body"
    and "create_value lib (next_reply h (create_request w body)) = Inr \<lparr>ci_ID = i\<rparr>"
    and "rundata_value lib (next_reply (logged (create_request w body) h) (rundata_request w)) = Inr info"
    and "rd_ID info = g"
  defines "h2 \<equiv> logged (rundata_request w) (logged (create_request w body) h)"
    and "rq \<equiv> list_question lib w i g"
  shows "(CreateTunnel lib w tun h = None \<longleftrightarrow> (\<forall>n. poll_waits (list_value lib) first_pending rq h2 n)) \<and>
    (\<forall>n. (\<forall>k < n. poll_waits (list_value lib) first_pending rq h2 k) \<and>
        \<not> poll_waits (list_value lib) first_pending rq h2 n \<longrightarrow>
      CreateTunnel lib w tun h = Some (case poll_answer (list_value lib) rq h2 n of
          Inl e \<Rightarrow> Err e (checked_alloc tun, asked rq (Suc n) h2)
        | Inr tuns \<Rightarrow>
            if acs_Tunnels tuns = [] then Panic IndexRange
            else Ok () (checked_alloc tun, asked rq (Suc n) h2)))"
proof -
  have run: "CreateTunnel lib w tun h = loop_http (go_loop (created_wait lib w i g)) (checked_alloc tun, h2)"
    using CreateTunnel_ok [OF assms(1,2), of w h] by (simp add: assms(3-5) h2_def)
  have "loop_http (go_loop (created_wait lib w i g)) (checked_alloc tun, h2) = None \<longleftrightarrow>
      (\<forall>n. poll_waits (list_value lib) first_pending rq h2 n)"
    by (simp add: loop_http_def created.never_ends rq_def)
  then show ?thesis
    unfolding run using created_loop [of _ lib w i g h2 "checked_alloc tun", folded rq_def] by blast
qed

definition demo_listed :: "string \<Rightarrow> http_reply" where
  "demo_listed status = data_reply (JObj [(''tunnels'', JArr [JObj [(''alloc'', JObj [(''status'', JStr status)])]])])"

definition demo_create :: http where
  "demo_create = demo_http (\<lambda>n path.
     if path = ''/tunnels/create'' then data_reply (JObj [(''id'', JStr ''iii'')])
     else if path = ''/agents/rundata'' then data_reply (JObj [(''agent_id'', JStr ''i'')])
     else demo_listed (if n < 4 then ''pending'' else ''allocated''))"

lemma list_value_demo:
  "\<exists>tuns. list_value lib (demo_listed status) = Inr tuns \<and> acs_Tunnels tuns \<noteq> [] \<and>
     first_pending tuns = (status = ''pending'')"
  by (simp add: list_value_def demo_listed_def reply_value_data first_pending_def dec_struct_def
      AccountTunnels_fields_def find_field_def fld_def dec_slice_def AccountTunnel_fields_def
      TunnelCreateUseAllocation_fields_def dec_string_def zero_AccountTunnels_def)

lemma demo_tunnel_ok: "tunnel_ok demo_new_tunnel"
  by (simp add: tunnel_ok_def demo_new_tunnel_def api_Regions_def origin_ok_def tunnel_type_ok_def
      api_TunnelType_def)

theorem create_waits_witness:
  "\<exists>s. CreateTunnel demo_texts demo_agent demo_new_tunnel demo_create = Some (Ok () s) \<and> length (h_log (snd s)) = 5"
proof -
  obtain body where body: "enc_Tunnel demo_texts (demo_new_tunnel\<lparr>tun_Alloc := checked_alloc demo_new_tunnel\<rparr>) = Inr body"
    by (simp add: enc_Tunnel_def demo_new_tunnel_def checked_alloc_def enc_TunnelOriginCreate_def
        enc_TunnelCreateUseAllocation_def)
  let ?c = "create_request demo_agent body" and ?r = "rundata_request demo_agent"
  let ?rq = "list_question demo_texts demo_agent 3 1"
  let ?h2 = "logged ?r (logged ?c demo_create)"
  have created: "create_value demo_texts (next_reply demo_create ?c) = Inr \<lparr>ci_ID = 3\<rparr>"
    by (simp add: create_value_def next_reply_def demo_create_def demo_http_def create_request_def
        api_request_def reply_value_data dec_struct_def created_id_fields_def find_field_def fld_def
        dec_text_def demo_texts_def)
  obtain info where info: "rundata_value demo_texts (next_reply (logged ?c demo_create) ?r) = Inr info" "rd_ID info = 1"
    by (simp add: rundata_value_def next_reply_def demo_create_def demo_http_def rundata_request_def logged_def
        api_request_def reply_value_data dec_struct_def AgentRunData_fields_def find_field_def fld_def
        dec_text_def demo_texts_def)
  have answer: "poll_answer (list_value demo_texts) ?rq ?h2 n =
      list_value demo_texts (demo_listed (if n < 2 then ''pending'' else ''allocated''))" for n
    by (simp add: poll_answer_def demo_create_def demo_http_def logged_def list_question_def api_request_def)
  have wait: "poll_waits (list_value demo_texts) first_pending ?rq ?h2 n \<longleftrightarrow> n < 2" for n
    using list_value_demo [of demo_texts "if n < 2 then ''pending'' else ''allocated''"]
    by (auto simp: poll_waits_def answer)
  obtain tuns where tuns: "poll_answer (list_value demo_texts) ?rq ?h2 2 = Inr tuns" "acs_Tunnels tuns \<noteq> []"
    using list_value_demo [of demo_texts "''allocated''"] answer [of 2] by auto
  from create_waits [OF demo_tunnel_ok body created info]
  have "CreateTunnel demo_texts demo_agent demo_new_tunnel demo_create =
      Some (case poll_answer (list_value demo_texts) ?rq ?h2 2 of
          Inl e \<Rightarrow> Err e (checked_alloc demo_new_tunnel, asked ?rq (Suc 2) ?h2)
        | Inr tuns \<Rightarrow>
            if acs_Tunnels tuns = [] then Panic IndexRange
            else Ok () (checked_alloc demo_new_tunnel, asked ?rq (Suc 2) ?h2))"
    by (simp only: wait) auto
  also have "\<dots> = Some (Ok () (checked_alloc demo_new_tunnel, asked ?rq (Suc 2) ?h2))"
    using tuns(2) by (simp add: tuns(1))
  finally show ?thesis by (simp add: asked_def logged_def demo_create_def demo_http_def)
qed

text \<open>C33: the type of an allocation is that of its data whenever a tunnel is created: of the caller's
  allocation, every outcome leaves the status and the data alone, and a success sets the type to the
  one of the data.\<close>

theorem create_typed:
  "case CreateTunnel lib w tun h of
     Some (Ok _ (a', _)) \<Rightarrow> \<exists>a t. tun_Alloc tun = Some a \<and> alloc_type (tca_Data a) = Some t \<and> a' = Some (a\<lparr>tca_Type := t\<rparr>)
   | Some (Err _ (a', _)) \<Rightarrow> \<exists>a t. tun_Alloc tun = Some a \<and> a' = Some (a\<lparr>tca_Type := t\<rparr>)
   | _ \<Rightarrow> True"
proof (cases "tunnel_ok tun")
  case True
  then obtain a t where "tun_Alloc tun = Some a" "alloc_type (tca_Data a) = Some t"
    by (auto simp: tunnel_ok_def split: option.splits)
  moreover from this have "checked_alloc tun = Some (a\<lparr>tca_Type := t\<rparr>)" by (simp add: checked_alloc_def)
  moreover note CreateTunnel_alloc [OF True, of lib w h]
  ultimately show ?thesis by (auto split: option.splits outcome.splits)
next
  case False
  with create_refused [OF this, of lib w h] show ?thesis by (auto split: option.splits)
qed



text \<open>C35: the two calls of the API that the tunnel makes. Registering sends one request, with the
  client's and the tunnel's address and the version of the agent, and returns the key of a success;
  asking for the routes sends one request without an agent, and the addresses in a success become the
  control addresses of the tunnel, those under \<open>targets6\<close> first, each with the port 5525. Whatever the
  reply is, the one request is all that is sent, and no reply makes a call panic.\<close>

theorem tunnel_calls:
  fixes lib w h status Client Tunnel
  assumes t4: "list_all2 (\<lambda>s a. addr_Parse lib s = Some a) t4 a4"
    and t6: "list_all2 (\<lambda>s a. addr_Parse lib s = Some a) t6 a6" and code: "code < 300"
  defines "header \<equiv> (if api_Secret w = '''' then [] else [(''Authorization'', ''Agent-Key '' @ api_Secret w)])"
    and "reply \<equiv> (\<lambda>data. HttpReply code (Some (JObj [(''status'', JStr status), (''data'', data)])))"
  defines "register \<equiv>
      \<lparr>rq_URL = ''https://api.playit.gg/proto/register'', rq_Header = header,
       rq_Body = Some (JObj
        [(''client_addr'', JStr (addrport_String lib Client)),
         (''tunnel_addr'', JStr (addrport_String lib Tunnel)),
         (''agent_version'', JObj
           [(''official'', JBool False),
            (''details_website'', JStr ''https://sirherobrine23.org/playit-cloud/go-playit''),
            (''version'', JObj [(''platform'', JStr ''unknown''), (''version'', JStr ''0.17.1'')])])])\<rparr>"
    and "routing \<equiv>
      \<lparr>rq_URL = ''https://api.playit.gg/agents/routing/get'', rq_Header = header, rq_Body = Some (JObj [])\<rparr>"
  shows "(case Api_ProtoRegisterRegister lib w Client Tunnel h of
       Ok key h' \<Rightarrow> h' = h\<lparr>h_log := h_log h @ [register]\<rparr>
     | Err e h' \<Rightarrow> h' = h\<lparr>h_log := h_log h @ [register]\<rparr>
     | Panic p \<Rightarrow> False) \<and>
    (h_server h (length (h_log h)) register = reply (JObj [(''key'', JStr key)]) \<longrightarrow>
      Api_ProtoRegisterRegister lib w Client Tunnel h = Ok key (h\<lparr>h_log := h_log h @ [register]\<rparr>)) \<and>
    (case Api_AgentRoutings lib w None h of
       Ok d h' \<Rightarrow> h' = h\<lparr>h_log := h_log h @ [routing]\<rparr>
     | Err e h' \<Rightarrow> h' = h\<lparr>h_log := h_log h @ [routing]\<rparr>
     | Panic p \<Rightarrow> False) \<and>
    (h_server h (length (h_log h)) routing =
        reply (JObj [(''targets4'', JArr (map JStr t4)), (''targets6'', JArr (map JStr t6))]) \<longrightarrow>
      (\<exists>d. Api_AgentRoutings lib w None h = Ok d (h\<lparr>h_log := h_log h @ [routing]\<rparr>) \<and>
        (\<forall>wd rest. w_routing wd = Inr (ar_Targets6 d, ar_Targets4 d) # rest \<longrightarrow>
          ControlAddresses wd = Ok (map (\<lambda>a. AddrPort a 5525) (a6 @ a4)) (wd\<lparr>w_routing := rest\<rparr>))))"
proof -
  have "reply = api_reply code status" by (simp add: reply_def api_reply_def fun_eq_iff)
  moreover have "register = register_request lib w Client Tunnel" and "routing = routing_request w"
    by (simp_all add: register_def routing_def register_request_def routing_request_def header_def auth_header_def)
  moreover note register_code_value [OF code, of status key] routing_value [OF t4 t6 code, of status]
  ultimately show ?thesis
    by (auto simp: Api_ProtoRegisterRegister_eq Api_AgentRoutings_eq Let_def of_value_def next_reply_def logged_def
        ControlAddresses_routed routing_data_def split: sum.split)
qed

definition demo_routes :: http where
  "demo_routes = demo_http (\<lambda>n path. data_reply
     (JObj [(''targets4'', JArr (map JStr [''10.0.0.1''])), (''targets6'', JArr (map JStr [''fd00::1'']))]))"

theorem tunnel_calls_witness:
  "\<exists>d h'. Api_AgentRoutings demo_texts demo_agent None demo_routes = Ok d h' \<and>
     (\<forall>wd. w_routing wd = [Inr (ar_Targets6 d, ar_Targets4 d)] \<longrightarrow>
       ControlAddresses wd = Ok [AddrPort (V6 0xFD000000000000000000000000000001 []) 5525, server] (wd\<lparr>w_routing := []\<rparr>))"
proof -
  have t4: "list_all2 (\<lambda>s a. addr_Parse demo_texts s = Some a) [''10.0.0.1''] [V4 0x0A000001]"
    and t6: "list_all2 (\<lambda>s a. addr_Parse demo_texts s = Some a) [''fd00::1''] [V6 0xFD000000000000000000000000000001 []]"
    by (simp_all add: demo_texts_def)
  have "h_server demo_routes n rq = HttpReply 200 (Some (JObj [(''status'', JStr ''success''), (''data'',
      JObj [(''targets4'', JArr (map JStr [''10.0.0.1''])), (''targets6'', JArr (map JStr [''fd00::1'']))])]))" for n rq
    by (simp add: demo_routes_def demo_http_def data_reply_def api_reply_def)
  with tunnel_calls [OF t4 t6, where code = 200 and w = demo_agent and h = demo_routes and status = "''success''"] show ?thesis
    by (fastforce simp: server_def)
qed

text \<open>C36: connecting to the tunnel server for a client: success is a new stream to the address of the
  claim on which exactly the claim's token was sent; every error leaves no stream open.\<close>

theorem tcp_connect:
  assumes "streams_ok w"
  shows "case TcpTunnel_Connect tcp w of
      Ok stream w' \<Rightarrow>
        stream = tw_next w \<and> tw_open w' = (stream, ci_Address (tt_ClaimInstructions tcp)) # tw_open w \<and>
        tw_sent w' = tw_sent w @ [(stream, ci_Token (tt_ClaimInstructions tcp))] \<and> streams_ok w'
    | Err e w' \<Rightarrow> tw_open w' = tw_open w \<and> streams_ok w'
    | Panic p \<Rightarrow> False"
  by (rule TcpTunnel_Connect_outcome [OF assms])

theorem tcp_connect_witness:
  "case TcpTunnel_Connect \<lparr>tt_ClaimInstructions = \<lparr>ci_Address = server, ci_Token = [1, 2]\<rparr>\<rparr>
       \<lparr>tw_dial = [], tw_write = [], tw_read = [Inr [0]], tw_next = 0, tw_open = [], tw_sent = []\<rparr> of
     Ok stream w' \<Rightarrow> tw_open w' = [(stream, server)] \<and> tw_sent w' = [(stream, [1, 2])]
   | Err e w' \<Rightarrow> tw_open w' = [] | Panic p \<Rightarrow> False"
  using tcp_connect [of "\<lparr>tw_dial = [], tw_write = [], tw_read = [Inr [0]], tw_next = 0, tw_open = [], tw_sent = []\<rparr>"
      "\<lparr>tt_ClaimInstructions = \<lparr>ci_Address = server, ci_Token = [1, 2]\<rparr>\<rparr>"]
  by (auto simp: streams_ok_def split: outcome.splits)

end
