(* ===== verification/Spec2Isabelle.thy ===== *)
theory Spec2Isabelle
  imports Demo Lan_Address Api_Properties
begin

text \<open>
  The playit agent of \<open>go-playit\<close> (package \<open>tunnel\<close> under \<open>src/tunnel\<close>) and its client of the playit
  HTTP API (package \<open>api\<close> under \<open>src/api\<close>), modelled from their Go source. The agent finds a control
  server of the playit network, registers with it, keeps the session alive and asks for a UDP channel.

  The parts of the program and how they meet:

  \<^item> The wire formats. \<open>bigint.go\<close> reads and writes fixed-width integers, buffers, options and socket
    addresses on Go byte streams; \<open>lib.go\<close>, \<open>control_message.go\<close>, \<open>rpc.go\<close>, \<open>control_feed.go\<close> and
    \<open>udp_proto.go\<close> build the messages from them. A \<open>WriteTo\<close> is an operation on a writer, which may
    refuse any write after any number of bytes; a \<open>ReadFrom\<close> is one on the bytes left to read.
  \<^item> The session. \<open>setup.go\<close> pings the control addresses and registers the agent over the socket that
    answered; \<open>control.go\<close> is the authenticated channel: it sends requests in their envelope and
    receives the feed of the server.
  \<^item> The UDP channel. \<open>udp_tunnel.go\<close> holds two sockets, the details of the channel behind the lock
    of \<open>rwlock.go\<close>, and the times of the last token and the last confirmation.
  \<^item> The state machine. \<open>simples_tunnel.go\<close> owns a control channel and a UDP channel; \<open>Update\<close> is its
    step and \<open>ReloadControlAddr\<close> its way to another server. \<open>runner.go\<close> calls \<open>Update\<close> in a loop, and
    panics with the first client it is given. The parts that would serve a client are there but not yet
    called: \<open>address_lookup.go\<close> finds its target, \<open>lan_address.go\<close> opens the local sockets and
    \<open>tcp_tunnel.go\<close> connects to the tunnel server.
  \<^item> The HTTP API. \<open>request.go\<close> sends a request and reads the reply; \<open>claim.go\<close> obtains the agent's
    secret, polling until the user has decided; \<open>others.go\<close> has the calls that the tunnel makes;
    \<open>tunnels.go\<close> creates (and waits for), deletes and lists tunnels.

  The theories, in the order of their imports:

  \<^item> \<open>Prelude\<close>: unsigned integers as words, big-endian byte strings, generic lemmas and the named
    collections. \<open>Netip\<close>: what the code uses of \<open>net/netip\<close> and \<open>net.IP\<close>.
  \<^item> \<open>Go_IO\<close>: an operation takes a state and ends in \<open>Ok\<close>, \<open>Err\<close> or \<open>Panic\<close> (\<open>go_bind\<close> sequences,
    \<open>go_drop_err\<close> is a call whose error is not looked at); byte readers and writers; \<open>writes\<close>, \<open>emits\<close>
    and \<open>reads\<close> say that an encoder or a decoder implements a byte string.
  \<^item> \<open>Go_Loop\<close>: loops without a bound, whose run is an option (\<open>None\<close>: never returns), with the lemmas
    that reduce them to their rounds. \<open>Go_Text\<close>: hexadecimal text, path escapes, and \<open>fmt.Errorf\<close> of a
    text without operands. \<open>Go_Float\<close>: parsing, rounding and formatting \<open>float64\<close>. \<open>Json\<close>: documents,
    decoders into an existing variable, structs as lists of tagged fields, encoders, and values of
    type \<open>any\<close>, through which \<open>recodeJson\<close> of \<open>request.go\<close> converts the data of every reply: numbers
    are rounded to \<open>float64\<close> (whole numbers below \<open>2 ^ 53\<close> are kept, the largest \<open>uint64\<close> is refused), and
    the last value for a key counts.
  \<^item> \<open>Bigint\<close>, \<open>Lib\<close>, \<open>Control_Message\<close>, \<open>Rpc\<close>, \<open>Control_Feed\<close>, \<open>Udp_Proto\<close>, \<open>Lan_Address\<close>,
    \<open>Address_Lookup\<close>, \<open>Setup\<close>, \<open>Control\<close>, \<open>Udp_Tunnel\<close>, \<open>Simples_Tunnel\<close>, \<open>Tcp_Tunnel\<close>, \<open>Runner\<close>: the
    source file of the same name; \<open>Api_Request\<close> (with \<open>api.go\<close>), \<open>Api_Claim\<close>, \<open>Api_Agents\<close> (\<open>others.go\<close>),
    \<open>Api_Tunnels\<close>: those of \<open>src/api\<close>; one record per struct and one definition per function or method, named as in the
    source with the receiver in front where two methods share a name.
  \<^item> \<open>Control_Codec\<close>: the abstract messages (\<open>request\<close>, \<open>response\<close>, and \<open>feed\<close> in \<open>Control_Feed\<close>: one
    constructor per kind, where the structs have one pointer per kind of which the first that is set
    counts), their encodings, and the refinement of the encodings by the code.
  \<^item> \<open>Rwlock\<close>: the lock as a value with its readers and writer, its critical sections as operations,
    and a step relation of goroutines that compete for it.
  \<^item> \<open>World\<close>: clock, sockets and the HTTP API as scripts in the state. A receive takes the next
    scripted datagram or fails, a send appends to the log of what was sent or fails, each reading
    of the clock takes the next tick of an arbitrary clock. All properties quantify over the scripts.
  \<^item> \<open>Api_World\<close>: the two API calls that the tunnel makes, with their requests and replies, and the API
    scripts of \<open>World\<close> against the client of the API: every sequence of calls to every server is
    replayed by some scripts.
  \<^item> \<open>Demo\<close>: a concrete agent and server, on which the properties are instantiated.
  \<^item> \<open>Api_Properties\<close>: the properties C28 to C36.

  What the groups of lemmas show. C1 to C7: what each encoder puts on the wire and which messages
  come back (and which do not). C8 to C14: the search for a server and the registration are
  bounded in what they send, and sound in what they accept, whatever the network does. C15 to C17:
  the authenticated channel. C18 to C22: an invariant of the agent's reachable states (\<open>tun_reach\<close>:
  any order of \<open>Update\<close> and \<open>ReloadControlAddr\<close> after a setup, with the environment changing its scripts
  in between) and what follows for \<open>Update\<close>, the reload and the loop. C23 to C27: the UDP channel;
  C28 to C35: the API, with the exact conditions under which its polling loops return; C36: the
  connection for a client; C37: the UDP footers; C38 to C40: local addresses and lookups. The theorems
  without a number complete them: writes that are lost, messages that are never decoded, the keep-alive
  that is never sent, and the lock with several goroutines. In all of the numbered properties an
  operation runs to its end without a step of another goroutine.

  The interfaces are locales: \<open>message_encoding\<close> and \<open>invertible_encoding\<close> (the Go interface
  \<open>MessageEncoding\<close>, with the laws its implementations keep; interpreted on requests, responses and
  raw contents, and used for the envelope), \<open>rw_lock\<close> and \<open>rw_shared_lock\<close> (interpreted on the two
  kinds of section), \<open>world_invariant\<close> (a property of the environment that every system call keeps),
  \<open>control_invariant\<close> (a property that every operation on the control channel keeps) and \<open>polling\<close> (a
  loop that repeats one request until its answer decides; interpreted on the claim and on the new
  tunnel).

  Bounds. The loops of \<open>setup.go\<close> are functions of the rounds that are left: three pings to an
  address, with up to five receives after each, and five registration requests with up to five
  receives after each; the receive loop of \<open>Update\<close> has thirty rounds. These are the counts of the
  source, not fuel. \<open>Run\<close> loops while \<open>KeepRunning\<close> is set, which another goroutine may clear: the
  values that the loop reads are a list, and the loop stops where the list does.

  Not modelled: logging and debug prints; sleeps (they change no state; time passes by the clock's
  ticks); the HTTP client behind a request (a server is a function from requests to replies) and the
  text of JSON documents, which are values, with valid UTF-8 strings and within the nesting that the
  decoder allows. Parameters: the text forms of the types of other packages
  (\<open>uuid.UUID\<close>) and of addresses and times inside JSON, random bytes, and dialling local sockets.
  \<open>Authenticate\<close> passes the
  same buffer to its receives and its sends; the buffer is not retained by either, so it is a
  value here. After a renewal \<open>Conn.Pong\<close> points to \<open>LastPong\<close> in the source, so a later pong shows
  through it; nothing but a debug print reads \<open>Conn.Pong\<close> afterwards (a renewal takes \<open>LastPong\<close>
  itself), so it keeps its value here.
\<close>

section \<open>The control protocol\<close>

text \<open>C1: a message of the control feed that the decoder understands survives the wire: \<open>WriteTo\<close>
  into a buffer succeeds, and \<open>ReadFrom\<close> on its bytes, whatever follows them, returns the same feed
  and leaves exactly what followed.\<close>

theorem feed_roundtrip:
  assumes "readable_feed f"
  shows "\<exists>bs. ControlFeed_WriteTo (rep_feed f) (bytes_Buffer []) = Ok () (bytes_Buffer bs) \<and>
    (\<forall>rest. ControlFeed_ReadFrom zero_ControlFeed (bs @ rest) = Ok (rep_feed f) rest)"
proof -
  have "abs_feed (rep_feed f) = Some f"
    by (cases f) (simp_all add: abs_feed_def zero_ControlFeed_def)
  then have "emits (ControlFeed_WriteTo (rep_feed f)) (enc_feed f)"
    using assms by (intro emits_ControlFeed readable_writable_feed)
  then show ?thesis
    using reads_ControlFeed [OF assms] by (auto simp: emits_Buffer_empty readsD)
qed

theorem feed_roundtrip_witness:
  "\<exists>bs. ControlFeed_WriteTo (rep_feed (FResponse 9000 (RUdpChannelDetails
      \<lparr>ucd_TunnelAddr = server, ucd_Token = [1, 2, 3]\<rparr>))) (bytes_Buffer []) = Ok () (bytes_Buffer bs)"
  using feed_roundtrip [of "FResponse 9000 (RUdpChannelDetails
      \<lparr>ucd_TunnelAddr = server, ucd_Token = [1, 2, 3]\<rparr>)"]
  by (auto simp: server_def wire_addr_def AddrPort_IsValid_def Addr_IsValid_def maxAlloc_def)

text \<open>C2: a control request is written as the message it stands for (its first field that is set),
  tag first: on every writer, success means that exactly the encoding was written, and an error is
  the writer's own and leaves a prefix of it. A request without a field is refused before anything
  is written.\<close>

theorem request_written:
  "case abs_request m of
     None \<Rightarrow> ControlRequest_WriteTo m w = Err (Errorf ''set ControlRequest'') w
   | Some q \<Rightarrow> writable_request q \<longrightarrow>
       (case ControlRequest_WriteTo m w of
          Ok _ w' \<Rightarrow> wr_out w' = wr_out w @ enc_request q
        | Err e w' \<Rightarrow> e = ErrWrite \<and> (\<exists>k. wr_out w' = wr_out w @ take k (enc_request q))
        | Panic p \<Rightarrow> False)"
  using writes_ControlRequest [of m] ControlRequest_WriteTo_unset [of m]
  by (auto simp: writes_def split: option.split)

theorem request_written_witness:
  "case ControlRequest_WriteTo (rep_request (RAgentKeepAlive demo_session)) (bytes_Buffer []) of
     Ok _ w' \<Rightarrow> wr_out w' = enc_request (RAgentKeepAlive demo_session)
   | Err e w' \<Rightarrow> e = ErrWrite \<and> (\<exists>k. wr_out w' = take k (enc_request (RAgentKeepAlive demo_session)))
   | Panic p \<Rightarrow> False"
  using request_written [of "rep_request (RAgentKeepAlive demo_session)" "bytes_Buffer []"]
  by (simp only: abs_rep_request option.case writable_request.simps wr_out_bytes_Buffer append_Nil simp_thms)

text \<open>C3: the same for a control response; an unset response is refused.\<close>

theorem response_written:
  "case abs_response m of
     None \<Rightarrow> ControlResponse_WriteTo m w = Err (Errorf ''set one option to write'') w
   | Some q \<Rightarrow> writable_response q \<longrightarrow>
       (case ControlResponse_WriteTo m w of
          Ok _ w' \<Rightarrow> wr_out w' = wr_out w @ enc_response q
        | Err e w' \<Rightarrow> e = ErrWrite \<and> (\<exists>k. wr_out w' = wr_out w @ take k (enc_response q))
        | Panic p \<Rightarrow> False)"
  using writes_ControlResponse [of m] ControlResponse_WriteTo_unset [of m]
  by (auto simp: writes_def split: option.split)

theorem response_written_witness:
  "case ControlResponse_WriteTo (rep_response (RAgentRegistered demo_registered)) (bytes_Buffer []) of
     Ok _ w' \<Rightarrow> wr_out w' = enc_response (RAgentRegistered demo_registered)
   | Err e w' \<Rightarrow> e = ErrWrite \<and>
       (\<exists>k. wr_out w' = take k (enc_response (RAgentRegistered demo_registered)))
   | Panic p \<Rightarrow> False"
  using response_written [of "rep_response (RAgentRegistered demo_registered)" "bytes_Buffer []"]
  by (simp only: abs_rep_response option.case writable_response.simps wr_out_bytes_Buffer append_Nil simp_thms)

text \<open>C4: a readable request (a registration, a keep-alive or a channel setup that fits its fields)
  that goes through the envelope of \<open>ControlRpcMessage\<close> and comes back is the canonical form of the
  request: one field set, the others empty, under the same identifier. The other two kinds, pings and
  port-mapping checks, do not come back: see C6.\<close>

theorem rpc_request_roundtrip:
  assumes "req_ok readable_request (rpc_Content m)"
  shows "\<exists>b. ControlRpcMessage_WriteTo ControlRequest_WriteTo m (bytes_Buffer []) = Ok () b \<and>
    ControlRpcMessage_ReadFrom ControlRequest_ReadFrom
      \<lparr>rpc_RequestID = 0, rpc_Content = zero_ControlRequest\<rparr> (wr_out b) =
      Ok \<lparr>rpc_RequestID = rpc_RequestID m, rpc_Content = req_canon (rpc_Content m)\<rparr> []"
  by (rule req.rpc_roundtrip [OF assms])

theorem rpc_request_roundtrip_witness:
  "\<exists>b. ControlRpcMessage_WriteTo ControlRequest_WriteTo
      \<lparr>rpc_RequestID = 100, rpc_Content = rep_request (RAgentKeepAlive demo_session)\<rparr> (bytes_Buffer []) = Ok () b"
  using rpc_request_roundtrip [of "\<lparr>rpc_RequestID = 100, rpc_Content = rep_request (RAgentKeepAlive demo_session)\<rparr>"]
  by (auto simp: req_ok_def abs_request_def zero_ControlRequest_def)

text \<open>\<open>NewClient.WriteTo\<close> does not report every failed write: a writer that refuses the peer
  address gets the rest of the message, with that address missing, and success is returned.\<close>

theorem new_client_write_lost:
  "\<exists>w w'. NewClient_WriteTo c w = Ok () w' \<and>
     wr_out w' = wr_out w @ enc_AddressPort (nc_ConnectAddr c) @
       enc_ClaimInstructions (nc_ClaimInstructions c) @ be_bytes (nc_TunnelServerId c) @
       be_bytes (nc_DataCenterId c)"
proof -
  let ?w = "\<lparr>wr_out = [], wr_script = [None, None, None, Some 0]\<rparr>"
  show ?thesis
    by (rule exI [of _ ?w])
       (simp add: NewClient_WriteTo_def ClaimInstructions_WriteTo_def AddressPort_WriteTo_def
         enc_NewClient_def enc_ClaimInstructions_def enc_AddressPort_def enc_token_def go_bind_def
         go_drop_err_def WriteU8_def WriteU16_def WriteU32_def WriteU64_def binary_Write_def Write_def
         Let_def)
qed

text \<open>C5: a pong does not survive the wire: its expiry is written with a presence byte and read
  without one, so it comes back shifted by that byte (or as 0 where there was none).\<close>

theorem pong_shifted:
  assumes "wire_addr (pong_ClientAddr p)" and "wire_addr (pong_TunnelAddr p)"
  shows "\<exists>bs rest. Pong_WriteTo p (bytes_Buffer []) = Ok () (bytes_Buffer bs) \<and>
    Pong_ReadFrom bs = Ok (p\<lparr>pong_SessionExpireAt := Some (case pong_SessionExpireAt p of
      None \<Rightarrow> 0 | Some v \<Rightarrow> push_bit 56 1 OR drop_bit 8 v)\<rparr>) rest"
  using Pong_ReadFrom_enc_Pong [OF assms] emits_Buffer_empty [OF writes_emits [OF writes_Pong [of p]]]
  unfolding decoded_pong_def shifted_expiry_def by blast

theorem pong_shifted_witness:
  "\<exists>bs rest. Pong_WriteTo demo_pong (bytes_Buffer []) = Ok () (bytes_Buffer bs) \<and>
    Pong_ReadFrom bs = Ok (demo_pong\<lparr>pong_SessionExpireAt := Some (push_bit 56 1)\<rparr>) rest"
  using pong_shifted [OF wire_demo] by (simp add: demo_pong_def)

text \<open>C6: what the request decoder does with the encodings it does not invert: a ping is an unknown
  tag, and a port-mapping check keeps its session but leaves its range unread in the stream.\<close>

theorem request_not_inverted:
  "ControlRequest_ReadFrom v (enc_request (RPing p) @ rest) =
     Err (Errorf ''invalid ControlRequest id'') (enc_Ping p @ rest) \<and>
   ControlRequest_ReadFrom zero_ControlRequest (enc_request (RAgentCheckPortMapping c) @ rest) =
     Ok (rep_request (RAgentCheckPortMapping (c\<lparr>acpm_PortRange := zero_PortRange\<rparr>)))
       (enc_PortRange (acpm_PortRange c) @ rest)"
  by (rule conjI [OF ControlRequest_ReadFrom_Ping ControlRequest_ReadFrom_Check])

text \<open>No port-mapping response is ever decoded: after its tag, a found tag of 1 dereferences a
  nil pointer and any other is an error.\<close>

theorem port_mapping_never_decoded:
  "ControlResponse_ReadFrom v (be_bytes (7 :: u32) @ be_bytes (code :: u32) @ rest) =
     (if code = 1 then Panic NilDeref
      else Err (Errorf ''unknown AgentPortMappingFound id'') rest)"
  by (rule ControlResponse_ReadFrom_PortMapping)

text \<open>C7: a socket address that is valid and has no zone survives the wire, IPv4 and IPv6.\<close>

theorem address_roundtrip:
  assumes "wire_addr p"
  shows "\<exists>bs. AddressPort_WriteTo p (bytes_Buffer []) = Ok () (bytes_Buffer bs) \<and> length bs \<le> 19 \<and>
    (\<forall>rest. AddressPort_ReadFrom (bs @ rest) = Ok p rest)"
  using emits_Buffer_empty [OF writes_emits [OF writes_AddressPort [of p]]]
    reads_AddressPort [OF assms] length_enc_AddressPort [OF assms]
  by (auto simp: readsD)

theorem address_roundtrip_witness:
  "\<exists>bs. AddressPort_WriteTo (AddrPort (V6 1 []) 5525) (bytes_Buffer []) = Ok () (bytes_Buffer bs) \<and>
    AddressPort_ReadFrom bs = Ok (AddrPort (V6 1 []) 5525) []"
  using address_roundtrip [of "AddrPort (V6 1 []) 5525"]
  by (force simp: wire_addr_def AddrPort_IsValid_def Addr_IsValid_def dest: spec [of _ "[]"])

section \<open>Finding a server and registering\<close>

text \<open>C8: a control server that answers the first ping is found at once: one socket is opened, one
  ping is sent, and the connection holds the pong (with the shifted expiry of C5).\<close>

theorem setup_answered:
  assumes "w_listen w = []" and "w_send w = []"
    and "w_recv w = Datagram (enc_feed (FResponse 1 (RPong p))) peer # r"
    and "UDPAddr_String peer = AddrPort_String Addr"
    and "wire_addr (pong_ClientAddr p)" and "wire_addr (pong_TunnelAddr p)"
  shows "Setup_Setup (Addr # rest) w =
    Ok \<lparr>cc_ControlAddr = Addr, cc_Udp = Some (w_socks w), cc_Pong = Some (decoded_pong p)\<rparr>
      (w\<lparr>w_ticks := w_ticks w + 2, w_socks := Suc (w_socks w), w_recv := r,
         w_sent := w_sent w @ [(w_socks w, ping_bytes (w_clock w (w_ticks w)), Addr)]\<rparr>)"
  using assms by (rule Setup_Setup_answer)

theorem setup_answered_witness:
  "\<exists>w'. Setup_Setup [server] (demo_world [pong_datagram]) =
     Ok \<lparr>cc_ControlAddr = server, cc_Udp = Some 0, cc_Pong = Some (decoded_pong demo_pong)\<rparr> w'"
  using setup_answered [of "demo_world [pong_datagram]" demo_pong server "[]" server "[]"]
    wire_demo text_server by (simp add: demo_world_def pong_datagram_def)

text \<open>C9: whatever the network does, a connection that the search returns is to one of the listed
  addresses, over a socket, and its pong is the decoded answer to request 1 in a datagram whose
  sender prints as that address.\<close>

theorem setup_sound:
  assumes "Setup_Setup addrs w = Ok c w'"
  shows "\<exists>Addr \<in> set addrs. cc_ControlAddr c = Addr \<and> cc_Udp c \<noteq> None \<and>
    (\<exists>r \<in> set (w_recv w). \<exists>pong. cc_Pong c = Some pong \<and> pong_answer Addr r pong)"
  using yieldsD [OF yields_Setup_Setup [where S = "set (w_recv w)"] _ assms]
  by (simp add: recv_in_def setup_result_def)

theorem setup_sound_witness:
  "\<exists>r \<in> {pong_datagram}. pong_answer server r (decoded_pong demo_pong)"
  using setup_sound [OF demo_Setup_answer [of "demo_world [pong_datagram]" "[]" "[]"]]
  by (simp add: demo_world_def)

text \<open>C10: the search sends at most three datagrams per listed address, each one an initial ping to
  an address of the list, however it ends.\<close>

theorem setup_bounded:
  "outcome_all (\<lambda>w'. \<exists>xs. w_sent w' = w_sent w @ xs \<and> length xs \<le> 3 * length addrs \<and>
      (\<forall>x \<in> set xs. \<exists>Addr \<in> set addrs. setup_datagram Addr x)) (Setup_Setup addrs w)"
  by (rule outcome_all_mono [OF sendsD [OF sends_Setup_Setup]]) (auto simp: sent_more_def list_all_iff)

theorem setup_bounded_witness:
  "outcome_all (\<lambda>w'. length (w_sent w') \<le> 3) (Setup_Setup [server] (demo_world [pong_datagram]))"
  using setup_bounded [where w = "demo_world [pong_datagram]" and addrs = "[server]"]
  by (cases "Setup_Setup [server] (demo_world [pong_datagram])") (auto simp: demo_world_def)

text \<open>C11: when no server answers, the search sends its three pings to every address and fails; of
  the sockets it opened, one per address, it closes none.\<close>

theorem setup_timeout_leaks:
  assumes "w_recv w = []" and "w_send w = []" and "w_listen w = []"
  shows "\<exists>w'. Setup_Setup addrs w =
      Err (Errorf ''cannot make UDP tunnel to playit controller, check you internet conenction'') w' \<and>
    length (w_sent w') = length (w_sent w) + 3 * length addrs \<and>
    w_socks w' = w_socks w + length addrs \<and> w_closed w' = w_closed w"
  using Setup_Setup_timeout [OF assms, of addrs] by auto

theorem setup_timeout_leaks_witness:
  "\<exists>w'. Setup_Setup [server, agent_addr] (demo_world []) =
      Err (Errorf ''cannot make UDP tunnel to playit controller, check you internet conenction'') w' \<and>
    w_socks w' = 2 \<and> w_closed w' = []"
  using setup_timeout_leaks [of "demo_world []" "[server, agent_addr]"] by (auto simp: demo_world_def)

text \<open>C12: whatever the network does, a registration that succeeds keeps the connection it was given,
  takes its pong, is not expired by force, and holds the session that the control server sent as the
  answer to request 10; the addresses of the pong are valid.\<close>

theorem authenticate_sound:
  assumes "ConnectedControl_Authenticate Control Api w = Ok a w'"
  shows "ac_Conn a = Control \<and> cc_Pong Control = Some (ac_LastPong a) \<and> ac_ApiClient a = Api \<and>
    \<not> ac_ForceEpired a \<and> pong_addrs_valid Control \<and>
    (\<exists>r \<in> set (w_recv w). register_answer (cc_ControlAddr Control) r (ac_Registered a))"
  using yieldsD [OF yields_Authenticate [where S = "set (w_recv w)"] _ assms]
  by (simp add: recv_in_def auth_result_def)

theorem authenticate_sound_witness:
  "\<exists>a w'. ConnectedControl_Authenticate demo_conn demo_Api (demo_world [registered_datagram]) = Ok a w' \<and>
     ac_Conn a = demo_conn"
proof -
  obtain a w' where "ConnectedControl_Authenticate demo_conn demo_Api (demo_world [registered_datagram]) = Ok a w'"
    using demo_Authenticate [of demo_conn 2 "demo_world [registered_datagram]" "[]" "[]" demo_Api]
    by (auto simp: demo_conn_def demo_world_def)
  with authenticate_sound [OF this] show ?thesis by blast
qed

text \<open>C13: a registration sends at most five datagrams, all to the control address over the given
  socket, and each is the envelope of request 10 around the bytes of a key of the API.\<close>

theorem authenticate_bounded:
  "outcome_all (\<lambda>w'. \<exists>xs. w_sent w' = w_sent w @ xs \<and> length xs \<le> 5 \<and>
      (\<forall>x \<in> set xs. register_datagram Control x)) (ConnectedControl_Authenticate Control Api w)"
  by (rule outcome_all_mono [OF sendsD [OF sends_Authenticate]]) (auto simp: sent_more_def list_all_iff)

theorem authenticate_bounded_witness:
  "outcome_all (\<lambda>w'. length (w_sent w') \<le> 5) (ConnectedControl_Authenticate demo_conn demo_Api (demo_world []))"
  using authenticate_bounded [where w = "demo_world []" and Control = demo_conn and Api = demo_Api]
  by (cases "ConnectedControl_Authenticate demo_conn demo_Api (demo_world [])") (auto simp: demo_world_def)

text \<open>C14: the first datagram from the control server decides a registration: a session ends it with
  success, and the announcement of a client, which is not a response, dereferences a nil pointer.\<close>

theorem authenticate_first_reply:
  assumes "cc_Pong Control = Some pong" and "pong_addrs_valid Control"
    and "cc_Udp Control = Some c" and "w_register w = Inr key # ks"
    and "hex_decode key = Some tkBytes" and "w_send w = []"
    and "w_recv w = Datagram (enc_feed f) peer # r" and "length (enc_feed f) \<le> 1024"
    and "UDPAddr_String peer = AddrPort_String (cc_ControlAddr Control)" and "readable_feed f"
  shows "case f of
      FNewClient nc \<Rightarrow> ConnectedControl_Authenticate Control Api w = Panic NilDeref
    | FResponse i (RAgentRegistered reg) \<Rightarrow> i = 10 \<longrightarrow>
        (\<exists>a w'. ConnectedControl_Authenticate Control Api w = Ok a w' \<and> ac_Registered a = reg)
    | FResponse _ _ \<Rightarrow> True"
proof -
  note first = Authenticate_first_reply [OF assms(1-9)]
  note dec = readsD_all [OF reads_ControlFeed [OF assms(10)]]
  have five: "(5 :: nat) = Suc 4" by simp
  show ?thesis
  proof (cases f)
    case (FNewClient nc)
    then have "cf_Response (rep_feed f) = None" by (simp add: zero_ControlFeed_def)
    from Authenticate_recv_reply(1) [OF assms(3) first(2) assms(8,9) dec this]
    have "ConnectedControl_Authenticate Control Api w = Panic NilDeref"
      unfolding first(1) five by (simp only: go_bind_def outcome.case)
    with FNewClient show ?thesis by simp
  next
    case (FResponse i q)
    show ?thesis
    proof (cases "\<exists>reg. q = RAgentRegistered reg \<and> i = 10")
      case True
      then obtain reg where "rep_feed f = rep_feed (FResponse 10 (RAgentRegistered reg))"
          "q = RAgentRegistered reg" using FResponse by blast
      from Authenticate_recv_reply(2) [OF assms(3) first(2) assms(8,9) dec assms(1) this(1)] this(2)
      show ?thesis
        unfolding first(1) five FResponse by (simp only: go_bind_def outcome.case option.case ret_apply) simp
    qed (auto simp: FResponse split: response.split)
  qed
qed

theorem authenticate_first_reply_witness:
  "\<exists>a w'. ConnectedControl_Authenticate demo_conn demo_Api (demo_world [registered_datagram]) = Ok a w' \<and>
     ac_Registered a = demo_registered"
  using authenticate_first_reply [of demo_conn "decoded_pong demo_pong" 2
      "demo_world [registered_datagram]" "''0a''" "[]" "[10]" "FResponse 10 (RAgentRegistered demo_registered)"
      server "[]" demo_Api]
    demo_valid [of demo_conn] hex_decode_demo text_server
  by (simp add: demo_conn_def demo_world_def registered_datagram_def enc_AgentRegistered_def)

section \<open>The control channel\<close>

text \<open>C15: the requests of the control channel on the wire: the identifier of the request and the
  encoding of a keep-alive or a channel setup for the registered session, or of a ping with it, to
  the control address; the record changes in its buffer only.\<close>

theorem control_requests:
  assumes "cc_Udp (ac_Conn a) = Some c" and "w_send w = []"
  shows "SendKeepAlive i (a, w) = (let bs = be_bytes i @ enc_request (RAgentKeepAlive (reg_ID (ac_Registered a))) in
      Ok () (a\<lparr>ac_Buff := bs\<rparr>, w\<lparr>w_sent := w_sent w @ [(c, bs, cc_ControlAddr (ac_Conn a))]\<rparr>)) \<and>
    SendSetupUDPChannel i (a, w) = (let bs = be_bytes i @ enc_request (RSetupUdpChannel (reg_ID (ac_Registered a))) in
      Ok () (a\<lparr>ac_Buff := bs\<rparr>, w\<lparr>w_sent := w_sent w @ [(c, bs, cc_ControlAddr (ac_Conn a))]\<rparr>)) \<and>
    SendPing i t (a, w) = (let bs = be_bytes i @ enc_request (RPing \<lparr>ping_Now = t,
        ping_CurrentPing = ac_CurrentPing a, ping_SessionID = Some (reg_ID (ac_Registered a))\<rparr>) in
      Ok () (a\<lparr>ac_Buff := bs\<rparr>, w\<lparr>w_sent := w_sent w @ [(c, bs, cc_ControlAddr (ac_Conn a))]\<rparr>))"
  unfolding SendKeepAlive_eq SendSetupUDPChannel_eq SendPing_eq
  by (simp only: Send_eq [OF abs_rep_request] writable_request.simps assms(1) UDP_Write_accepted [OF assms(2)]
      outcome.case Let_def simp_thms)

theorem control_requests_witness:
  "\<exists>s. SendKeepAlive 100 (demo_control, demo_world []) = Ok () s"
  using control_requests [of demo_control 2 "demo_world []" 100]
  by (simp add: demo_control_def demo_conn_def demo_world_def Let_def)

text \<open>C16: \<open>RecFeedMsg\<close> decodes the buffer after the datagram instead of the datagram: whatever the
  control server sends, if it covers the old contents of the buffer and leaves four bytes of room,
  the result is the error of an unknown feed.\<close>

theorem received_feed_unread:
  assumes "cc_Udp (ac_Conn a) = Some c"
    and "w_recv w = Datagram data (cc_ControlAddr (ac_Conn a)) # r"
    and "length (ac_Buff a) \<le> length data" and "length data \<le> length (ac_Buff a) + 1020"
  shows "RecFeedMsg (a, w) = Err (Errorf ''invalid ControlFeed id'')
     (a\<lparr>ac_Buff := data @ replicate (length (ac_Buff a) + 1024 - length data) 0\<rparr>, w\<lparr>w_recv := r\<rparr>)"
  using RecFeedMsg_zeros [OF assms] assms(3) by (simp add: overwrite_def)

theorem received_feed_unread_witness:
  "\<exists>s. RecFeedMsg (demo_control, demo_world [pong_datagram]) = Err (Errorf ''invalid ControlFeed id'') s"
proof -
  have "length (enc_feed (FResponse 1 (RPong demo_pong))) \<le> 1020"
    using length_enc_Pong [OF wire_demo] by simp
  then show ?thesis
    using received_feed_unread [of demo_control 2 "demo_world [pong_datagram]"
        "enc_feed (FResponse 1 (RPong demo_pong))" "[]"]
    by (simp add: demo_control_def demo_conn_def demo_world_def pong_datagram_def)
qed

text \<open>C17: a datagram from elsewhere is refused with both addresses in the error; of the control
  channel only the buffer changes.\<close>

theorem foreign_feed_refused:
  assumes "cc_Udp (ac_Conn a) = Some c" and "w_recv w = Datagram data src # r"
    and "length data \<le> length (ac_Buff a) + 1024" and "src \<noteq> cc_ControlAddr (ac_Conn a)"
  shows "RecFeedMsg (a, w) = Err (InvalidRemote (cc_ControlAddr (ac_Conn a)) src)
     (a\<lparr>ac_Buff := overwrite data (ac_Buff a @ replicate 1024 0)\<rparr>, w\<lparr>w_recv := r\<rparr>)"
  using assms by (rule RecFeedMsg_other_source)

theorem foreign_feed_refused_witness:
  "\<exists>s. RecFeedMsg (demo_control, demo_world [Datagram [1] agent_addr]) = Err (InvalidRemote server agent_addr) s"
  using foreign_feed_refused [of demo_control 2 "demo_world [Datagram [1] agent_addr]" "[1]" agent_addr "[]"]
  by (simp add: demo_control_def demo_conn_def demo_world_def server_def agent_addr_def)

section \<open>The main state machine\<close>

text \<open>C18: in every reachable state of the tunnel there is a control channel, it is connected to the
  control address of the tunnel, its last pong has an expiry, and therefore it is expired exactly when
  it was expired by force.\<close>

theorem tunnel_linked:
  assumes "tun_reach (t, w)"
  shows "\<exists>a. st_ControlChannel t = Some a \<and> cc_ControlAddr (ac_Conn a) = st_ControlAddr t \<and>
    pong_SessionExpireAt (ac_LastPong a) \<noteq> None \<and> (IsIspired a \<longleftrightarrow> ac_ForceEpired a)"
  using tun_reach_linked [OF assms] tun_reach_IsIspired [OF assms]
  by (auto simp: linked_def expiry_known_def)

theorem tunnel_linked_witness: 
  "\<exists>(t :: SimplesTunnel) (a :: AuthenticatedControl).
     st_ControlChannel t = Some a \<and> cc_ControlAddr (ac_Conn a) = st_ControlAddr t"
proof -
  obtain t w where "tun_reach (t, w)" using demo_reach by auto
  from tunnel_linked [OF this] show ?thesis by blast
qed

text \<open>C19: a session that was expired by force stays so: registering again does not clear the flag, so
  every later \<open>Update\<close> finds it expired and registers once more.\<close>

theorem forced_expiry_sticks:
  assumes "st_ControlChannel t = Some a" and "ac_ForceEpired a"
  shows "outcome_all (\<lambda>s. \<exists>a'. st_ControlChannel (fst s) = Some a' \<and> ac_ForceEpired a' \<and> IsIspired a')
    (Update (t, w))"
  by (rule outcome_all_mono [OF preservesD [OF forced.ctl_Update]])
     (use assms in \<open>auto simp: ctl_def IsIspired_iff\<close>)

theorem forced_expiry_sticks_witness:
  "outcome_all (\<lambda>s. \<exists>a'. st_ControlChannel (fst s) = Some a' \<and> ac_ForceEpired a' \<and> IsIspired a')
    (Update (demo_tunnel\<lparr>st_ControlChannel := Some (demo_control\<lparr>ac_ForceEpired := True\<rparr>)\<rparr>, demo_world []))"
  by (rule forced_expiry_sticks [of _ "demo_control\<lparr>ac_ForceEpired := True\<rparr>"]) simp_all

text \<open>C20: from 6 s after the start of each period of the 32-bit millisecond clock, in every reachable
  state, \<open>Update\<close> returns no client and no error, and where the session is valid it receives nothing:
  the UDP channel is never set up, since nothing but the receive loop would set it up, and the
  receive loop waits for that.\<close>

theorem update_never_receives:
  assumes "tun_reach s" and "\<forall>n. 5 < sec_of (w_clock (snd s) n)"
  shows "case Update s of
      Ok client s' \<Rightarrow> client = None \<and>
        (\<not> ctl IsIspired s \<longrightarrow> w_recv (snd s') = w_recv (snd s))
    | Err e s' \<Rightarrow> False
    | Panic p \<Rightarrow> True"
proof -
  have late: "late_clock (snd s)" using assms(2) by (simp add: late_clock_def)
  show ?thesis
    using tun_reach_Update_None [OF assms(1) late] tun_reach_Update_unread [OF assms(1) late]
      no_errorD [OF no_error_Update, of s]
    by (auto split: outcome.split)
qed

theorem update_never_receives_witness:
  "\<exists>s. tun_reach s \<and> (case Update s of Ok client s' \<Rightarrow> client = None | Err e s' \<Rightarrow> False | Panic p \<Rightarrow> True)"
proof -
  obtain s where s: "tun_reach s" "late_clock (snd s)" using demo_reach by blast
  from update_never_receives [OF s(1)] s(2) have
    "case Update s of Ok client s' \<Rightarrow> client = None | Err e s' \<Rightarrow> False | Panic p \<Rightarrow> True"
    by (auto simp: late_clock_def split: outcome.splits)
  with s(1) show ?thesis by blast
qed

text \<open>\<open>Update\<close> absorbs every error of the operations it calls: from any state it returns without
  an error, or panics.\<close>

theorem update_no_error: "Update s \<noteq> Err e s'"
  by (rule no_errorD [OF no_error_Update])

text \<open>The keep-alive is never sent while both the time of expiry and the time now lie 30 s or more
  after 1970: the time left is computed as the smaller of the two.\<close>

theorem keepalive_never_sent:
  assumes "st_ControlChannel t = Some a" and "30000 \<le> now" and "30000 \<le> reg_ExpiresAt (ac_Registered a)"
  shows "Update_keepalive now (t, w) = Ok () (t, w)"
  using assms by (rule Update_keepalive_idle)

theorem keepalive_never_sent_witness:
  "Update_keepalive 100000 (demo_tunnel\<lparr>st_ControlChannel := Some demo_control\<rparr>, demo_world []) =
     Ok () (demo_tunnel\<lparr>st_ControlChannel := Some demo_control\<rparr>, demo_world [])"
  by (rule keepalive_never_sent [of _ demo_control]) (simp_all add: demo_control_def demo_registered_def)

text \<open>C21: reloading the control address does nothing once a former target is missing from the list of
  the API. Otherwise the search for a server is run again, and when it finds the server in use, its
  new socket is dropped.\<close>

theorem reload_outcome:
  assumes "ControlAddresses w = Ok addresses w1"
  shows "if \<not> set (st_lastControlTargets t) \<subseteq> set addresses
    then ReloadControlAddr (t, w) = Ok False (t, w1)
    else case Setup_Setup addresses w1 of
        Ok c w2 \<Rightarrow> cc_ControlAddr c = st_ControlAddr t \<longrightarrow>
          ReloadControlAddr (t, w) = Ok False (t\<lparr>st_lastControlTargets := addresses\<rparr>, w2)
      | Err e w2 \<Rightarrow> ReloadControlAddr (t, w) = Err e (t, w2)
      | Panic p \<Rightarrow> ReloadControlAddr (t, w) = Panic p"
  using Reload_gone [OF assms] Reload_same [OF assms]
  by (auto simp: ReloadControlAddr_def go_bind_def on_world_def zoom_def targets_gone_iff assms
      split: outcome.split)

theorem reload_outcome_witness:
  "\<exists>w'. ReloadControlAddr (demo_tunnel\<lparr>st_ControlAddr := server\<rparr>, demo_world [pong_datagram]) =
     Ok False (demo_tunnel\<lparr>st_ControlAddr := server, st_lastControlTargets := [server]\<rparr>, w') \<and> w_socks w' = 1"
proof -
  let ?w = "demo_world [pong_datagram]" and ?t = "demo_tunnel\<lparr>st_ControlAddr := server\<rparr>"
  have "ControlAddresses ?w = Ok [server] (?w\<lparr>w_routing := []\<rparr>)"
    using ControlAddresses_eq [of ?w "[]" "[V4 0x0A000001]" "[]"] by (simp add: demo_world_def server_def)
  from reload_outcome [OF this, of ?t] demo_Setup_answer [of "?w\<lparr>w_routing := []\<rparr>" "[]" "[]"]
  show ?thesis by (simp add: demo_world_def demo_tunnel_def)
qed

text \<open>C22: the agent's loop never sends an error, so \<open>Run\<close> returns only when the setup fails; and while
  the clock is in range (C20), it never hands over a client. In every state that the loop has reached,
  the handler of the interrupt signal finds the control channel: it never crashes.\<close>

theorem run_outcome:
  assumes "SimplesTunnel_Setup (tr_Tunnel tun, w) = Ok () s" and "\<forall>n. 5 < sec_of (w_clock (snd s) n)"
  shows "Run keeps tun w \<noteq> Returned e \<and> Run keeps tun w \<noteq> Exit2 (ClientPanic c) \<and>
    (\<forall>s'. Run keeps tun w = Running s' \<longrightarrow> (\<exists>s''. Run_interrupt s' = Ok () s''))"
proof -
  have reach: "tun_reach s" using assms(1) by (rule tun_reach.setup_ok)
  obtain now s2 where t: "on_world time_Now s = Ok now s2"
    by (cases s) (simp add: on_world_def zoom_def time_Now_def)
  have run: "Run keeps tun w = Run_loop keeps now s2" by (simp add: Run_def assms(1) t)
  have "late_clock (snd s2)"
    using assms(2) tun_reach_time [OF reach t] by (simp add: late_clock_def)
  moreover have "\<exists>s''. Run_interrupt s' = Ok () s''" if "Run keeps tun w = Running s'" for s'
    using Run_interrupt_eq [of "fst s'" "snd s'"] Run_reach [OF that] by auto
  ultimately show ?thesis
    using Run_loop_no_client Run_loop_not_Returned tun_reach_time [OF reach t] unfolding run by blast+
qed

theorem run_outcome_witness:
  "\<exists>(tun :: unit TunnelRunner) (w :: world). (\<exists>s. SimplesTunnel_Setup (tr_Tunnel tun, w) = Ok () s) \<and>
     (\<forall>c. Run [True, True] tun w \<noteq> Exit2 (ClientPanic c))"
proof -
  obtain s where "SimplesTunnel_Setup (tr_Tunnel \<lparr>tr_Lookup = (), tr_Tunnel = demo_tunnel\<rparr>,
      demo_world [pong_datagram, registered_datagram]) = Ok () s" and "late_clock (snd s)"
    using demo_Setup by auto
  with run_outcome [OF this(1)] show ?thesis
    by (intro exI [of _ "\<lparr>tr_Lookup = (), tr_Tunnel = demo_tunnel\<rparr>"]
          exI [of _ "demo_world [pong_datagram, registered_datagram]"]) (auto simp: late_clock_def)
qed

section \<open>The UDP tunnel\<close>

text \<open>C23: in every state that the operations of an assigned UDP tunnel can reach, the channel details
  are still empty: \<open>SetUdpTunnel\<close> works on the copy that the lock returned. So the tunnel is never set
  up, and nothing can be sent or received through it.\<close>

theorem udp_never_set_up:
  assumes "udp_reach (u, w)"
  shows "IsSetup (u, w) = Ok False (u, w) \<and> ResendToken (u, w) = Ok False (u, w) \<and>
    ReceiveFrom buff (u, w) = Err (Errorf ''udp tunnel not connected'') (u, w) \<and>
    (flow_V4 f \<noteq> None \<or> flow_V6 f \<noteq> None \<longrightarrow>
      UdpTunnel_Send data f (u, w) = Err (Errorf ''udp tunnel not connected'') (u, w))"
proof -
  have d: "ut_Details u = new_rwlock new_ChannelDetails" using udp_reach_details [OF assms] by simp
  then have free: "\<not> rw_writer (ut_Details u)" and none: "udp_of u = None"
    by (simp_all add: udp_of_def new_rwlock_def new_ChannelDetails_def)
  have sock: "GetSock (u, w) = Err (Errorf ''udp tunnel not connected'') (u, w)"
    by (simp add: GetSock_eq [OF free] none)
  have "ResendToken (u, w) = Ok False (u, w)"
    unfolding ResendToken_def by (rule with_read_pure [OF free]) (simp add: d new_ChannelDetails_def)
  moreover have "UdpTunnel_Send data f (u, w) = Err (Errorf ''udp tunnel not connected'') (u, w)"
    if "flow_V4 f \<noteq> None \<or> flow_V6 f \<noteq> None"
    using that by (simp add: UdpTunnel_Send_def to_Buffer_emits [OF writes_emits [OF writes_UdpFlow]] go_bind_def sock)
  ultimately show ?thesis by (simp add: IsSetup_eq [OF free] none ReceiveFrom_def go_bind_def sock)
qed

lemma demo_udp_reach: "udp_reach (demo_udp, demo_world []\<lparr>w_socks := 2\<rparr>)"
  by (rule udp_reach.assigned [of "(demo_udp, demo_world [])"])
     (simp add: AssignUdpTunnel_def go_bind_def on_world_def zoom_def ListenUDP_def go_try_def
       demo_world_def demo_udp_def Let_def)

theorem udp_never_set_up_witness:
  "IsSetup (demo_udp, demo_world []\<lparr>w_socks := 2\<rparr>) = Ok False (demo_udp, demo_world []\<lparr>w_socks := 2\<rparr>)"
  by (rule udp_never_set_up [OF demo_udp_reach, THEN conjunct1])

definition demo_details :: UdpChannelDetails where
  "demo_details = \<lparr>ucd_TunnelAddr = server, ucd_Token = [1, 2, 3]\<rparr>"

definition demo_open_udp :: UdpTunnel where
  "demo_open_udp = demo_udp\<lparr>ut_Details := new_rwlock \<lparr>cd_Udp = Some demo_details, cd_AddrHistory = []\<rparr>\<rparr>"

lemma demo_open_udp_simps:
  "\<not> rw_writer (ut_Details demo_open_udp)" "udp_of demo_open_udp = Some demo_details"
  "sock_for demo_open_udp demo_details = Some 0"
  by (simp_all add: demo_open_udp_def new_rwlock_def udp_of_def sock_for_def demo_details_def
      server_def demo_udp_def)

text \<open>C24: whatever the details are, in every state in which nobody holds the lock no operation of the
  tunnel is blocked on it, and every return, by any path, with a result or with an error, leaves the
  lock free and the details as they were. The same holds while other goroutines read, for all
  operations but \<open>SetUdpTunnel\<close>, which waits for them: the readers are then those from before. The
  operation runs to its end without a step of another goroutine; what a writer that begins to wait
  in its middle can do is shown by \<open>nested_sections_deadlock\<close> at the end.\<close>

theorem udp_lock_released:
  assumes "\<not> rw_writer (ut_Details (fst s))"
    and "rw_readers (ut_Details (fst s)) = 0 \<or> (\<forall>d. op \<noteq> OpSetUdpTunnel d)"
  shows "case run_udp_op op s of
      Ok _ s' \<Rightarrow> ut_Details (fst s') = ut_Details (fst s)
    | Err _ s' \<Rightarrow> ut_Details (fst s') = ut_Details (fst s)
    | Panic p \<Rightarrow> p \<noteq> Blocked"
  using run_udp_op_restores [OF assms] by (cases "run_udp_op op s") simp_all

theorem udp_lock_released_witness:
  "case run_udp_op (OpSetUdpTunnel demo_details) (demo_open_udp, demo_world []\<lparr>w_socks := 2\<rparr>) of
      Ok _ s' \<Rightarrow> rw_free (ut_Details (fst s')) | Err _ s' \<Rightarrow> rw_free (ut_Details (fst s'))
    | Panic p \<Rightarrow> p \<noteq> Blocked"
proof -
  have free: "\<not> rw_writer (ut_Details demo_open_udp)" "rw_readers (ut_Details demo_open_udp) = 0"
    by (simp_all add: demo_open_udp_def new_rwlock_def)
  then show ?thesis
    using udp_lock_released [of "(demo_open_udp, demo_world []\<lparr>w_socks := 2\<rparr>)" "OpSetUdpTunnel demo_details"]
    by (auto simp: rw_free_def split: outcome.splits)
qed

text \<open>C25: what the questions about the tunnel's age mean in its reachable states: a token is due when
  the last confirmation is more than 10 s old, a new authentication when the last confirmation is not
  after the last token and that token is more than 5 s old; a clock that has stepped back counts as
  old in both.\<close>

theorem udp_age:
  assumes "udp_reach (u, w)"
  defines "now \<equiv> sec_of (w_clock w (w_ticks w))"
  shows "(\<exists>s'. RequireResend (u, w) =
      Ok (now < ut_LastConfirm u \<or> unat (ut_LastConfirm u) + 10 < unat now) s') \<and>
    (\<exists>s'. RequiresAuth (u, w) =
      Ok (ut_LastConfirm u \<le> ut_LastSend u \<and>
          (now < ut_LastSend u \<or> unat (ut_LastSend u) + 5 < unat now)) s')"
proof -
  have secs: "ut_LastConfirm u \<le> max_sec" "ut_LastSend u \<le> max_sec"
    using udp_reach_secs [OF assms(1)] by (simp_all add: secs_ok_def)
  have now: "now \<le> max_sec" by (simp add: now_def sec_of_bound)
  have "(10 :: u32) < 0xf0000000" "(5 :: u32) < 0xf0000000" by simp_all
  from elapsed_exceeds [OF secs(1) now this(1)] elapsed_exceeds [OF secs(2) now this(2)]
  show ?thesis
    by (auto simp: RequireResend_eq RequiresAuth_eq now_def)
qed

theorem udp_age_witness:
  "\<exists>s'. RequireResend (demo_udp, demo_world []\<lparr>w_socks := 2\<rparr>) = Ok True s'"
proof -
  have "sec_of 100000 = 100" by code_simp
  with udp_age [OF demo_udp_reach] show ?thesis by (simp add: demo_world_def demo_udp_def)
qed

text \<open>C26: what becomes of a datagram from the tunnel's address, once the details are set: it is a
  confirmation exactly when it is the token; any other is a packet if a footer follows it in the
  buffer, an error if that footer is broken, and crashes the receiver if there is none, since the
  missing footer is dereferenced.\<close>

theorem udp_receive:
  assumes "\<not> rw_writer (ut_Details u)" and "udp_of u = Some d" and "sock_for u d = Some c"
    and "w_recv w = Datagram data (ucd_TunnelAddr d) # r" and "length data \<le> length buff"
  shows "ReceiveFrom buff (u, w) =
    (if data = ucd_Token d then
       Ok ConfirmerdConnection
         (u\<lparr>ut_LastConfirm := sec_of (w_clock w (w_ticks w))\<rparr>,
          w\<lparr>w_recv := r, w_ticks := Suc (w_ticks w)\<rparr>)
     else
       (case FromTailUdpFlow (drop (length data) buff) of
          (_, _, Some e) \<Rightarrow> Err (Errorf ''failed to extract udp footer'') (u, w\<lparr>w_recv := r\<rparr>)
        | (None, _, None) \<Rightarrow> Panic NilDeref
        | (Some f, _, None) \<Rightarrow>
            Ok (ReceivedPacket (of_nat (length data) - of_nat (UdpFlow_Len f)) f) (u, w\<lparr>w_recv := r\<rparr>)))"
proof -
  have "length data \<le> length (overwrite data buff)" using assms(5) by (simp add: overwrite_def)
  from ReceiveFrom_packet_eq [OF assms(1,2) this, of "w\<lparr>w_recv := r\<rparr>"] show ?thesis
    by (simp add: ReceiveFrom_from_tunnel [OF assms] split: prod.split option.split)
qed

theorem udp_receive_witness:
  "\<exists>s. ReceiveFrom (replicate 8 0) (demo_open_udp, demo_world [Datagram [1, 2, 3] server]) =
     Ok ConfirmerdConnection s"
  using udp_receive [OF demo_open_udp_simps, of "demo_world [Datagram [1, 2, 3] server]" "[1, 2, 3]" "[]"
      "replicate 8 0"]
  by (simp add: demo_world_def demo_details_def)

text \<open>C27: only datagrams from the tunnel's address, or from an address the tunnel had before, are ever
  accepted.\<close>

theorem udp_receive_source:
  assumes "\<not> rw_writer (ut_Details u)" and "ReceiveFrom buff (u, w) = Ok rx s'"
  shows "\<exists>d data src r. udp_of u = Some d \<and> w_recv w = Datagram data src # r \<and>
    (src = ucd_TunnelAddr d \<or> src \<in> set (cd_AddrHistory (rw_Value (ut_Details u))))"
  using assms by (rule ReceiveFrom_source)

theorem udp_receive_source_witness:
  "\<exists>d data src r. udp_of demo_open_udp = Some d \<and>
     w_recv (demo_world [Datagram [1, 2, 3] server]) = Datagram data src # r \<and> src = ucd_TunnelAddr d"
proof -
  let ?w = "demo_world [Datagram [1, 2, 3] server]"
  have "w_recv ?w = Datagram [1, 2, 3] (ucd_TunnelAddr demo_details) # []"
    by (simp add: demo_world_def demo_details_def)
  from ReceiveFrom_from_tunnel [OF demo_open_udp_simps this, of "replicate 8 0"]
    ReceiveFrom_packet_eq [OF demo_open_udp_simps(1,2), of "Suc (Suc (Suc 0))" "overwrite [1, 2, 3] (replicate 8 0)" "?w\<lparr>w_recv := []\<rparr>"]
  obtain s' where "ReceiveFrom (replicate 8 0) (demo_open_udp, ?w) = Ok ConfirmerdConnection s'"
    by (simp add: overwrite_def demo_details_def)
  from udp_receive_source [OF demo_open_udp_simps(1) this] show ?thesis
    by (simp add: demo_open_udp_def new_rwlock_def)
qed

text \<open>The footer of a flow: on every writer it is the two addresses and ports, the flow number for
  IPv6, and the footer identifier, as long as \<open>Len\<close> says when the addresses fit the family.\<close>

theorem footer_written:
  assumes "flow_ok f"
  shows "writes (UdpFlow_WriteTo f) (enc_Flow f) \<and> length (enc_Flow f) = UdpFlow_Len f"
  using assms length_enc_Flow writes_UdpFlow by (force simp: flow_ok_def split: option.splits)

theorem footer_written_witness:
  "length (enc_Flow \<lparr>flow_V4 = Some \<lparr>fb_Src = agent_addr, fb_Dst = server\<rparr>, flow_V6 = None\<rparr>) = 20"
  using footer_written [of "\<lparr>flow_V4 = Some \<lparr>fb_Src = agent_addr, fb_Dst = server\<rparr>, flow_V6 = None\<rparr>"]
  by (simp add: flow_ok_def agent_addr_def server_def UdpFlow_Len_def V4_LEN_def)

text \<open>C37: what the parser makes of the footers that the writer produces, behind any payload: an IPv4
  footer is never recognised, and an IPv6 footer yields its source address for both ends, with ports
  and a flow number taken from that address.\<close>

theorem footer_not_inverted:
  "FromTailUdpFlow (p @ enc_Flow4 b) = (None, REDIRECT_FLOW_4_FOOTER_ID_OLD, None) \<and>
   FromTailUdpFlow (p @ enc_Flow6 \<lparr>f6_Base = \<lparr>fb_Src = AddrPort (V6 sw sz) sp,
       fb_Dst = AddrPort (V6 dw dz) dp\<rparr>, f6_Flow = n\<rparr>) =
     (let a = AddrPort (V6 sw []) (ucast (drop_bit 112 sw)) in
      (Some \<lparr>flow_V4 = None, flow_V6 = Some \<lparr>f6_Base = \<lparr>fb_Src = a, fb_Dst = a\<rparr>,
               f6_Flow = ucast (drop_bit 96 sw)\<rparr>\<rparr>, 0, None))"
  by (rule conjI [OF FromTailUdpFlow_Flow4])
     (simp add: FromTailUdpFlow_Flow6 [of _ sw sz dw dz] read_back6_def Let_def)

section \<open>Local addresses\<close>

text \<open>C38: the local address of a peer: shuffling is a permutation of the 32-bit words, the address is
  always in \<open>127.0.0.0/8\<close> and never \<open>127.0.0.0\<close>, and every address there is shared by exactly 256
  words, but for \<open>127.0.0.1\<close>, which is shared by 512.\<close>

theorem local_address_classes:
  "bij shuffle \<and> drop_bit 24 (asLocalMasked ip) = 127 \<and> take_bit 24 (asLocalMasked ip) \<noteq> 0 \<and>
   card {ip. asLocalMasked ip = l} =
     (if drop_bit 24 l = 127 \<and> take_bit 24 l \<noteq> 0 then if l = 0x7F000001 then 512 else 256 else 0)"
  using bij_shuffle asLocalMasked_network [of ip] asLocalMasked_host [of ip] asLocalMasked_class_card [of l]
  by simp

text \<open>C39: the socket for a peer on a loopback host with special addresses: the first dial binds the
  peer's local address and a port in 40000..63999 made from the peer's port; if it fails the second
  binds any port of that address; if that fails too the last dial, which names no host, is an error
  whatever the system does.\<close>

theorem udp_socket_fallback:
  assumes "Addr_IsLoopback (ap_Addr Host)" and "Addr_IsValid (ap_Addr Peer)"
  shows "\<exists>l port. drop_bit 24 l = 127 \<and> 40000 \<le> unat port \<and> unat port < 64000 \<and>
    UdpSocket dial True Peer Host s =
     (case dial ''udp4'' (Some (AddrPort (V6 (mapped4 l) []) port)) Host of
        Inr c \<Rightarrow> Ok c s
      | Inl _ \<Rightarrow>
        (case dial ''udp4'' (Some (AddrPort (V6 (mapped4 l) []) 0)) Host of
           Inr c \<Rightarrow> Ok c s
         | Inl _ \<Rightarrow> Err (ErrNet ''missing address'') s))"
proof -
  let ?l = "asLocalMasked (local_source (Addr_AsSlice (ap_Addr Peer)))"
  show ?thesis
    by (rule exI [of _ ?l], rule exI [of _ "40000 + ap_Port Peer mod 24000"])
       (simp add: UdpSocket_special [OF assms] asLocalMasked_network UdpSocket_port_bounds Let_def)
qed

theorem udp_socket_fallback_witness:
  "UdpSocket (\<lambda>_ _ _. Inl ErrTimeout :: error + nat) True agent_addr (AddrPort (V4 0x7F000001) 80) () =
     Err (ErrNet ''missing address'') ()"
  using udp_socket_fallback [where Host = "AddrPort (V4 0x7F000001) 80" and Peer = agent_addr and
      dial = "\<lambda>_ _ _. Inl ErrTimeout" and s = "()"]
  by (auto simp: agent_addr_def Addr_IsValid_def)

text \<open>C40: a lookup is never empty: it is the first override for this address and protocol, and else
  the same port of a loopback address, with a range that holds just that port, except that the end
  of the range wraps to 0 for port 65535. The comment on the interface, which promises a nil pointer
  where no value exists, is not what this implementation does.\<close>

theorem lookup_first_match:
  "LookupWithOverrides_Lookup overs p Proto =
     Some (case find (\<lambda>over. pt_Value (mo_Proto over) = pt_Value Proto \<and> mi_IP (mo_MatchIP over) = p) overs of
       Some over \<Rightarrow> override_value over
     | None \<Rightarrow> default_value p) \<and>
   Addr_IsLoopback (ap_Addr (av_Value (default_value p))) \<and> ap_Port (av_Value (default_value p)) = ap_Port p \<and>
   unat (av_FromPort (default_value p)) = unat (ap_Port p) \<and>
   unat (av_ToPort (default_value p)) = (if ap_Port p = 0xffff then 0 else unat (ap_Port p) + 1)"
proof -
  have "override_for p Proto = (\<lambda>over. pt_Value (mo_Proto over) = pt_Value Proto \<and> mi_IP (mo_MatchIP over) = p)"
    by (simp add: override_for_def fun_eq_iff)
  with Lookup_find [of overs p Proto] default_value_loopback [of p] default_value_range [of p] show ?thesis
    by (simp add: default_value_def)
qed

section \<open>The lock\<close>

text \<open>Goroutines that use the lock in sections that do not nest are never stuck, in any order of
  their steps, and a writer never holds the lock together with a reader.\<close>

theorem flat_sections_progress:
  assumes "\<forall>p \<in> set ps. flat p" and "rw_reach ps s"
  shows "(sys_writer s \<longrightarrow> sys_readers s = 0) \<and>
    ((\<exists>p \<in> set (sys_progs s). p \<noteq> []) \<longrightarrow> (\<exists>t. rw_step s t))"
  using rw_reach_exclusive [OF assms(2)] rw_flat_not_stuck [of s] rw_flat_inv_reach [OF assms(2)] assms(1)
  by (auto simp: rw_exclusive_def rw_stuck_def)

theorem flat_sections_progress_witness:
  "\<exists>t. rw_step (rw_start [read_section, write_section]) t"
  using flat_sections_progress [OF _ rw_reach.start, of "[read_section, write_section]"]
  by (auto simp: rw_start_def read_section_def write_section_def)

text \<open>A read section inside a read section (as in \<open>ReceiveFrom\<close>, whose \<open>GetToken\<close> reads again) can
  deadlock with a single writer (\<open>SetUdpTunnel\<close>): a reachable state has both goroutines unfinished
  and no step.\<close>

theorem nested_sections_deadlock:
  "\<exists>s. rw_reach [nested_read_section, write_section] s \<and> length (sys_progs s) = 2 \<and>
     [] \<notin> set (sys_progs s) \<and> (\<nexists>t. rw_step s t)"
  using nested_read_reach nested_read_stuck
  by (intro exI) (rule conjI, assumption, auto simp: rw_stuck_def nested_read_section_def write_section_def)

end
